(* ===== verification/Prelude.thy ===== *)
theory Prelude
  imports Main "HOL-Library.Sublist"
begin

text \<open>
  Shared vocabulary of the development.

  A Go function that may fail, terminate the process or panic is a \<^emph>\<open>program\<close>: a function from
  the state of the outside world to an outcome and the next state.  An outcome is the value of a
  normal return, the text of a returned error, a process exit with its code (\<open>os.Exit\<close>,
  \<open>log.Fatal\<close>) or a run-time panic.  The combinators below mirror the shapes the sources use:
  sequencing with early return, error wrapping, inspecting an error, ranging over a slice.
  The second half is a small program logic over them.
\<close>

named_theorems prog_simps \<open>equations that run the program combinators\<close>
named_theorems hoare_intro \<open>structural rules of the program logic\<close>

section \<open>Outcomes and programs\<close>

datatype 'a outcome =
    Ok 'a
  | Err string
  | Exit int
  | Panic string

type_synonym ('w, 'a) prog = "'w \<Rightarrow> 'a outcome \<times> 'w"

fun is_ok :: "'a outcome \<Rightarrow> bool" where
  "is_ok (Ok _) = True"
| "is_ok _ = False"

text \<open>An outcome that is not a normal return carries no value, so it fits any result type.\<close>

fun abort_as :: "'a outcome \<Rightarrow> 'b outcome" where
  "abort_as (Ok _) = Panic ''unreachable''"
| "abort_as (Err e) = Err e"
| "abort_as (Exit c) = Exit c"
| "abort_as (Panic p) = Panic p"

definition ret :: "'a \<Rightarrow> ('w, 'a) prog" where
  "ret a = (\<lambda>w. (Ok a, w))"

definition fail :: "string \<Rightarrow> ('w, 'a) prog" where
  "fail e = (\<lambda>w. (Err e, w))"

definition exit_with :: "int \<Rightarrow> ('w, 'a) prog" where
  "exit_with c = (\<lambda>w. (Exit c, w))"

definition panic :: "string \<Rightarrow> ('w, 'a) prog" where
  "panic p = (\<lambda>w. (Panic p, w))"

text \<open>\<open>log.Fatal\<close> and \<open>log.Fatalf\<close> print the message and exit with code 1.\<close>

definition log_fatal :: "string \<Rightarrow> ('w, 'a) prog" where
  "log_fatal msg = exit_with 1"

definition bind :: "('w, 'a) prog \<Rightarrow> ('a \<Rightarrow> ('w, 'b) prog) \<Rightarrow> ('w, 'b) prog" where
  "bind m k = (\<lambda>w. case m w of (r, w') \<Rightarrow> (case r of Ok a \<Rightarrow> k a w' | _ \<Rightarrow> (abort_as r, w')))"

text \<open>
  \<open>wrap s m\<close> is \<open>if err != nil { return errors.Wrap(err, s) }\<close> of \<open>github.com/pkg/errors\<close>:
  the message, a colon and a space, and the cause.  \<open>wrapf\<close> is the \<open>fmt.Errorf("s%v", err)\<close>
  form, where the separator is part of the format.
\<close>

definition map_err :: "(string \<Rightarrow> string) \<Rightarrow> ('w, 'a) prog \<Rightarrow> ('w, 'a) prog" where
  "map_err f m = (\<lambda>w. case m w of (Err e, w') \<Rightarrow> (Err (f e), w') | (r, w') \<Rightarrow> (r, w'))"

definition wrapf :: "string \<Rightarrow> ('w, 'a) prog \<Rightarrow> ('w, 'a) prog" where
  "wrapf s = map_err (\<lambda>e. s @ e)"

definition wrap :: "string \<Rightarrow> ('w, 'a) prog \<Rightarrow> ('w, 'a) prog" where
  "wrap s = map_err (\<lambda>e. s @ '': '' @ e)"

text \<open>\<open>x, err := m()\<close> where the caller goes on and looks at \<open>err\<close> itself.\<close>

definition attempt :: "('w, 'a) prog \<Rightarrow> ('w, string + 'a) prog" where
  "attempt m = (\<lambda>w. case m w of
       (Ok a, w') \<Rightarrow> (Ok (Inr a), w')
     | (Err e, w') \<Rightarrow> (Ok (Inl e), w')
     | (Exit c, w') \<Rightarrow> (Exit c, w')
     | (Panic p, w') \<Rightarrow> (Panic p, w'))"

text \<open>\<open>if err := m(); err != nil \<lbrace> ... os.Exit(1) \<rbrace>\<close>.\<close>

definition or_exit :: "int \<Rightarrow> ('w, 'a) prog \<Rightarrow> ('w, 'a) prog" where
  "or_exit c m = (\<lambda>w. case m w of (Err e, w') \<Rightarrow> (Exit c, w') | (r, w') \<Rightarrow> (r, w'))"

definition or_fatal :: "('w, 'a) prog \<Rightarrow> ('w, 'a) prog" where
  "or_fatal = or_exit 1"

definition lift_sum :: "string + 'a \<Rightarrow> ('w, 'a) prog" where
  "lift_sum r = (case r of Inl e \<Rightarrow> fail e | Inr a \<Rightarrow> ret a)"

definition guard :: "bool \<Rightarrow> string \<Rightarrow> ('w, unit) prog" where
  "guard b e = (if b then ret () else fail e)"

definition do_if :: "bool \<Rightarrow> ('w, unit) prog \<Rightarrow> ('w, unit) prog" where
  "do_if b m = (if b then m else ret ())"

text \<open>\<open>for _, x := range xs \<lbrace> ... \<rbrace>\<close> whose body may return early, and the same with an accumulator.\<close>

fun for_each :: "'a list \<Rightarrow> ('a \<Rightarrow> ('w, unit) prog) \<Rightarrow> ('w, unit) prog" where
  "for_each [] f = ret ()"
| "for_each (x # xs) f = bind (f x) (\<lambda>_. for_each xs f)"

fun fold_prog :: "('b \<Rightarrow> 'a \<Rightarrow> ('w, 'b) prog) \<Rightarrow> 'b \<Rightarrow> 'a list \<Rightarrow> ('w, 'b) prog" where
  "fold_prog f b [] = ret b"
| "fold_prog f b (x # xs) = bind (f b x) (\<lambda>b'. fold_prog f b' xs)"

text \<open>A slice read \<open>xs[i]\<close> panics out of range.\<close>

definition index :: "'a list \<Rightarrow> nat \<Rightarrow> ('w, 'a) prog" where
  "index xs i = (if i < length xs then ret (xs ! i) else panic ''index out of range'')"

text \<open>A dereference of a nil pointer panics.\<close>

definition deref :: "'a option \<Rightarrow> ('w, 'a) prog" where
  "deref p = (case p of None \<Rightarrow> panic ''nil pointer dereference'' | Some a \<Rightarrow> ret a)"

section \<open>Running the combinators\<close>

text \<open>The side condition only keeps the simplifier from rewriting a program that is not applied.\<close>

lemma ret_run [prog_simps, simp]: "NO_MATCH (0 :: nat) w \<Longrightarrow> ret a w = (Ok a, w)"
  by (simp add: ret_def)

lemma fail_run [prog_simps, simp]: "NO_MATCH (0 :: nat) w \<Longrightarrow> fail e w = (Err e, w)"
  by (simp add: fail_def)

lemma exit_run [prog_simps, simp]: "NO_MATCH (0 :: nat) w \<Longrightarrow> exit_with c w = (Exit c, w)"
  by (simp add: exit_with_def)

lemma log_fatal_run [prog_simps, simp]: "NO_MATCH (0 :: nat) w \<Longrightarrow> log_fatal s w = (Exit 1, w)"
  by (simp add: log_fatal_def)

lemma panic_run [prog_simps, simp]: "NO_MATCH (0 :: nat) w \<Longrightarrow> panic p w = (Panic p, w)"
  by (simp add: panic_def)

lemma bind_run_Ok [prog_simps]: "m w = (Ok a, w') \<Longrightarrow> bind m k w = k a w'"
  by (simp add: bind_def)

lemma bind_run_abort [prog_simps]: "m w = (r, w') \<Longrightarrow> \<not> is_ok r \<Longrightarrow> bind m k w = (abort_as r, w')"
  by (cases r) (simp_all add: bind_def)

lemma bind_ret [simp]: "bind (ret a) k = k a"
  by (simp add: bind_def fun_eq_iff)

lemma bind_ret_right [simp]: "bind m ret = m"
  by (auto simp: bind_def fun_eq_iff split: prod.splits outcome.splits)

lemma bind_fail [simp]: "bind (fail e) k = fail e"
  and bind_exit [simp]: "bind (exit_with c) k = exit_with c"
  and bind_panic [simp]: "bind (panic p) k = panic p"
  and bind_log_fatal [simp]: "bind (log_fatal s) k = log_fatal s"
  by (simp_all add: bind_def fun_eq_iff)

lemma bind_assoc: "bind (bind m f) g = bind m (\<lambda>x. bind (f x) g)"
  by (auto simp: bind_def fun_eq_iff split: prod.splits outcome.splits)

lemma bind_cong [fundef_cong]:
  assumes "m1 w2 = m2 w2" and "\<And>a w'. m2 w2 = (Ok a, w') \<Longrightarrow> k1 a w' = k2 a w'" and "w1 = w2"
  shows "bind m1 k1 w1 = bind m2 k2 w2"
  using assms by (auto simp: bind_def split: prod.splits outcome.splits)

lemma bind_Ok_iff:
  "bind m k w = (Ok b, w'') \<longleftrightarrow> (\<exists>a w'. m w = (Ok a, w') \<and> k a w' = (Ok b, w''))"
  by (auto simp: bind_def split: prod.splits outcome.splits)

lemma wrapf_run [prog_simps]:
  "wrapf s m w = (case m w of (Err e, w') \<Rightarrow> (Err (s @ e), w') | (r, w') \<Rightarrow> (r, w'))"
  by (simp add: wrapf_def map_err_def)

lemma map_err_simps [simp]:
  "map_err f (ret a) = ret a" "map_err f (fail e) = fail (f e)"
  "map_err f (panic p) = panic p" "map_err f (exit_with c) = exit_with c"
  by (simp_all add: map_err_def fun_eq_iff)

lemma wrap_simps [simp]:
  "wrap s (ret a) = ret a" "wrap s (fail e) = fail (s @ '': '' @ e)"
  "wrapf s (ret a) = ret a" "wrapf s (fail e) = fail (s @ e)"
  by (simp_all add: wrap_def wrapf_def)

lemma map_err_Ok_iff: "map_err f m w = (Ok a, w') \<longleftrightarrow> m w = (Ok a, w')"
  by (auto simp: map_err_def split: prod.splits outcome.splits)

lemma wrap_Ok_iff [simp]:
  "wrap s m w = (Ok a, w') \<longleftrightarrow> m w = (Ok a, w')" "wrapf s m w = (Ok a, w') \<longleftrightarrow> m w = (Ok a, w')"
  by (simp_all add: wrap_def wrapf_def map_err_Ok_iff)

lemma or_exit_Ok_iff [simp]: "or_exit c m w = (Ok a, w') \<longleftrightarrow> m w = (Ok a, w')"
  by (auto simp: or_exit_def split: prod.splits outcome.splits)

lemma attempt_Ok_iff:
  "attempt m w = (Ok r, w') \<longleftrightarrow>
     (case r of Inr a \<Rightarrow> m w = (Ok a, w') | Inl e \<Rightarrow> m w = (Err e, w'))"
  by (auto simp: attempt_def split: prod.splits outcome.splits sum.splits)

lemma attempt_simps [simp]:
  "attempt (ret a) = ret (Inr a)" "attempt (fail e) = ret (Inl e)"
  "attempt (panic p) = panic p" "attempt (exit_with c) = exit_with c"
  by (simp_all add: attempt_def fun_eq_iff)

lemma lift_sum_simps [simp]: "lift_sum (Inl e) = fail e" "lift_sum (Inr a) = ret a"
  by (simp_all add: lift_sum_def)

lemma or_fatal_lift: "or_fatal (lift_sum (Inr a)) = ret a" "or_fatal m w = (Ok a, w') \<longleftrightarrow> m w = (Ok a, w')"
  by (simp_all add: or_fatal_def or_exit_def fun_eq_iff split: prod.splits outcome.splits)

lemma pure_Ok_iff [simp]:
  "lift_sum r w = (Ok a, w') \<longleftrightarrow> r = Inr a \<and> w' = w"
  "guard b e w = (Ok (), w') \<longleftrightarrow> b \<and> w' = w"
  "deref p w = (Ok a, w') \<longleftrightarrow> p = Some a \<and> w' = w"
  "index xs i w = (Ok a, w') \<longleftrightarrow> i < length xs \<and> a = xs ! i \<and> w' = w"
  by (auto simp: lift_sum_def guard_def deref_def index_def split: sum.splits option.splits)

lemma guard_simps [simp]: "guard True e = ret ()" "guard False e = fail e"
  by (simp_all add: guard_def)

lemma do_if_simps [simp]: "do_if True m = m" "do_if False m = ret ()"
  by (simp_all add: do_if_def)

lemma index_in [simp]: "i < length xs \<Longrightarrow> index xs i = ret (xs ! i)"
  by (simp add: index_def)

lemma index_out [simp]: "length xs \<le> i \<Longrightarrow> index xs i = panic ''index out of range''"
  by (simp add: index_def)

lemma deref_simps [simp]: "deref (Some a) = ret a" "deref None = panic ''nil pointer dereference''"
  by (simp_all add: deref_def)

lemma abort_as_simps [simp]:
  "abort_as r = Err e \<longleftrightarrow> r = Err e" "abort_as r = Exit c \<longleftrightarrow> r = Exit c" "abort_as r \<noteq> Ok a"
  by (cases r; simp)+

section \<open>A program logic\<close>

text \<open>
  \<open>triple P m Q R\<close>: from a state in \<open>P\<close>, a normal return of \<open>m\<close> satisfies \<open>Q\<close> (of the value and
  the state), and every other outcome leaves a state in \<open>R\<close> (of the outcome, without its value).
\<close>

definition triple ::
  "('w \<Rightarrow> bool) \<Rightarrow> ('w, 'a) prog \<Rightarrow> ('a \<Rightarrow> 'w \<Rightarrow> bool) \<Rightarrow> (unit outcome \<Rightarrow> 'w \<Rightarrow> bool) \<Rightarrow> bool" where
  "triple P m Q R \<longleftrightarrow> (\<forall>w. P w \<longrightarrow>
     (case m w of (r, w') \<Rightarrow> (case r of Ok a \<Rightarrow> Q a w' | _ \<Rightarrow> R (abort_as r) w')))"

lemma tripleI:
  assumes "\<And>w a w'. P w \<Longrightarrow> m w = (Ok a, w') \<Longrightarrow> Q a w'"
    and "\<And>w r w'. P w \<Longrightarrow> m w = (r, w') \<Longrightarrow> \<not> is_ok r \<Longrightarrow> R (abort_as r) w'"
  shows "triple P m Q R"
  using assms by (fastforce simp: triple_def split: prod.splits outcome.splits)

lemma tripleD_Ok: "triple P m Q R \<Longrightarrow> P w \<Longrightarrow> m w = (Ok a, w') \<Longrightarrow> Q a w'"
  by (auto simp: triple_def split: prod.splits)

lemma tripleD_abort: "triple P m Q R \<Longrightarrow> P w \<Longrightarrow> m w = (r, w') \<Longrightarrow> \<not> is_ok r \<Longrightarrow> R (abort_as r) w'"
  by (cases r) (auto simp: triple_def split: prod.splits)

lemma triple_weaken:
  assumes "triple P' m Q' R'" and "\<And>w. P w \<Longrightarrow> P' w"
    and "\<And>a w. Q' a w \<Longrightarrow> Q a w" and "\<And>r w. R' r w \<Longrightarrow> R r w"
  shows "triple P m Q R"
  using assms by (fastforce simp: triple_def split: prod.splits outcome.splits)

lemma triple_pre: "triple P' m Q R \<Longrightarrow> (\<And>w. P w \<Longrightarrow> P' w) \<Longrightarrow> triple P m Q R"
  by (rule triple_weaken)

lemma triple_bind [hoare_intro]:
  assumes "triple P m Q' R" and "\<And>a. triple (Q' a) (k a) Q R"
  shows "triple P (bind m k) Q R"
proof (rule tripleI)
  fix w b w''
  assume P: "P w" and run: "bind m k w = (Ok b, w'')"
  then obtain a w' where m: "m w = (Ok a, w')" and k: "k a w' = (Ok b, w'')"
    by (auto simp: bind_Ok_iff)
  show "Q b w''"
    using tripleD_Ok [OF assms(2) tripleD_Ok [OF assms(1) P m] k] .
next
  fix w r w''
  assume P: "P w" and run: "bind m k w = (r, w'')" and r: "\<not> is_ok r"
  show "R (abort_as r) w''"
  proof (cases "is_ok (fst (m w))")
    case True
    then obtain a w' where m: "m w = (Ok a, w')"
      by (cases "m w"; cases "fst (m w)") auto
    with run have "k a w' = (r, w'')" by (simp add: bind_run_Ok)
    with tripleD_Ok [OF assms(1) P m] r show ?thesis
      using tripleD_abort [OF assms(2)] by blast
  next
    case False
    obtain r1 w1 where m: "m w = (r1, w1)" by fastforce
    with False have n: "\<not> is_ok r1" by simp
    with m run have "r = abort_as r1" and "w'' = w1" by (simp_all add: bind_run_abort)
    moreover have "abort_as (abort_as r1 :: 'c outcome) = (abort_as r1 :: unit outcome)"
      using n by (cases r1) simp_all
    ultimately show ?thesis using tripleD_abort [OF assms(1) P m n] by simp
  qed
qed

lemma triple_ret [hoare_intro]: "(\<And>w. P w \<Longrightarrow> Q a w) \<Longrightarrow> triple P (ret a) Q R"
  by (simp add: triple_def)

lemma triple_fail [hoare_intro]: "(\<And>w. P w \<Longrightarrow> R (Err e) w) \<Longrightarrow> triple P (fail e) Q R"
  by (simp add: triple_def)

lemma triple_exit [hoare_intro]: "(\<And>w. P w \<Longrightarrow> R (Exit c) w) \<Longrightarrow> triple P (exit_with c) Q R"
  by (simp add: triple_def)

lemma triple_panic [hoare_intro]: "(\<And>w. P w \<Longrightarrow> R (Panic p) w) \<Longrightarrow> triple P (panic p) Q R"
  by (simp add: triple_def)

lemma triple_if [hoare_intro]:
  "(b \<Longrightarrow> triple P m Q R) \<Longrightarrow> (\<not> b \<Longrightarrow> triple P n Q R) \<Longrightarrow> triple P (if b then m else n) Q R"
  by simp

end
