(* ===== verification/Go_Strings.thy ===== *)
theory Go_Strings
  imports Prelude "HOL-Library.Char_ord"
begin

text \<open>
  The operations of Go's \<open>strings\<close> package that the three programs call, on byte strings.  A Go
  string is a sequence of bytes and so is a HOL string; the operations that look at character
  classes (\<open>Fields\<close>, \<open>TrimSpace\<close>, \<open>ToLower\<close>, \<open>ToUpper\<close>) are given for ASCII text, which is what
  every command word, version and file name of the programs is.
\<close>

named_theorems str_simps \<open>equations that evaluate string operations\<close>

section \<open>Searching\<close>

definition HasPrefix :: "string \<Rightarrow> string \<Rightarrow> bool" where
  "HasPrefix s p \<longleftrightarrow> prefix p s"

definition HasSuffix :: "string \<Rightarrow> string \<Rightarrow> bool" where
  "HasSuffix s p \<longleftrightarrow> suffix p s"

definition Contains :: "string \<Rightarrow> string \<Rightarrow> bool" where
  "Contains s sub \<longleftrightarrow> sublist sub s"

text \<open>\<open>strings.Cut\<close>: the text before and after the first occurrence of the separator.\<close>

fun cut :: "string \<Rightarrow> string \<Rightarrow> (string \<times> string) option" where
  "cut sep [] = (if sep = [] then Some ([], []) else None)"
| "cut sep (c # cs) =
     (if prefix sep (c # cs) then Some ([], drop (length sep) (c # cs))
      else map_option (\<lambda>(a, b). (c # a, b)) (cut sep cs))"

lemma cut_Some: "cut sep s = Some (a, b) \<Longrightarrow> s = a @ sep @ b"
proof (induction s arbitrary: a b)
  case Nil
  then show ?case by (simp split: if_splits)
next
  case (Cons c cs)
  show ?case
  proof (cases "prefix sep (c # cs)")
    case True
    with Cons.prems show ?thesis by (auto elim!: prefixE)
  next
    case False
    with Cons.prems obtain a' where "cut sep cs = Some (a', b)" and "a = c # a'"
      by auto
    with Cons.IH show ?thesis by simp
  qed
qed

lemma cut_None_iff: "cut sep s = None \<longleftrightarrow> \<not> sublist sep s"
  by (induction s) (auto simp: sublist_Cons_right)

lemma cut_first: "cut sep s = Some (a, b) \<Longrightarrow> sep \<noteq> [] \<Longrightarrow> \<not> sublist sep a"
proof (induction s arbitrary: a b)
  case Nil
  then show ?case by simp
next
  case (Cons c cs)
  show ?case
  proof (cases "prefix sep (c # cs)")
    case True
    with Cons.prems show ?thesis by simp
  next
    case False
    with Cons.prems obtain a' where rec: "cut sep cs = Some (a', b)" and a: "a = c # a'"
      by auto
    from rec have "cs = a' @ sep @ b" by (rule cut_Some)
    with False have "\<not> prefix sep (c # a')"
      using prefix_prefix [of sep "c # a'" "sep @ b"] by auto
    with Cons.IH [OF rec Cons.prems(2)] show ?thesis by (simp add: a sublist_Cons_right)
  qed
qed

lemma cut_shorter: "cut sep s = Some (a, b) \<Longrightarrow> sep \<noteq> [] \<Longrightarrow> length b < length s"
  by (drule cut_Some) (simp add: length_greater_0_conv [symmetric] del: length_greater_0_conv)

section \<open>Splitting and joining\<close>

function split :: "string \<Rightarrow> string \<Rightarrow> string list" where
  "split sep s =
     (if sep = [] then map (\<lambda>c. [c]) s
      else (case cut sep s of None \<Rightarrow> [s] | Some (a, b) \<Rightarrow> a # split sep b))"
  by pat_completeness auto
termination
  by (relation "measure (\<lambda>(sep, s). length s)") (auto intro: cut_shorter)

declare split.simps [simp del]

fun Join :: "string list \<Rightarrow> string \<Rightarrow> string" where
  "Join [] sep = []"
| "Join [x] sep = x"
| "Join (x # xs) sep = x @ sep @ Join xs sep"

definition Split :: "string \<Rightarrow> string \<Rightarrow> string list" where
  "Split s sep = split sep s"

lemma split_ne [simp]: "sep \<noteq> [] \<Longrightarrow> split sep s \<noteq> []"
  by (subst split.simps) (simp split: option.splits)

lemma Join_Cons_ne: "xs \<noteq> [] \<Longrightarrow> Join (x # xs) sep = x @ sep @ Join xs sep"
  by (cases xs) simp_all

lemma Join_split: "sep \<noteq> [] \<Longrightarrow> Join (split sep s) sep = s"
proof (induction sep s rule: split.induct)
  case (1 sep s)
  show ?case
  proof (cases "cut sep s")
    case None
    with 1 show ?thesis by (subst split.simps) simp
  next
    case (Some p)
    obtain a b where p: "p = (a, b)" by fastforce
    with 1 Some have "Join (split sep b) sep = b" by auto
    moreover have "split sep s = a # split sep b"
      using 1 Some p by (subst split.simps) simp
    ultimately show ?thesis
      using 1 cut_Some [of sep s a b] Some p by (simp add: Join_Cons_ne)
  qed
qed

theorem Join_Split: "sep \<noteq> [] \<Longrightarrow> Join (Split s sep) sep = s"
  by (simp add: Split_def Join_split)

lemma split_parts: "sep \<noteq> [] \<Longrightarrow> x \<in> set (split sep s) \<Longrightarrow> \<not> sublist sep x"
proof (induction sep s rule: split.induct)
  case (1 sep s)
  show ?case
  proof (cases "cut sep s")
    case None
    with 1 show ?thesis by (auto simp: split.simps [of sep s] cut_None_iff)
  next
    case (Some p)
    obtain a b where p: "p = (a, b)" by fastforce
    have "split sep s = a # split sep b"
      using 1 Some p by (subst split.simps) simp
    with 1 Some p show ?thesis by (auto dest: cut_first)
  qed
qed

lemma sublist_single [simp]: "sublist [c] s \<longleftrightarrow> c \<in> set s"
  by (induction s) (auto simp: sublist_Cons_right)

lemma Split_no_sep: "x \<in> set (Split s [c]) \<Longrightarrow> c \<notin> set x"
  using split_parts [of "[c]" x s] by (auto simp: Split_def)

lemma cut_single_append: "c \<notin> set a \<Longrightarrow> cut [c] (a @ c # b) = Some (a, b)"
  by (induction a) auto

lemma split_single_append: "c \<notin> set a \<Longrightarrow> split [c] (a @ c # b) = a # split [c] b"
  by (subst split.simps) (simp add: cut_single_append)

lemma split_single_none: "c \<notin> set a \<Longrightarrow> split [c] a = [a]"
  by (subst split.simps) (simp add: cut_None_iff [THEN iffD2])

text \<open>Splitting undoes joining when no part holds the separator.\<close>

lemma split_Join:
  "xs \<noteq> [] \<Longrightarrow> (\<And>x. x \<in> set xs \<Longrightarrow> c \<notin> set x) \<Longrightarrow> split [c] (Join xs [c]) = xs"
proof (induction xs "[c]" rule: Join.induct)
  case (3 x y ys)
  then have "split [c] (x @ c # Join (y # ys) [c]) = x # split [c] (Join (y # ys) [c])"
    by (intro split_single_append) simp
  with 3 show ?case by simp
qed (simp_all add: split_single_none)

lemma Split_Join: "xs \<noteq> [] \<Longrightarrow> (\<forall>x \<in> set xs. c \<notin> set x) \<Longrightarrow> Split (Join xs [c]) [c] = xs"
  by (simp add: Split_def split_Join)

section \<open>Replacing\<close>

definition ReplaceAll :: "string \<Rightarrow> string \<Rightarrow> string \<Rightarrow> string" where
  "ReplaceAll s old new =
     (if old = [] then new @ concat (map (\<lambda>c. c # new) s) else Join (split old s) new)"

lemma ReplaceAll_absent: "old \<noteq> [] \<Longrightarrow> \<not> sublist old s \<Longrightarrow> ReplaceAll s old new = s"
  by (simp add: ReplaceAll_def split.simps [of old s] cut_None_iff [THEN iffD2])

lemma ReplaceAll_self: "old \<noteq> [] \<Longrightarrow> ReplaceAll s old old = s"
  by (simp add: ReplaceAll_def Join_split)

lemma set_Join_subset: "set (Join xs sep) \<subseteq> \<Union> (set ` set xs) \<union> set sep"
  by (induction xs sep rule: Join.induct) auto

text \<open>Replacing one character removes it, unless the replacement brings it back.\<close>

lemma ReplaceAll_removes: "c \<notin> set new \<Longrightarrow> c \<notin> set (ReplaceAll s [c] new)"
  using set_Join_subset [of "split [c] s" new] split_parts [of "[c]" _ s]
  by (auto simp: ReplaceAll_def)

section \<open>Trimming\<close>

definition TrimPrefix :: "string \<Rightarrow> string \<Rightarrow> string" where
  "TrimPrefix s p = (if prefix p s then drop (length p) s else s)"

definition TrimSuffix :: "string \<Rightarrow> string \<Rightarrow> string" where
  "TrimSuffix s p = (if suffix p s then take (length s - length p) s else s)"

definition TrimLeft :: "string \<Rightarrow> string \<Rightarrow> string" where
  "TrimLeft s cutset = dropWhile (\<lambda>c. c \<in> set cutset) s"

definition TrimRight :: "string \<Rightarrow> string \<Rightarrow> string" where
  "TrimRight s cutset = rev (dropWhile (\<lambda>c. c \<in> set cutset) (rev s))"

definition Trim :: "string \<Rightarrow> string \<Rightarrow> string" where
  "Trim s cutset = TrimRight (TrimLeft s cutset) cutset"

definition space_chars :: string where
  "space_chars = [CHR 0x09, CHR 0x0A, CHR 0x0B, CHR 0x0C, CHR 0x0D, CHR '' '']"

definition is_space :: "char \<Rightarrow> bool" where
  "is_space c \<longleftrightarrow> c \<in> set space_chars"

definition TrimSpace :: "string \<Rightarrow> string" where
  "TrimSpace s = Trim s space_chars"

lemma TrimPrefix_append [simp]: "TrimPrefix (p @ s) p = s"
  by (simp add: TrimPrefix_def)

lemma TrimSuffix_append [simp]: "TrimSuffix (s @ p) p = s"
  by (simp add: TrimSuffix_def suffix_def)

lemma TrimRight_last: "TrimRight s cs \<noteq> [] \<Longrightarrow> last (TrimRight s cs) \<notin> set cs"
  using hd_dropWhile [of "\<lambda>c. c \<in> set cs" "rev s"] by (auto simp: TrimRight_def last_rev)

lemma TrimRight_prefix: "prefix (TrimRight s cs) s"
  by (metis TrimRight_def suffix_dropWhile suffix_to_prefix rev_rev_ident)

lemma TrimRight_snoc: "c \<in> set cs \<Longrightarrow> TrimRight (s @ [c]) cs = TrimRight s cs"
  by (simp add: TrimRight_def)

lemma TrimRight_id: "s = [] \<or> last s \<notin> set cs \<Longrightarrow> TrimRight s cs = s"
  by (cases s rule: rev_cases) (auto simp: TrimRight_def)

section \<open>Fields\<close>

text \<open>\<open>strings.Fields\<close>: the maximal runs of characters that are not white space.\<close>

function Fields :: "string \<Rightarrow> string list" where
  "Fields s =
     (let t = dropWhile is_space s in
      if t = [] then [] else takeWhile (\<lambda>c. \<not> is_space c) t # Fields (dropWhile (\<lambda>c. \<not> is_space c) t))"
  by pat_completeness auto
termination
proof (relation "measure length")
  fix s t
  assume t: "t = dropWhile is_space s" and ne: "t \<noteq> []"
  have "length (dropWhile (\<lambda>c. \<not> is_space c) t) < length t"
  proof (cases t)
    case (Cons c cs)
    with t have "\<not> is_space c" by (metis dropWhile_eq_Cons_conv)
    with Cons show ?thesis by (simp add: le_imp_less_Suc length_dropWhile_le)
  qed (use ne in simp)
  also have "length t \<le> length s" by (simp add: t length_dropWhile_le)
  finally show "(dropWhile (\<lambda>c. \<not> is_space c) t, s) \<in> measure length" by simp
qed simp

declare Fields.simps [simp del]

lemma Fields_nonspace: "w \<in> set (Fields s) \<Longrightarrow> w \<noteq> [] \<and> (\<forall>c \<in> set w. \<not> is_space c)"
proof (induction s rule: Fields.induct)
  case (1 s)
  define t where "t = dropWhile is_space s"
  show ?case
  proof (cases "t = []")
    case True
    with 1 show ?thesis by (simp add: Fields.simps [of s] t_def)
  next
    case False
    then obtain c cs where t: "t = c # cs" by (cases t) auto
    then have "\<not> is_space c" unfolding t_def by (metis dropWhile_eq_Cons_conv)
    with t have "takeWhile (\<lambda>c. \<not> is_space c) t \<noteq> []" by simp
    then have first: "takeWhile (\<lambda>c. \<not> is_space c) t \<noteq> [] \<and>
        (\<forall>c \<in> set (takeWhile (\<lambda>c. \<not> is_space c) t). \<not> is_space c)"
      by (blast dest: set_takeWhileD)
    have "Fields s = takeWhile (\<lambda>c. \<not> is_space c) t # Fields (dropWhile (\<lambda>c. \<not> is_space c) t)"
      using False by (subst Fields.simps) (simp add: t_def Let_def)
    with "1.prems" consider "w = takeWhile (\<lambda>c. \<not> is_space c) t"
      | "w \<in> set (Fields (dropWhile (\<lambda>c. \<not> is_space c) t))"
      by (metis set_ConsD)
    then show ?thesis
    proof cases
      case 1
      with first show ?thesis by simp
    next
      case 2
      then show ?thesis by (rule "1.IH" [OF t_def False])
    qed
  qed
qed

lemma Fields_blank: "(\<forall>c \<in> set s. is_space c) \<Longrightarrow> Fields s = []"
  by (subst Fields.simps) simp

lemma Fields_word:
  assumes "w \<noteq> []" and "\<forall>c \<in> set w. \<not> is_space c" and "is_space c"
  shows "Fields (w @ c # s) = w # Fields (c # s)"
proof -
  from assms have "dropWhile is_space (w @ c # s) = w @ c # s"
    by (cases w) auto
  moreover have "takeWhile (\<lambda>c. \<not> is_space c) (w @ c # s) = w"
    and "dropWhile (\<lambda>c. \<not> is_space c) (w @ c # s) = c # s"
    using assms by (simp_all add: takeWhile_append dropWhile_append)
  ultimately show ?thesis
    using assms(1) by (subst Fields.simps) (simp add: Let_def)
qed

lemma Fields_last_word:
  assumes "w \<noteq> []" and "\<forall>c \<in> set w. \<not> is_space c"
  shows "Fields w = [w]"
proof -
  have "dropWhile is_space w = w" using assms by (cases w) auto
  then have "Fields w = takeWhile (\<lambda>c. \<not> is_space c) w # Fields (dropWhile (\<lambda>c. \<not> is_space c) w)"
    using assms(1) by (subst Fields.simps) (simp add: Let_def)
  moreover have d: "dropWhile (\<lambda>c. \<not> is_space c) w = []" and "takeWhile (\<lambda>c. \<not> is_space c) w = w"
    using assms(2) by auto
  ultimately show ?thesis unfolding d by (simp add: Fields_blank)
qed

lemma Fields_skip_space: "is_space c \<Longrightarrow> Fields (c # s) = Fields s"
  by (simp add: Fields.simps [of "c # s"] Fields.simps [of s])

text \<open>The words of a blank-separated line come back: \<open>Fields\<close> undoes \<open>Join\<close>.\<close>

lemma Fields_Join:
  assumes "\<forall>w \<in> set ws. w \<noteq> [] \<and> (\<forall>c \<in> set w. \<not> is_space c)"
  shows "Fields (Join ws '' '') = ws"
  using assms
proof (induction ws "'' ''" rule: Join.induct)
  case 1
  then show ?case by (simp add: Fields_blank)
next
  case (2 x)
  then show ?case by (simp add: Fields_last_word)
next
  case (3 x y ys)
  have sp: "is_space (CHR '' '')" by (simp add: is_space_def space_chars_def)
  from 3 show ?case
    by (simp add: Fields_word Fields_skip_space sp del: Join.simps(3) add: Join_Cons_ne)
qed

section \<open>Letter case, repetition, counting\<close>

definition to_lower :: "char \<Rightarrow> char" where
  "to_lower c = (if CHR ''A'' \<le> c \<and> c \<le> CHR ''Z'' then char_of (of_char c + 32 :: nat) else c)"

definition to_upper :: "char \<Rightarrow> char" where
  "to_upper c = (if CHR ''a'' \<le> c \<and> c \<le> CHR ''z'' then char_of (of_char c - 32 :: nat) else c)"

definition ToLower :: "string \<Rightarrow> string" where
  "ToLower = map to_lower"

definition ToUpper :: "string \<Rightarrow> string" where
  "ToUpper = map to_upper"

definition Repeat :: "string \<Rightarrow> nat \<Rightarrow> string" where
  "Repeat s n = concat (replicate n s)"

text \<open>\<open>strings.Count\<close> for a non-empty substring: the occurrences that do not overlap.\<close>

definition Count :: "string \<Rightarrow> string \<Rightarrow> nat" where
  "Count s sub = length (split sub s) - 1"

lemma Count_pos_iff: "sub \<noteq> [] \<Longrightarrow> 0 < Count s sub \<longleftrightarrow> sublist sub s"
proof -
  assume ne: "sub \<noteq> []"
  show ?thesis
  proof (cases "cut sub s")
    case None
    then have "split sub s = [s]" using ne by (subst split.simps) simp
    moreover have "\<not> sublist sub s" using None by (simp add: cut_None_iff)
    ultimately show ?thesis by (simp add: Count_def)
  next
    case (Some p)
    obtain a b where p: "p = (a, b)" by fastforce
    then have "split sub s = a # split sub b"
      using ne Some by (subst split.simps) simp
    moreover have "split sub b \<noteq> []" using ne by simp
    moreover have "sublist sub s" using Some cut_None_iff [of sub s] by auto
    ultimately show ?thesis by (simp add: Count_def)
  qed
qed

lemma length_Repeat_single [simp]: "length (Repeat [c] n) = n"
  by (simp add: Repeat_def length_concat sum_list_replicate)

section \<open>Character classes\<close>

definition in_class :: "char \<Rightarrow> (char \<times> char) list \<Rightarrow> bool" where
  "in_class c rs \<longleftrightarrow> list_ex (\<lambda>(a, b). (of_char a :: nat) \<le> of_char c \<and> (of_char c :: nat) \<le> of_char b) rs"

definition is_digit :: "char \<Rightarrow> bool" where
  "is_digit c \<longleftrightarrow> in_class c [(CHR ''0'', CHR ''9'')]"

definition alphanumeric :: "char \<Rightarrow> bool" where
  "alphanumeric c \<longleftrightarrow> in_class c [(CHR ''0'', CHR ''9''), (CHR ''a'', CHR ''z''), (CHR ''A'', CHR ''Z'')]"

end
