(* ===== verification/Go_Path.thy ===== *)
theory Go_Path
  imports Go_Strings
begin

text \<open>
  The operations of Go's \<open>path/filepath\<close> package on Unix that the programs call: \<open>Clean\<close>, \<open>Join\<close>,
  \<open>Dir\<close>, \<open>Ext\<close> and \<open>Match\<close>.  Every file the programs touch is named by \<open>filepath.Join\<close>, so the
  lemmas say what a joined path looks like: on paths made of plain components nothing is cleaned
  away, and different names below one directory give different paths.
\<close>

section \<open>Clean and Join\<close>

fun push_comp :: "bool \<Rightarrow> string list \<Rightarrow> string \<Rightarrow> string list" where
  "push_comp rooted acc c =
     (if c = [] \<or> c = ''.'' then acc
      else if c = ''..'' then
        (case acc of
           [] \<Rightarrow> if rooted then [] else [''..'']
         | x # xs \<Rightarrow> if x = ''..'' then ''..'' # acc else xs)
      else c # acc)"

definition clean_comps :: "bool \<Rightarrow> string list \<Rightarrow> string list" where
  "clean_comps rooted cs = rev (foldl (push_comp rooted) [] cs)"

definition Clean :: "string \<Rightarrow> string" where
  "Clean p =
     (let rooted = HasPrefix p ''/'';
          body = Join (clean_comps rooted (Split p ''/'')) ''/''
      in if rooted then ''/'' @ body else if body = [] then ''.'' else body)"

definition path_Join :: "string list \<Rightarrow> string" where
  "path_Join elems =
     (let es = dropWhile (\<lambda>e. e = []) elems in if es = [] then [] else Clean (Join es ''/''))"

definition plain :: "string \<Rightarrow> bool" where
  "plain c \<longleftrightarrow> c \<noteq> [] \<and> c \<noteq> ''.'' \<and> c \<noteq> ''..'' \<and> CHR ''/'' \<notin> set c"

text \<open>Clean relative and absolute paths: slash-separated plain components.\<close>

definition clean_rel :: "string \<Rightarrow> bool" where
  "clean_rel p \<longleftrightarrow> list_all plain (Split p ''/'')"

definition clean_abs :: "string \<Rightarrow> bool" where
  "clean_abs p \<longleftrightarrow> HasPrefix p ''/'' \<and> list_all plain (Split (tl p) ''/'')"

lemma push_plain: "plain c \<Longrightarrow> push_comp r acc c = c # acc"
  by (simp add: plain_def)

lemma foldl_push_plain: "list_all plain cs \<Longrightarrow> foldl (push_comp r) acc cs = rev cs @ acc"
  by (induction cs arbitrary: acc) (auto simp: push_plain simp del: push_comp.simps)

lemma clean_comps_plain: "list_all plain cs \<Longrightarrow> clean_comps r cs = cs"
  by (simp add: clean_comps_def foldl_push_plain)

lemma clean_comps_Nil_plain: "list_all plain cs \<Longrightarrow> clean_comps r ([] # cs) = cs"
  by (simp add: clean_comps_def foldl_push_plain)

lemma Join_append: "xs \<noteq> [] \<Longrightarrow> ys \<noteq> [] \<Longrightarrow> Join (xs @ ys) sep = Join xs sep @ sep @ Join ys sep"
proof (induction xs)
  case (Cons x xs)
  then show ?case by (cases "xs = []") (simp_all add: Join_Cons_ne)
qed simp

lemma plain_no_slash: "list_all plain cs \<Longrightarrow> c \<in> set cs \<Longrightarrow> CHR ''/'' \<notin> set c"
  by (auto simp: list_all_iff plain_def)

lemma clean_relE:
  assumes "clean_rel p"
  obtains cs where "cs \<noteq> []" "list_all plain cs" "p = Join cs ''/''"
  using assms by (metis Join_Split Split_def clean_rel_def list.distinct(1) split_ne)

lemma clean_absE:
  assumes "clean_abs p"
  obtains cs where "cs \<noteq> []" "list_all plain cs" "p = CHR ''/'' # Join cs ''/''"
proof -
  from assms have "clean_rel (tl p)" and "p = CHR ''/'' # tl p"
    by (auto simp: clean_abs_def clean_rel_def HasPrefix_def elim: prefixE)
  then show thesis using that by (metis clean_relE)
qed

lemma clean_rel_Join: "cs \<noteq> [] \<Longrightarrow> list_all plain cs \<Longrightarrow> clean_rel (Join cs ''/'')"
  by (simp add: clean_rel_def Split_Join plain_no_slash)

lemma clean_abs_Join: "cs \<noteq> [] \<Longrightarrow> list_all plain cs \<Longrightarrow> clean_abs (CHR ''/'' # Join cs ''/'')"
  by (simp add: clean_abs_def HasPrefix_def Split_Join plain_no_slash)

lemma Clean_abs_comps:
  assumes "cs \<noteq> []" "list_all plain cs"
  shows "Clean (CHR ''/'' # Join cs ''/'') = CHR ''/'' # Join cs ''/''"
proof -
  have "CHR ''/'' # Join cs ''/'' = Join ([] # cs) ''/''"
    using assms by (simp add: Join_Cons_ne)
  moreover have "\<forall>x \<in> set ([] # cs). CHR ''/'' \<notin> set x"
    using assms(2) by (auto dest: plain_no_slash)
  ultimately have "Split (CHR ''/'' # Join cs ''/'') ''/'' = [] # cs"
    by (metis Split_Join list.distinct(1))
  then show ?thesis
    using assms by (simp add: Clean_def HasPrefix_def clean_comps_Nil_plain)
qed

lemma hd_Join_plain: "cs \<noteq> [] \<Longrightarrow> list_all plain cs \<Longrightarrow> \<not> prefix ''/'' (Join cs ''/'')"
proof (cases cs)
  case (Cons c cs')
  assume "list_all plain cs"
  with Cons have "c \<noteq> []" and "CHR ''/'' \<notin> set c" by (auto simp: plain_def)
  with Cons show ?thesis by (cases c; cases "cs' = []") (auto simp: Join_Cons_ne)
qed simp

lemma Join_plain_ne: "cs \<noteq> [] \<Longrightarrow> list_all plain cs \<Longrightarrow> Join cs ''/'' \<noteq> []"
  by (cases cs; cases "tl cs") (auto simp: plain_def)

lemma Clean_rel_comps:
  "cs \<noteq> [] \<Longrightarrow> list_all plain cs \<Longrightarrow> Clean (Join cs ''/'') = Join cs ''/''"
  by (simp add: Clean_def HasPrefix_def hd_Join_plain Split_Join plain_no_slash clean_comps_plain
      Join_plain_ne)

text \<open>The shape of a joined path.\<close>

lemma path_Join_clean:
  assumes "clean_abs d" and "clean_rel n"
  shows "path_Join [d, n] = d @ ''/'' @ n" and "clean_abs (d @ ''/'' @ n)"
proof -
  obtain ds where ds: "ds \<noteq> []" "list_all plain ds" "d = CHR ''/'' # Join ds ''/''"
    using assms(1) by (rule clean_absE)
  obtain ns where ns: "ns \<noteq> []" "list_all plain ns" "n = Join ns ''/''"
    using assms(2) by (rule clean_relE)
  have eq: "d @ ''/'' @ n = CHR ''/'' # Join (ds @ ns) ''/''"
    using ds ns by (simp add: Join_append)
  have all: "ds @ ns \<noteq> []" "list_all plain (ds @ ns)" using ds ns by simp_all
  have "Clean (d @ ''/'' @ n) = d @ ''/'' @ n"
    unfolding eq using all by (rule Clean_abs_comps)
  then show "path_Join [d, n] = d @ ''/'' @ n"
    using ds(3) by (simp add: path_Join_def)
  show "clean_abs (d @ ''/'' @ n)"
    unfolding eq using all by (rule clean_abs_Join)
qed

lemma path_Join_rel:
  assumes "clean_rel d" and "clean_rel n"
  shows "path_Join [d, n] = d @ ''/'' @ n" and "clean_rel (d @ ''/'' @ n)"
proof -
  obtain ds where ds: "ds \<noteq> []" "list_all plain ds" "d = Join ds ''/''"
    using assms(1) by (rule clean_relE)
  obtain ns where ns: "ns \<noteq> []" "list_all plain ns" "n = Join ns ''/''"
    using assms(2) by (rule clean_relE)
  have eq: "d @ ''/'' @ n = Join (ds @ ns) ''/''"
    using ds ns by (simp add: Join_append)
  have all: "ds @ ns \<noteq> []" "list_all plain (ds @ ns)" using ds ns by simp_all
  have "Clean (d @ ''/'' @ n) = d @ ''/'' @ n"
    unfolding eq using all by (rule Clean_rel_comps)
  moreover have "d \<noteq> []" using ds by (simp add: Join_plain_ne)
  ultimately show "path_Join [d, n] = d @ ''/'' @ n"
    by (simp add: path_Join_def)
  show "clean_rel (d @ ''/'' @ n)"
    unfolding eq using all by (rule clean_rel_Join)
qed

lemma path_Join_inject:
  assumes "clean_abs d" "clean_rel m" "clean_rel n"
  shows "path_Join [d, m] = path_Join [d, n] \<longleftrightarrow> m = n"
  using assms by (simp add: path_Join_clean)

section \<open>Dir, Base and Ext\<close>

text \<open>The part of a path up to and including its last slash, and the rest.\<close>

definition up_to_slash :: "string \<Rightarrow> string" where
  "up_to_slash p = rev (dropWhile (\<lambda>c. c \<noteq> CHR ''/'') (rev p))"

definition last_elem :: "string \<Rightarrow> string" where
  "last_elem p = rev (takeWhile (\<lambda>c. c \<noteq> CHR ''/'') (rev p))"

definition Dir :: "string \<Rightarrow> string" where
  "Dir p = Clean (up_to_slash p)"

definition Ext :: "string \<Rightarrow> string" where
  "Ext p = (let e = last_elem p in
     if CHR ''.'' \<in> set e then ''.'' @ rev (takeWhile (\<lambda>c. c \<noteq> CHR ''.'') (rev e)) else [])"

lemma up_to_slash_last: "up_to_slash p @ last_elem p = p"
  by (metis last_elem_def rev_append rev_rev_ident takeWhile_dropWhile_id up_to_slash_def)

lemma Ext_suffix: "suffix (Ext p) p"
proof -
  define e where "e = last_elem p"
  have e: "suffix e p" unfolding e_def by (metis up_to_slash_last suffix_def)
  show ?thesis
  proof (cases "CHR ''.'' \<in> set e")
    case True
    define t where "t = takeWhile (\<lambda>c. c \<noteq> CHR ''.'') (rev e)"
    have "dropWhile (\<lambda>c. c \<noteq> CHR ''.'') (rev e) \<noteq> []" using True by auto
    then obtain x r where "dropWhile (\<lambda>c. c \<noteq> CHR ''.'') (rev e) = x # r"
      by (cases "dropWhile (\<lambda>c. c \<noteq> CHR ''.'') (rev e)") auto
    then have "rev e = t @ CHR ''.'' # r" unfolding dropWhile_eq_Cons_conv t_def by blast
    then have "rev (rev e) = rev r @ [CHR ''.''] @ rev t" by simp
    then have "suffix (''.'' @ rev t) e" by (auto simp: suffix_def)
    with e True show ?thesis
      by (simp add: Ext_def Let_def e_def [symmetric] t_def [symmetric])
  qed (simp add: Ext_def Let_def e_def [symmetric])
qed

section \<open>Match\<close>

text \<open>
  \<open>filepath.Match\<close> for patterns of literal characters and \<open>*\<close>, which stands for any run of
  characters other than the separator.
\<close>

fun glob_match :: "string \<Rightarrow> string \<Rightarrow> bool" where
  "glob_match [] [] = True"
| "glob_match [] (c # cs) = False"
| "glob_match (p # ps) [] = (p = CHR ''*'' \<and> glob_match ps [])"
| "glob_match (p # ps) (c # cs) =
     (if p = CHR ''*'' then glob_match ps (c # cs) \<or> c \<noteq> CHR ''/'' \<and> glob_match (p # ps) cs
      else p = c \<and> glob_match ps cs)"

lemma glob_match_Nil [simp]: "glob_match [] s \<longleftrightarrow> s = []"
  by (cases s) simp_all

lemma glob_match_literal: "CHR ''*'' \<notin> set p \<Longrightarrow> glob_match p s \<longleftrightarrow> p = s"
proof (induction p arbitrary: s)
  case (Cons a p)
  then show ?case by (cases s) auto
qed auto

lemma glob_match_lit_append:
  "CHR ''*'' \<notin> set p \<Longrightarrow> glob_match (p @ q) s \<longleftrightarrow> (\<exists>t. s = p @ t \<and> glob_match q t)"
proof (induction p arbitrary: s)
  case (Cons a p)
  then show ?case by (cases s) auto
qed auto

lemma glob_match_star:
  "glob_match (CHR ''*'' # q) s \<longleftrightarrow> (\<exists>t u. s = t @ u \<and> CHR ''/'' \<notin> set t \<and> glob_match q u)"
  (is "?L s \<longleftrightarrow> ?R s")
proof (induction s)
  case Nil
  then show ?case by simp
next
  case (Cons c cs)
  have split: "?R (c # cs) \<longleftrightarrow> glob_match q (c # cs) \<or> c \<noteq> CHR ''/'' \<and> ?R cs" (is "_ \<longleftrightarrow> ?A \<or> ?B")
  proof
    assume "?R (c # cs)"
    then obtain t u where tu: "c # cs = t @ u" "CHR ''/'' \<notin> set t" "glob_match q u" by blast
    then show "?A \<or> ?B" by (cases t) auto
  next
    assume "?A \<or> ?B"
    then show "?R (c # cs)"
    proof
      assume ?A
      then have "c # cs = [] @ (c # cs) \<and> CHR ''/'' \<notin> set [] \<and> glob_match q (c # cs)" by simp
      then show ?thesis by blast
    next
      assume ?B
      then obtain t u where "c # cs = (c # t) @ u" "CHR ''/'' \<notin> set (c # t)" "glob_match q u"
        by auto
      then show ?thesis by blast
    qed
  qed
  show ?case unfolding split using Cons.IH by simp
qed

text \<open>The patterns of the programs: a literal, one star, a literal.\<close>

lemma glob_match_one_star:
  assumes "CHR ''*'' \<notin> set p" "CHR ''*'' \<notin> set q"
  shows "glob_match (p @ ''*'' @ q) s \<longleftrightarrow> (\<exists>t. s = p @ t @ q \<and> CHR ''/'' \<notin> set t)"
  using assms by (auto simp: glob_match_lit_append glob_match_star glob_match_literal
      simp del: glob_match.simps)

end
