(* ===== verification/Go_Encoding.thy ===== *)
theory Go_Encoding
  imports Go_Strings
begin

text \<open>
  The parts of Go's \<open>strconv\<close> and \<open>encoding/base64\<close> packages that the programs use: decimal
  rendering of integers (\<open>%d\<close>), \<open>Atoi\<close> and \<open>ParseInt\<close> with their 64-bit range check, and standard
  base64 with padding.  Both encoders come with their round trip.
\<close>

section \<open>Integers as text\<close>

definition digit_char :: "nat \<Rightarrow> char" where
  "digit_char d = char_of (48 + d)"

definition digit_val :: "char \<Rightarrow> nat option" where
  "digit_val c = (let n = of_char c :: nat in if 48 \<le> n \<and> n < 58 then Some (n - 48) else None)"

fun show_nat :: "nat \<Rightarrow> string" where
  "show_nat n = (if n < 10 then [digit_char n] else show_nat (n div 10) @ [digit_char (n mod 10)])"

declare show_nat.simps [simp del]

definition Itoa :: "int \<Rightarrow> string" where
  "Itoa i = (if i < 0 then ''-'' @ show_nat (nat (- i)) else show_nat (nat i))"

fun parse_digits :: "nat \<Rightarrow> nat \<Rightarrow> string \<Rightarrow> nat option" where
  "parse_digits base acc [] = Some acc"
| "parse_digits base acc (c # cs) =
     (case digit_val c of
        None \<Rightarrow> None
      | Some d \<Rightarrow> if d < base then parse_digits base (acc * base + d) cs else None)"

definition in_int64 :: "int \<Rightarrow> bool" where
  "in_int64 i \<longleftrightarrow> - (2 ^ 63) \<le> i \<and> i < 2 ^ 63"

text \<open>
  \<open>strconv.Quote\<close>, the \<open>%q\<close> format: control characters are escaped, bytes of printable text
  (ASCII, and the bytes of multi-byte runes) stand for themselves.
\<close>

definition hex_digit :: "nat \<Rightarrow> char" where
  "hex_digit n = (if n < 10 then char_of (48 + n) else char_of (87 + n))"

definition quote_char :: "char \<Rightarrow> string" where
  "quote_char c = (let n = of_char c :: nat in
     if c = CHR 0x22 \<or> c = CHR 0x5C then [CHR 0x5C, c]
     else if 7 \<le> n \<and> n \<le> 13 then [CHR 0x5C, ''abtnvfr'' ! (n - 7)]
     else if n < 32 \<or> n = 127 then [CHR 0x5C, CHR ''x'', hex_digit (n div 16), hex_digit (n mod 16)]
     else [c])"

definition Quote :: "string \<Rightarrow> string" where
  "Quote s = [CHR 0x22] @ concat (map quote_char s) @ [CHR 0x22]"

text \<open>
  \<open>strconv.ParseInt(s, base, 64)\<close> for a base of at most ten, and \<open>Atoi\<close>, which is base ten with its
  own name in the error: an optional sign, then digits.
\<close>

definition parse_int :: "string \<Rightarrow> nat \<Rightarrow> string \<Rightarrow> string + int" where
  "parse_int fn base s =
     (let neg = HasPrefix s ''-'';
          body = (if HasPrefix s ''-'' \<or> HasPrefix s ''+'' then tl s else s);
          bad = ''strconv.'' @ fn @ '': parsing '' @ Quote s @ '': ''
      in if body = [] then Inl (bad @ ''invalid syntax'')
         else (case parse_digits base 0 body of
                 None \<Rightarrow> Inl (bad @ ''invalid syntax'')
               | Some n \<Rightarrow>
                   (let i = (if neg then - int n else int n)
                    in if in_int64 i then Inr i else Inl (bad @ ''value out of range''))))"

definition ParseInt :: "nat \<Rightarrow> string \<Rightarrow> string + int" where
  "ParseInt base s = parse_int ''ParseInt'' base s"

definition Atoi :: "string \<Rightarrow> string + int" where
  "Atoi s = parse_int ''Atoi'' 10 s"

text \<open>\<open>n, _ := strconv.Atoi(s)\<close>: a syntax error leaves 0, a range error the nearest bound.\<close>

definition Atoi_value :: "string \<Rightarrow> int" where
  "Atoi_value s = (case Atoi s of Inr i \<Rightarrow> i
     | Inl e \<Rightarrow> if HasSuffix e ''value out of range'' then (if HasPrefix s ''-'' then - (2 ^ 63) else 2 ^ 63 - 1)
               else 0)"

lemma digit_val_char [simp]: "d < 10 \<Longrightarrow> digit_val (digit_char d) = Some d"
  by (simp add: digit_val_def digit_char_def)

lemma digit_char_not_sign [simp]:
  "d < 10 \<Longrightarrow> digit_char d \<noteq> CHR ''-''" "d < 10 \<Longrightarrow> digit_char d \<noteq> CHR ''+''"
proof -
  have "digit_val (CHR ''-'') = None" "digit_val (CHR ''+'') = None"
    by (simp_all add: digit_val_def)
  then show "d < 10 \<Longrightarrow> digit_char d \<noteq> CHR ''-''" "d < 10 \<Longrightarrow> digit_char d \<noteq> CHR ''+''"
    using digit_val_char [of d] by (auto simp del: digit_val_char)
qed

lemma show_nat_ne [simp]: "show_nat n \<noteq> []"
  by (subst show_nat.simps) simp

lemma show_nat_digits: "c \<in> set (show_nat n) \<Longrightarrow> \<exists>d < 10. c = digit_char d"
proof (induction n rule: show_nat.induct)
  case (1 n)
  then show ?case
    by (cases "n < 10") (auto simp: show_nat.simps [of n] intro: exI [of _ "n mod 10"])
qed

lemma parse_digits_append:
  "parse_digits b acc (xs @ ys) =
     (case parse_digits b acc xs of None \<Rightarrow> None | Some a \<Rightarrow> parse_digits b a ys)"
  by (induction xs arbitrary: acc) (auto split: option.splits)

lemma parse_show_nat: "parse_digits 10 0 (show_nat n) = Some n"
proof (induction n rule: show_nat.induct)
  case (1 n)
  then show ?case
    by (cases "n < 10") (simp_all add: show_nat.simps [of n] parse_digits_append)
qed

lemma show_nat_no_sign: "\<not> prefix ''-'' (show_nat n)" "\<not> prefix ''+'' (show_nat n)"
proof -
  obtain c cs where s: "show_nat n = c # cs" by (cases "show_nat n") auto
  then obtain d where "d < 10" "c = digit_char d" using show_nat_digits [of c n] by auto
  with s show "\<not> prefix ''-'' (show_nat n)" "\<not> prefix ''+'' (show_nat n)"
    using digit_char_not_sign [of d] by (auto dest: sym)
qed

lemma Atoi_Itoa: "in_int64 i \<Longrightarrow> Atoi (Itoa i) = Inr i"
proof (cases "i < 0")
  case True
  assume "in_int64 i"
  with True show ?thesis
    by (simp add: Atoi_def parse_int_def Itoa_def HasPrefix_def parse_show_nat)
next
  case False
  assume "in_int64 i"
  with False show ?thesis
    by (simp add: Atoi_def parse_int_def Itoa_def HasPrefix_def show_nat_no_sign parse_show_nat)
qed

lemma ParseInt_range: "ParseInt b s = Inr i \<Longrightarrow> in_int64 i"
  by (auto simp: ParseInt_def parse_int_def Let_def split: if_splits option.splits)

lemma Itoa_inject: "in_int64 i \<Longrightarrow> in_int64 j \<Longrightarrow> Itoa i = Itoa j \<longleftrightarrow> i = j"
  by (metis Atoi_Itoa sum.inject(2))

lemma show_nat_inject [simp]: "show_nat m = show_nat n \<longleftrightarrow> m = n"
  by (metis option.inject parse_show_nat)

section \<open>Base64\<close>

definition b64_alphabet :: string where
  "b64_alphabet = ''ABCDEFGHIJKLMNOPQRSTUVWXYZabcdefghijklmnopqrstuvwxyz0123456789+/''"

definition enc6 :: "nat \<Rightarrow> char" where
  "enc6 n = b64_alphabet ! n"

definition dec6 :: "char \<Rightarrow> nat option" where
  "dec6 c = map_of (zip b64_alphabet [0..<64]) c"

fun b64_encode :: "nat list \<Rightarrow> string" where
  "b64_encode [] = []"
| "b64_encode [a] = [enc6 (a div 4), enc6 (a mod 4 * 16), CHR ''='', CHR ''='']"
| "b64_encode [a, b] =
     [enc6 (a div 4), enc6 (a mod 4 * 16 + b div 16), enc6 (b mod 16 * 4), CHR ''='']"
| "b64_encode (a # b # c # rest) =
     [enc6 (a div 4), enc6 (a mod 4 * 16 + b div 16), enc6 (b mod 16 * 4 + c div 64),
      enc6 (c mod 64)] @ b64_encode rest"

text \<open>
  \<open>StdEncoding.DecodeString\<close> skips line breaks, wants whole groups of four characters and takes
  padding in the last group only.
\<close>

fun b64_decode :: "string \<Rightarrow> nat list option" where
  "b64_decode [] = Some []"
| "b64_decode (p # q # r # s # rest) =
     (case (dec6 p, dec6 q) of
        (Some a, Some b) \<Rightarrow>
          (if r = CHR ''='' then
             (if s = CHR ''='' \<and> rest = [] then Some [a * 4 + b div 16] else None)
           else (case dec6 r of
             None \<Rightarrow> None
           | Some c \<Rightarrow>
               (if s = CHR ''='' then
                  (if rest = [] then Some [a * 4 + b div 16, b mod 16 * 16 + c div 4] else None)
                else (case dec6 s of
                  None \<Rightarrow> None
                | Some d \<Rightarrow> map_option
                    (\<lambda>xs. (a * 4 + b div 16) # (b mod 16 * 16 + c div 4) # (c mod 4 * 64 + d) # xs)
                    (b64_decode rest)))))
      | _ \<Rightarrow> None)"
| "b64_decode _ = None"

definition bytes_of :: "string \<Rightarrow> nat list" where
  "bytes_of = map of_char"

definition of_bytes :: "nat list \<Rightarrow> string" where
  "of_bytes = map char_of"

definition is_newline :: "char \<Rightarrow> bool" where
  "is_newline c \<longleftrightarrow> c = CHR 0x0A \<or> c = CHR 0x0D"

definition EncodeToString :: "string \<Rightarrow> string" where
  "EncodeToString s = b64_encode (bytes_of s)"

definition DecodeString :: "string \<Rightarrow> string + string" where
  "DecodeString s =
     (case b64_decode (filter (\<lambda>c. \<not> is_newline c) s) of
        None \<Rightarrow> Inl ''illegal base64 data''
      | Some bs \<Rightarrow> Inr (of_bytes bs))"

lemma b64_alphabet_facts:
  "length b64_alphabet = 64" "distinct b64_alphabet" "CHR ''='' \<notin> set b64_alphabet"
  "CHR 0x0A \<notin> set b64_alphabet" "CHR 0x0D \<notin> set b64_alphabet"
  by (simp_all add: b64_alphabet_def)

lemma dec6_enc6 [simp]: "n < 64 \<Longrightarrow> dec6 (enc6 n) = Some n"
  using map_of_zip_nth [of b64_alphabet "[0..<64]" n] b64_alphabet_facts
  by (simp add: dec6_def enc6_def)

lemma enc6_in: "n < 64 \<Longrightarrow> enc6 n \<in> set b64_alphabet"
  by (simp add: enc6_def b64_alphabet_facts)

lemma enc6_ne [simp]: "n < 64 \<Longrightarrow> enc6 n \<noteq> CHR ''=''" "n < 64 \<Longrightarrow> \<not> is_newline (enc6 n)"
  using enc6_in b64_alphabet_facts by (metis, metis is_newline_def)

lemma sextet_bounds [simp]:
  fixes a b c :: nat
  shows "a < 256 \<Longrightarrow> a div 4 < 64" "a mod 4 * 16 < 64" "b mod 16 * 4 < 64"
    "b < 256 \<Longrightarrow> a mod 4 * 16 + b div 16 < 64" "c < 256 \<Longrightarrow> b mod 16 * 4 + c div 64 < 64"
proof -
  have m: "a mod 4 < 4" "b mod 16 < 16" by simp_all
  show "a < 256 \<Longrightarrow> a div 4 < 64" by simp
  show "a mod 4 * 16 < 64" "b mod 16 * 4 < 64" using m by linarith+
  show "a mod 4 * 16 + b div 16 < 64" if "b < 256"
  proof -
    have "b div 16 < 16" using that by simp
    with m show ?thesis by linarith
  qed
  show "b mod 16 * 4 + c div 64 < 64" if "c < 256"
  proof -
    have "c div 64 < 4" using that by simp
    with m show ?thesis by linarith
  qed
qed

lemma octet_back [simp]:
  fixes a b c :: nat
  shows "a div 4 * 4 + a mod 4 * 16 div 16 = a"
    "b < 256 \<Longrightarrow> a div 4 * 4 + (a mod 4 * 16 + b div 16) div 16 = a"
    "b < 256 \<Longrightarrow> (a mod 4 * 16 + b div 16) mod 16 * 16 + b mod 16 * 4 div 4 = b"
    "b < 256 \<Longrightarrow> c < 256 \<Longrightarrow>
       (a mod 4 * 16 + b div 16) mod 16 * 16 + (b mod 16 * 4 + c div 64) div 4 = b"
    "c < 256 \<Longrightarrow> (b mod 16 * 4 + c div 64) mod 4 * 64 + c mod 64 = c"
proof -
  show "a div 4 * 4 + a mod 4 * 16 div 16 = a" by simp
  show "a div 4 * 4 + (a mod 4 * 16 + b div 16) div 16 = a" if "b < 256"
    using that by simp
  show "(a mod 4 * 16 + b div 16) mod 16 * 16 + b mod 16 * 4 div 4 = b" if "b < 256"
    using that by (simp add: mod_add_eq [symmetric])
  show "(a mod 4 * 16 + b div 16) mod 16 * 16 + (b mod 16 * 4 + c div 64) div 4 = b"
    if "b < 256" "c < 256"
    using that by simp
  show "(b mod 16 * 4 + c div 64) mod 4 * 64 + c mod 64 = c" if "c < 256"
    using that by simp
qed

lemma b64_round_trip: "\<forall>b \<in> set bs. b < 256 \<Longrightarrow> b64_decode (b64_encode bs) = Some bs"
  by (induction bs rule: b64_encode.induct) auto

lemma not_newline_pad [simp]: "\<not> is_newline (CHR ''='')"
  by (simp add: is_newline_def)

lemma b64_encode_no_newline:
  "\<forall>b \<in> set bs. b < 256 \<Longrightarrow> filter (\<lambda>c. \<not> is_newline c) (b64_encode bs) = b64_encode bs"
  by (induction bs rule: b64_encode.induct) auto

lemma bytes_of_bound: "\<forall>b \<in> set (bytes_of s). b < 256"
  by (auto simp: bytes_of_def)

lemma of_bytes_bytes_of [simp]: "of_bytes (bytes_of s) = s"
  by (simp add: of_bytes_def bytes_of_def o_def)

lemma DecodeString_EncodeToString: "DecodeString (EncodeToString s) = Inr s"
  by (simp add: DecodeString_def EncodeToString_def b64_encode_no_newline b64_round_trip
      bytes_of_bound)

lemma EncodeToString_inject: "EncodeToString s = EncodeToString t \<longleftrightarrow> s = t"
  by (metis DecodeString_EncodeToString sum.inject(2))

end
