(* ===== verification/Go_World.thy ===== *)
theory Go_World
  imports Go_Path Go_Encoding "HOL-Library.List_Lexorder" "HOL-Library.AList"
begin

text \<open>
  The outside world of the three programs: files, processes, HTTP, time.

  A world holds the file system (path to node), the list of operations the program has asked for
  so far (oldest first) and the clock in nanoseconds.  How the operating system, the executed
  binaries and the network answer is not part of the programs: it is a parameter, the record
  \<open>env\<close>, passed to every operation that needs it.  An answer may depend on everything that happened
  before, so a theorem that holds for every \<open>env\<close> holds whatever the surroundings do.

  The lemmas give, for every primitive, the events it can add (\<open>emits\<close>) and the labelled steps it
  goes through (\<open>follows\<close>), with rules that carry both through the program combinators.
\<close>

named_theorems emits_intro \<open>rules for the events a program can ask for\<close>
named_theorems follows_intro \<open>rules for the labelled steps a program goes through\<close>

named_theorems preserves_intro \<open>rules for state predicates a program keeps, whatever its outcome\<close>
named_theorems no_exit_intro \<open>rules for programs that do not end the process\<close>
named_theorems code_1_intro \<open>rules for programs that end the process with code 1 only\<close>

section \<open>Worlds and environments\<close>

datatype node = File string nat | DirNode

type_synonym files = "(string \<times> node) list"

datatype capture = NoCapture | Stdout | Combined

datatype event =
    Exec capture "string list"
  | ExecEnv "string list" "string list"
  | Start "string list"
  | Kill "string list"
  | HttpGet string
  | ReadFile string
  | Stat string
  | ReadDir string
  | WriteFile string string nat
  | Create string
  | MkdirAll string nat
  | Remove string
  | RemoveAll string
  | Rename string string
  | Chown string int int
  | Chmod string nat
  | Sleep nat
  | Call string "string list"
  | Print string

datatype http_reply = HttpFail string | HttpReply int "string + string"

record world =
  fs :: files
  trace :: "event list"
  clock :: nat

text \<open>
  \<open>ioerr\<close> decides whether a file operation fails: \<open>None\<close> lets it happen, \<open>Some (e, f)\<close> makes it fail
  with error text \<open>e\<close> and leaves the files \<open>f\<close> behind.  \<open>runcmd\<close> runs a command: the captured
  output, the error if it failed, and the files afterwards.  \<open>httpget\<close> answers a request after some
  time.  \<open>lookPath\<close> is the path an executable's name resolves to (the name itself if it does not),
  as it shows in the text of a command.  \<open>meanwhile\<close> gives the files after other processes ran while
  this one slept.  A context for the third-party clients of a program extends this record.
\<close>

record env =
  ioerr :: "world \<Rightarrow> event \<Rightarrow> (string \<times> files) option"
  runcmd :: "world \<Rightarrow> event \<Rightarrow> string \<times> string option \<times> files"
  httpget :: "world \<Rightarrow> string \<Rightarrow> nat \<times> http_reply"
  getenv :: "string \<Rightarrow> string option"
  getwd :: "string + string"
  hostname :: "string + string"
  lookPath :: "string \<Rightarrow> string"
  meanwhile :: "world \<Rightarrow> nat \<Rightarrow> files"

definition emit :: "event \<Rightarrow> world \<Rightarrow> world" where
  "emit e w = w\<lparr>trace := trace w @ [e]\<rparr>"

lemma emit_simps [simp]:
  "trace (emit e w) = trace w @ [e]" "fs (emit e w) = fs w" "clock (emit e w) = clock w"
  by (simp_all add: emit_def)

section \<open>Files\<close>

definition fs_get :: "files \<Rightarrow> string \<Rightarrow> node option" where
  "fs_get f p = map_of f p"

definition fs_put :: "string \<Rightarrow> node \<Rightarrow> files \<Rightarrow> files" where
  "fs_put p n f = AList.update p n f"

definition fs_del :: "string \<Rightarrow> files \<Rightarrow> files" where
  "fs_del p f = filter (\<lambda>(q, _). q \<noteq> p) f"

text \<open>Removing a tree: the path itself and everything below it.\<close>

definition below :: "string \<Rightarrow> string \<Rightarrow> bool" where
  "below d p \<longleftrightarrow> p = d \<or> prefix (d @ ''/'') p"

definition fs_del_tree :: "string \<Rightarrow> files \<Rightarrow> files" where
  "fs_del_tree p f = filter (\<lambda>(q, _). \<not> below p q) f"

lemma fs_get_put [simp]: "fs_get (fs_put p n f) q = (if q = p then Some n else fs_get f q)"
  by (simp add: fs_get_def fs_put_def update_conv)

lemma map_of_filter_key: "map_of (filter (\<lambda>(q, _). P q) f) p = (if P p then map_of f p else None)"
  by (induction f) auto

lemma fs_get_del [simp]: "fs_get (fs_del p f) q = (if q = p then None else fs_get f q)"
  by (simp add: fs_get_def fs_del_def map_of_filter_key)

lemma fs_get_del_tree [simp]:
  "fs_get (fs_del_tree p f) q = (if below p q then None else fs_get f q)"
  by (simp add: fs_get_def fs_del_tree_def map_of_filter_key)

text \<open>Writing keeps the permissions of a file that is already there.\<close>

definition fs_write :: "string \<Rightarrow> string \<Rightarrow> nat \<Rightarrow> files \<Rightarrow> files" where
  "fs_write p c m f =
     fs_put p (File c (case fs_get f p of Some (File _ m0) \<Rightarrow> m0 | _ \<Rightarrow> m)) f"

text \<open>The ancestors of a path, itself included, that a recursive directory creation makes.\<close>

definition ancestors :: "string \<Rightarrow> string list" where
  "ancestors p = filter (\<lambda>q. q \<noteq> [] \<and> q \<noteq> ''/'') (map (\<lambda>n. Join (take n (Split p ''/'')) ''/'')
     [1..<Suc (length (Split p ''/''))])"

definition fs_mkdir1 :: "files \<Rightarrow> string \<Rightarrow> files" where
  "fs_mkdir1 f q = (if fs_get f q = None then fs_put q DirNode f else f)"

definition fs_mkdirs :: "string \<Rightarrow> files \<Rightarrow> files" where
  "fs_mkdirs p f = foldl fs_mkdir1 f (ancestors p)"

lemma fs_get_mkdir1 [simp]:
  "fs_get (fs_mkdir1 f r) q = (if q = r \<and> fs_get f q = None then Some DirNode else fs_get f q)"
  by (auto simp: fs_mkdir1_def)

lemma fs_get_mkdirs:
  "fs_get (fs_mkdirs p f) q =
     (if q \<in> set (ancestors p) \<and> fs_get f q = None then Some DirNode else fs_get f q)"
proof -
  have "fs_get (foldl fs_mkdir1 f qs) q =
      (if q \<in> set qs \<and> fs_get f q = None then Some DirNode else fs_get f q)" for qs
    by (induction qs arbitrary: f) auto
  then show ?thesis by (simp add: fs_mkdirs_def)
qed

definition with_io ::
  "'z env_scheme \<Rightarrow> event \<Rightarrow> (world \<Rightarrow> 'a outcome \<times> files) \<Rightarrow> (world, 'a) prog" where
  "with_io E e f = (\<lambda>w. case ioerr E w e of
       Some (msg, g) \<Rightarrow> (Err msg, (emit e w)\<lparr>fs := g\<rparr>)
     | None \<Rightarrow> (case f w of (r, g) \<Rightarrow> (r, (emit e w)\<lparr>fs := g\<rparr>)))"

text \<open>Reading asks nothing of the world that others can see, so it leaves no event.\<close>

definition os_ReadFile :: "'z env_scheme \<Rightarrow> string \<Rightarrow> (world, string) prog" where
  "os_ReadFile E p = (\<lambda>w. case ioerr E w (ReadFile p) of
       Some (msg, _) \<Rightarrow> (Err msg, w)
     | None \<Rightarrow> (case fs_get (fs w) p of
         Some (File c _) \<Rightarrow> (Ok c, w)
       | Some DirNode \<Rightarrow> (Err (''read '' @ p @ '': is a directory''), w)
       | None \<Rightarrow> (Err (''open '' @ p @ '': no such file or directory''), w)))"

datatype stat = Exists node | NotExist string | StatErr string

definition os_Stat :: "'z env_scheme \<Rightarrow> string \<Rightarrow> (world, stat) prog" where
  "os_Stat E p = (\<lambda>w. case ioerr E w (Stat p) of
       Some (msg, _) \<Rightarrow> (Ok (StatErr msg), w)
     | None \<Rightarrow> (case fs_get (fs w) p of
         Some n \<Rightarrow> (Ok (Exists n), w)
       | None \<Rightarrow> (Ok (NotExist (''stat '' @ p @ '': no such file or directory'')), w)))"

text \<open>\<open>os.ReadDir\<close>: the names of the entries directly below a directory, sorted, with their nodes.\<close>

definition child_name :: "string \<Rightarrow> string \<Rightarrow> string option" where
  "child_name d p =
     (if prefix (d @ ''/'') p then
        (let n = drop (length d + 1) p in if n = [] \<or> CHR ''/'' \<in> set n then None else Some n)
      else None)"

definition dir_names :: "files \<Rightarrow> string \<Rightarrow> string list" where
  "dir_names f d = sort (remdups (List.map_filter (\<lambda>(p, _). child_name d p) f))"

definition os_ReadDir :: "'z env_scheme \<Rightarrow> string \<Rightarrow> (world, (string \<times> bool) list) prog" where
  "os_ReadDir E d = (\<lambda>w. case ioerr E w (ReadDir d) of
       Some (msg, _) \<Rightarrow> (Err msg, w)
     | None \<Rightarrow> (case fs_get (fs w) d of
         Some DirNode \<Rightarrow>
           (Ok (map (\<lambda>n. (n, fs_get (fs w) (d @ ''/'' @ n) = Some DirNode)) (dir_names (fs w) d)), w)
       | Some (File _ _) \<Rightarrow> (Err (''open '' @ d @ '': not a directory''), w)
       | None \<Rightarrow> (Err (''open '' @ d @ '': no such file or directory''), w)))"

definition os_WriteFile :: "'z env_scheme \<Rightarrow> string \<Rightarrow> string \<Rightarrow> nat \<Rightarrow> (world, unit) prog" where
  "os_WriteFile E p c m = with_io E (WriteFile p c m) (\<lambda>w.
     if fs_get (fs w) p = Some DirNode then (Err (''open '' @ p @ '': is a directory''), fs w)
     else (Ok (), fs_write p c m (fs w)))"

definition os_Create :: "'z env_scheme \<Rightarrow> string \<Rightarrow> (world, unit) prog" where
  "os_Create E p = with_io E (Create p) (\<lambda>w.
     if fs_get (fs w) p = Some DirNode then (Err (''open '' @ p @ '': is a directory''), fs w)
     else (Ok (), fs_write p [] 438 (fs w)))"

text \<open>Creating a directory and its parents stops at the first ancestor that is a file.\<close>

definition is_file :: "node option \<Rightarrow> bool" where
  "is_file n = (case n of Some (File _ _) \<Rightarrow> True | _ \<Rightarrow> False)"

definition os_MkdirAll :: "'z env_scheme \<Rightarrow> string \<Rightarrow> nat \<Rightarrow> (world, unit) prog" where
  "os_MkdirAll E p m = with_io E (MkdirAll p m) (\<lambda>w.
     case find (\<lambda>q. is_file (fs_get (fs w) q)) (ancestors p) of
       Some q \<Rightarrow> (Err (''mkdir '' @ q @ '': not a directory''), fs w)
     | None \<Rightarrow> (Ok (), fs_mkdirs p (fs w)))"

definition os_Remove :: "'z env_scheme \<Rightarrow> string \<Rightarrow> (world, unit) prog" where
  "os_Remove E p = with_io E (Remove p) (\<lambda>w.
     if fs_get (fs w) p = None then (Err (''remove '' @ p @ '': no such file or directory''), fs w)
     else (Ok (), fs_del p (fs w)))"

definition os_RemoveAll :: "'z env_scheme \<Rightarrow> string \<Rightarrow> (world, unit) prog" where
  "os_RemoveAll E p = with_io E (RemoveAll p) (\<lambda>w. (Ok (), fs_del_tree p (fs w)))"

definition os_Rename :: "'z env_scheme \<Rightarrow> string \<Rightarrow> string \<Rightarrow> (world, unit) prog" where
  "os_Rename E p q = with_io E (Rename p q) (\<lambda>w.
     case fs_get (fs w) p of
       None \<Rightarrow> (Err (''rename '' @ p @ '' '' @ q @ '': no such file or directory''), fs w)
     | Some n \<Rightarrow> (Ok (), fs_put q n (fs_del p (fs w))))"

definition os_Chown :: "'z env_scheme \<Rightarrow> string \<Rightarrow> int \<Rightarrow> int \<Rightarrow> (world, unit) prog" where
  "os_Chown E p u g = with_io E (Chown p u g) (\<lambda>w. (Ok (), fs w))"

section \<open>Processes, network, time\<close>

text \<open>\<open>out, err := cmd.Output()\<close> and its variants: the captured output and the error, if any.\<close>

definition exec_cmd ::
  "'z env_scheme \<Rightarrow> capture \<Rightarrow> string list \<Rightarrow> (world, string \<times> string option) prog" where
  "exec_cmd E cap argv = (\<lambda>w. case runcmd E w (Exec cap argv) of
       (out, err, g) \<Rightarrow> (Ok (out, err), (emit (Exec cap argv) w)\<lparr>fs := g\<rparr>))"

text \<open>The common case: the error is returned, the output is the value.\<close>

definition exec_out :: "'z env_scheme \<Rightarrow> capture \<Rightarrow> string list \<Rightarrow> (world, string) prog" where
  "exec_out E cap argv =
     bind (exec_cmd E cap argv) (\<lambda>(out, err). case err of None \<Rightarrow> ret out | Some e \<Rightarrow> fail e)"

definition exec_run :: "'z env_scheme \<Rightarrow> string list \<Rightarrow> (world, unit) prog" where
  "exec_run E argv = bind (exec_out E NoCapture argv) (\<lambda>_. ret ())"

definition exec_start :: "'z env_scheme \<Rightarrow> string list \<Rightarrow> (world, unit) prog" where
  "exec_start E argv = (\<lambda>w. case runcmd E w (Start argv) of
       (_, err, g) \<Rightarrow> ((case err of None \<Rightarrow> Ok () | Some e \<Rightarrow> Err e), (emit (Start argv) w)\<lparr>fs := g\<rparr>))"

definition http_Get :: "'z env_scheme \<Rightarrow> string \<Rightarrow> (world, http_reply) prog" where
  "http_Get E url = (\<lambda>w. case httpget E w url of
       (d, r) \<Rightarrow> (Ok r, (emit (HttpGet url) w)\<lparr>clock := clock w + d\<rparr>))"

text \<open>A client with a time limit gives up when the answer takes longer.\<close>

definition http_Get_limit :: "'z env_scheme \<Rightarrow> nat \<Rightarrow> string \<Rightarrow> (world, http_reply) prog" where
  "http_Get_limit E lim url = (\<lambda>w. case httpget E w url of
       (d, r) \<Rightarrow> if d \<le> lim then (Ok r, (emit (HttpGet url) w)\<lparr>clock := clock w + d\<rparr>)
         else (Ok (HttpFail (''Get '' @ Quote url @ '': context deadline exceeded'')),
               (emit (HttpGet url) w)\<lparr>clock := clock w + lim\<rparr>))"

definition pass_time :: "'z env_scheme \<Rightarrow> nat \<Rightarrow> world \<Rightarrow> world" where
  "pass_time E d w = w\<lparr>fs := meanwhile E w d, clock := clock w + d\<rparr>"

definition sleep_for :: "'z env_scheme \<Rightarrow> nat \<Rightarrow> world \<Rightarrow> world" where
  "sleep_for E d w = pass_time E d (emit (Sleep d) w)"

lemma pass_time_simps [simp]:
  "trace (pass_time E d w) = trace w" "clock (pass_time E d w) = clock w + d"
  "fs (pass_time E d w) = meanwhile E w d"
  by (simp_all add: pass_time_def)

lemma sleep_for_simps [simp]:
  "trace (sleep_for E d w) = trace w @ [Sleep d]" "clock (sleep_for E d w) = clock w + d"
  by (simp_all add: sleep_for_def)

definition time_Sleep :: "'z env_scheme \<Rightarrow> nat \<Rightarrow> (world, unit) prog" where
  "time_Sleep E d = (\<lambda>w. (Ok (), sleep_for E d w))"

text \<open>\<open>cmd.String()\<close>, the text of a command in an error message.\<close>

definition cmd_String :: "'z env_scheme \<Rightarrow> string list \<Rightarrow> string" where
  "cmd_String E argv = Join (lookPath E (hd argv) # tl argv) '' ''"

definition print :: "string \<Rightarrow> (world, unit) prog" where
  "print s = (\<lambda>w. (Ok (), emit (Print s) w))"

text \<open>A call of a third-party client: the request is recorded, the answer comes from outside.\<close>

definition api_call :: "string \<Rightarrow> string list \<Rightarrow> (world \<Rightarrow> 'a) \<Rightarrow> (world, 'a) prog" where
  "api_call name args answer = (\<lambda>w. (Ok (answer w), emit (Call name args) w))"

definition os_Getenv :: "'z env_scheme \<Rightarrow> string \<Rightarrow> string" where
  "os_Getenv E k = (case getenv E k of None \<Rightarrow> [] | Some v \<Rightarrow> v)"

abbreviation second :: nat where
  "second \<equiv> 1000000000"

section \<open>The events a program can ask for\<close>

text \<open>
  \<open>emits A m\<close>: whatever the outcome, \<open>m\<close> only adds events that satisfy \<open>A\<close> to the end of the trace.
\<close>

definition emits :: "(event \<Rightarrow> bool) \<Rightarrow> (world, 'a) prog \<Rightarrow> bool" where
  "emits A m \<longleftrightarrow> (\<forall>w. \<exists>t. trace (snd (m w)) = trace w @ t \<and> list_all A t)"

lemma emitsI: "(\<And>w. \<exists>t. trace (snd (m w)) = trace w @ t \<and> list_all A t) \<Longrightarrow> emits A m"
  by (simp add: emits_def)

lemma emitsE:
  assumes "emits A m" "m w = (r, w')"
  obtains t where "trace w' = trace w @ t" "list_all A t"
  using assms by (metis emits_def snd_conv)

lemma emits_bind [emits_intro]:
  assumes "emits A m" "\<And>a. emits A (k a)"
  shows "emits A (bind m k)"
proof (rule emitsI)
  fix w
  obtain r w' where m: "m w = (r, w')" by fastforce
  with assms(1) obtain t where t: "trace w' = trace w @ t" "list_all A t" by (rule emitsE)
  show "\<exists>t. trace (snd (bind m k w)) = trace w @ t \<and> list_all A t"
  proof (cases r)
    case (Ok a)
    obtain r2 w2 where k: "k a w' = (r2, w2)" by fastforce
    with assms(2) obtain u where "trace w2 = trace w' @ u" "list_all A u" by (rule emitsE)
    with t m Ok k show ?thesis by (auto simp: bind_def intro!: exI [of _ "t @ u"])
  qed (use t m in \<open>auto simp: bind_def\<close>)
qed

lemma emits_pure [emits_intro]:
  "emits A (ret a)" "emits A (fail e)" "emits A (exit_with c)" "emits A (panic p)"
  "emits A (log_fatal s)" "emits A (lift_sum r)" "emits A (guard b e)" "emits A (index xs i)"
  "emits A (deref x)"
  by (auto intro!: emitsI exI [of _ "[]"]
      simp: guard_def index_def deref_def lift_sum_def split: sum.splits option.splits)

lemma snd_map_err [simp]: "snd (map_err f m w) = snd (m w)"
  by (auto simp: map_err_def split: prod.splits outcome.splits)

lemma snd_wrap [simp]: "snd (wrap s m w) = snd (m w)" "snd (wrapf s m w) = snd (m w)"
  by (simp_all add: wrap_def wrapf_def)

lemma snd_or_exit [simp]: "snd (or_exit c m w) = snd (m w)"
  by (auto simp: or_exit_def split: prod.splits outcome.splits)

lemma snd_attempt [simp]: "snd (attempt m w) = snd (m w)"
  by (auto simp: attempt_def split: prod.splits outcome.splits)

lemma emits_handlers [emits_intro]:
  "emits A m \<Longrightarrow> emits A (map_err f m)" "emits A m \<Longrightarrow> emits A (wrap s m)"
  "emits A m \<Longrightarrow> emits A (wrapf s m)" "emits A m \<Longrightarrow> emits A (or_exit c m)"
  "emits A m \<Longrightarrow> emits A (attempt m)" "emits A m \<Longrightarrow> emits A (or_fatal m)"
  by (simp_all add: emits_def or_fatal_def)

lemma emits_if [emits_intro]:
  "(b \<Longrightarrow> emits A m) \<Longrightarrow> (\<not> b \<Longrightarrow> emits A n) \<Longrightarrow> emits A (if b then m else n)"
  by simp

lemma emits_do_if [emits_intro]: "(b \<Longrightarrow> emits A m) \<Longrightarrow> emits A (do_if b m)"
  by (cases b) (simp_all add: emits_pure)

lemma emits_for_each [emits_intro]:
  "(\<And>x. x \<in> set xs \<Longrightarrow> emits A (f x)) \<Longrightarrow> emits A (for_each xs f)"
  by (induction xs) (auto intro!: emits_intro)

lemma emits_fold_prog [emits_intro]:
  "(\<And>b x. x \<in> set xs \<Longrightarrow> emits A (f b x)) \<Longrightarrow> emits A (fold_prog f b xs)"
  by (induction xs arbitrary: b) (auto intro!: emits_intro)

lemma emits_weaken: "emits A m \<Longrightarrow> (\<And>e. A e \<Longrightarrow> B e) \<Longrightarrow> emits B m"
  unfolding emits_def by (metis (mono_tags, lifting) list.pred_mono_strong)

lemma emits_with_io: "A e \<Longrightarrow> emits A (with_io E e f)"
  by (auto simp: emits_def with_io_def split: option.splits prod.splits)

lemma emits_reads [emits_intro]:
  "emits A (os_ReadFile E p)" "emits A (os_Stat E p)" "emits A (os_ReadDir E p)"
  by (auto simp: emits_def os_ReadFile_def os_Stat_def os_ReadDir_def
      split: option.splits node.splits)

lemma emits_writes [emits_intro]:
  "A (WriteFile p c m) \<Longrightarrow> emits A (os_WriteFile E p c m)"
  "A (Create p) \<Longrightarrow> emits A (os_Create E p)"
  "A (MkdirAll p m) \<Longrightarrow> emits A (os_MkdirAll E p m)"
  "A (Remove p) \<Longrightarrow> emits A (os_Remove E p)"
  "A (RemoveAll p) \<Longrightarrow> emits A (os_RemoveAll E p)"
  "A (Rename p q) \<Longrightarrow> emits A (os_Rename E p q)"
  "A (Chown p u g) \<Longrightarrow> emits A (os_Chown E p u g)"
  by (simp_all add: os_WriteFile_def os_Create_def os_MkdirAll_def os_Remove_def os_RemoveAll_def
      os_Rename_def os_Chown_def emits_with_io)

lemma emits_effects [emits_intro]:
  "A (Exec cap argv) \<Longrightarrow> emits A (exec_cmd E cap argv)"
  "A (Start argv) \<Longrightarrow> emits A (exec_start E argv)"
  "A (HttpGet url) \<Longrightarrow> emits A (http_Get E url)"
  "A (HttpGet url) \<Longrightarrow> emits A (http_Get_limit E lim url)"
  "A (Sleep d) \<Longrightarrow> emits A (time_Sleep E d)"
  "A (Print s) \<Longrightarrow> emits A (print s)"
  "A (Call n args) \<Longrightarrow> emits A (api_call n args ans)"
  by (auto simp: emits_def exec_cmd_def exec_start_def http_Get_def http_Get_limit_def
      time_Sleep_def print_def api_call_def split: prod.splits)

lemma emits_exec [emits_intro]:
  "A (Exec cap argv) \<Longrightarrow> emits A (exec_out E cap argv)"
  "A (Exec NoCapture argv) \<Longrightarrow> emits A (exec_run E argv)"
  by (auto simp: exec_out_def exec_run_def split: option.splits intro!: emits_intro)

text \<open>The same from one state, for programs whose events depend on what the state holds.\<close>

definition emits_at :: "(event \<Rightarrow> bool) \<Rightarrow> (world, 'a) prog \<Rightarrow> world \<Rightarrow> bool" where
  "emits_at A m w \<longleftrightarrow> (\<exists>t. trace (snd (m w)) = trace w @ t \<and> list_all A t)"

lemma emits_at: "emits A m \<Longrightarrow> emits_at A m w"
  by (simp add: emits_def emits_at_def)

lemma emits_at_bind:
  assumes "emits_at A m w" "\<And>a w'. m w = (Ok a, w') \<Longrightarrow> emits_at A (k a) w'"
  shows "emits_at A (bind m k) w"
proof (cases "m w")
  case (Pair r w')
  with assms(1) obtain t where t: "trace w' = trace w @ t" "list_all A t" by (auto simp: emits_at_def)
  show ?thesis
  proof (cases r)
    case (Ok a)
    with Pair assms(2) obtain u where "trace (snd (k a w')) = trace w' @ u" "list_all A u"
      by (auto simp: emits_at_def)
    with t Pair Ok show ?thesis by (auto simp: emits_at_def bind_def intro!: exI [of _ "t @ u"])
  qed (use t Pair in \<open>auto simp: emits_at_def bind_def\<close>)
qed

text \<open>A continuation may rely on the value it is given; the other rules are for case distinctions and readers.\<close>

lemma emits_bind_val:
  assumes "emits A m" "\<And>a w w'. m w = (Ok a, w') \<Longrightarrow> emits A (k a)"
  shows "emits A (bind m k)"
proof (rule emitsI)
  fix w
  have "emits_at A (bind m k) w"
    by (rule emits_at_bind) (use assms in \<open>auto intro: emits_at\<close>)
  then show "\<exists>t. trace (snd (bind m k w)) = trace w @ t \<and> list_all A t" by (simp add: emits_at_def)
qed

lemma emits_case:
  "(\<And>a b. p = (a, b) \<Longrightarrow> emits A (f a b)) \<Longrightarrow> emits A (case p of (a, b) \<Rightarrow> f a b)"
  "(x = None \<Longrightarrow> emits A n) \<Longrightarrow> (\<And>a. x = Some a \<Longrightarrow> emits A (s a)) \<Longrightarrow> emits A (case x of None \<Rightarrow> n | Some a \<Rightarrow> s a)"
  "(\<And>e. r = HttpFail e \<Longrightarrow> emits A (hf e)) \<Longrightarrow> (\<And>st b. r = HttpReply st b \<Longrightarrow> emits A (hr st b)) \<Longrightarrow>
     emits A (case r of HttpFail e \<Rightarrow> hf e | HttpReply st b \<Rightarrow> hr st b)"
  "(\<And>e. y = Inl e \<Longrightarrow> emits A (l e)) \<Longrightarrow> (\<And>a. y = Inr a \<Longrightarrow> emits A (i a)) \<Longrightarrow>
     emits A (case y of Inl e \<Rightarrow> l e | Inr a \<Rightarrow> i a)"
  by (auto split: prod.splits option.splits http_reply.splits sum.splits)

lemma emits_reader: "(\<And>v. emits A (f v)) \<Longrightarrow> emits A (\<lambda>w. f w w)"
  by (simp add: emits_def)

lemma emits_stat_case:
  "(\<And>n. st = Exists n \<Longrightarrow> emits A (ex n)) \<Longrightarrow> (\<And>e. st = NotExist e \<Longrightarrow> emits A (nx e)) \<Longrightarrow> (\<And>e. st = StatErr e \<Longrightarrow> emits A (er e)) \<Longrightarrow>
     emits A (case st of Exists n \<Rightarrow> ex n | NotExist e \<Rightarrow> nx e | StatErr e \<Rightarrow> er e)"
  by (cases st) auto

lemma emits_Pair: "emits A (Pair r)"
  by (simp add: emits_def)

lemma emits_at_handlers:
  "emits_at A m w \<Longrightarrow> emits_at A (wrap s m) w" "emits_at A m w \<Longrightarrow> emits_at A (or_exit c m) w"
  "emits_at A m w \<Longrightarrow> emits_at A (attempt m) w" "emits_at A m w \<Longrightarrow> emits_at A (wrapf s m) w"
  by (simp_all add: emits_at_def)

section \<open>The labelled steps a program goes through\<close>

text \<open>
  A labelling turns each event into the steps it stands for (none, for events that do not matter).
  \<open>follows L m plan\<close>: the steps of \<open>m\<close> are a prefix of \<open>plan\<close>, and all of it on a normal return.
\<close>

definition labels :: "(event \<Rightarrow> 'l list) \<Rightarrow> event list \<Rightarrow> 'l list" where
  "labels L t = concat (map L t)"

lemma labels_simps [simp]:
  "labels L [] = []" "labels L (e # t) = L e @ labels L t" "labels L (t @ u) = labels L t @ labels L u"
  by (simp_all add: labels_def)

definition follows :: "(event \<Rightarrow> 'l list) \<Rightarrow> (world, 'a) prog \<Rightarrow> 'l list \<Rightarrow> bool" where
  "follows L m plan \<longleftrightarrow> (\<forall>w. \<exists>t. trace (snd (m w)) = trace w @ t \<and> prefix (labels L t) plan \<and>
     (is_ok (fst (m w)) \<longrightarrow> labels L t = plan))"

lemma followsE:
  assumes "follows L m plan" "m w = (r, w')"
  obtains t where "trace w' = trace w @ t" "prefix (labels L t) plan" "is_ok r \<Longrightarrow> labels L t = plan"
  using assms unfolding follows_def by (metis fst_conv snd_conv)

lemma follows_bind_val:
  assumes "follows L m p" "\<And>a w w'. m w = (Ok a, w') \<Longrightarrow> follows L (k a) q"
  shows "follows L (bind m k) (p @ q)"
  unfolding follows_def
proof
  fix w
  obtain r w' where m: "m w = (r, w')" by fastforce
  with assms(1) obtain t where t: "trace w' = trace w @ t" "prefix (labels L t) p"
      "is_ok r \<Longrightarrow> labels L t = p"
    by (rule followsE) blast
  show "\<exists>t. trace (snd (bind m k w)) = trace w @ t \<and> prefix (labels L t) (p @ q) \<and>
      (is_ok (fst (bind m k w)) \<longrightarrow> labels L t = p @ q)"
  proof (cases "is_ok r")
    case True
    then obtain a where a: "r = Ok a" by (cases r) auto
    obtain r2 w2 where k: "k a w' = (r2, w2)" by fastforce
    with assms(2) m a obtain u where "trace w2 = trace w' @ u" "prefix (labels L u) q"
        "is_ok r2 \<Longrightarrow> labels L u = q"
      by (metis followsE)
    with t m a k True show ?thesis by (intro exI [of _ "t @ u"]) (simp add: bind_def)
  next
    case False
    with m have "bind m k w = (abort_as r, w')" by (rule bind_run_abort)
    moreover have "\<not> is_ok (abort_as r)" using False by (cases r) simp_all
    ultimately show ?thesis using t by auto
  qed
qed

lemma follows_bind [follows_intro]:
  "follows L m p \<Longrightarrow> (\<And>a. follows L (k a) q) \<Longrightarrow> follows L (bind m k) (p @ q)"
  by (rule follows_bind_val)

text \<open>Programs that add no labelled step, whatever the outcome.\<close>

lemma follows_silent: "emits (\<lambda>e. L e = []) m \<Longrightarrow> follows L m []"
proof -
  have "list_all (\<lambda>e. L e = []) t \<Longrightarrow> labels L t = []" for t
    by (induction t) auto
  then show "emits (\<lambda>e. L e = []) m \<Longrightarrow> follows L m []"
    unfolding emits_def follows_def by (metis prefix_order.order_refl)
qed

lemma follows_bind_silent:
  "emits (\<lambda>e. L e = []) m \<Longrightarrow> (\<And>a. follows L (k a) q) \<Longrightarrow> follows L (bind m k) q"
  using follows_bind [OF follows_silent] by fastforce

lemma follows_handlers [follows_intro]:
  "follows L m p \<Longrightarrow> follows L (map_err f m) p" "follows L m p \<Longrightarrow> follows L (wrap s m) p"
  "follows L m p \<Longrightarrow> follows L (wrapf s m) p" "follows L m p \<Longrightarrow> follows L (or_exit c m) p"
proof -
  have e: "is_ok (fst (map_err f m w)) = is_ok (fst (m w))" for f w and m :: "(world, 'b) prog"
    by (auto simp: map_err_def split: prod.splits outcome.splits)
  have x: "is_ok (fst (or_exit c m w)) = is_ok (fst (m w))" for w
    by (auto simp: or_exit_def split: prod.splits outcome.splits)
  show "follows L m p \<Longrightarrow> follows L (map_err f m) p" "follows L m p \<Longrightarrow> follows L (wrap s m) p"
    "follows L m p \<Longrightarrow> follows L (wrapf s m) p" "follows L m p \<Longrightarrow> follows L (or_exit c m) p"
    by (simp_all add: follows_def e x wrap_def wrapf_def)
qed

lemma follows_stop [follows_intro]:
  "follows L (fail e) p" "follows L (exit_with c) p" "follows L (panic s) p" "follows L (log_fatal s) p"
  by (simp_all add: follows_def)

lemma follows_exec_out: "follows L (exec_out E cap argv) (L (Exec cap argv))"
  by (auto simp: follows_def exec_out_def exec_cmd_def bind_def split: prod.splits option.splits)

lemma follows_exec_run: "follows L (exec_run E argv) (L (Exec NoCapture argv))"
  by (auto simp: follows_def exec_run_def exec_out_def exec_cmd_def bind_def
      split: prod.splits option.splits)

lemma follows_exec_start: "follows L (exec_start E argv) (L (Start argv))"
  by (auto simp: follows_def exec_start_def split: prod.splits option.splits)

lemma follows_with_io: "follows L (with_io E e f) (L e)"
  by (auto simp: follows_def with_io_def split: option.splits prod.splits)

lemma follows_io [follows_intro]:
  "follows L (os_WriteFile E p c m) (L (WriteFile p c m))"
  "follows L (os_Create E p) (L (Create p))"
  "follows L (os_MkdirAll E p m) (L (MkdirAll p m))"
  "follows L (os_Remove E p) (L (Remove p))"
  "follows L (os_RemoveAll E p) (L (RemoveAll p))"
  "follows L (os_Rename E p q) (L (Rename p q))"
  "follows L (os_Chown E p u g) (L (Chown p u g))"
  "follows L (time_Sleep E d) (L (Sleep d))"
  by (simp_all add: os_WriteFile_def os_Create_def os_MkdirAll_def os_Remove_def os_RemoveAll_def
      os_Rename_def os_Chown_def follows_with_io)
    (simp add: follows_def time_Sleep_def)

lemma follows_for_each:
  "(\<And>x. x \<in> set xs \<Longrightarrow> follows L (f x) (plan x)) \<Longrightarrow> follows L (for_each xs f) (concat (map plan xs))"
proof (induction xs)
  case Nil
  then show ?case by (simp add: follows_def)
next
  case (Cons x xs)
  then show ?case by (auto intro!: follows_bind)
qed

text \<open>A step that is only known to be one of several programs may fail before its first event.\<close>

lemma follows_lift_sum: "(\<And>a. r = Inr a \<Longrightarrow> follows L (k a) p) \<Longrightarrow> follows L (bind (lift_sum r) k) p"
  by (cases r) (auto intro: follows_stop)

lemma follows_wrap_sum:
  "(\<And>a. r = Inr a \<Longrightarrow> follows L (k a) p) \<Longrightarrow> follows L (bind (wrap s (lift_sum r)) k) p"
  by (cases r) (auto intro: follows_stop simp: wrap_def)

section \<open>Predicates a program keeps\<close>

definition preserves :: "(world \<Rightarrow> bool) \<Rightarrow> (world, 'a) prog \<Rightarrow> bool" where
  "preserves P m \<longleftrightarrow> (\<forall>w. P w \<longrightarrow> P (snd (m w)))"

lemma preservesD: "preserves P m \<Longrightarrow> P w \<Longrightarrow> m w = (r, w') \<Longrightarrow> P w'"
  by (metis preserves_def snd_conv)

lemma preserves_bind [preserves_intro]:
  "preserves P m \<Longrightarrow> (\<And>a. preserves P (k a)) \<Longrightarrow> preserves P (bind m k)"
  by (auto simp: preserves_def bind_def split: prod.splits outcome.splits)

lemma preserves_pure [preserves_intro]:
  "preserves P (ret a)" "preserves P (fail e)" "preserves P (panic p)" "preserves P (exit_with c)"
  "preserves P (log_fatal s)" "preserves P (lift_sum r)" "preserves P (guard b e)" "preserves P (index xs i)"
  "preserves P (deref x)" "preserves P (\<lambda>w. (f w, w))"
  by (auto simp: preserves_def guard_def index_def deref_def lift_sum_def split: sum.splits option.splits)

lemma preserves_handlers [preserves_intro]:
  "preserves P m \<Longrightarrow> preserves P (map_err f m)" "preserves P m \<Longrightarrow> preserves P (wrap s m)"
  "preserves P m \<Longrightarrow> preserves P (wrapf s m)" "preserves P m \<Longrightarrow> preserves P (or_exit c m)"
  "preserves P m \<Longrightarrow> preserves P (attempt m)"
  by (simp_all add: preserves_def)

lemma preserves_if [preserves_intro]:
  "(b \<Longrightarrow> preserves P m) \<Longrightarrow> (\<not> b \<Longrightarrow> preserves P n) \<Longrightarrow> preserves P (if b then m else n)"
  by simp

lemma preserves_do_if [preserves_intro]: "(b \<Longrightarrow> preserves P m) \<Longrightarrow> preserves P (do_if b m)"
  by (cases b) (simp_all add: preserves_pure)

lemma preserves_for_each [preserves_intro]: "(\<And>x. preserves P (f x)) \<Longrightarrow> preserves P (for_each xs f)"
  by (induction xs) (auto intro!: preserves_intro)

lemma preserves_fold_prog [preserves_intro]: "(\<And>b x. preserves P (f b x)) \<Longrightarrow> preserves P (fold_prog f b xs)"
  by (induction xs arbitrary: b) (auto intro!: preserves_intro)

lemma preserves_reads [preserves_intro]:
  "preserves P (os_ReadFile E p)" "preserves P (os_Stat E p)" "preserves P (os_ReadDir E p)"
  by (auto simp: preserves_def os_ReadFile_def os_Stat_def os_ReadDir_def split: option.splits node.splits)

text \<open>An environment that never removes what is at a path.\<close>

definition has_path :: "string \<Rightarrow> world \<Rightarrow> bool" where
  "has_path p w \<longleftrightarrow> fs_get (fs w) p \<noteq> None"

definition keeps_path :: "'z env_scheme \<Rightarrow> string \<Rightarrow> bool" where
  "keeps_path E p \<longleftrightarrow> (\<forall>w. has_path p w \<longrightarrow>
     (\<forall>e msg g. ioerr E w e = Some (msg, g) \<longrightarrow> fs_get g p \<noteq> None) \<and>
     (\<forall>e out err g. runcmd E w e = (out, err, g) \<longrightarrow> fs_get g p \<noteq> None) \<and>
     (\<forall>d. fs_get (meanwhile E w d) p \<noteq> None))"

lemma has_path_with_io:
  assumes "keeps_path E p" "\<And>w. fs_get (fs w) p \<noteq> None \<Longrightarrow> fs_get (snd (f w)) p \<noteq> None"
  shows "preserves (has_path p) (with_io E e f)"
  unfolding preserves_def
proof (intro allI impI)
  fix w assume w: "has_path p w"
  show "has_path p (snd (with_io E e f w))"
  proof (cases "ioerr E w e")
    case None
    with w assms(2) [of w] show ?thesis by (auto simp: with_io_def has_path_def split: prod.splits)
  next
    case (Some mg)
    then obtain msg g where "ioerr E w e = Some (msg, g)" by (cases mg) auto
    moreover from this w assms(1) have "fs_get g p \<noteq> None" unfolding keeps_path_def by blast
    ultimately show ?thesis by (simp add: with_io_def has_path_def)
  qed
qed

lemma has_path_io [preserves_intro]:
  assumes "keeps_path E p"
  shows "preserves (has_path p) (os_WriteFile E q c m)" "preserves (has_path p) (os_Create E q)"
    "preserves (has_path p) (os_MkdirAll E q m)" "preserves (has_path p) (os_Chown E q u g)"
  unfolding os_WriteFile_def os_Create_def os_MkdirAll_def os_Chown_def
  by (rule has_path_with_io [OF assms]; auto simp: fs_write_def fs_get_mkdirs split: option.splits)+

lemma has_path_exec [preserves_intro]:
  assumes "keeps_path E p"
  shows "preserves (has_path p) (exec_cmd E cap argv)" "preserves (has_path p) (exec_start E argv)"
proof -
  have kept: "\<exists>y. fs_get g p = Some y" if "runcmd E w e = (out, err, g)" "has_path p w" for w e out err g
    using assms that unfolding keeps_path_def by (metis not_None_eq)
  have upd: "has_path p (v\<lparr>fs := g\<rparr>) \<longleftrightarrow> (\<exists>y. fs_get g p = Some y)" for v g
    by (auto simp: has_path_def)
  show "preserves (has_path p) (exec_cmd E cap argv)" "preserves (has_path p) (exec_start E argv)"
    unfolding preserves_def exec_cmd_def exec_start_def by (auto simp: upd split: prod.splits intro: kept)
qed

lemma has_path_effects [preserves_intro]:
  "preserves (has_path p) (http_Get E url)" "preserves (has_path p) (api_call n args ans)"
  by (auto simp: preserves_def has_path_def http_Get_def api_call_def split: prod.splits)

section \<open>Programs that do not end the process\<close>

definition no_exit :: "(world, 'a) prog \<Rightarrow> bool" where
  "no_exit m \<longleftrightarrow> (\<forall>w c. fst (m w) \<noteq> Exit c)"

lemma no_exitD: "no_exit m \<Longrightarrow> m w \<noteq> (Exit c, w')"
  by (metis fst_conv no_exit_def)

lemma no_exit_bind [no_exit_intro]: "no_exit m \<Longrightarrow> (\<And>a. no_exit (k a)) \<Longrightarrow> no_exit (bind m k)"
  by (auto simp: no_exit_def bind_def split: prod.splits outcome.splits) (metis fst_conv)+

lemma no_exit_pure [no_exit_intro]:
  "no_exit (ret a)" "no_exit (fail e)" "no_exit (panic p)" "no_exit (lift_sum r)" "no_exit (guard b e)"
  "no_exit (index xs i)" "no_exit (deref x)" "no_exit (\<lambda>w. (Ok (f w), g w))"
  "no_exit (\<lambda>w. lift_sum (h w) w)"
  by (auto simp: no_exit_def guard_def index_def deref_def lift_sum_def split: sum.splits option.splits)

lemma no_exit_handlers [no_exit_intro]:
  "no_exit m \<Longrightarrow> no_exit (map_err f m)" "no_exit m \<Longrightarrow> no_exit (wrap s m)"
  "no_exit m \<Longrightarrow> no_exit (wrapf s m)" "no_exit m \<Longrightarrow> no_exit (attempt m)"
  by (auto simp: no_exit_def wrap_def wrapf_def map_err_def attempt_def split: prod.splits outcome.splits)
    (metis fst_conv)+

lemma no_exit_do_if [no_exit_intro]: "no_exit m \<Longrightarrow> no_exit (do_if b m)"
  by (cases b) (simp_all add: no_exit_pure)

lemma no_exit_for_each [no_exit_intro]: "(\<And>x. no_exit (f x)) \<Longrightarrow> no_exit (for_each xs f)"
  by (induction xs) (auto intro!: no_exit_intro)

lemma no_exit_fold_prog [no_exit_intro]: "(\<And>b x. no_exit (f b x)) \<Longrightarrow> no_exit (fold_prog f b xs)"
  by (induction xs arbitrary: b) (auto intro!: no_exit_intro)

lemma no_exit_io [no_exit_intro]:
  "no_exit (os_ReadFile E p)" "no_exit (os_Stat E p)" "no_exit (os_ReadDir E p)"
  "no_exit (os_WriteFile E p c m)" "no_exit (os_Create E p)" "no_exit (os_MkdirAll E p m)"
  "no_exit (os_Remove E p)" "no_exit (os_RemoveAll E p)" "no_exit (os_Rename E p q)" "no_exit (os_Chown E p u g)"
  by (auto simp: no_exit_def os_ReadFile_def os_Stat_def os_ReadDir_def os_WriteFile_def os_Create_def
      os_MkdirAll_def os_Remove_def os_RemoveAll_def os_Rename_def os_Chown_def with_io_def
      split: option.splits node.splits prod.splits if_splits)

lemma no_exit_effects [no_exit_intro]:
  "no_exit (exec_cmd E cap argv)" "no_exit (exec_start E argv)" "no_exit (http_Get E url)"
  "no_exit (http_Get_limit E lim url)" "no_exit (time_Sleep E d)" "no_exit (print s)" "no_exit (api_call n args ans)"
  by (auto simp: no_exit_def exec_cmd_def exec_start_def http_Get_def http_Get_limit_def time_Sleep_def print_def
      api_call_def split: prod.splits option.splits)

lemma no_exit_exec [no_exit_intro]: "no_exit (exec_out E cap argv)" "no_exit (exec_run E argv)"
  by (auto simp: exec_out_def exec_run_def split: option.splits intro!: no_exit_intro)

section \<open>Programs that end the process with code 1 only\<close>

definition code_1 :: "(world, 'a) prog \<Rightarrow> bool" where
  "code_1 m \<longleftrightarrow> (\<forall>w c. fst (m w) = Exit c \<longrightarrow> c = 1)"

lemma no_exit_code_1: "no_exit m \<Longrightarrow> code_1 m"
  by (simp add: no_exit_def code_1_def)

lemmas code_1_leaves [code_1_intro] =
  no_exit_pure [THEN no_exit_code_1] no_exit_io [THEN no_exit_code_1] no_exit_effects [THEN no_exit_code_1]
  no_exit_exec [THEN no_exit_code_1]

lemma code_1_bind [code_1_intro]: "code_1 m \<Longrightarrow> (\<And>a. code_1 (k a)) \<Longrightarrow> code_1 (bind m k)"
  by (auto simp: code_1_def bind_def split: prod.splits outcome.splits) (metis fst_conv)

lemma code_1_handlers [code_1_intro]:
  "code_1 m \<Longrightarrow> code_1 (map_err f m)" "code_1 m \<Longrightarrow> code_1 (wrap s m)" "code_1 m \<Longrightarrow> code_1 (wrapf s m)"
  "code_1 m \<Longrightarrow> code_1 (attempt m)" "code_1 m \<Longrightarrow> code_1 (or_exit 1 m)" "code_1 m \<Longrightarrow> code_1 (or_fatal m)"
  by (auto simp: code_1_def wrap_def wrapf_def map_err_def attempt_def or_exit_def or_fatal_def split: prod.splits outcome.splits)
    (metis fst_conv)+

lemma code_1_stop [code_1_intro]: "code_1 (log_fatal s)" "code_1 (Pair (Err e))"
  by (simp_all add: code_1_def)

lemma code_1_branch [code_1_intro]:
  "(b \<Longrightarrow> code_1 m) \<Longrightarrow> (\<not> b \<Longrightarrow> code_1 n) \<Longrightarrow> code_1 (if b then m else n)" "code_1 m \<Longrightarrow> code_1 (do_if b m)"
  by (cases b; simp add: code_1_leaves(1))+

lemma code_1_case [code_1_intro]:
  "(\<And>a b. p = (a, b) \<Longrightarrow> code_1 (f a b)) \<Longrightarrow> code_1 (case p of (a, b) \<Rightarrow> f a b)"
  "(x = None \<Longrightarrow> code_1 n) \<Longrightarrow> (\<And>a. x = Some a \<Longrightarrow> code_1 (s a)) \<Longrightarrow> code_1 (case x of None \<Rightarrow> n | Some a \<Rightarrow> s a)"
  "(\<And>e. r = HttpFail e \<Longrightarrow> code_1 (hf e)) \<Longrightarrow> (\<And>st b. r = HttpReply st b \<Longrightarrow> code_1 (hr st b)) \<Longrightarrow>
     code_1 (case r of HttpFail e \<Rightarrow> hf e | HttpReply st b \<Rightarrow> hr st b)"
  "(\<And>e. y = Inl e \<Longrightarrow> code_1 (l e)) \<Longrightarrow> (\<And>a. y = Inr a \<Longrightarrow> code_1 (i a)) \<Longrightarrow> code_1 (case y of Inl e \<Rightarrow> l e | Inr a \<Rightarrow> i a)"
  "(\<And>n. st = Exists n \<Longrightarrow> code_1 (ex n)) \<Longrightarrow> (\<And>e. st = NotExist e \<Longrightarrow> code_1 (nx e)) \<Longrightarrow> (\<And>e. st = StatErr e \<Longrightarrow> code_1 (er e)) \<Longrightarrow>
     code_1 (case st of Exists n \<Rightarrow> ex n | NotExist e \<Rightarrow> nx e | StatErr e \<Rightarrow> er e)"
  by (auto split: prod.splits option.splits http_reply.splits sum.splits stat.splits)

lemma code_1_loops [code_1_intro]:
  "(\<And>x. code_1 (g x)) \<Longrightarrow> code_1 (for_each xs g)" "(\<And>b x. code_1 (h b x)) \<Longrightarrow> code_1 (fold_prog h b xs)"
proof -
  show "(\<And>x. code_1 (g x)) \<Longrightarrow> code_1 (for_each xs g)"
    by (induction xs) (auto intro!: code_1_intro)
  show "(\<And>b x. code_1 (h b x)) \<Longrightarrow> code_1 (fold_prog h b xs)"
    by (induction xs arbitrary: b) (auto intro!: code_1_intro)
qed

lemma code_1_reader: "(\<And>v. code_1 (f v)) \<Longrightarrow> code_1 (\<lambda>w. f w w)"
  by (simp add: code_1_def)

end
