(* ===== verification/Go_Json.thy ===== *)
theory Go_Json
  imports Go_Encoding
begin

text \<open>
  JSON values as Go's \<open>encoding/json\<close> writes them: compact, object members in the order they are
  given (struct order, or sorted map keys), strings escaped for HTML.  A number is kept as its
  literal.
\<close>

section \<open>Values and their text\<close>

datatype json =
    JNull
  | JBool bool
  | JNum string
  | JStr string
  | JArr "json list"
  | JObj "(string \<times> json) list"

definition unicode_escape :: "char \<Rightarrow> string" where
  "unicode_escape c =
     (let n = of_char c :: nat
      in [CHR 0x5C, CHR ''u'', CHR ''0'', CHR ''0'', hex_digit (n div 16), hex_digit (n mod 16)])"

definition json_escape :: "char \<Rightarrow> string" where
  "json_escape c =
     (if c = CHR 0x22 \<or> c = CHR 0x5C then [CHR 0x5C, c]
      else if c = CHR 0x0A then [CHR 0x5C, CHR ''n'']
      else if c = CHR 0x0D then [CHR 0x5C, CHR ''r'']
      else if c = CHR 0x09 then [CHR 0x5C, CHR ''t'']
      else if (of_char c :: nat) < 32 \<or> c \<in> set ''<>&'' then unicode_escape c
      else [c])"

definition json_quote :: "string \<Rightarrow> string" where
  "json_quote s = [CHR 0x22] @ concat (map json_escape s) @ [CHR 0x22]"

fun print_json :: "json \<Rightarrow> string"
  and print_elems :: "json list \<Rightarrow> string"
  and print_members :: "(string \<times> json) list \<Rightarrow> string" where
  "print_json JNull = ''null''"
| "print_json (JBool b) = (if b then ''true'' else ''false'')"
| "print_json (JNum n) = n"
| "print_json (JStr s) = json_quote s"
| "print_json (JArr vs) = ''['' @ print_elems vs @ '']''"
| "print_json (JObj ms) = ''{'' @ print_members ms @ ''}''"
| "print_elems [] = []"
| "print_elems [v] = print_json v"
| "print_elems (v # vs) = print_json v @ '','' @ print_elems vs"
| "print_members [] = []"
| "print_members [(k, v)] = json_quote k @ '':'' @ print_json v"
| "print_members ((k, v) # ms) = json_quote k @ '':'' @ print_json v @ '','' @ print_members ms"

text \<open>A struct field tagged \<open>omitempty\<close> is left out when its string is empty.\<close>

definition field :: "string \<Rightarrow> string \<Rightarrow> (string \<times> json) list" where
  "field k s = [(k, JStr s)]"

definition field_opt :: "string \<Rightarrow> string \<Rightarrow> (string \<times> json) list" where
  "field_opt k s = (if s = [] then [] else [(k, JStr s)])"

end
