(* ===== verification/Go_Template.thy ===== *)
theory Go_Template
  imports Go_Encoding
begin

text \<open>
  The part of \<open>text/template\<close> that the sources use: text with \<open>{{...}}\<close> actions and their white space
  trimming, \<open>range\<close> with an index and an element variable, \<open>if\<close>, \<open>else\<close>, \<open>end\<close>, field chains on the
  dot and on variables, numbers, and the function \<open>eq\<close>.  A template that uses more (pipes, comments,
  quoted strings, nested templates, other functions, promoted fields) does not parse here, and
  printing a map, struct or list is an error.
\<close>

section \<open>Values\<close>

text \<open>
  A nil pointer is \<open>VNil\<close>; a pointer to a struct is the struct.  \<open>VNoValue\<close> is what a missing key of a
  map gives.
\<close>

datatype tmpl_value =
    VStr string
  | VInt int
  | VBool bool
  | VNil
  | VNoValue
  | VStruct "(string \<times> tmpl_value) list"
  | VMap "(string \<times> tmpl_value) list"
  | VList "tmpl_value list"

fun truth :: "tmpl_value \<Rightarrow> bool" where
  "truth (VStr s) = (s \<noteq> [])"
| "truth (VInt n) = (n \<noteq> 0)"
| "truth (VBool b) = b"
| "truth VNil = False"
| "truth VNoValue = False"
| "truth (VStruct _) = True"
| "truth (VMap m) = (m \<noteq> [])"
| "truth (VList vs) = (vs \<noteq> [])"

fun printValue :: "tmpl_value \<Rightarrow> string + string" where
  "printValue (VStr s) = Inr s"
| "printValue (VInt n) = Inr (Itoa n)"
| "printValue (VBool b) = Inr (if b then ''true'' else ''false'')"
| "printValue VNil = Inr ''<nil>''"
| "printValue VNoValue = Inr ''<no value>''"
| "printValue _ = Inl ''can't print''"

fun field :: "string \<Rightarrow> tmpl_value \<Rightarrow> string + tmpl_value" where
  "field f (VStruct fs) = (case map_of fs f of Some v \<Rightarrow> Inr v | None \<Rightarrow> Inl (''can't evaluate field '' @ f))"
| "field f (VMap m) = Inr (case map_of m f of Some v \<Rightarrow> v | None \<Rightarrow> VNoValue)"
| "field f VNil = Inl ''nil pointer evaluating''"
| "field f _ = Inl (''can't evaluate field '' @ f)"

fun fields :: "string list \<Rightarrow> tmpl_value \<Rightarrow> string + tmpl_value" where
  "fields [] v = Inr v"
| "fields (f # fs) v = (case field f v of Inl e \<Rightarrow> Inl e | Inr u \<Rightarrow> fields fs u)"

fun eqValues :: "tmpl_value \<Rightarrow> tmpl_value \<Rightarrow> string + bool" where
  "eqValues (VStr a) (VStr b) = Inr (a = b)"
| "eqValues (VInt a) (VInt b) = Inr (a = b)"
| "eqValues (VBool a) (VBool b) = Inr (a = b)"
| "eqValues _ _ = Inl ''incompatible types for comparison''"

section \<open>Templates\<close>

datatype operand = Dot "string list" | Var string "string list" | Num nat

datatype pipeline = Operand operand | Eq operand operand

datatype tnode =
    Text string
  | Print pipeline
  | IfNode pipeline "tnode list" "tnode list"
  | RangeNode string string pipeline "tnode list" "tnode list"

text \<open>Items: the text between actions, trimmed, and the words of each action.\<close>

datatype item = IText string | IAction "string list"

definition tmpl_space :: "char \<Rightarrow> bool" where
  "tmpl_space c \<longleftrightarrow> c \<in> {CHR '' '', CHR 0x09, CHR 0x0D, CHR 0x0A}"

fun wordsOf :: "string \<Rightarrow> string \<Rightarrow> string list" where
  "wordsOf acc [] = (if acc = [] then [] else [rev acc])"
| "wordsOf acc (c # s) =
     (if tmpl_space c then (if acc = [] then wordsOf [] s else rev acc # wordsOf [] s) else wordsOf (c # acc) s)"

text \<open>A minus sign next to a delimiter, with white space on its other side, trims the text there.\<close>

definition trimMarker :: "string \<Rightarrow> bool" where
  "trimMarker s = (case s of a # b # _ \<Rightarrow> a = CHR ''-'' \<and> tmpl_space b | _ \<Rightarrow> False)"

definition actionWords :: "string \<Rightarrow> string list" where
  "actionWords acc =
     (let inner = rev (if trimMarker acc then tl acc else acc)
      in wordsOf [] (if trimMarker inner then tl inner else inner))"

text \<open>
  In text, \<open>acc\<close> is what was read since the last action, reversed, and \<open>trim\<close> says that white space is
  still dropped from its start.  In an action, \<open>acc\<close> is its contents so far, reversed.
\<close>

fun lexText :: "bool \<Rightarrow> string \<Rightarrow> string \<Rightarrow> item list option"
  and lexAction :: "string \<Rightarrow> string \<Rightarrow> item list option" where
  "lexText trim acc [] = Some [IText (rev acc)]"
| "lexText trim acc (c # s) =
     (if c = CHR ''{'' \<and> HasPrefix s ''{'' then
        map_option ((#) (IText (rev (if trimMarker (tl s) then dropWhile tmpl_space acc else acc)))) (lexAction [] (tl s))
      else if trim \<and> tmpl_space c then lexText True acc s
      else lexText False (c # acc) s)"
| "lexAction acc [] = None"
| "lexAction acc (c # s) =
     (if c = CHR ''}'' \<and> HasPrefix s ''}'' then
        map_option ((#) (IAction (actionWords acc))) (lexText (trimMarker acc) [] (tl s))
      else lexAction (c # acc) s)"

section \<open>Parsing\<close>

definition ident_word :: "string \<Rightarrow> bool" where
  "ident_word s \<longleftrightarrow> s \<noteq> [] \<and> \<not> is_digit (hd s) \<and>
     list_all (\<lambda>c. alphanumeric c \<or> c = CHR ''_'') s"

definition variable :: "string \<Rightarrow> bool" where
  "variable s \<longleftrightarrow> s \<noteq> [] \<and> hd s = CHR ''$'' \<and> (tl s = [] \<or> ident_word (tl s))"

text \<open>A variable has to be declared by an enclosing \<open>range\<close>; \<open>$\<close> is the data of the template.\<close>

definition parseOperand :: "string list \<Rightarrow> string \<Rightarrow> operand option" where
  "parseOperand vars w = (case Split w ''.'' of
       [] \<Rightarrow> None
     | h # fs \<Rightarrow>
         if h = [] then
           (if fs = [[]] then Some (Dot []) else if fs \<noteq> [] \<and> list_all ident_word fs then Some (Dot fs) else None)
         else if variable h then
           (if h \<in> set vars \<and> list_all ident_word fs then Some (Var h fs) else None)
         else if fs = [] \<and> list_all is_digit h \<and> (h = ''0'' \<or> hd h \<noteq> CHR ''0'') then map_option Num (parse_digits 10 0 h)
         else None)"

definition parsePipeline :: "string list \<Rightarrow> string list \<Rightarrow> pipeline option" where
  "parsePipeline vars ws = (case ws of
       [a] \<Rightarrow> map_option Operand (parseOperand vars a)
     | [f, a, b] \<Rightarrow>
         if f = ''eq'' then
           (case (parseOperand vars a, parseOperand vars b) of (Some x, Some y) \<Rightarrow> Some (Eq x y) | _ \<Rightarrow> None)
         else None
     | _ \<Rightarrow> None)"

text \<open>
  The open control structures, innermost first, each with the nodes read before it, reversed.  The
  variables of a \<open>range\<close> are declared until its \<open>end\<close>, also after \<open>else\<close>.
\<close>

datatype frame =
    InIf pipeline
  | InElse pipeline "tnode list"
  | InRange string string pipeline
  | InRangeElse string string pipeline "tnode list"

fun frameVars :: "frame \<Rightarrow> string list" where
  "frameVars (InRange i x _) = [i, x]"
| "frameVars (InRangeElse i x _ _) = [i, x]"
| "frameVars _ = []"

definition varsOf :: "(frame \<times> tnode list) list \<Rightarrow> string list" where
  "varsOf stk = concat (map (frameVars \<circ> fst) stk) @ [''$'']"

fun closeFrame :: "frame \<Rightarrow> tnode list \<Rightarrow> tnode" where
  "closeFrame (InIf p) ns = IfNode p ns []"
| "closeFrame (InElse p body) ns = IfNode p body ns"
| "closeFrame (InRange i x p) ns = RangeNode i x p ns []"
| "closeFrame (InRangeElse i x p body) ns = RangeNode i x p body ns"

fun elseFrame :: "frame \<Rightarrow> tnode list \<Rightarrow> frame option" where
  "elseFrame (InIf p) ns = Some (InElse p ns)"
| "elseFrame (InRange i x p) ns = Some (InRangeElse i x p ns)"
| "elseFrame _ ns = None"

definition openFrame :: "string list \<Rightarrow> string list \<Rightarrow> frame option" where
  "openFrame vars ws = (case ws of
       [] \<Rightarrow> None
     | k # rest \<Rightarrow>
         if k = ''if'' then map_option InIf (parsePipeline vars rest)
         else if k = ''range'' then (case rest of
             i # x # d # p \<Rightarrow>
               if HasSuffix i '','' \<and> variable (butlast i) \<and> variable x \<and> d = '':='' then
                 map_option (InRange (butlast i) x) (parsePipeline vars p)
               else None
           | _ \<Rightarrow> None)
         else None)"

fun parseItems :: "(frame \<times> tnode list) list \<Rightarrow> tnode list \<Rightarrow> item list \<Rightarrow> string + tnode list" where
  "parseItems stk cur [] = (if stk = [] then Inr (rev cur) else Inl ''unexpected EOF'')"
| "parseItems stk cur (IText t # items) = parseItems stk (if t = [] then cur else Text t # cur) items"
| "parseItems stk cur (IAction ws # items) =
     (if ws = [''end''] then (case stk of
          [] \<Rightarrow> Inl ''unexpected {{end}}''
        | (f, saved) # outer \<Rightarrow> parseItems outer (closeFrame f (rev cur) # saved) items)
      else if ws = [''else''] then (case stk of
          [] \<Rightarrow> Inl ''unexpected {{else}}''
        | (f, saved) # outer \<Rightarrow> (case elseFrame f (rev cur) of
              None \<Rightarrow> Inl ''expected end; found {{else}}''
            | Some g \<Rightarrow> parseItems ((g, saved) # outer) [] items))
      else (case openFrame (varsOf stk) ws of
          Some f \<Rightarrow> parseItems ((f, cur) # stk) [] items
        | None \<Rightarrow> (case parsePipeline (varsOf stk) ws of
              Some p \<Rightarrow> parseItems stk (Print p # cur) items
            | None \<Rightarrow> Inl ''unexpected action'')))"

definition template_Parse :: "string \<Rightarrow> string + tnode list" where
  "template_Parse content = (case lexText False [] content of
       None \<Rightarrow> Inl ''unclosed action''
     | Some items \<Rightarrow> parseItems [] [] items)"

section \<open>Execution\<close>

fun sum_bind :: "string + 'a \<Rightarrow> ('a \<Rightarrow> string + 'b) \<Rightarrow> string + 'b" where
  "sum_bind (Inl e) k = Inl e"
| "sum_bind (Inr a) k = k a"

fun sum_concat :: "(string + string) list \<Rightarrow> string + string" where
  "sum_concat [] = Inr []"
| "sum_concat (x # xs) = sum_bind x (\<lambda>a. sum_bind (sum_concat xs) (\<lambda>b. Inr (a @ b)))"

fun evalOperand :: "(string \<times> tmpl_value) list \<Rightarrow> tmpl_value \<Rightarrow> operand \<Rightarrow> string + tmpl_value" where
  "evalOperand vars dot (Dot fs) = fields fs dot"
| "evalOperand vars dot (Var x fs) = (case map_of vars x of Some v \<Rightarrow> fields fs v | None \<Rightarrow> Inl ''undefined variable'')"
| "evalOperand vars dot (Num n) = Inr (VInt (int n))"

fun evalPipeline :: "(string \<times> tmpl_value) list \<Rightarrow> tmpl_value \<Rightarrow> pipeline \<Rightarrow> string + tmpl_value" where
  "evalPipeline vars dot (Operand a) = evalOperand vars dot a"
| "evalPipeline vars dot (Eq a b) =
     sum_bind (evalOperand vars dot a) (\<lambda>x. sum_bind (evalOperand vars dot b) (\<lambda>y. map_sum id VBool (eqValues x y)))"

text \<open>
  \<open>range\<close> first gives both variables the whole value, which is what an \<open>else\<close> sees; each round sets them
  to the index and the element, and the dot to the element.
\<close>

fun execNode :: "(string \<times> tmpl_value) list \<Rightarrow> tmpl_value \<Rightarrow> tnode \<Rightarrow> string + string" where
  "execNode vars dot (Text t) = Inr t"
| "execNode vars dot (Print p) = sum_bind (evalPipeline vars dot p) printValue"
| "execNode vars dot (IfNode p body els) =
     sum_bind (evalPipeline vars dot p) (\<lambda>v. if truth v then sum_concat (map (execNode vars dot) body) else sum_concat (map (execNode vars dot) els))"
| "execNode vars dot (RangeNode i x p body els) =
     sum_bind (evalPipeline vars dot p) (\<lambda>v. case v of
         VList (e # es) \<Rightarrow> sum_concat (map (\<lambda>(k, u). sum_concat (map (execNode ((i, VInt (int k)) # (x, u) # vars) u) body))
           (enumerate 0 (e # es)))
       | VList [] \<Rightarrow> sum_concat (map (execNode ((i, v) # (x, v) # vars) dot) els)
       | VNoValue \<Rightarrow> sum_concat (map (execNode ((i, v) # (x, v) # vars) dot) els)
       | _ \<Rightarrow> Inl ''range can't iterate over the value'')"

definition template_Execute :: "tnode list \<Rightarrow> tmpl_value \<Rightarrow> string + string" where
  "template_Execute t data = sum_concat (map (execNode [(''$'', data)] data) t)"

end
