(* ===== verification/BB_Files.thy ===== *)
theory BB_Files
  imports Go_World Go_Json Go_Template
begin

text \<open>
  \<open>pkg/files\<close> and \<open>pkg/executables\<close> of the Bottlerocket bootstrap: writing a file below directories
  that may not exist yet, testing for a path, symbolic links, templates, and the thin clients that run
  \<open>apiclient\<close>, \<open>mount\<close> and \<open>mkfs.ext4\<close>.  The two Go interfaces \<open>APIClient\<close> and \<open>FileSystem\<close> that the
  Snow provider relies on are records of operations in \<open>BB_Snow\<close>.
\<close>

section \<open>pkg/files\<close>

definition CreateSymLink :: "'z env_scheme \<Rightarrow> string \<Rightarrow> string \<Rightarrow> (world, unit) prog" where
  "CreateSymLink E from to =
     (let cmd = [''bash'', ''-c'', ''ln -sfn '' @ from @ '' '' @ to]
      in wrap (''error creating symlink: '' @ cmd_String E cmd) (exec_run E cmd))"

text \<open>Only a definite "does not exist" counts as absent; any other error counts as present.\<close>

definition PathExists :: "'z env_scheme \<Rightarrow> string \<Rightarrow> (world, bool) prog" where
  "PathExists E path =
     bind (os_Stat E path) (\<lambda>st. ret (case st of NotExist _ \<Rightarrow> False | _ \<Rightarrow> True))"

definition Write :: "'z env_scheme \<Rightarrow> string \<Rightarrow> string \<Rightarrow> nat \<Rightarrow> (world, unit) prog" where
  "Write E path content permission =
     bind (wrap ''Error creating directory'' (os_MkdirAll E (Dir path) 416)) (\<lambda>_.
     wrap (''Error writing file: '' @ path) (os_WriteFile E path content permission))"

definition ExecuteTemplate :: "string \<Rightarrow> tmpl_value \<Rightarrow> (world, string) prog" where
  "ExecuteTemplate content data =
     bind (wrap ''Error parsing template'' (lift_sum (template_Parse content))) (\<lambda>temp.
     wrap ''Error substituting values for template'' (lift_sum (template_Execute temp data)))"

section \<open>pkg/executables\<close>

definition Execute :: "'z env_scheme \<Rightarrow> string \<Rightarrow> string list \<Rightarrow> (world, string) prog" where
  "Execute E binary args =
     bind (exec_cmd E Combined (binary # args)) (\<lambda>(out, err).
       case err of
         None \<Rightarrow> ret out
       | Some e \<Rightarrow> fail (''Error running command: '' @ cmd_String E (binary # args) @ '', output: '' @
           out @ [CHR 0x0A] @ '': '' @ e))"

record Kernel =
  Sysctl :: "(string \<times> string) list"

record Kubernetes =
  AllowedUnsafeSysctls :: "string list"

record APISetting =
  KernelSetting :: "Kernel option"
  KubernetesSetting :: "Kubernetes option"

text \<open>\<open>json.Marshal\<close> of the setting: both members are omitted when nil, maps are sorted by key.\<close>

definition marshal_setting :: "APISetting \<Rightarrow> json" where
  "marshal_setting s = JObj
     ((case KernelSetting s of None \<Rightarrow> []
       | Some k \<Rightarrow> [(''kernel'', JObj (if Sysctl k = [] then []
           else [(''sysctl'', JObj (map (\<lambda>(n, v). (n, JStr v)) (sort_key fst (Sysctl k))))]))]) @
      (case KubernetesSetting s of None \<Rightarrow> []
       | Some k \<Rightarrow> [(''kubernetes'', JObj (if AllowedUnsafeSysctls k = [] then []
           else [(''allowed-unsafe-sysctls'', JArr (map JStr (AllowedUnsafeSysctls k)))]))]))"

definition ApiclientBinary :: string where
  "ApiclientBinary = ''apiclient''"

definition api_execute :: "'z env_scheme \<Rightarrow> string list \<Rightarrow> (world, unit) prog" where
  "api_execute E args = bind (Execute E ApiclientBinary args) (\<lambda>_. ret ())"

definition SetKubernetesCloudProvider :: "'z env_scheme \<Rightarrow> string \<Rightarrow> (world, unit) prog" where
  "SetKubernetesCloudProvider E cloudProvider =
     api_execute E [''set'', ''kubernetes.cloud-provider='' @ Quote cloudProvider]"

definition SetKubernetesNodeIP :: "'z env_scheme \<Rightarrow> string \<Rightarrow> (world, unit) prog" where
  "SetKubernetesNodeIP E ip = api_execute E [''set'', ''kubernetes.node-ip='' @ ip]"

definition SetKubernetesProviderID :: "'z env_scheme \<Rightarrow> string \<Rightarrow> (world, unit) prog" where
  "SetKubernetesProviderID E i = api_execute E [''set'', ''kubernetes.provider-id='' @ i]"

definition api_Set :: "'z env_scheme \<Rightarrow> APISetting \<Rightarrow> (world, unit) prog" where
  "api_Set E setting = api_execute E [''set'', ''--json'', print_json (marshal_setting setting)]"

definition Reboot :: "'z env_scheme \<Rightarrow> (world, unit) prog" where
  "Reboot E = api_execute E [''reboot'']"

definition MountVolume :: "'z env_scheme \<Rightarrow> string \<Rightarrow> string \<Rightarrow> (world, unit) prog" where
  "MountVolume E device dir = bind (Execute E ''mount'' [device, dir]) (\<lambda>_. ret ())"

definition Partition :: "'z env_scheme \<Rightarrow> string \<Rightarrow> (world, unit) prog" where
  "Partition E device = bind (Execute E ''mkfs.ext4'' [device]) (\<lambda>_. ret ())"

section \<open>What these operations do\<close>

lemma PathExists_run:
  "PathExists E p w =
     (Ok (ioerr E w (Stat p) \<noteq> None \<or> fs_get (fs w) p \<noteq> None), w)"
  by (auto simp: PathExists_def os_Stat_def bind_def split: option.splits)

lemma emits_PathExists [emits_intro]: "emits A (PathExists E p)"
  by (simp add: emits_def PathExists_run)

lemma emits_Execute [emits_intro]:
  "A (Exec Combined (b # args)) \<Longrightarrow> emits A (Execute E b args)"
  by (auto simp: Execute_def split: option.splits intro!: emits_intro)

lemma emits_api_execute [emits_intro]:
  "A (Exec Combined (''apiclient'' # args)) \<Longrightarrow> emits A (api_execute E args)"
  by (auto simp: api_execute_def ApiclientBinary_def intro!: emits_intro)

lemma emits_Write [emits_intro]:
  "A (MkdirAll (Dir p) 416) \<Longrightarrow> A (WriteFile p c m) \<Longrightarrow> emits A (Write E p c m)"
  by (auto simp: Write_def intro!: emits_intro)

lemma Execute_trace: "trace (snd (Execute E b args w)) = trace w @ [Exec Combined (b # args)]"
  by (simp add: Execute_def exec_cmd_def bind_def split: prod.splits option.splits)

text \<open>On success \<open>Write\<close> leaves exactly the given contents at the path, whatever was there.\<close>

lemma Write_contents:
  assumes "Write E p c m w = (Ok (), w')"
  shows "\<exists>m'. fs_get (fs w') p = Some (File c m')"
  using assms
  by (auto simp: Write_def bind_Ok_iff os_WriteFile_def with_io_def fs_write_def
      split: option.splits if_splits prod.splits)

end
