(* ===== verification/BB_Userdata.thy ===== *)
theory BB_Userdata
  imports BB_Files
begin

text \<open>
  \<open>pkg/utils/userdata.go\<close>, \<open>pkg/utils/utils.go\<close> and \<open>pkg/service\<close>: reading the user data of the
  container, loading it in chunks from AWS Secrets Manager when it only refers to a secret, and
  writing the files it lists.  The record \<open>bb_env\<close> adds to the environment what this program gets
  from third-party packages: YAML decoding, gzip, the instance metadata service, Secrets Manager,
  the user database, systemd and the kubeconfig and version packages of Kubernetes.
\<close>

section \<open>Data\<close>

record WriteFile =
  Path :: string
  Owner :: string
  Permissions :: string
  Content :: string

record AWSSecretsManagerData =
  Provider :: string
  Prefix :: string
  Chunks :: int

record AWSSecretsManagerUserData =
  SecretUserDataType :: string
  UserDataSource :: AWSSecretsManagerData

record UserData =
  UserDataType :: string
  WriteFiles :: "WriteFile list"
  RunCmd :: string

text \<open>The parts of a Kubernetes pod definition the program looks at.\<close>

record HTTPGetAction =
  Scheme :: string
  Host :: string
  PortIntVal :: int
  ProbePath :: string

record Container =
  LivenessProbe :: "HTTPGetAction option option"
  ReadinessProbe :: "HTTPGetAction option option"

record Pod =
  PodName :: string
  Containers :: "Container list"

text \<open>
  A message of the systemd subscription: the changed units with their active and sub state; a unit
  that is gone comes as nil.
\<close>

datatype unit_event =
    StatusChange "(string \<times> (string \<times> string) option) list"
  | SubscribeErr string

record bb_env = env +
  yamlUserData :: "string \<Rightarrow> string + UserData"
  yamlSecretsUserData :: "string \<Rightarrow> string + AWSSecretsManagerUserData"
  yamlPod :: "string \<Rightarrow> string + Pod"
  yamlMap :: "string \<Rightarrow> string + (string \<times> json) list"
  gunzip :: "string \<Rightarrow> string + string"
  gzip :: "string \<Rightarrow> string + string"
  imdsRegion :: "world \<Rightarrow> string + string"
  secretValue :: "world \<Rightarrow> string \<Rightarrow> string + string"
  secretDelete :: "world \<Rightarrow> string \<Rightarrow> string + unit"
  lookupUser :: "string \<Rightarrow> string + (string \<times> string)"
  dbusDial :: "world \<Rightarrow> string + unit"
  dbusAuth :: "world \<Rightarrow> string + unit"
  dbusHello :: "world \<Rightarrow> string + unit"
  unitEvents :: "world \<Rightarrow> (nat \<times> unit_event) list"
  kubeconfigParse :: "string \<Rightarrow> string + (string + (string \<times> string) list)"
  parseGeneric :: "string \<Rightarrow> string + nat list"
  versionCompare :: "nat list \<Rightarrow> string \<Rightarrow> string + int"
  ebsReadTime :: "world \<Rightarrow> nat"
  pollWins :: "world \<Rightarrow> bool"

section \<open>pkg/service\<close>

record SecretsManagerService =
  GetSecretValue :: "string \<Rightarrow> (world, string) prog"
  DeleteSecret :: "string \<Rightarrow> (world, unit) prog"

definition SecretsManagerImpl :: "'z bb_env_scheme \<Rightarrow> SecretsManagerService" where
  "SecretsManagerImpl E = \<lparr>
     GetSecretValue = (\<lambda>name. bind
       (api_call ''GetSecretValue'' [name] (\<lambda>w. secretValue E w name)) lift_sum),
     DeleteSecret = (\<lambda>name. bind
       (api_call ''DeleteSecret'' [name] (\<lambda>w. secretDelete E w name)) lift_sum)\<rparr>"

definition NewSecretsManagerService :: "'z bb_env_scheme \<Rightarrow> (world, SecretsManagerService) prog" where
  "NewSecretsManagerService E =
     bind (wrap ''Unable to retrieve the region from the EC2 instance''
       (bind (api_call ''GetRegion'' [] (imdsRegion E)) lift_sum)) (\<lambda>region.
     ret (SecretsManagerImpl E))"

section \<open>pkg/utils/utils.go\<close>

definition BootstrapContainerName :: string where
  "BootstrapContainerName = ''kubeadm-bootstrap''"

definition DisableBootstrapContainer :: "'z env_scheme \<Rightarrow> (world, unit) prog" where
  "DisableBootstrapContainer E = wrap ''Error disabling bootstrap container''
     (exec_run E [ApiclientBinary, ''set'', ''host-containers.'' @ BootstrapContainerName @ ''.enabled=false''])"

definition GzipBytes :: "'z bb_env_scheme \<Rightarrow> string \<Rightarrow> (world, string) prog" where
  "GzipBytes E d = wrap ''failed to gzip bytes'' (lift_sum (gzip E d))"

definition GUnzipBytes :: "'z bb_env_scheme \<Rightarrow> string \<Rightarrow> (world, string) prog" where
  "GUnzipBytes E d = lift_sum (gunzip E d)"

section \<open>pkg/utils/userdata.go\<close>

definition hostContainerUserDataFile :: string where
  "hostContainerUserDataFile = ''/.bottlerocket/host-containers/current/user-data''"

definition bootstrapContainerUserDataFile :: string where
  "bootstrapContainerUserDataFile = ''/.bottlerocket/bootstrap-containers/current/user-data''"

definition awsSecretsManager :: string where
  "awsSecretsManager = ''AWSSecretsManager''"

definition secretName :: "string \<Rightarrow> nat \<Rightarrow> string" where
  "secretName pre i = pre @ ''-'' @ show_nat i"

text \<open>The chunk loop: fetch, append, then delete the secret; a failed delete is ignored.\<close>

definition fetchChunk :: "SecretsManagerService \<Rightarrow> string \<Rightarrow> string \<Rightarrow> nat \<Rightarrow> (world, string) prog" where
  "fetchChunk svc pre acc i =
     bind (GetSecretValue svc (secretName pre i)) (\<lambda>secretBinary.
     bind (attempt (DeleteSecret svc (secretName pre i))) (\<lambda>_.
     ret (acc @ secretBinary)))"

definition fetchChunks :: "SecretsManagerService \<Rightarrow> string \<Rightarrow> int \<Rightarrow> (world, string) prog" where
  "fetchChunks svc pre chunks = fold_prog (fetchChunk svc pre) [] [0..<nat chunks]"

definition loadUserDataFromSecretsManager ::
  "'z bb_env_scheme \<Rightarrow> SecretsManagerService \<Rightarrow> AWSSecretsManagerUserData \<Rightarrow> (world, UserData) prog" where
  "loadUserDataFromSecretsManager E svc ud =
     bind (fetchChunks svc (Prefix (UserDataSource ud)) (Chunks (UserDataSource ud))) (\<lambda>compressed.
     bind (GUnzipBytes E compressed) (\<lambda>uncompressed.
     bind (lift_sum (DecodeString uncompressed)) (\<lambda>actual.
     wrap ''Error unmarshalling user data'' (lift_sum (yamlUserData E actual)))))"

definition processAWSSecretsManagerUserData ::
  "'z bb_env_scheme \<Rightarrow> string \<Rightarrow> SecretsManagerService \<Rightarrow> (world, UserData) prog" where
  "processAWSSecretsManagerUserData E d svc =
     bind (wrap ''Error unmarshalling user data'' (lift_sum (yamlSecretsUserData E d))) (\<lambda>ud.
     or_exit 1 (loadUserDataFromSecretsManager E svc ud))"

definition processUserData :: "'z bb_env_scheme \<Rightarrow> string \<Rightarrow> (world, UserData) prog" where
  "processUserData E d =
     bind (wrap ''Error unmarshalling user data'' (lift_sum (yamlUserData E d))) (\<lambda>userData.
     if UserDataType userData = awsSecretsManager then
       bind (wrap ''Error creating secrets manager service'' (NewSecretsManagerService E)) (\<lambda>svc.
       processAWSSecretsManagerUserData E d svc)
     else ret userData)"

definition buildUserData :: "'z bb_env_scheme \<Rightarrow> string \<Rightarrow> (world, UserData) prog" where
  "buildUserData E filePath =
     bind (wrap ''Error reading user data file'' (os_ReadFile E filePath)) (\<lambda>d. processUserData E d)"

definition ResolveBootstrapContainerUserData :: "'z bb_env_scheme \<Rightarrow> (world, UserData) prog" where
  "ResolveBootstrapContainerUserData E = buildUserData E bootstrapContainerUserDataFile"

definition ResolveHostContainerUserData :: "'z bb_env_scheme \<Rightarrow> (world, UserData) prog" where
  "ResolveHostContainerUserData E = buildUserData E hostContainerUserDataFile"

text \<open>\<open>fs.FileMode(perm)\<close> keeps the low 32 bits of the parsed permissions.\<close>

definition FileMode :: "int \<Rightarrow> nat" where
  "FileMode perm = nat (perm mod 2 ^ 32)"

definition effectivePermissions :: "WriteFile \<Rightarrow> string" where
  "effectivePermissions file = (if Permissions file = [] then ''0640'' else Permissions file)"

definition ownerName :: "WriteFile \<Rightarrow> string" where
  "ownerName file = hd (Split (Owner file) '':'')"

definition writeUserDataFile :: "'z bb_env_scheme \<Rightarrow> WriteFile \<Rightarrow> (world, unit) prog" where
  "writeUserDataFile E file =
     bind (wrap ''Error converting string to int for permissions''
       (lift_sum (ParseInt 8 (effectivePermissions file)))) (\<lambda>perm.
     bind (wrap (''Error writing file: '' @ Path file)
       (Write E (Path file) (Content file) (FileMode perm))) (\<lambda>_.
     bind (wrap ''Error getting user/group details '' (lift_sum (lookupUser E (ownerName file)))) (\<lambda>(uid, gid).
     wrap ''Error running chown to set owners/groups''
       (os_Chown E (Path file) (Atoi_value uid) (Atoi_value gid)))))"

definition WriteUserDataFiles :: "'z bb_env_scheme \<Rightarrow> UserData \<Rightarrow> (world, unit) prog" where
  "WriteUserDataFiles E userData = for_each (WriteFiles userData) (writeUserDataFile E)"

section \<open>Chunked user data\<close>

lemma secretName_inject [simp]: "secretName p i = secretName p j \<longleftrightarrow> i = j"
  by (simp add: secretName_def)

lemma GetSecretValue_run [simp]:
  "GetSecretValue (SecretsManagerImpl E) n w =
     ((case secretValue E w n of Inl e \<Rightarrow> Err e | Inr s \<Rightarrow> Ok s), emit (Call ''GetSecretValue'' [n]) w)"
  by (auto simp: SecretsManagerImpl_def api_call_def bind_def split: sum.splits)

lemma DeleteSecret_attempt_run [simp]:
  "\<exists>r. attempt (DeleteSecret (SecretsManagerImpl E) n) w = (Ok r, emit (Call ''DeleteSecret'' [n]) w)"
  by (cases "secretDelete E w n") (simp_all add: SecretsManagerImpl_def api_call_def bind_def attempt_def)

text \<open>What Secrets Manager promises: the chunks are there until they are deleted.\<close>

definition stored_chunks :: "'z bb_env_scheme \<Rightarrow> string \<Rightarrow> string list \<Rightarrow> bool" where
  "stored_chunks E pre cs \<longleftrightarrow> (\<forall>i < length cs. \<forall>w.
     Call ''DeleteSecret'' [secretName pre i] \<notin> set (trace w) \<longrightarrow>
     secretValue E w (secretName pre i) = Inr (cs ! i))"

definition chunk_events :: "string \<Rightarrow> nat \<Rightarrow> event list" where
  "chunk_events pre i =
     [Call ''GetSecretValue'' [secretName pre i], Call ''DeleteSecret'' [secretName pre i]]"

lemma fetchChunk_run:
  "secretValue E w (secretName pre i) = Inr s \<Longrightarrow>
   fetchChunk (SecretsManagerImpl E) pre acc i w =
     (Ok (acc @ s), w\<lparr>trace := trace w @ chunk_events pre i\<rparr>)"
  using DeleteSecret_attempt_run [of E "secretName pre i" "emit (Call ''GetSecretValue'' [secretName pre i]) w"]
  by (auto simp: fetchChunk_def bind_def chunk_events_def emit_def)

lemma fetch_fold_run:
  assumes "\<And>i v. i \<in> set is \<Longrightarrow> Call ''DeleteSecret'' [secretName pre i] \<notin> set (trace v) \<Longrightarrow>
      secretValue E v (secretName pre i) = Inr (c i)"
    and "distinct is" and "\<And>i. i \<in> set is \<Longrightarrow> Call ''DeleteSecret'' [secretName pre i] \<notin> set (trace w)"
  shows "fold_prog (fetchChunk (SecretsManagerImpl E) pre) acc is w =
    (Ok (acc @ concat (map c is)), w\<lparr>trace := trace w @ concat (map (chunk_events pre) is)\<rparr>)"
  using assms
proof (induction "is" arbitrary: acc w)
  case Nil
  then show ?case by simp
next
  case (Cons i "is")
  let ?w = "w\<lparr>trace := trace w @ chunk_events pre i\<rparr>"
  have "fetchChunk (SecretsManagerImpl E) pre acc i w = (Ok (acc @ c i), ?w)"
    using Cons.prems by (intro fetchChunk_run) auto
  moreover have "fold_prog (fetchChunk (SecretsManagerImpl E) pre) (acc @ c i) is ?w =
      (Ok ((acc @ c i) @ concat (map c is)), ?w\<lparr>trace := trace ?w @ concat (map (chunk_events pre) is)\<rparr>)"
    using Cons.prems by (intro Cons.IH) (auto simp: chunk_events_def)
  ultimately show ?case by (simp add: bind_run_Ok)
qed

lemma fetchChunks_run:
  assumes "stored_chunks E pre cs"
    and "\<And>i. i < length cs \<Longrightarrow> Call ''DeleteSecret'' [secretName pre i] \<notin> set (trace w)"
  shows "fetchChunks (SecretsManagerImpl E) pre (int (length cs)) w =
    (Ok (concat cs), w\<lparr>trace := trace w @ concat (map (chunk_events pre) [0..<length cs])\<rparr>)"
proof -
  have "concat (map (\<lambda>i. cs ! i) [0..<length cs]) = concat cs" by (simp add: map_nth)
  then show ?thesis
    using fetch_fold_run [of "[0..<length cs]" pre E "\<lambda>i. cs ! i" w "[]"] assms
    by (simp add: fetchChunks_def stored_chunks_def)
qed

text \<open>A missing chunk ends the load after the chunks before it were deleted.\<close>

lemma fold_prog_append:
  "fold_prog f b (xs @ ys) = bind (fold_prog f b xs) (\<lambda>b'. fold_prog f b' ys)"
  by (induction xs arbitrary: b) (simp_all add: bind_assoc)

lemma fetchChunks_missing:
  assumes "stored_chunks E pre cs" and "\<And>w. secretValue E w (secretName pre (length cs)) = Inl e"
    and "int (length cs) < n"
    and "\<And>i. i < length cs \<Longrightarrow> Call ''DeleteSecret'' [secretName pre i] \<notin> set (trace w)"
  shows "fetchChunks (SecretsManagerImpl E) pre n w =
    (Err e, w\<lparr>trace := trace w @ concat (map (chunk_events pre) [0..<length cs]) @
       [Call ''GetSecretValue'' [secretName pre (length cs)]]\<rparr>)"
proof -
  have "[0..<nat n] = [0..<length cs] @ length cs # [Suc (length cs)..<nat n]"
    using assms(3) upt_add_eq_append [of 0 "length cs" "nat n - length cs"] by (simp add: upt_conv_Cons)
  moreover have "concat (map (\<lambda>i. cs ! i) [0..<length cs]) = concat cs" by (simp add: map_nth)
  ultimately show ?thesis
    using fetch_fold_run [of "[0..<length cs]" pre E "\<lambda>i. cs ! i" w "[]"] assms
    by (simp add: fetchChunks_def stored_chunks_def fold_prog_append bind_run_Ok)
      (simp add: fetchChunk_def bind_def emit_def)
qed

section \<open>Files from user data\<close>

definition file_plan :: "'z bb_env_scheme \<Rightarrow> WriteFile \<Rightarrow> event list" where
  "file_plan E file = (case (ParseInt 8 (effectivePermissions file), lookupUser E (ownerName file)) of
     (Inr perm, Inr (uid, gid)) \<Rightarrow>
       [MkdirAll (Dir (Path file)) 416, event.WriteFile (Path file) (Content file) (FileMode perm),
        Chown (Path file) (Atoi_value uid) (Atoi_value gid)]
   | (Inr perm, Inl _) \<Rightarrow>
       [MkdirAll (Dir (Path file)) 416, event.WriteFile (Path file) (Content file) (FileMode perm)]
   | (Inl _, _) \<Rightarrow> [])"

lemma follows_Write: "follows (\<lambda>e. [e]) (Write E p c m) [MkdirAll (Dir p) 416, event.WriteFile p c m]"
proof -
  have "follows (\<lambda>e. [e]) (Write E p c m) ([MkdirAll (Dir p) 416] @ [event.WriteFile p c m])"
    unfolding Write_def by (intro follows_intro)
  then show ?thesis by simp
qed

lemma writeUserDataFile_follows: "follows (\<lambda>e. [e]) (writeUserDataFile E file) (file_plan E file)"
proof (cases "ParseInt 8 (effectivePermissions file)")
  case (Inr perm)
  let ?W = "[MkdirAll (Dir (Path file)) 416, event.WriteFile (Path file) (Content file) (FileMode perm)]"
  let ?rest = "case lookupUser E (ownerName file) of Inl _ \<Rightarrow> []
      | Inr (u, g) \<Rightarrow> [Chown (Path file) (Atoi_value u) (Atoi_value g)]"
  have rest: "follows (\<lambda>e. [e]) (bind (wrap ''Error getting user/group details ''
      (lift_sum (lookupUser E (ownerName file)))) (\<lambda>(uid, gid).
     wrap ''Error running chown to set owners/groups''
       (os_Chown E (Path file) (Atoi_value uid) (Atoi_value gid)))) ?rest"
    by (rule follows_wrap_sum) (auto split: prod.splits intro!: follows_intro)
  have "follows (\<lambda>e. [e]) (writeUserDataFile E file) (?W @ ?rest)"
    unfolding writeUserDataFile_def Inr lift_sum_simps wrap_simps bind_ret
    by (intro follows_bind follows_handlers(2) follows_Write rest)
  moreover have "file_plan E file = ?W @ ?rest"
    using Inr by (auto simp: file_plan_def split: sum.splits)
  ultimately show ?thesis by simp
qed (auto simp: writeUserDataFile_def intro: follows_stop)

text \<open>
  The regular file at a path, and the mode a file gets (before the umask): the permissions asked for
  when it is new, the mode it had otherwise.
\<close>

definition file_at :: "files \<Rightarrow> string \<Rightarrow> (string \<times> nat) option" where
  "file_at f p = (case fs_get f p of Some (File c m) \<Rightarrow> Some (c, m) | _ \<Rightarrow> None)"

definition mode_after :: "files \<Rightarrow> WriteFile \<Rightarrow> nat" where
  "mode_after f file = (case file_at f (Path file) of
       Some (_, m) \<Rightarrow> m
     | None \<Rightarrow> (case ParseInt 8 (effectivePermissions file) of Inr perm \<Rightarrow> FileMode perm | Inl _ \<Rightarrow> 0))"

lemma file_at_mkdirs [simp]: "file_at (fs_mkdirs p f) q = file_at f q"
  by (simp add: file_at_def fs_get_mkdirs)

lemma file_at_write:
  "file_at (fs_write p c m f) q = (if q = p then Some (c, case file_at f p of Some (_, m0) \<Rightarrow> m0 | None \<Rightarrow> m) else file_at f q)"
  by (simp add: file_at_def fs_write_def split: option.splits node.splits)

lemma writeUserDataFile_fs:
  assumes "writeUserDataFile E file w = (Ok (), w')"
  shows "file_at (fs w') q = (if q = Path file then Some (Content file, mode_after (fs w) file) else file_at (fs w) q)"
proof -
  from assms obtain perm w1 where perm: "ParseInt 8 (effectivePermissions file) = Inr perm"
    and stored: "Write E (Path file) (Content file) (FileMode perm) w = (Ok (), w1)" and "fs w' = fs w1"
    by (auto simp: writeUserDataFile_def bind_Ok_iff os_Chown_def with_io_def split: option.splits)
  moreover have "file_at (fs w1) q = file_at (fs_write (Path file) (Content file) (FileMode perm) (fs_mkdirs (Dir (Path file)) (fs w))) q"
    using stored by (auto simp: Write_def bind_Ok_iff os_MkdirAll_def os_WriteFile_def with_io_def split: option.splits if_splits)
  ultimately show ?thesis by (simp add: file_at_write mode_after_def split: option.splits)
qed

lemma for_each_Ok_fs:
  assumes "for_each fl (writeUserDataFile E) w = (Ok (), w')" and "distinct (map Path fl)"
  shows "file_at (fs w') q = (case find (\<lambda>f. Path f = q) fl of
      Some f \<Rightarrow> Some (Content f, mode_after (fs w) f) | None \<Rightarrow> file_at (fs w) q)"
  using assms
proof (induction fl arbitrary: w)
  case (Cons x fl)
  from Cons.prems(1) obtain w1 where one: "writeUserDataFile E x w = (Ok (), w1)"
    and rest: "for_each fl (writeUserDataFile E) w1 = (Ok (), w')"
    by (auto simp: bind_Ok_iff)
  have other: "Path f \<noteq> Path x" if "f \<in> set fl" for f
    using Cons.prems(2) that by (metis distinct.simps(2) image_eqI list.set_map list.simps(9))
  then have same: "mode_after (fs w1) f = mode_after (fs w) f" if "f \<in> set fl" for f
    using that writeUserDataFile_fs [OF one] by (simp add: mode_after_def)
  note rest' = Cons.IH [OF rest] writeUserDataFile_fs [OF one]
  show ?case
  proof (cases "find (\<lambda>f. Path f = q) fl")
    case None
    then show ?thesis using rest' Cons.prems(2) by auto
  next
    case (Some f)
    then have "f \<in> set fl" "Path f = q" by (auto simp: find_Some_iff)
    then show ?thesis using Some rest' Cons.prems(2) same [of f] other [of f] by auto
  qed
qed simp

lemma emits_load:
  assumes "\<And>n a. A (Call n a)"
  shows "emits A (processAWSSecretsManagerUserData E d (SecretsManagerImpl E))"
  unfolding processAWSSecretsManagerUserData_def loadUserDataFromSecretsManager_def fetchChunks_def fetchChunk_def
    GUnzipBytes_def
  by (auto simp: SecretsManagerImpl_def intro!: emits_intro assms)

lemma service_only:
  "bind (wrap s (NewSecretsManagerService E)) k =
   bind (wrap s (NewSecretsManagerService E)) (\<lambda>_. k (SecretsManagerImpl E))"
  by (auto simp: NewSecretsManagerService_def bind_def wrap_def map_err_def fun_eq_iff
      split: prod.splits outcome.splits)

lemma emits_buildUserData [emits_intro]:
  assumes "\<And>n a. A (Call n a)"
  shows "emits A (buildUserData E p)"
  unfolding buildUserData_def processUserData_def
  by (subst service_only) (auto simp: NewSecretsManagerService_def intro!: emits_intro emits_load assms)

lemma emits_userdata [emits_intro]:
  assumes "\<And>n a. A (Call n a)"
  shows "emits A (ResolveHostContainerUserData E)" "emits A (ResolveBootstrapContainerUserData E)"
  unfolding ResolveHostContainerUserData_def ResolveBootstrapContainerUserData_def
  by (intro emits_intro assms)+

lemma has_path_userdata [preserves_intro]:
  "preserves (has_path p) (ResolveBootstrapContainerUserData E)"
proof -
  have "preserves (has_path p) (processAWSSecretsManagerUserData E d (SecretsManagerImpl E))" for d
    unfolding processAWSSecretsManagerUserData_def loadUserDataFromSecretsManager_def fetchChunks_def fetchChunk_def
      GUnzipBytes_def
    by (auto simp: SecretsManagerImpl_def intro!: preserves_intro)
  then show ?thesis
    unfolding ResolveBootstrapContainerUserData_def buildUserData_def processUserData_def
    by (subst service_only) (auto simp: NewSecretsManagerService_def intro!: preserves_intro)
qed

section \<open>A concrete environment\<close>

text \<open>An environment in which nothing fails and nothing answers, to instantiate and override.\<close>

definition bb_quiet :: bb_env where
  "bb_quiet = \<lparr>
     ioerr = (\<lambda>_ _. None), runcmd = (\<lambda>w _. ([], None, fs w)), httpget = (\<lambda>_ _. (0, HttpFail ''refused'')),
     getenv = (\<lambda>_. None), getwd = Inr ''/'', hostname = Inr ''node'', lookPath = (\<lambda>n. n),
     meanwhile = (\<lambda>w _. fs w),
     yamlUserData = (\<lambda>_. Inl ''yaml''), yamlSecretsUserData = (\<lambda>_. Inl ''yaml''), yamlPod = (\<lambda>_. Inl ''yaml''),
     yamlMap = (\<lambda>_. Inl ''yaml''), gunzip = Inr, gzip = Inr, imdsRegion = (\<lambda>_. Inr ''us-west-2''),
     secretValue = (\<lambda>_ _. Inl ''not found''), secretDelete = (\<lambda>_ _. Inr ()),
     lookupUser = (\<lambda>_. Inr (''0'', ''0'')), dbusDial = (\<lambda>_. Inr ()),
     dbusAuth = (\<lambda>_. Inr ()), dbusHello = (\<lambda>_. Inr ()), unitEvents = (\<lambda>_. []),
     kubeconfigParse = (\<lambda>_. Inr (Inr [])), parseGeneric = (\<lambda>_. Inr [1, 30, 0]),
     versionCompare = (\<lambda>_ _. Inr 0), ebsReadTime = (\<lambda>_. 0), pollWins = (\<lambda>_. False)\<rparr>"

abbreviation start :: world where
  "start \<equiv> \<lparr>fs = [], trace = [], clock = 0\<rparr>"

section \<open>Properties\<close>

text \<open>
  C9.  Loading user data from Secrets Manager: when the chunks are stored under
  \<open>prefix-0\<close>, \<open>prefix-1\<close>, ... (each readable until it is deleted), their concatenation unzips to the
  base64 text of some data and that data decodes to user data, the load returns exactly this user
  data; it fetches the chunks in order and asks for the deletion of each one right after fetching
  it, whether or not the deletions succeed.
\<close>

theorem loadUserData_reassembles:
  assumes "stored_chunks E (Prefix (UserDataSource ud)) cs"
    and "Chunks (UserDataSource ud) = int (length cs)"
    and "\<forall>i < length cs. Call ''DeleteSecret'' [secretName (Prefix (UserDataSource ud)) i] \<notin> set (trace w)"
    and "gunzip E (concat cs) = Inr (EncodeToString d)" and "yamlUserData E d = Inr res"
  shows "loadUserDataFromSecretsManager E (SecretsManagerImpl E) ud w =
    (Ok res, w\<lparr>trace := trace w @
       concat (map (chunk_events (Prefix (UserDataSource ud))) [0..<length cs])\<rparr>)"
  using assms
  by (simp add: loadUserDataFromSecretsManager_def bind_run_Ok [OF fetchChunks_run] GUnzipBytes_def
      DecodeString_EncodeToString)

definition two_chunks :: bb_env where
  "two_chunks = bb_quiet\<lparr>
     secretValue := (\<lambda>w n. if n = ''p-0'' then Inr ''aGV'' else if n = ''p-1'' then Inr ''sbG8='' else Inl ''none''),
     yamlUserData := (\<lambda>d. if d = ''hello'' then Inr \<lparr>UserDataType = [], WriteFiles = [], RunCmd = d\<rparr>
       else Inl ''bad'')\<rparr>"

theorem loadUserData_reassembles_witness:
  "fst (loadUserDataFromSecretsManager two_chunks (SecretsManagerImpl two_chunks)
     \<lparr>SecretUserDataType = awsSecretsManager,
      UserDataSource = \<lparr>Provider = [], Prefix = ''p'', Chunks = 2\<rparr>\<rparr> start) =
   Ok \<lparr>UserDataType = [], WriteFiles = [], RunCmd = ''hello''\<rparr>"
proof -
  have "EncodeToString ''hello'' = ''aGVsbG8=''" by code_simp
  moreover have "secretName ''p'' 0 = ''p-0''" "secretName ''p'' 1 = ''p-1''" by code_simp+
  ultimately show ?thesis
    using loadUserData_reassembles [of two_chunks
      "\<lparr>SecretUserDataType = awsSecretsManager, UserDataSource = \<lparr>Provider = [], Prefix = ''p'', Chunks = 2\<rparr>\<rparr>"
      "[''aGV'', ''sbG8='']" start "''hello''" "\<lparr>UserDataType = [], WriteFiles = [], RunCmd = ''hello''\<rparr>"]
    by (simp add: two_chunks_def bb_quiet_def stored_chunks_def less_Suc_eq)
qed

text \<open>
  C38.  A chunk that cannot be fetched makes the load fail with the error of the fetch, and by then
  the deletion of every earlier chunk has been asked for: a later attempt cannot read them again.
\<close>

theorem loadUserData_loses_chunks:
  assumes "stored_chunks E (Prefix (UserDataSource ud)) cs"
    and "\<forall>v. secretValue E v (secretName (Prefix (UserDataSource ud)) (length cs)) = Inl e"
    and "int (length cs) < Chunks (UserDataSource ud)"
    and "\<forall>i < length cs. Call ''DeleteSecret'' [secretName (Prefix (UserDataSource ud)) i] \<notin> set (trace w)"
  shows "\<exists>w'. loadUserDataFromSecretsManager E (SecretsManagerImpl E) ud w = (Err e, w')
    \<and> (\<forall>i < length cs. Call ''DeleteSecret'' [secretName (Prefix (UserDataSource ud)) i] \<in> set (trace w'))"
proof -
  have "fetchChunks (SecretsManagerImpl E) (Prefix (UserDataSource ud)) (Chunks (UserDataSource ud)) w =
      (Err e, w\<lparr>trace := trace w @ concat (map (chunk_events (Prefix (UserDataSource ud))) [0..<length cs]) @
        [Call ''GetSecretValue'' [secretName (Prefix (UserDataSource ud)) (length cs)]]\<rparr>)"
    using assms by (intro fetchChunks_missing) auto
  then show ?thesis
    by (auto simp: loadUserDataFromSecretsManager_def bind_run_abort chunk_events_def)
qed

theorem loadUserData_loses_chunks_witness:
  "\<exists>w'. loadUserDataFromSecretsManager two_chunks (SecretsManagerImpl two_chunks)
     \<lparr>SecretUserDataType = awsSecretsManager,
      UserDataSource = \<lparr>Provider = [], Prefix = ''p'', Chunks = 3\<rparr>\<rparr> start = (Err ''none'', w')
   \<and> Call ''DeleteSecret'' [''p-0''] \<in> set (trace w') \<and> Call ''DeleteSecret'' [''p-1''] \<in> set (trace w')"
proof -
  have n: "secretName ''p'' 0 = ''p-0''" "secretName ''p'' 1 = ''p-1''" "secretName ''p'' 2 = ''p-2''"
    by code_simp+
  then show ?thesis
    using loadUserData_loses_chunks [of two_chunks
      "\<lparr>SecretUserDataType = awsSecretsManager, UserDataSource = \<lparr>Provider = [], Prefix = ''p'', Chunks = 3\<rparr>\<rparr>"
      "[''aGV'', ''sbG8='']" "''none''" start]
    by (simp add: two_chunks_def bb_quiet_def stored_chunks_def less_Suc_eq numeral_2_eq_2) force
qed

text \<open>
  Writing the files of the user data follows the list: for each file, in order, its directory,
  the file with its content and the parsed permissions (\<open>0640\<close> when none are given), then its owner.
  A failure stops the sequence; on success it is complete.
\<close>

theorem WriteUserDataFiles_sequence:
  "follows (\<lambda>e. [e]) (WriteUserDataFiles E ud) (concat (map (file_plan E) (WriteFiles ud)))"
  unfolding WriteUserDataFiles_def by (intro follows_for_each writeUserDataFile_follows)


definition two_files :: UserData where
  "two_files = \<lparr>UserDataType = [], WriteFiles =
     [\<lparr>Path = ''/tmp/a'', Owner = ''root:root'', Permissions = [], Content = ''x''\<rparr>,
      \<lparr>Path = ''/tmp/b'', Owner = ''root:root'', Permissions = ''0600'', Content = ''y''\<rparr>], RunCmd = []\<rparr>"


end
