(* ===== verification/BB_Waiters.thy ===== *)
theory BB_Waiters
  imports BB_Userdata
begin

text \<open>
  \<open>pkg/utils/parsers.go\<close>, \<open>pods.go\<close> and \<open>waiters.go\<close>: the kubeconfig and pod parsers, enabling static
  pods through the Bottlerocket API, and the waiting loops (systemd unit, HTTP 200, generated
  files).  Waiting is modelled in time: a loop advances the clock by what it waited.
\<close>

section \<open>pkg/utils/parsers.go\<close>

definition getKubeConfigRaw :: "'z bb_env_scheme \<Rightarrow> string \<Rightarrow> (world, (string \<times> string) list) prog" where
  "getKubeConfigRaw E path =
     bind (wrap (''Error reading kubeconfig '' @ path) (os_ReadFile E path)) (\<lambda>kubeData.
     bind (wrap ''Error generating kubeconfig from clientset'' (lift_sum (kubeconfigParse E kubeData))) (\<lambda>raw.
     wrap ''Error getting rawconfig from kubeconfig'' (lift_sum raw)))"

text \<open>
  With no cluster or several clusters the source wraps a nil error, and wrapping nil gives nil: the
  caller gets the empty server name and no error.
\<close>

definition GetApiServerFromKubeConfig :: "'z bb_env_scheme \<Rightarrow> string \<Rightarrow> (world, string) prog" where
  "GetApiServerFromKubeConfig E path =
     bind (wrap ''Error getting kubeconfig parsed into raw config'' (getKubeConfigRaw E path)) (\<lambda>clusters.
     if length clusters \<noteq> 1 then ret []
     else ret (snd (hd clusters)))"

definition UnmarshalPodDefinition :: "'z bb_env_scheme \<Rightarrow> string \<Rightarrow> (world, Pod) prog" where
  "UnmarshalPodDefinition E podDef =
     wrap ''Error getting unmarshalling pod spec into structs'' (lift_sum (yamlPod E podDef))"

section \<open>pkg/utils/pods.go\<close>

definition isPodFile :: "string \<Rightarrow> bool" where
  "isPodFile name \<longleftrightarrow> Ext name \<in> {''.yaml'', ''.manifest''}"

definition staticPodCommand :: "string \<Rightarrow> string \<Rightarrow> string list" where
  "staticPodCommand baseFileName b64Manifest =
     [''bash'', ''-c'',
      ''apiclient set \"kubernetes.static-pods.'' @ baseFileName @ ''.manifest\"=\"'' @ b64Manifest @
      ''\" \"kubernetes.static-pods.'' @ baseFileName @ ''.enabled\"=true'']"

definition enableStaticPod :: "'z bb_env_scheme \<Rightarrow> string \<Rightarrow> Pod list \<Rightarrow> string \<Rightarrow> (world, Pod list) prog" where
  "enableStaticPod E path pods name =
     (if \<not> isPodFile name then ret pods
      else
        bind (wrap (''Error reading file '' @ name) (os_ReadFile E (path_Join [path, name]))) (\<lambda>fileData.
        bind (exec_cmd E Combined
            (staticPodCommand (TrimSuffix name (Ext name)) (EncodeToString fileData))) (\<lambda>(out, err).
        case err of
          Some e \<Rightarrow> fail (''error running apiclient command for static pod: '' @ e @ '': '' @ e)
        | None \<Rightarrow>
            bind (wrap ''Error getting pod def from manifest'' (UnmarshalPodDefinition E fileData)) (\<lambda>podDef.
            ret (pods @ [podDef])))))"

definition EnableStaticPods :: "'z bb_env_scheme \<Rightarrow> string \<Rightarrow> (world, Pod list) prog" where
  "EnableStaticPods E path =
     bind (wrap ''error reading from manifest path'' (os_ReadDir E path)) (\<lambda>entries.
     fold_prog (enableStaticPod E path) [] (map fst entries))"

section \<open>WaitForSystemdService\<close>

definition KubeletService :: string where
  "KubeletService = ''kubelet.service''"

definition MultiUserTarget :: string where
  "MultiUserTarget = ''multi-user.target''"

definition dbusConnection :: "'z bb_env_scheme \<Rightarrow> (world, unit) prog" where
  "dbusConnection E =
     bind (wrap ''Error dialing br systemd'' (\<lambda>w. lift_sum (dbusDial E w) w)) (\<lambda>_.
     bind (wrap ''Error running auth on dbus connection'' (\<lambda>w. lift_sum (dbusAuth E w) w)) (\<lambda>_.
     wrap ''Error running hello handshake on dbus connection'' (\<lambda>w. lift_sum (dbusHello E w) w)))"

datatype readiness = Ready | NotReady | NilUnit

definition unitReadiness :: "string \<Rightarrow> (string \<times> (string \<times> string) option) list \<Rightarrow> readiness" where
  "unitReadiness service unitStatus = (case map_of unitStatus service of
       None \<Rightarrow> NotReady
     | Some None \<Rightarrow> NilUnit
     | Some (Some (activeState, subState)) \<Rightarrow>
         if activeState = ''active'' \<and>
            (if HasSuffix service ''.service'' then subState = ''running''
             else HasSuffix service ''.target'' \<and> subState = ''active'')
         then Ready else NotReady)"

text \<open>
  The select loop over the messages still to come, each with its delay.  The timer is created
  afresh in every iteration, so a message that arrives in time starts it again.
\<close>

fun unitLoop :: "'z bb_env_scheme \<Rightarrow> string \<Rightarrow> nat \<Rightarrow> (nat \<times> unit_event) list \<Rightarrow> (world, unit) prog" where
  "unitLoop E service timeout [] w = (Err ''Timeout checking for kubelet status'', pass_time E timeout w)"
| "unitLoop E service timeout ((d, msg) # msgs) w =
     (if timeout \<le> d then (Err ''Timeout checking for kubelet status'', pass_time E timeout w)
      else (case msg of
          SubscribeErr e \<Rightarrow> (Err (''Error while checking for kubelet status: '' @ e), pass_time E d w)
        | StatusChange unitStatus \<Rightarrow> (case unitReadiness service unitStatus of
              Ready \<Rightarrow> (Ok (), pass_time E d w)
            | NilUnit \<Rightarrow> (Panic ''nil pointer dereference'', pass_time E d w)
            | NotReady \<Rightarrow> unitLoop E service timeout msgs (pass_time E d w))))"

definition WaitForSystemdService :: "'z bb_env_scheme \<Rightarrow> string \<Rightarrow> nat \<Rightarrow> (world, unit) prog" where
  "WaitForSystemdService E service timeout =
     bind (wrap ''Error creating systemd dbus connection'' (dbusConnection E)) (\<lambda>_.
     (\<lambda>w. unitLoop E service timeout (unitEvents E w) w))"

section \<open>WaitFor200\<close>

function wait200_loop :: "'z env_scheme \<Rightarrow> string \<Rightarrow> nat \<Rightarrow> (world, unit) prog" where
  "wait200_loop E url deadline w =
     (if deadline \<le> clock w then (Err ''Timeout occurred while waiting for 200 OK'', w)
      else (case http_Get_limit E (60 * second) url w of
          (Ok (HttpFail _), w1) \<Rightarrow> wait200_loop E url deadline (sleep_for E (10 * second) w1)
        | (Ok (HttpReply code body), w1) \<Rightarrow> (case body of
              Inl e \<Rightarrow> (Err (''Error reading body from response of http get call: '' @ e), w1)
            | Inr _ \<Rightarrow>
                if code \<noteq> 200 then wait200_loop E url deadline (sleep_for E (10 * second) w1)
                else (Ok (), w1))
        | (r, w1) \<Rightarrow> (abort_as r, w1)))"
  by pat_completeness auto

lemma http_Get_limit_clock:
  "http_Get_limit E lim url w = (r, w1) \<Longrightarrow> clock w \<le> clock w1 \<and> clock w1 \<le> clock w + lim"
  by (auto simp: http_Get_limit_def split: prod.splits if_splits)

termination wait200_loop
  by (relation "measure (\<lambda>(E, url, deadline, w). deadline - clock w)")
    (auto dest!: http_Get_limit_clock [OF sym])

declare wait200_loop.simps [simp del]

definition WaitFor200 :: "'z env_scheme \<Rightarrow> string \<Rightarrow> nat \<Rightarrow> (world, unit) prog" where
  "WaitFor200 E url timeout = (\<lambda>w. wait200_loop E url (clock w + timeout) w)"

section \<open>KillCmdAfterFilesGeneration\<close>

definition fileMissing :: "'z env_scheme \<Rightarrow> world \<Rightarrow> string \<Rightarrow> bool" where
  "fileMissing E w f \<longleftrightarrow> (case fst (os_Stat E f w) of Ok (NotExist _) \<Rightarrow> True | _ \<Rightarrow> False)"

definition allFilesExist :: "'z env_scheme \<Rightarrow> world \<Rightarrow> string list \<Rightarrow> bool" where
  "allFilesExist E w checkFiles \<longleftrightarrow> list_all (\<lambda>f. \<not> fileMissing E w f) checkFiles"

text \<open>
  The poller looks every two seconds, the timer fires after forty: twenty looks, and when the last
  one and the timer fall together either may win.
\<close>

fun pollFiles :: "'z bb_env_scheme \<Rightarrow> string list \<Rightarrow> nat \<Rightarrow> world \<Rightarrow> bool \<times> world" where
  "pollFiles E checkFiles 0 w = (False, w)"
| "pollFiles E checkFiles (Suc n) w =
     (let w1 = sleep_for E (2 * second) w
      in if allFilesExist E w1 checkFiles \<and> (n > 0 \<or> pollWins E w1) then (True, w1)
         else pollFiles E checkFiles n w1)"

definition KillCmdAfterFilesGeneration ::
  "'z bb_env_scheme \<Rightarrow> string list \<Rightarrow> string list \<Rightarrow> (world, unit) prog" where
  "KillCmdAfterFilesGeneration E cmd checkFiles = (\<lambda>w. case pollFiles E checkFiles 20 w of
       (ok, w1) \<Rightarrow> ((if ok then Ok () else Err ''Kubeadm join kubelet-start killed after timeout''),
                    emit (Kill cmd) w1))"

section \<open>Pod liveness\<close>

definition probeURL :: "string \<Rightarrow> HTTPGetAction \<Rightarrow> string" where
  "probeURL scheme h = scheme @ ''://'' @ Host h @ '':'' @ Itoa (PortIntVal h) @ ProbePath h"

definition livenessURL :: "HTTPGetAction \<Rightarrow> string" where
  "livenessURL h = probeURL (if Scheme h \<noteq> [] then Scheme h else ''http'') h"

definition waitForPodLiveness :: "'z env_scheme \<Rightarrow> Pod \<Rightarrow> (world, unit) prog" where
  "waitForPodLiveness E pod = for_each (Containers pod) (\<lambda>container.
     case LivenessProbe container of
       None \<Rightarrow> ret ()
     | Some handler \<Rightarrow>
         bind (deref handler) (\<lambda>h.
         wrap ''Error waiting for 200 OK'' (WaitFor200 E (livenessURL h) (300 * second))))"

definition WaitForPods :: "'z env_scheme \<Rightarrow> Pod list \<Rightarrow> (world, unit) prog" where
  "WaitForPods E pods = for_each pods (\<lambda>pod.
     wrap (''Error checking liveness probe for pod: '' @ PodName pod) (waitForPodLiveness E pod))"

section \<open>Waiting for HTTP 200\<close>

lemma http_Get_limit_trace:
  "http_Get_limit E lim url w = (r, w1) \<Longrightarrow> trace w1 = trace w @ [HttpGet url]"
  by (auto simp: http_Get_limit_def split: prod.splits if_splits)

lemma http_Get_limit_Ok: "\<exists>r w1. http_Get_limit E lim url w = (Ok r, w1)"
  by (simp add: http_Get_limit_def split: prod.splits)

text \<open>One round of the loop either ends it or goes on ten seconds after the answer.\<close>

definition answered :: "'z env_scheme \<Rightarrow> string \<Rightarrow> world \<Rightarrow> bool" where
  "answered E url v \<longleftrightarrow> (\<exists>d body. httpget E v url = (d, HttpReply 200 (Inr body)) \<and> d \<le> 60 * second)"

definition body_error :: "'z env_scheme \<Rightarrow> string \<Rightarrow> world \<Rightarrow> bool" where
  "body_error E url v \<longleftrightarrow> (\<exists>d code e. httpget E v url = (d, HttpReply code (Inl e)) \<and> d \<le> 60 * second)"

lemma wait200_round:
  assumes "clock w < deadline"
  obtains (stop) r w1 where "wait200_loop E url deadline w = (r, w1)" "r = Ok () \<or> (\<exists>e. r = Err e)"
      "r = Ok () \<longleftrightarrow> answered E url w" "answered E url w \<or> body_error E url w"
      "clock w \<le> clock w1" "clock w1 \<le> clock w + 60 * second" "trace w1 = trace w @ [HttpGet url]"
    | (again) w1 where "wait200_loop E url deadline w = wait200_loop E url deadline (sleep_for E (10 * second) w1)"
      "\<not> answered E url w" "clock w \<le> clock w1" "clock w1 \<le> clock w + 60 * second"
      "trace w1 = trace w @ [HttpGet url]"
proof -
  obtain reply w1 where run: "http_Get_limit E (60 * second) url w = (Ok reply, w1)"
    using http_Get_limit_Ok by blast
  note facts = http_Get_limit_clock [OF run] http_Get_limit_trace [OF run]
  have ans: "answered E url w \<longleftrightarrow> (\<exists>body. reply = HttpReply 200 (Inr body))"
    using run by (auto simp: answered_def http_Get_limit_def split: prod.splits if_splits)
  have bad: "body_error E url w \<longleftrightarrow> (\<exists>code e. reply = HttpReply code (Inl e))"
    using run by (auto simp: body_error_def http_Get_limit_def split: prod.splits if_splits)
  show thesis
  proof (cases reply)
    case (HttpFail e)
    with run facts ans bad assms show thesis
      by (intro again [of w1]) (auto simp: wait200_loop.simps [of E url deadline w])
  next
    case (HttpReply code body)
    with run facts ans bad assms show thesis
    proof (cases "code = 200 \<or> isl body")
      case True
      with HttpReply run facts ans bad assms show thesis
        by (cases body; intro stop [of "fst (wait200_loop E url deadline w)" w1];
            simp add: wait200_loop.simps [of E url deadline w])
    next
      case False
      with HttpReply run facts ans bad assms show thesis
        by (intro again [of w1])
          (auto simp: wait200_loop.simps [of E url deadline w] split: sum.splits)
    qed
  qed
qed

lemma wait200_facts:
  "\<exists>r w1 t. wait200_loop E url deadline w = (r, w1) \<and> (r = Ok () \<or> (\<exists>e. r = Err e))
    \<and> clock w \<le> clock w1 \<and> clock w1 \<le> max (clock w) (deadline + 70 * second)
    \<and> trace w1 = trace w @ t \<and> set t \<subseteq> {HttpGet url, Sleep (10 * second)}
    \<and> (r = Ok () \<longrightarrow> (\<exists>v. answered E url v \<and> clock v < deadline))"
proof (induction "deadline - clock w" arbitrary: w rule: less_induct)
  case less
  show ?case
  proof (cases "clock w < deadline")
    case False
    then show ?thesis by (auto simp: wait200_loop.simps [of E url deadline w])
  next
    case True
    then show ?thesis
    proof (cases rule: wait200_round [where E = E and url = url])
      case (stop r w1)
      with True show ?thesis by (intro exI [of _ r] exI [of _ w1] exI [of _ "[HttpGet url]"]) auto
    next
      case (again w1)
      let ?w = "sleep_for E (10 * second) w1"
      have "deadline - clock ?w < deadline - clock w" using again True by simp
      from less.hyps [OF this] obtain r w2 t where "wait200_loop E url deadline ?w = (r, w2)"
          "r = Ok () \<or> (\<exists>e. r = Err e)" "clock ?w \<le> clock w2"
          "clock w2 \<le> max (clock ?w) (deadline + 70 * second)" "trace w2 = trace ?w @ t"
          "set t \<subseteq> {HttpGet url, Sleep (10 * second)}"
          "r = Ok () \<longrightarrow> (\<exists>v. answered E url v \<and> clock v < deadline)"
        by blast
      with again True show ?thesis
        by (intro exI [of _ r] exI [of _ w2] exI [of _ "[HttpGet url, Sleep (10 * second)] @ t"]) auto
    qed
  qed
qed

lemma wait200_succeeds:
  assumes "\<And>v. T \<le> clock v \<Longrightarrow> answered E url v" and "\<And>v. \<not> body_error E url v"
    and "T + 70 * second \<le> deadline" and "clock w < deadline"
  shows "\<exists>w1. wait200_loop E url deadline w = (Ok (), w1)"
  using assms(4)
proof (induction "deadline - clock w" arbitrary: w rule: less_induct)
  case less
  from less.prems show ?case
  proof (cases rule: wait200_round [where E = E and url = url])
    case (stop r w1)
    then show ?thesis using assms(2) by auto
  next
    case (again w1)
    with assms(1) [of w] have "clock w < T" by force
    with again assms(3) have "clock (sleep_for E (10 * second) w1) < deadline" by simp
    then show ?thesis using again less.hyps [of "sleep_for E (10 * second) w1"] less.prems by simp
  qed
qed

lemma emits_WaitFor200 [emits_intro]:
  assumes "A (HttpGet url)" "A (Sleep (10 * second))"
  shows "emits A (WaitFor200 E url timeout)"
proof (rule emitsI)
  fix w
  show "\<exists>t. trace (snd (WaitFor200 E url timeout w)) = trace w @ t \<and> list_all A t"
    using wait200_facts [of E url "clock w + timeout" w] assms
    by (fastforce simp: WaitFor200_def list_all_iff)
qed

text \<open>
  C22.  Waiting for HTTP 200 always ends: it returns or fails with an error, at most 70 seconds
  (one request of a minute and one pause) after the time allowed, having only sent requests to the
  URL and slept ten seconds between them; and it succeeds only if the URL answered 200, with a
  readable body, to a request sent in the time allowed.
\<close>

theorem WaitFor200_bounded:
  "\<exists>r w1 t. WaitFor200 E url timeout w = (r, w1) \<and> (r = Ok () \<or> (\<exists>e. r = Err e))
    \<and> clock w1 \<le> clock w + timeout + 70 * second
    \<and> trace w1 = trace w @ t \<and> set t \<subseteq> {HttpGet url, Sleep (10 * second)}
    \<and> (r = Ok () \<longrightarrow> (\<exists>v. answered E url v \<and> clock v < clock w + timeout))"
  using wait200_facts [of E url "clock w + timeout" w] unfolding WaitFor200_def
  by (simp add: max_def) blast

theorem WaitFor200_bounded_witness:
  "clock (snd (WaitFor200 bb_quiet ''http://x'' (30 * second) start)) \<le> 100 * second"
  using WaitFor200_bounded [of bb_quiet "''http://x''" "30 * second" start] by auto

text \<open>
  C23.  Waiting for HTTP 200 succeeds if the server becomes ready in time: if every request from some
  moment on is answered 200 within a minute, no body is ever cut off, and that moment is at least
  70 seconds before the end of the time allowed, the call returns without error.
\<close>

theorem WaitFor200_succeeds:
  assumes "\<forall>v. T \<le> clock v \<longrightarrow> answered E url v" and "\<forall>v. \<not> body_error E url v"
    and "T + 70 * second \<le> clock w + timeout" and "0 < timeout"
  shows "\<exists>w1. WaitFor200 E url timeout w = (Ok (), w1)"
  unfolding WaitFor200_def using assms by (intro wait200_succeeds [of T]) auto

definition ready_after_20s :: bb_env where
  "ready_after_20s = bb_quiet\<lparr>httpget := (\<lambda>w _. if clock w < 20 * second then (second, HttpFail ''refused'')
     else (second, HttpReply 200 (Inr ''ok'')))\<rparr>"

theorem WaitFor200_succeeds_witness:
  "\<exists>w1. WaitFor200 ready_after_20s ''http://x'' (300 * second) start = (Ok (), w1)"
  by (rule WaitFor200_succeeds [of "20 * second"])
    (auto simp: ready_after_20s_def answered_def body_error_def)

section \<open>Waiting for a systemd unit\<close>

lemma unitLoop_facts:
  "\<exists>r w1. unitLoop E service timeout msgs w = (r, w1) \<and> trace w1 = trace w
    \<and> clock w \<le> clock w1 \<and> clock w1 \<le> clock w + (length msgs + 1) * timeout
    \<and> (r = Ok () \<longrightarrow> (\<exists>d m. (d, StatusChange m) \<in> set msgs \<and> unitReadiness service m = Ready))"
proof (induction msgs arbitrary: w)
  case (Cons dm msgs)
  obtain d m where dm: "dm = (d, m)" by fastforce
  obtain r w1 where IH: "unitLoop E service timeout msgs (pass_time E d w) = (r, w1)" "trace w1 = trace w"
      "clock w + d \<le> clock w1" "clock w1 \<le> clock w + d + (length msgs + 1) * timeout"
      "r = Ok () \<longrightarrow> (\<exists>d m. (d, StatusChange m) \<in> set msgs \<and> unitReadiness service m = Ready)"
    using Cons.IH [of "pass_time E d w"] by auto
  then show ?case using dm by (auto split: unit_event.splits readiness.splits)
qed auto

text \<open>
  Waiting for a systemd unit succeeds only on a status message in which the unit is ready: a
  service active and running, a target active.
\<close>

theorem WaitForSystemdService_ready:
  assumes "WaitForSystemdService E service timeout w = (Ok (), w')"
  shows "\<exists>d m active sub. (d, StatusChange m) \<in> set (unitEvents E w)
    \<and> map_of m service = Some (Some (active, sub)) \<and> active = ''active''
    \<and> (HasSuffix service ''.service'' \<and> sub = ''running'' \<or> HasSuffix service ''.target'' \<and> sub = ''active'')"
proof -
  have "dbusConnection E w = (Ok (), w)"
    and "unitLoop E service timeout (unitEvents E w) w = (Ok (), w')"
    using assms by (auto simp: WaitForSystemdService_def dbusConnection_def bind_Ok_iff)
  then obtain d m where "(d, StatusChange m) \<in> set (unitEvents E w)" "unitReadiness service m = Ready"
    using unitLoop_facts [of E service timeout "unitEvents E w" w] by auto
  then show ?thesis
    by (auto simp: unitReadiness_def split: option.splits if_splits intro!: exI [of _ d] exI [of _ m])
qed

definition kubelet_up :: bb_env where
  "kubelet_up = bb_quiet\<lparr>unitEvents := (\<lambda>_.
     [(second, StatusChange [(''kubelet.service'', Some (''active'', ''running''))])])\<rparr>"

theorem WaitForSystemdService_ready_witness:
  "\<exists>d m active sub. (d, StatusChange m) \<in> set (unitEvents kubelet_up start)
    \<and> map_of m KubeletService = Some (Some (active, sub)) \<and> active = ''active''
    \<and> (HasSuffix KubeletService ''.service'' \<and> sub = ''running''
       \<or> HasSuffix KubeletService ''.target'' \<and> sub = ''active'')"
proof (rule WaitForSystemdService_ready)
  show "WaitForSystemdService kubelet_up KubeletService (30 * second) start =
      (Ok (), pass_time kubelet_up second start)"
    by (simp add: WaitForSystemdService_def dbusConnection_def kubelet_up_def bb_quiet_def bind_def
        wrap_def map_err_def unitReadiness_def KubeletService_def HasSuffix_def suffix_def)
qed

lemma unitLoop_chatter:
  assumes "d < timeout"
  shows "\<exists>w'. unitLoop E service timeout (replicate n (d, StatusChange [])) w =
    (Err ''Timeout checking for kubelet status'', w') \<and> clock w' = clock w + n * d + timeout"
proof (induction n arbitrary: w)
  case (Suc n)
  then show ?case using assms Suc.IH [of "pass_time E d w"] by (auto simp: unitReadiness_def)
qed simp



section \<open>Killing a command after its files appear\<close>

lemma pollFiles_facts:
  "\<exists>k \<le> n. \<exists>ok w1. pollFiles E fl n w = (ok, w1) \<and> trace w1 = trace w @ replicate k (Sleep (2 * second))
    \<and> clock w1 = clock w + k * (2 * second) \<and> (ok \<longrightarrow> 0 < k \<and> allFilesExist E w1 fl) \<and> (\<not> ok \<longrightarrow> k = n)"
proof (induction n arbitrary: w)
  case (Suc n)
  let ?w = "sleep_for E (2 * second) w"
  show ?case
  proof (cases "allFilesExist E ?w fl \<and> (n > 0 \<or> pollWins E ?w)")
    case True
    then show ?thesis by (intro exI [of _ 1] conjI exI [of _ True] exI [of _ ?w]) (auto simp: Let_def)
  next
    case False
    obtain k ok w1 where "k \<le> n" "pollFiles E fl n ?w = (ok, w1)"
        "trace w1 = trace ?w @ replicate k (Sleep (2 * second))" "clock w1 = clock ?w + k * (2 * second)"
        "ok \<longrightarrow> 0 < k \<and> allFilesExist E w1 fl" "\<not> ok \<longrightarrow> k = n"
      using Suc.IH [of ?w] by blast
    with False show ?thesis by (intro exI [of _ "Suc k"]) (auto simp: Let_def)
  qed
qed (auto intro: exI [of _ False])

text \<open>
  The command started in the background is killed exactly once, whatever happens, as the last
  thing done and at most forty seconds after the wait began; the call succeeds only if at that
  moment no checked file is missing, and a failure is reported only after the forty seconds.
\<close>

theorem KillCmdAfterFilesGeneration_kills:
  "\<exists>k ok w1. KillCmdAfterFilesGeneration E cmd fl w =
      ((if ok then Ok () else Err ''Kubeadm join kubelet-start killed after timeout''), w1)
    \<and> trace w1 = trace w @ replicate k (Sleep (2 * second)) @ [Kill cmd]
    \<and> clock w1 = clock w + k * (2 * second) \<and> k \<le> 20
    \<and> (if ok then allFilesExist E (w1\<lparr>trace := butlast (trace w1)\<rparr>) fl else k = 20)"
proof -
  obtain k ok w1 where run: "k \<le> 20" "pollFiles E fl 20 w = (ok, w1)"
      "trace w1 = trace w @ replicate k (Sleep (2 * second))" "clock w1 = clock w + k * (2 * second)"
      "ok \<longrightarrow> allFilesExist E w1 fl" "\<not> ok \<longrightarrow> k = 20"
    using pollFiles_facts [of 20 E fl w] by blast
  moreover have "(emit (Kill cmd) w1)\<lparr>trace := butlast (trace (emit (Kill cmd) w1))\<rparr> = w1"
    by (simp add: emit_def)
  ultimately show ?thesis
    by (intro exI [of _ k] exI [of _ ok] exI [of _ "emit (Kill cmd) w1"])
      (auto simp: KillCmdAfterFilesGeneration_def)
qed

lemma emits_KillCmd [emits_intro]:
  assumes "A (Kill cmd)" "A (Sleep (2 * second))"
  shows "emits A (KillCmdAfterFilesGeneration E cmd fl)"
proof (rule emitsI)
  fix w
  show "\<exists>t. trace (snd (KillCmdAfterFilesGeneration E cmd fl w)) = trace w @ t \<and> list_all A t"
    using pollFiles_facts [of 20 E fl w] assms
    by (fastforce simp: KillCmdAfterFilesGeneration_def list_all_iff)
qed

section \<open>Static pods\<close>

lemma emits_EnableStaticPods [emits_intro]:
  assumes "\<And>n c. A (Exec Combined (staticPodCommand n c))"
  shows "emits A (EnableStaticPods E path)"
  using assms
  by (auto simp: EnableStaticPods_def enableStaticPod_def UnmarshalPodDefinition_def
      split: option.splits intro!: emits_intro)

lemma emits_WaitForSystemdService [emits_intro]: "emits A (WaitForSystemdService E service timeout)"
proof -
  have "emits A (\<lambda>w. unitLoop E service timeout (unitEvents E w) w)"
  proof (rule emitsI)
    fix w
    show "\<exists>t. trace (snd (unitLoop E service timeout (unitEvents E w) w)) = trace w @ t \<and> list_all A t"
      using unitLoop_facts [of E service timeout "unitEvents E w" w] by (intro exI [of _ "[]"]) auto
  qed
  moreover have "emits A (\<lambda>w. lift_sum (f w) w)" for f :: "world \<Rightarrow> string + unit"
    by (auto simp: emits_def lift_sum_def split: sum.splits)
  ultimately show ?thesis
    by (auto simp: WaitForSystemdService_def dbusConnection_def intro!: emits_intro)
qed

lemma emits_WaitForPods [emits_intro]:
  assumes "\<And>u. A (HttpGet u)" "A (Sleep (10 * second))"
  shows "emits A (WaitForPods E pods)"
  using assms
  by (auto simp: WaitForPods_def waitForPodLiveness_def split: option.splits intro!: emits_intro)

definition enable_events :: "(string \<times> string) list \<Rightarrow> event list" where
  "enable_events ncs = map (\<lambda>(n, c).
     Exec Combined (staticPodCommand (TrimSuffix n (Ext n)) (EncodeToString c))) ncs"

lemma enableStaticPod_Ok:
  assumes "enableStaticPod E path pods n w = (Ok pods', w')" and "isPodFile n"
  shows "\<exists>c pod. yamlPod E c = Inr pod \<and> pods' = pods @ [pod]
    \<and> trace w' = trace w @ enable_events [(n, c)] \<and> (\<exists>m. fs_get (fs w) (path_Join [path, n]) = Some (File c m))"
  using assms
  by (auto simp: enableStaticPod_def bind_Ok_iff os_ReadFile_def exec_cmd_def UnmarshalPodDefinition_def
      enable_events_def split: option.splits node.splits prod.splits)

lemma enableStaticPods_fold:
  assumes "fold_prog (enableStaticPod E path) pods ns w = (Ok pods', w')"
  shows "\<exists>cs new. length cs = length (filter isPodFile ns) \<and> pods' = pods @ new
    \<and> list_all2 (\<lambda>c pod. yamlPod E c = Inr pod) cs new
    \<and> trace w' = trace w @ enable_events (zip (filter isPodFile ns) cs)"
  using assms
proof (induction ns arbitrary: pods w)
  case (Cons n ns)
  then obtain p1 w1 where one: "enableStaticPod E path pods n w = (Ok p1, w1)"
    and rest: "fold_prog (enableStaticPod E path) p1 ns w1 = (Ok pods', w')"
    by (auto simp: bind_Ok_iff)
  from Cons.IH [OF rest] obtain cs new where IH: "length cs = length (filter isPodFile ns)"
      "pods' = p1 @ new" "list_all2 (\<lambda>c pod. yamlPod E c = Inr pod) cs new"
      "trace w' = trace w1 @ enable_events (zip (filter isPodFile ns) cs)"
    by blast
  show ?case
  proof (cases "isPodFile n")
    case True
    from enableStaticPod_Ok [OF one True] obtain c pod where "yamlPod E c = Inr pod" "p1 = pods @ [pod]"
        "trace w1 = trace w @ enable_events [(n, c)]"
      by blast
    with True IH show ?thesis
      by (intro exI [of _ "c # cs"] exI [of _ "pod # new"]) (simp add: enable_events_def)
  next
    case False
    with one have "p1 = pods" "w1 = w" by (simp_all add: enableStaticPod_def)
    with False IH show ?thesis by auto
  qed
qed (simp add: enable_events_def)


definition pod_files :: world where
  "pod_files = start\<lparr>fs := [(''/m'', DirNode), (''/m/etcd.manifest'', File ''pod'' 420), (''/m/notes.txt'', File ''x'' 420)]\<rparr>"

definition pod_env :: bb_env where
  "pod_env = bb_quiet\<lparr>yamlPod := (\<lambda>c. Inr \<lparr>PodName = c, Containers = []\<rparr>)\<rparr>"


section \<open>The two goroutines of KillCmdAfterFilesGeneration\<close>

text \<open>
  The interleaving of the poller and the waiting call, in the units of the source: sleeping until a
  moment, looking at the files, blocked on the unbuffered channel, gone.  \<open>present t\<close> says that at
  time \<open>t\<close> no checked file is missing.  Time may pass at any moment.
\<close>

datatype poller = Sleeping nat | Looking | Sending | Gone

datatype waiter = Waiting | Returned bool

record kill_state =
  now :: nat
  poll :: poller
  wait :: waiter
  kills :: nat
  cancelled :: bool

definition kill_start :: kill_state where
  "kill_start = \<lparr>now = 0, poll = Sleeping 2, wait = Waiting, kills = 0, cancelled = False\<rparr>"

inductive kill_step :: "(nat \<Rightarrow> bool) \<Rightarrow> kill_state \<Rightarrow> kill_state \<Rightarrow> bool" for present where
  tick: "kill_step present s (s\<lparr>now := Suc (now s)\<rparr>)"
| wake: "poll s = Sleeping t \<Longrightarrow> t \<le> now s \<Longrightarrow>
    kill_step present s (s\<lparr>poll := if cancelled s then Gone else Looking\<rparr>)"
| found: "poll s = Looking \<Longrightarrow> present (now s) \<Longrightarrow> kill_step present s (s\<lparr>poll := Sending\<rparr>)"
| missing: "poll s = Looking \<Longrightarrow> \<not> present (now s) \<Longrightarrow>
    kill_step present s (s\<lparr>poll := Sleeping (now s + 2)\<rparr>)"
| receive: "poll s = Sending \<Longrightarrow> wait s = Waiting \<Longrightarrow>
    kill_step present s (s\<lparr>poll := Gone, wait := Returned True, kills := Suc (kills s), cancelled := True\<rparr>)"
| timeout: "wait s = Waiting \<Longrightarrow> 40 \<le> now s \<Longrightarrow>
    kill_step present s (s\<lparr>wait := Returned False, kills := Suc (kills s), cancelled := True\<rparr>)"

inductive_cases kill_stepE: "kill_step present s s'"

definition kill_inv :: "(nat \<Rightarrow> bool) \<Rightarrow> kill_state \<Rightarrow> bool" where
  "kill_inv present s \<longleftrightarrow>
     kills s = (if wait s = Waiting then 0 else 1) \<and> (cancelled s \<longleftrightarrow> wait s \<noteq> Waiting)
     \<and> (poll s = Sending \<or> wait s = Returned True \<longrightarrow> (\<exists>t \<le> now s. present t))
     \<and> (wait s = Returned False \<longrightarrow> 40 \<le> now s)
     \<and> (poll s = Gone \<longrightarrow> wait s \<noteq> Waiting)"

lemma kill_inv_step: "kill_step present s s' \<Longrightarrow> kill_inv present s \<Longrightarrow> kill_inv present s'"
  by (erule kill_stepE) (auto simp: kill_inv_def intro: le_SucI)

lemma kill_inv_reachable: "(kill_step present)\<^sup>*\<^sup>* kill_start s \<Longrightarrow> kill_inv present s"
proof (induction rule: rtranclp_induct)
  case base
  show ?case by (simp add: kill_inv_def kill_start_def)
next
  case (step s s')
  then show ?case by (blast intro: kill_inv_step)
qed


lemma kill_leak_path:
  "(kill_step (\<lambda>t. 39 \<le> t))\<^sup>*\<^sup>* kill_start
     \<lparr>now = 40, poll = Sending, wait = Returned False, kills = 1, cancelled = True\<rparr>"
proof -
  let ?R = "kill_step (\<lambda>t. 39 \<le> t)"
  have ticks: "?R\<^sup>*\<^sup>* (kill_start\<lparr>now := 0\<rparr>) (kill_start\<lparr>now := n\<rparr>)" for n
  proof (induction n)
    case (Suc n)
    have "?R (kill_start\<lparr>now := n\<rparr>) (kill_start\<lparr>now := Suc n\<rparr>)"
      using kill_step.tick [of _ "kill_start\<lparr>now := n\<rparr>"] by simp
    with Suc show ?case by (rule rtranclp.rtrancl_into_rtrancl)
  qed simp
  have "?R (kill_start\<lparr>now := 40\<rparr>) (kill_start\<lparr>now := 40, poll := Looking\<rparr>)"
    using kill_step.wake [of "kill_start\<lparr>now := 40\<rparr>" 2] by (simp add: kill_start_def)
  moreover have "?R (kill_start\<lparr>now := 40, poll := Looking\<rparr>) (kill_start\<lparr>now := 40, poll := Sending\<rparr>)"
    using kill_step.found [of "kill_start\<lparr>now := 40, poll := Looking\<rparr>"] by simp
  moreover have "?R (kill_start\<lparr>now := 40, poll := Sending\<rparr>)
      \<lparr>now = 40, poll = Sending, wait = Returned False, kills = 1, cancelled = True\<rparr>"
    using kill_step.timeout [of "kill_start\<lparr>now := 40, poll := Sending\<rparr>"] by (simp add: kill_start_def)
  moreover have "kill_start\<lparr>now := 0\<rparr> = kill_start" by (simp add: kill_start_def)
  ultimately show ?thesis using ticks [of 40] by (metis rtranclp.rtrancl_into_rtrancl)
qed


lemma kill_stuck:
  assumes "kill_step present s s'" "poll s = Sending" "wait s = Returned b"
  shows "poll s' = Sending \<and> wait s' = Returned b"
  using assms by (cases rule: kill_step.cases) auto

text \<open>
  The poller can be left behind: there is a run in which the call times out while the poller
  is blocked on its channel, and from there it stays blocked in every continuation; cancelling the
  context does not reach it.
\<close>

theorem kill_poller_leak:
  "\<exists>present s. (kill_step present)\<^sup>*\<^sup>* kill_start s \<and> wait s = Returned False
    \<and> (\<forall>s'. (kill_step present)\<^sup>*\<^sup>* s s' \<longrightarrow> poll s' = Sending)"
proof -
  let ?s = "\<lparr>now = 40, poll = Sending, wait = Returned False, kills = 1, cancelled = True\<rparr>"
  have "poll s' = Sending \<and> wait s' = Returned False" if "(kill_step (\<lambda>t. 39 \<le> t))\<^sup>*\<^sup>* ?s s'" for s'
    using that by (induction rule: rtranclp_induct) (auto dest: kill_stuck)
  then show ?thesis using kill_leak_path by (intro exI [of _ "\<lambda>t. 39 \<le> t"] exI [of _ ?s]) simp
qed

theorem kill_poller_leak_witness:
  "\<exists>present s. (kill_step present)\<^sup>*\<^sup>* kill_start s \<and> wait s = Returned False \<and> poll s = Sending"
  using kill_poller_leak by blast

end
