(* ===== verification/BB_Etcdadm.thy ===== *)
theory BB_Etcdadm
  imports BB_Waiters
begin

text \<open>
  \<open>pkg/etcdadm\<close>: the bootstrapper of an external etcd member.  The command in the user data is
  parsed into an init or a join; either runs the etcdadm phases up to \<open>start\<close>, moves the etcd static
  pod to the host and waits for it, and only then runs the \<open>health\<close> phase.
\<close>

section \<open>Constants and commands\<close>

definition CmdPrefix :: string where "CmdPrefix = ''Etcdadm''"
definition rootfsEtcdBaseDir :: string where "rootfsEtcdBaseDir = ''/.bottlerocket/rootfs/var/lib/etcd''"
definition etcdBaseDir :: string where "etcdBaseDir = ''/var/lib/etcd''"
definition certFolder :: string where "certFolder = ''/pki''"
definition dataFolder :: string where "dataFolder = ''/data''"
definition certDir :: string where "certDir = etcdBaseDir @ certFolder"
definition dataDir :: string where "dataDir = etcdBaseDir @ dataFolder"
definition rootfsCertDir :: string where "rootfsCertDir = rootfsEtcdBaseDir @ certFolder"
definition rootfsDataDir :: string where "rootfsDataDir = rootfsEtcdBaseDir @ dataFolder"
definition podSpecDir :: string where "podSpecDir = ''./manifests''"
definition initCmd :: string where "initCmd = ''EtcdadmInit''"
definition joinCmd :: string where "joinCmd = ''EtcdadmJoin''"
definition etcdadmBinary :: string where "etcdadmBinary = ''/opt/bin/etcdadm''"

definition dirs :: "string list" where
  "dirs = [podSpecDir, rootfsDataDir, rootfsCertDir]"

datatype command =
    InitCommand (repository: string) (version: string) (cipherSuites: string)
  | JoinCommand (repository: string) (version: string) (cipherSuites: string) (endpoint: string)

definition parseCmd :: "string \<Rightarrow> string + command" where
  "parseCmd bootstrapCmd =
     (let words = Fields bootstrapCmd
      in if length words = 0 then Inl (''invalid bootstrap etcdadm command ['' @ bootstrapCmd @ '']'')
         else if words ! 0 = initCmd then
           (if length words \<noteq> 4 then Inl (''invalid bootstrap etcdadm init command ['' @ bootstrapCmd @ '']'')
            else Inr (InitCommand (words ! 1) (words ! 2) (words ! 3)))
         else if words ! 0 = joinCmd then
           (if length words \<noteq> 5 then Inl (''invalid bootstrap etcdadm join command ['' @ bootstrapCmd @ '']'')
            else Inr (JoinCommand (words ! 1) (words ! 2) (words ! 3) (words ! 4)))
         else Inl (''invalid etcdadm bootstrap command '' @ bootstrapCmd))"

section \<open>Phases\<close>

definition buildFlags :: "string \<Rightarrow> string \<Rightarrow> string \<Rightarrow> string list" where
  "buildFlags repo ver ciphers =
     [''-l'', ''debug'',
      ''--version'', ver,
      ''--init-system'', ''kubelet'',
      ''--image-repository'', repo,
      ''--certs-dir'', certDir,
      ''--data-dir'', dataDir,
      ''--kubelet-pod-manifest-path'', podSpecDir,
      ''--cipher-suites'', ciphers]"

definition buildPhaseCmd :: "string \<Rightarrow> string \<Rightarrow> string list \<Rightarrow> string list" where
  "buildPhaseCmd cmd phase args = [cmd, ''phase'', phase] @ args"

definition addFlags :: "string list \<Rightarrow> string list \<Rightarrow> string list" where
  "addFlags e flags = e @ flags"

definition phaseArgv :: "string \<Rightarrow> string \<Rightarrow> string list \<Rightarrow> string list \<Rightarrow> string list" where
  "phaseArgv cmd phase flags args = etcdadmBinary # addFlags (buildPhaseCmd cmd phase args) flags"

definition runPhases ::
  "'z env_scheme \<Rightarrow> string \<Rightarrow> string list \<Rightarrow> string list \<Rightarrow> string list \<Rightarrow> (world, unit) prog" where
  "runPhases E cmd phases flags args = for_each phases (\<lambda>phase.
     bind (exec_cmd E Combined (phaseArgv cmd phase flags args)) (\<lambda>(out, err).
     case err of
       None \<Rightarrow> ret ()
     | Some e \<Rightarrow> fail (''error running etcdadm phase '' @ [CHR 0x27] @ cmd @ '' '' @ phase @ [CHR 0x27] @
         '', out:'' @ [CHR 0x0A] @ '' '' @ out @ '': '' @ e)))"

definition initPreKubeletPhases :: "string list" where
  "initPreKubeletPhases = [''install'', ''certificates'', ''snapshot'', ''configure'', ''start'']"

definition initPostKubeletPhases :: "string list" where
  "initPostKubeletPhases = [''health'']"

definition joinPreKubeletPhases :: "string list" where
  "joinPreKubeletPhases = [''stop'', ''certificates'', ''membership'', ''install'', ''configure'', ''start'']"

definition joinPostKubeletPhases :: "string list" where
  "joinPostKubeletPhases = [''health'']"

definition startEtcdPods :: "'z bb_env_scheme \<Rightarrow> (world, unit) prog" where
  "startEtcdPods E =
     bind (wrap ''error enabling etcd static pods'' (EnableStaticPods E podSpecDir)) (\<lambda>podDefinitions.
     wrap ''error waiting for etcd static pods to be up'' (WaitForPods E podDefinitions))"

definition initCommand_run :: "'z bb_env_scheme \<Rightarrow> string \<Rightarrow> string \<Rightarrow> string \<Rightarrow> (world, unit) prog" where
  "initCommand_run E repo ver ciphers =
     (let flags = buildFlags repo ver ciphers in
      bind (runPhases E ''init'' initPreKubeletPhases flags []) (\<lambda>_.
      bind (startEtcdPods E) (\<lambda>_.
      runPhases E ''init'' initPostKubeletPhases flags [])))"

definition joinCommand_run ::
  "'z bb_env_scheme \<Rightarrow> string \<Rightarrow> string \<Rightarrow> string \<Rightarrow> string \<Rightarrow> (world, unit) prog" where
  "joinCommand_run E repo ver ciphers ep =
     (let flags = buildFlags repo ver ciphers in
      bind (runPhases E ''join'' joinPreKubeletPhases flags [ep]) (\<lambda>_.
      bind (startEtcdPods E) (\<lambda>_.
      runPhases E ''join'' joinPostKubeletPhases flags [ep])))"

fun command_run :: "'z bb_env_scheme \<Rightarrow> command \<Rightarrow> (world, unit) prog" where
  "command_run E (InitCommand repo ver ciphers) = initCommand_run E repo ver ciphers"
| "command_run E (JoinCommand repo ver ciphers ep) = joinCommand_run E repo ver ciphers ep"

section \<open>The bootstrapper\<close>

definition etcdadm_InitializeDirectories :: "'z env_scheme \<Rightarrow> (world, unit) prog" where
  "etcdadm_InitializeDirectories E =
     bind (for_each dirs (\<lambda>dir.
       wrap (''error creating etcdadm directory ['' @ dir @ '']'') (os_MkdirAll E dir 416))) (\<lambda>_.
     wrap ''failed init symlinks for etcdadm'' (CreateSymLink E rootfsEtcdBaseDir etcdBaseDir))"

definition etcdadm_RunCmd :: "'z bb_env_scheme \<Rightarrow> UserData \<Rightarrow> (world, unit) prog" where
  "etcdadm_RunCmd E userData =
     bind (lift_sum (parseCmd (RunCmd userData))) (\<lambda>cmd. command_run E cmd)"

section \<open>Parsing\<close>

fun command_words :: "command \<Rightarrow> string list" where
  "command_words (InitCommand r v c) = [''EtcdadmInit'', r, v, c]"
| "command_words (JoinCommand r v c e) = [''EtcdadmJoin'', r, v, c, e]"

lemma length_4: "length xs = 4 \<longleftrightarrow> xs = [xs ! 0, xs ! 1, xs ! 2, xs ! 3]"
  by (auto simp: list_eq_iff_nth_eq less_Suc_eq eval_nat_numeral)

lemma length_5: "length xs = 5 \<longleftrightarrow> xs = [xs ! 0, xs ! 1, xs ! 2, xs ! 3, xs ! 4]"
  by (auto simp: list_eq_iff_nth_eq less_Suc_eq eval_nat_numeral)

lemma parsed_words: "parseCmd s = Inr cmd \<Longrightarrow> Fields s = command_words cmd"
  using length_4 [of "Fields s"] length_5 [of "Fields s"]
  by (auto simp: parseCmd_def initCmd_def joinCmd_def Let_def split: if_splits)

lemma words_parsed: "Fields s = command_words cmd \<Longrightarrow> parseCmd s = Inr cmd"
  by (cases cmd) (simp_all add: parseCmd_def initCmd_def joinCmd_def)

text \<open>
  C30.  The etcdadm command of the user data is accepted exactly when its white-space separated
  words are those of an init (repository, version, cipher suites) or of a join (with the endpoint
  as well), and the parsed command has these words; no other number of words or verb is accepted.
\<close>

theorem parseCmd_iff: "parseCmd s = Inr cmd \<longleftrightarrow> Fields s = command_words cmd"
  by (blast intro: parsed_words words_parsed)

text \<open>
  A command written with single spaces between its words is read back unchanged, when no word
  is empty or contains white space.
\<close>

theorem parseCmd_round_trip:
  assumes "\<forall>x \<in> set (command_words cmd). x \<noteq> [] \<and> list_all (\<lambda>c. \<not> is_space c) x"
  shows "parseCmd (Join (command_words cmd) '' '') = Inr cmd"
  using assms by (intro words_parsed Fields_Join) (auto simp: list_all_iff)

definition init_example :: command where
  "init_example = InitCommand ''public.ecr.aws/etcd'' ''v3.5.9'' ''TLS_AES_128_GCM_SHA256''"

theorem parseCmd_round_trip_witness:
  "parseCmd (Join (command_words init_example) '' '') = Inr init_example"
  by (rule parseCmd_round_trip) (simp add: init_example_def is_space_def space_chars_def)

section \<open>Order of the phases\<close>

definition etcd_phase :: "event \<Rightarrow> string list" where
  "etcd_phase e = (case e of
     Exec Combined (b # _ # p # ph # _) \<Rightarrow> if b = etcdadmBinary \<and> p = ''phase'' then [ph] else []
   | _ \<Rightarrow> [])"

lemma etcd_phase_simps [simp]:
  "etcd_phase (Exec Combined (phaseArgv cmd phase flags args)) = [phase]"
  "etcd_phase (Exec Combined (staticPodCommand n c)) = []" "etcd_phase (HttpGet u) = []"
  "etcd_phase (Sleep d) = []"
  by (simp_all add: etcd_phase_def phaseArgv_def addFlags_def buildPhaseCmd_def staticPodCommand_def)

lemma runPhases_follows: "follows etcd_phase (runPhases E cmd phases flags args) phases"
proof -
  have "follows etcd_phase (runPhases E cmd phases flags args) (concat (map (\<lambda>p. [p]) phases))"
    unfolding runPhases_def
    by (rule follows_for_each)
      (auto simp: follows_def exec_cmd_def bind_def split: prod.splits option.splits)
  then show ?thesis by simp
qed

lemma startEtcdPods_silent: "emits (\<lambda>e. etcd_phase e = []) (startEtcdPods E)"
  unfolding startEtcdPods_def by (intro emits_intro) simp_all

lemma phases_around_pods:
  "follows etcd_phase
     (bind (runPhases E cmd pre flags args) (\<lambda>_. bind (startEtcdPods E) (\<lambda>_. runPhases E cmd post flags args)))
     (pre @ post)"
  by (intro follows_bind follows_bind_silent runPhases_follows startEtcdPods_silent)

text \<open>What a completed run of phases, pods and phases has asked for, in full.\<close>

definition phase_events :: "string \<Rightarrow> string list \<Rightarrow> string list \<Rightarrow> string list \<Rightarrow> event list" where
  "phase_events cmd phases flags args = map (\<lambda>p. Exec Combined (phaseArgv cmd p flags args)) phases"

lemma runPhases_trace:
  "runPhases E cmd phases flags args w = (Ok (), w') \<Longrightarrow> trace w' = trace w @ phase_events cmd phases flags args"
  unfolding runPhases_def
  by (induction phases arbitrary: w)
    (auto simp: phase_events_def bind_Ok_iff exec_cmd_def split: prod.splits option.splits)

definition is_enable :: "event \<Rightarrow> bool" where
  "is_enable e \<longleftrightarrow> (\<exists>n c. e = Exec Combined (staticPodCommand n c))"

definition is_probe :: "event \<Rightarrow> bool" where
  "is_probe e \<longleftrightarrow> e = Sleep (10 * second) \<or> (\<exists>u. e = HttpGet u)"

lemma startEtcdPods_trace:
  assumes "startEtcdPods E w = (r, w')"
  obtains en pr where "trace w' = trace w @ en @ pr" "list_all is_enable en" "list_all is_probe pr"
proof -
  have en: "emits is_enable (EnableStaticPods E podSpecDir)"
    by (intro emits_intro) (auto simp: is_enable_def)
  have pr: "emits is_probe (WaitForPods E pods)" for pods
    by (intro emits_intro) (auto simp: is_probe_def)
  obtain r1 w1 where run: "wrap ''error enabling etcd static pods'' (EnableStaticPods E podSpecDir) w = (r1, w1)"
    by fastforce
  have "emits is_enable (wrap ''error enabling etcd static pods'' (EnableStaticPods E podSpecDir))"
    by (rule emits_handlers(2) [OF en])
  then obtain t where t: "trace w1 = trace w @ t" "list_all is_enable t" using run by (rule emitsE)
  show thesis
  proof (cases r1)
    case (Ok pods)
    have "emits is_probe (wrap ''error waiting for etcd static pods to be up'' (WaitForPods E pods))"
      by (rule emits_handlers(2) [OF pr])
    then obtain u where "trace w' = trace w1 @ u" "list_all is_probe u"
      using assms run Ok by (auto simp: startEtcdPods_def bind_def elim: emitsE)
    with t that show thesis by simp
  qed (use assms run t that [of t "[]"] in \<open>auto simp: startEtcdPods_def bind_def\<close>)
qed

lemma command_trace:
  assumes "bind (runPhases E cmd pre flags args) (\<lambda>_. bind (startEtcdPods E) (\<lambda>_.
      runPhases E cmd post flags args)) w = (Ok (), w')"
  shows "\<exists>en pr. trace w' = trace w @ phase_events cmd pre flags args @ en @ pr @ phase_events cmd post flags args
    \<and> list_all is_enable en \<and> list_all is_probe pr"
proof -
  obtain w1 w2 where runs: "runPhases E cmd pre flags args w = (Ok (), w1)"
      "startEtcdPods E w1 = (Ok (), w2)" "runPhases E cmd post flags args w2 = (Ok (), w')"
    using assms by (auto simp: bind_Ok_iff)
  obtain en pr where "trace w2 = trace w1 @ en @ pr" "list_all is_enable en" "list_all is_probe pr"
    using runs(2) by (rule startEtcdPods_trace)
  then show ?thesis
    using runPhases_trace [OF runs(1)] runPhases_trace [OF runs(3)] by (intro exI [of _ en] exI [of _ pr]) simp
qed

text \<open>The phases a command promises, and the arguments it passes to each.\<close>

fun command_phases :: "command \<Rightarrow> string list \<times> string list" where
  "command_phases (InitCommand _ _ _) = ([''install'', ''certificates'', ''snapshot'', ''configure'', ''start''], [''health''])"
| "command_phases (JoinCommand _ _ _ _) =
     ([''stop'', ''certificates'', ''membership'', ''install'', ''configure'', ''start''], [''health''])"

fun command_name :: "command \<Rightarrow> string \<times> string list" where
  "command_name (InitCommand _ _ _) = (''init'', [])"
| "command_name (JoinCommand _ _ _ e) = (''join'', [e])"

lemma command_run_shape:
  "command_run E cmd =
     bind (runPhases E (fst (command_name cmd)) (fst (command_phases cmd))
         (buildFlags (repository cmd) (version cmd) (cipherSuites cmd)) (snd (command_name cmd))) (\<lambda>_.
     bind (startEtcdPods E) (\<lambda>_.
     runPhases E (fst (command_name cmd)) (snd (command_phases cmd))
         (buildFlags (repository cmd) (version cmd) (cipherSuites cmd)) (snd (command_name cmd))))"
  by (cases cmd)
    (simp_all add: initCommand_run_def joinCommand_run_def initPreKubeletPhases_def initPostKubeletPhases_def
      joinPreKubeletPhases_def joinPostKubeletPhases_def Let_def)

text \<open>
  Whatever fails, an etcdadm init or join runs its phases in the promised order without
  skipping or repeating one: the phases run are a prefix of the list, all of it on success.
\<close>

theorem etcdadm_phase_order:
  "follows etcd_phase (command_run E cmd) (fst (command_phases cmd) @ snd (command_phases cmd))"
  unfolding command_run_shape by (rule phases_around_pods)


definition etcd_world :: world where
  "etcd_world = start\<lparr>fs := [(''./manifests'', DirNode)]\<rparr>"

definition etcd_user_data :: UserData where
  "etcd_user_data = \<lparr>UserDataType = [], WriteFiles = [], RunCmd = ''EtcdadmInit repo v3 suites''\<rparr>"


end
