(* ===== verification/BB_Kubeadm.thy ===== *)
theory BB_Kubeadm
  imports BB_Waiters
begin

text \<open>
  \<open>pkg/kubeadm\<close>: the bootstrapper of a Kubernetes node.  A control plane is initialised or joined,
  or a worker joined, by running kubeadm phase by phase, moving the static pods to the host,
  waiting for the API server, handing the cluster's address, certificate and token to the host
  through the Bottlerocket API and waiting for the kubelet.
\<close>

section \<open>Constants\<close>

definition LogVerbosity :: string where "LogVerbosity = ''-v9''"
definition kubeadmFile :: string where "kubeadmFile = ''/tmp/kubeadm.yaml''"
definition kubectl :: string where "kubectl = ''/opt/bin/kubectl''"
definition kubeadmBinary :: string where "kubeadmBinary = ''/opt/bin/kubeadm''"
definition kubeconfigPath :: string where "kubeconfigPath = ''/etc/kubernetes/admin.conf''"
definition kubeadmJoinFile :: string where "kubeadmJoinFile = ''/tmp/kubeadm-join-config.yaml''"
definition kubeletConfigFile :: string where "kubeletConfigFile = ''/var/lib/kubelet/config.yaml''"
definition staticPodManifestsPath :: string where "staticPodManifestsPath = ''/etc/kubernetes/manifests''"
definition bottlerocketRootFSKubeadmPKIPath :: string where
  "bottlerocketRootFSKubeadmPKIPath = ''/.bottlerocket/rootfs/var/lib/kubeadm/pki''"
definition apiServerManifestPath :: string where
  "apiServerManifestPath = ''/.bottlerocket/rootfs/etc/kubernetes/manifests/kube-apiserver''"
definition ebsInitMarker :: string where "ebsInitMarker = ''/tmp/run-ebs-init''"
definition kubernetesCACertFile :: string where "kubernetesCACertFile = ''/etc/kubernetes/pki/ca.crt''"

section \<open>pkg/kubeadm/utils.go\<close>

text \<open>A command whose error is wrapped with a message made from its output.\<close>

definition exec_checked :: "'z env_scheme \<Rightarrow> string list \<Rightarrow> (string \<Rightarrow> string) \<Rightarrow> (world, string) prog" where
  "exec_checked E argv msg =
     bind (exec_cmd E Combined argv) (\<lambda>(out, err).
     case err of None \<Rightarrow> ret out | Some e \<Rightarrow> fail (msg out @ '': '' @ e))"

definition getBootstrapToken :: "'z env_scheme \<Rightarrow> (world, string) prog" where
  "getBootstrapToken E =
     bind (wrap ''Error getting token''
       (exec_out E Stdout [kubeadmBinary, ''token'', ''list'', ''-o'', ''jsonpath=\"{.token}\"''])) (\<lambda>token.
     ret (ReplaceAll token [CHR 0x22] []))"

definition getEncodedCA :: "'z env_scheme \<Rightarrow> (world, string) prog" where
  "getEncodedCA E =
     bind (wrap ''Error reading the ca data'' (os_ReadFile E kubernetesCACertFile)) (\<lambda>caFileData.
     ret (EncodeToString caFileData))"

definition hostnamePlaceholder :: string where
  "hostnamePlaceholder = ''{{ ds.meta_data.hostname }}''"

definition setHostName :: "'z env_scheme \<Rightarrow> string \<Rightarrow> (world, unit) prog" where
  "setHostName E filepath =
     bind (wrap ''Error getting hostname'' (lift_sum (hostname E))) (\<lambda>host.
     bind (wrap ''Error reading kubeadm file'' (os_ReadFile E filepath)) (\<lambda>fileData.
     wrap ''Error writing file'' (Write E filepath (ReplaceAll fileData hostnamePlaceholder host) 416)))"

definition getDNS :: "'z env_scheme \<Rightarrow> string \<Rightarrow> (world, string) prog" where
  "getDNS E path =
     bind (wrap ''Error getting api server''
       (exec_out E Stdout [kubectl, ''--kubeconfig'', path, ''get'', ''svc'', ''kube-dns'', ''-n'', ''kube-system'',
         ''-o'', ''jsonpath='' @ [CHR 0x27] @ ''{..clusterIP}'' @ [CHR 0x27]])) (\<lambda>dns.
     ret (ReplaceAll dns [CHR 0x27] []))"

definition getDNSFromJoinConfig :: "'z env_scheme \<Rightarrow> string \<Rightarrow> (world, string) prog" where
  "getDNSFromJoinConfig E path =
     bind (os_ReadFile E path) (\<lambda>_.
     bind (wrap ''Error getting api server''
       (exec_out E Combined [''bash'', ''-c'',
         ''awk '' @ [CHR 0x27] @ ''/clusterDNS:/ { getline; print $2 }'' @ [CHR 0x27] @ '' '' @ path])) (\<lambda>dns.
     ret (TrimSuffix dns [CHR 0x0A])))"

text \<open>Decoding into \<open>map[string]interface\<close>; a type assertion on anything else panics.\<close>

definition unmarshalIntoMap :: "'z bb_env_scheme \<Rightarrow> string \<Rightarrow> (world, (string \<times> json) list) prog" where
  "unmarshalIntoMap E content =
     wrap ''error unmarshalling into map of empty interface'' (lift_sum (yamlMap E (Trim content [CHR 0x27])))"

definition as_map :: "json option \<Rightarrow> (world, (string \<times> json) list) prog" where
  "as_map v = (case v of Some (JObj m) \<Rightarrow> ret m | _ \<Rightarrow> panic ''interface conversion'')"

definition as_string :: "json option \<Rightarrow> (world, string) prog" where
  "as_string v = (case v of Some (JStr s) \<Rightarrow> ret s | _ \<Rightarrow> panic ''interface conversion'')"

definition getBootstrapFromJoinConfig :: "'z bb_env_scheme \<Rightarrow> string \<Rightarrow> (world, string \<times> string) prog" where
  "getBootstrapFromJoinConfig E path =
     bind (wrap ''Error reading kubeadm join config file'' (os_ReadFile E path)) (\<lambda>d.
     bind (wrap ''failed unmarshalling yaml kubeadm join config to interfaces''
       (unmarshalIntoMap E (TrimPrefix d ''---''))) (\<lambda>joinData.
     bind (as_map (map_of joinData ''discovery'')) (\<lambda>discovery.
     bind (as_map (map_of discovery ''bootstrapToken'')) (\<lambda>bootstrapToken.
     bind (as_string (map_of bootstrapToken ''apiServerEndpoint'')) (\<lambda>serverEndpoint.
     bind (as_string (map_of bootstrapToken ''token'')) (\<lambda>token.
     ret (''https://'' @ serverEndpoint, token)))))))"

fun firstReadinessURL :: "Container list \<Rightarrow> (world, string) prog" where
  "firstReadinessURL [] = fail ''Cannot find readiness probe exists on pod definition''"
| "firstReadinessURL (c # cs) = (case ReadinessProbe c of
       None \<Rightarrow> firstReadinessURL cs
     | Some handler \<Rightarrow> bind (deref handler) (\<lambda>h. ret (probeURL (Scheme h) h)))"

definition getLocalApiServerReadinessEndpoint :: "'z bb_env_scheme \<Rightarrow> (world, string) prog" where
  "getLocalApiServerReadinessEndpoint E =
     bind (wrap ''Error reading ApiServer manifest file'' (os_ReadFile E apiServerManifestPath)) (\<lambda>d.
     bind (wrap ''Error parsing pod def from manifest'' (UnmarshalPodDefinition E d)) (\<lambda>podDef.
     firstReadinessURL (Containers podDef)))"

definition isExternalEtcd :: "'z bb_env_scheme \<Rightarrow> string \<Rightarrow> (world, bool) prog" where
  "isExternalEtcd E clusterConfiguration =
     bind (wrap ''error unmarshalling ClusterConfiguration'' (unmarshalIntoMap E clusterConfiguration)) (\<lambda>config.
     bind (as_map (map_of config ''etcd'')) (\<lambda>etcd.
     ret (case map_of etcd ''external'' of None \<Rightarrow> False | Some JNull \<Rightarrow> False | Some _ \<Rightarrow> True)))"

definition getClusterConfigurationFromCluster :: "'z env_scheme \<Rightarrow> string \<Rightarrow> (world, string) prog" where
  "getClusterConfigurationFromCluster E path =
     wrap ''failed getting kubeadm-config configMap''
       (exec_out E Stdout [kubectl, ''--kubeconfig'', path, ''-n'', ''kube-system'', ''get'', ''cm'', ''kubeadm-config'',
         ''-o'', ''jsonpath='' @ [CHR 0x27] @ ''{..data.ClusterConfiguration}'' @ [CHR 0x27]])"

definition isClusterWithExternalEtcd :: "'z bb_env_scheme \<Rightarrow> string \<Rightarrow> (world, bool) prog" where
  "isClusterWithExternalEtcd E path =
     bind (getClusterConfigurationFromCluster E path) (\<lambda>c. isExternalEtcd E c)"

record KubeletTlsConfig =
  KubeletServingCert :: string
  KubeletServingPrivateKey :: string

type_synonym FileReader = "string \<Rightarrow> (world, string) prog"

definition RealFileReader :: "'z env_scheme \<Rightarrow> FileReader" where
  "RealFileReader E filename = os_ReadFile E filename"

definition readAndEncodeFile :: "string \<Rightarrow> FileReader \<Rightarrow> (world, string) prog" where
  "readAndEncodeFile filePath reader =
     bind (reader filePath) (\<lambda>contents.
     if contents = [] then fail ''empty contents'' else ret (EncodeToString contents))"

definition kubeletServingCertFile :: string where
  "kubeletServingCertFile = ''/.bottlerocket/rootfs/var/lib/kubeadm/pki/kubelet-serving.crt''"

definition kubeletServingPrivateKeyFile :: string where
  "kubeletServingPrivateKeyFile = ''/.bottlerocket/rootfs/var/lib/kubeadm/pki/kubelet-serving.key''"

definition readKubeletTlsConfig :: "FileReader \<Rightarrow> (world, KubeletTlsConfig option) prog" where
  "readKubeletTlsConfig reader =
     bind (attempt (readAndEncodeFile kubeletServingCertFile reader)) (\<lambda>cert.
     case cert of
       Inl _ \<Rightarrow> ret None
     | Inr c \<Rightarrow>
         bind (attempt (readAndEncodeFile kubeletServingPrivateKeyFile reader)) (\<lambda>key.
         case key of
           Inl _ \<Rightarrow> ret None
         | Inr k \<Rightarrow> ret (Some \<lparr>KubeletServingCert = c, KubeletServingPrivateKey = k\<rparr>)))"

definition superAdmin :: "string \<Rightarrow> string" where
  "superAdmin contents =
     ReplaceAll (ReplaceAll contents ''path: /etc/kubernetes/admin.conf'' ''path: /etc/kubernetes/super-admin.conf'')
       ''path: /var/lib/kubeadm/admin.conf'' ''path: /var/lib/kubeadm/super-admin.conf''"

definition patchKubeVipManifest :: "'z env_scheme \<Rightarrow> (world, unit) prog" where
  "patchKubeVipManifest E =
     (let kubeVipManifest = path_Join [staticPodManifestsPath, ''kube-vip.yaml''] in
      bind (wrap (''Error reading file '' @ kubeVipManifest) (os_ReadFile E kubeVipManifest)) (\<lambda>contents.
      wrap (''Error writing file '' @ kubeVipManifest)
        (os_WriteFile E kubeVipManifest (superAdmin contents) 420)))"

section \<open>EBS initialisation\<close>

text \<open>
  A background read of the root volume, started when a marker file is there.  Its control block is
  the moment its timer fires and the moment the read is done.  The walk itself visits the tree of
  the root file system: special directories are skipped, regular files read.
\<close>

record EbsInitControl =
  Timeout :: nat
  OkAt :: nat

definition startEbsInit :: "'z bb_env_scheme \<Rightarrow> (world, EbsInitControl option) prog" where
  "startEbsInit E = bind (os_Stat E ebsInitMarker) (\<lambda>st. case st of
       Exists _ \<Rightarrow> (\<lambda>w. (Ok (Some \<lparr>Timeout = clock w + 120 * second, OkAt = clock w + ebsReadTime E w\<rparr>), w))
     | _ \<Rightarrow> ret None)"

definition checkEbsInit :: "'z env_scheme \<Rightarrow> EbsInitControl \<Rightarrow> (world, unit) prog" where
  "checkEbsInit E ctrl = (\<lambda>w. (Ok (), pass_time E (min (Timeout ctrl) (OkAt ctrl) - clock w) w))"

datatype kind = Regular | Irregular | Vanished

datatype tree = Leaf string kind | Branch string "tree list"

datatype walk = SkipDir | Continue

definition walkDirFunc :: "tree option \<Rightarrow> walk \<times> bool" where
  "walkDirFunc dirEntry = (case dirEntry of
       None \<Rightarrow> (SkipDir, False)
     | Some (Branch name _) \<Rightarrow> (if name \<in> {''proc'', ''sys'', ''run''} then SkipDir else Continue, False)
     | Some (Leaf _ k) \<Rightarrow> (Continue, k = Regular))"

fun walkDir :: "string list \<Rightarrow> tree \<Rightarrow> string list list" where
  "walkDir path (Leaf name k) = (if snd (walkDirFunc (Some (Leaf name k))) then [path @ [name]] else [])"
| "walkDir path (Branch name ts) =
     (if fst (walkDirFunc (Some (Branch name ts))) = SkipDir then []
      else concat (map (walkDir (path @ [name])) ts))"

section \<open>pkg/kubeadm/waiters.go\<close>

definition waitForKubelet :: "'z bb_env_scheme \<Rightarrow> (world, unit) prog" where
  "waitForKubelet E = WaitForSystemdService E KubeletService (90 * second)"

definition waitForActiveKubelet :: "'z bb_env_scheme \<Rightarrow> (world, unit) prog" where
  "waitForActiveKubelet E =
     bind (wrap ''Error waiting for kubelet to come up'' (waitForKubelet E)) (\<lambda>_.
     bind (time_Sleep E (20 * second)) (\<lambda>_.
     wrap ''Error waiting for kubelet to come up'' (waitForKubelet E)))"

definition joinCheckFiles :: "string list" where
  "joinCheckFiles = [''/var/lib/kubelet/config.yaml'', ''/var/lib/kubelet/kubeadm-flags.env'',
     ''/var/lib/kubeadm/pki/ca.crt'']"

definition killCmdAfterJoinFilesGeneration :: "'z bb_env_scheme \<Rightarrow> string list \<Rightarrow> (world, unit) prog" where
  "killCmdAfterJoinFilesGeneration E cmd = KillCmdAfterFilesGeneration E cmd joinCheckFiles"

section \<open>pkg/kubeadm/controlplane_init.go\<close>

definition kubeadmPhase :: "string list \<Rightarrow> string list" where
  "kubeadmPhase args = kubeadmBinary # LogVerbosity # args"

definition runningCommand :: "'z env_scheme \<Rightarrow> string list \<Rightarrow> string" where
  "runningCommand E argv = ''Error running command: '' @ cmd_String E argv"

definition withOutput :: "'z env_scheme \<Rightarrow> string list \<Rightarrow> string \<Rightarrow> string \<Rightarrow> string" where
  "withOutput E argv label out = runningCommand E argv @ '', '' @ label @ '': '' @ out @ [CHR 0x0A]"

definition initVersion :: "'z bb_env_scheme \<Rightarrow> (world, nat list) prog" where
  "initVersion E =
     (let argv = [kubeadmBinary, ''version'', ''-o=short''] in
      bind (exec_checked E argv (withOutput E argv ''Output'')) (\<lambda>out.
      bind (wrap (out @ '' is not a valid kubeadm version'')
        (lift_sum (parseGeneric E (TrimSuffix out [CHR 0x0A])))) (\<lambda>kubeadmVersion.
      bind (wrap ''Error comparing kubeadm version with v1.29.0''
        (lift_sum (versionCompare E kubeadmVersion ''1.29.0''))) (\<lambda>k8s129Compare.
      bind (do_if (k8s129Compare \<noteq> -1)
        (wrap ''Error patching kube-vip manifest'' (patchKubeVipManifest E))) (\<lambda>_.
      ret kubeadmVersion)))))"

definition initCertsArgv :: "string list" where
  "initCertsArgv = kubeadmPhase [''init'', ''phase'', ''certs'', ''all'', ''--config'', kubeadmFile]"

definition initPhaseArgv :: "string \<Rightarrow> string \<Rightarrow> string list" where
  "initPhaseArgv phase what = kubeadmPhase [''init'', ''phase'', phase, what, ''--config'', kubeadmFile]"

definition initPhases :: "'z env_scheme \<Rightarrow> (world, unit) prog" where
  "initPhases E =
     bind (exec_checked E initCertsArgv (\<lambda>out. ''Error running command, out: '' @ out)) (\<lambda>_.
     for_each [initPhaseArgv ''kubeconfig'' ''all'', initPhaseArgv ''control-plane'' ''all'', initPhaseArgv ''etcd'' ''local'']
       (\<lambda>argv. bind (exec_checked E argv (\<lambda>_. runningCommand E argv)) (\<lambda>_. ret ())))"

definition localReadiness :: "'z bb_env_scheme \<Rightarrow> (world, string) prog" where
  "localReadiness E = bind (attempt (getLocalApiServerReadinessEndpoint E)) (\<lambda>r.
     case r of Inr url \<Rightarrow> ret url | Inl _ \<Rightarrow> ret ''https://localhost:6443/healthz'')"

definition migratePods :: "'z bb_env_scheme \<Rightarrow> (world, unit) prog" where
  "migratePods E =
     bind (wrap ''Error enabling static pods'' (EnableStaticPods E staticPodManifestsPath)) (\<lambda>podDefinitions.
     wrap ''Error waiting for static pods to be up'' (WaitForPods E podDefinitions))"

definition waitApiServer :: "'z env_scheme \<Rightarrow> string \<Rightarrow> string \<Rightarrow> (world, unit) prog" where
  "waitApiServer E localEndpoint apiServer =
     bind (WaitFor200 E localEndpoint (30 * second)) (\<lambda>_.
     WaitFor200 E (apiServer @ ''/healthz'') (30 * second))"

definition tlsArgs :: "KubeletTlsConfig option \<Rightarrow> string list" where
  "tlsArgs tls = (case tls of
       None \<Rightarrow> []
     | Some c \<Rightarrow> [''settings.kubernetes.server-certificate='' @ KubeletServingCert c,
                  ''settings.kubernetes.server-key='' @ KubeletServingPrivateKey c])"

definition initRegisterArgv ::
  "string \<Rightarrow> string \<Rightarrow> string \<Rightarrow> KubeletTlsConfig option \<Rightarrow> string list" where
  "initRegisterArgv apiServer b64CA token tls =
     ApiclientBinary #
     [''set'', ''kubernetes.api-server='' @ apiServer, ''kubernetes.cluster-certificate='' @ b64CA,
      ''kubernetes.bootstrap-token='' @ token, ''kubernetes.authentication-mode=tls'',
      ''kubernetes.standalone-mode=false''] @ tlsArgs tls"

definition initRegister :: "'z bb_env_scheme \<Rightarrow> string \<Rightarrow> string \<Rightarrow> (world, unit) prog" where
  "initRegister E apiServer b64CA =
     (let argv = kubeadmPhase [''init'', ''phase'', ''bootstrap-token'', ''--config'', kubeadmFile] in
      bind (wrap (runningCommand E argv) (exec_run E argv)) (\<lambda>_.
      bind (wrap ''Error getting token'' (getBootstrapToken E)) (\<lambda>token.
      bind (readKubeletTlsConfig (RealFileReader E)) (\<lambda>tls.
      let set_argv = initRegisterArgv apiServer b64CA token tls in
      bind (exec_checked E set_argv (\<lambda>_. runningCommand E set_argv)) (\<lambda>_.
      wrap ''Error waiting for kubelet to come up'' (waitForActiveKubelet E))))))"

definition skipPhases :: "int \<Rightarrow> string" where
  "skipPhases k8s126Compare =
     (if k8s126Compare = -1 then ''preflight,kubelet-start,certs,kubeconfig,bootstrap-token,control-plane,etcd''
      else ''preflight,kubelet-start,certs,kubeconfig,bootstrap-token,control-plane,etcd,show-join-command'')"

definition initFinish :: "'z bb_env_scheme \<Rightarrow> nat list \<Rightarrow> (world, unit) prog" where
  "initFinish E kubeadmVersion =
     bind (wrap ''Error comparing kubeadm version with v1.26.0''
       (lift_sum (versionCompare E kubeadmVersion ''1.26.0''))) (\<lambda>k8s126Compare.
     let argv = kubeadmPhase [''init'', ''--skip-phases'', skipPhases k8s126Compare, ''--config'', kubeadmFile] in
     bind (exec_checked E argv (withOutput E argv ''Output'')) (\<lambda>_.
     bind (wrap ''Error getting dns ip'' (getDNS E kubeconfigPath)) (\<lambda>dns.
     let set_argv = [ApiclientBinary, ''set'', ''kubernetes.cluster-dns-ip='' @ dns] in
     bind (exec_checked E set_argv (withOutput E set_argv ''output'')) (\<lambda>_. ret ()))))"

definition finishEbs :: "'z env_scheme \<Rightarrow> EbsInitControl option \<Rightarrow> (world, unit) prog" where
  "finishEbs E ctrl = (case ctrl of None \<Rightarrow> ret () | Some c \<Rightarrow> checkEbsInit E c)"

definition controlPlaneInit :: "'z bb_env_scheme \<Rightarrow> (world, unit) prog" where
  "controlPlaneInit E =
     bind (wrap ''Error replacing hostname on kubeadm'' (setHostName E kubeadmFile)) (\<lambda>_.
     bind (startEbsInit E) (\<lambda>ebsInitControl.
     bind (initVersion E) (\<lambda>kubeadmVersion.
     bind (initPhases E) (\<lambda>_.
     bind (migratePods E) (\<lambda>_.
     bind (wrap ''Error getting api server'' (GetApiServerFromKubeConfig E kubeconfigPath)) (\<lambda>apiServer.
     bind (wrap ''Error reading the ca data'' (getEncodedCA E)) (\<lambda>b64CA.
     bind (localReadiness E) (\<lambda>localEndpoint.
     bind (waitApiServer E localEndpoint apiServer) (\<lambda>_.
     bind (initRegister E apiServer b64CA) (\<lambda>_.
     bind (initFinish E kubeadmVersion) (\<lambda>_.
     finishEbs E ebsInitControl)))))))))))"

section \<open>pkg/kubeadm/controlplane_join.go\<close>

definition etcdJoinArgv :: "string list" where
  "etcdJoinArgv = kubeadmPhase [''join'', ''phase'', ''control-plane-join'', ''etcd'', ''--config'', kubeadmJoinFile]"

definition joinLocalEtcd :: "'z bb_env_scheme \<Rightarrow> (world, unit) prog" where
  "joinLocalEtcd E =
     bind (wrap (runningCommand E etcdJoinArgv) (exec_start E etcdJoinArgv)) (\<lambda>_.
     wrap ''Error waiting for etcd manifest files''
       (KillCmdAfterFilesGeneration E etcdJoinArgv [''/etc/kubernetes/manifests/etcd.yaml'']))"

definition kubeletStartArgv :: "string list" where
  "kubeletStartArgv = kubeadmPhase [''join'', ''phase'', ''kubelet-start'', ''--config'', kubeadmJoinFile]"

definition joinPrepareArgv :: "string list" where
  "joinPrepareArgv = kubeadmPhase [''join'', ''phase'', ''control-plane-prepare'', ''all'', ''--config'', kubeadmJoinFile]"

definition joinFinishArgv :: "string list" where
  "joinFinishArgv = kubeadmPhase [''join'', ''--skip-phases'',
     ''preflight,control-plane-prepare,kubelet-start,control-plane-join/etcd'', ''--config'', kubeadmJoinFile]"

definition joinRegisterArgv ::
  "string \<Rightarrow> string \<Rightarrow> string \<Rightarrow> string \<Rightarrow> KubeletTlsConfig option \<Rightarrow> string list" where
  "joinRegisterArgv apiServer b64CA dns token tls =
     ApiclientBinary #
     [''set'', ''kubernetes.api-server='' @ apiServer, ''kubernetes.cluster-certificate='' @ b64CA,
      ''kubernetes.cluster-dns-ip='' @ dns, ''kubernetes.bootstrap-token='' @ token,
      ''kubernetes.authentication-mode=tls'', ''kubernetes.standalone-mode=false''] @ tlsArgs tls"

definition startKubeletJoin :: "'z bb_env_scheme \<Rightarrow> (world, unit) prog" where
  "startKubeletJoin E =
     bind (wrap (runningCommand E kubeletStartArgv) (exec_start E kubeletStartArgv)) (\<lambda>_.
     wrap ''Error waiting for worker join files'' (killCmdAfterJoinFilesGeneration E kubeletStartArgv))"

definition joinRegister :: "'z bb_env_scheme \<Rightarrow> (world, string) prog" where
  "joinRegister E =
     bind (wrap ''Error getting api server'' (getDNSFromJoinConfig E kubeletConfigFile)) (\<lambda>dns.
     bind (wrap ''Error getting api server'' (getBootstrapFromJoinConfig E kubeadmJoinFile)) (\<lambda>(apiServer, token).
     bind (wrap ''Error reading the ca data'' (getEncodedCA E)) (\<lambda>b64CA.
     bind (readKubeletTlsConfig (RealFileReader E)) (\<lambda>tls.
     let argv = joinRegisterArgv apiServer b64CA dns token tls in
     bind (wrap (runningCommand E argv) (exec_run E argv)) (\<lambda>_.
     bind (wrap ''Error waiting for kubelet to come up'' (waitForActiveKubelet E)) (\<lambda>_.
     ret apiServer))))))"

definition joinEtcdIfLocal :: "'z bb_env_scheme \<Rightarrow> (world, unit) prog" where
  "joinEtcdIfLocal E =
     bind (isClusterWithExternalEtcd E kubeconfigPath) (\<lambda>isEtcdExternal.
     do_if (\<not> isEtcdExternal) (joinLocalEtcd E))"

definition controlPlaneJoin :: "'z bb_env_scheme \<Rightarrow> (world, unit) prog" where
  "controlPlaneJoin E =
     bind (wrap ''Error replacing hostname on kubeadm'' (setHostName E kubeadmJoinFile)) (\<lambda>_.
     bind (startEbsInit E) (\<lambda>ebsInitControl.
     bind (wrap (runningCommand E joinPrepareArgv) (exec_run E joinPrepareArgv)) (\<lambda>_.
     bind (startKubeletJoin E) (\<lambda>_.
     bind (joinRegister E) (\<lambda>apiServer.
     bind (joinEtcdIfLocal E) (\<lambda>_.
     bind (migratePods E) (\<lambda>_.
     bind (localReadiness E) (\<lambda>localEndpoint.
     bind (waitApiServer E localEndpoint apiServer) (\<lambda>_.
     bind (wrap (runningCommand E joinFinishArgv) (exec_run E joinFinishArgv)) (\<lambda>_.
     finishEbs E ebsInitControl))))))))))"

section \<open>pkg/kubeadm/worker_join.go\<close>

definition workerJoin :: "'z bb_env_scheme \<Rightarrow> (world, unit) prog" where
  "workerJoin E =
     bind (wrap ''Error replacing hostname on kubeadm'' (setHostName E kubeadmJoinFile)) (\<lambda>_.
     bind (startKubeletJoin E) (\<lambda>_.
     bind (wrap ''Error getting api server and token from kubeadm join config''
       (getBootstrapFromJoinConfig E kubeadmJoinFile)) (\<lambda>(apiServer, token).
     bind (wrap ''Error reading the ca data'' (getEncodedCA E)) (\<lambda>b64CA.
     bind (wrap ''Error getting dns from kubelet config'' (getDNSFromJoinConfig E kubeletConfigFile)) (\<lambda>dns.
     let argv = joinRegisterArgv apiServer b64CA dns token None in
     bind (exec_checked E argv (withOutput E argv ''output'')) (\<lambda>_.
     waitForActiveKubelet E))))))"

section \<open>pkg/kubeadm/kubeadm.go\<close>

definition symlinkArgv :: "string \<Rightarrow> string list" where
  "symlinkArgv target = [''bash'', ''-c'', ''ln -sfn /.bottlerocket/rootfs/var/lib/kubeadm '' @ target]"

definition kubeadm_InitializeDirectories :: "'z env_scheme \<Rightarrow> (world, unit) prog" where
  "kubeadm_InitializeDirectories E =
     bind (wrap ''error creating directory'' (os_MkdirAll E bottlerocketRootFSKubeadmPKIPath 416)) (\<lambda>_.
     for_each [symlinkArgv ''/var/lib'', symlinkArgv ''/etc/kubernetes''] (\<lambda>argv.
       wrap (''error running command: '' @ cmd_String E argv) (exec_run E argv)))"

definition kubeadm_RunCmd :: "'z bb_env_scheme \<Rightarrow> UserData \<Rightarrow> (world, unit) prog" where
  "kubeadm_RunCmd E userData =
     (if RunCmd userData = ''ControlPlaneInit'' then wrap ''error initing controlplane'' (controlPlaneInit E)
      else if RunCmd userData = ''ControlPlaneJoin'' then wrap ''error joining controlplane'' (controlPlaneJoin E)
      else if RunCmd userData = ''WorkerJoin'' then wrap ''error joining as worker'' (workerJoin E)
      else ret ())"

section \<open>The kubelet's serving certificate\<close>

text \<open>What \<open>readKubeletTlsConfig\<close> expects of the reader it is given: reading has no effect and ends.\<close>

locale file_reader =
  fixes reader :: "string \<Rightarrow> (world, string) prog"
  assumes reads: "(\<exists>c. reader p w = (Ok c, w)) \<or> (\<exists>e. reader p w = (Err e, w))"
begin

definition content_of :: "world \<Rightarrow> string \<Rightarrow> string" where
  "content_of w p = (case reader p w of (Ok c, _) \<Rightarrow> c | _ \<Rightarrow> [])"

lemma readAndEncode_run:
  "attempt (readAndEncodeFile p reader) w =
     (Ok (if content_of w p = [] then Inl (case reader p w of (Err e, _) \<Rightarrow> e | _ \<Rightarrow> ''empty contents'')
          else Inr (EncodeToString (content_of w p))), w)"
  using reads [of p w] by (auto simp: readAndEncodeFile_def content_of_def attempt_def bind_def)

lemma readTls_run:
  "readKubeletTlsConfig reader w =
     (Ok (if content_of w kubeletServingCertFile = [] \<or> content_of w kubeletServingPrivateKeyFile = [] then None
          else Some \<lparr>KubeletServingCert = EncodeToString (content_of w kubeletServingCertFile),
                     KubeletServingPrivateKey = EncodeToString (content_of w kubeletServingPrivateKeyFile)\<rparr>), w)"
  unfolding readKubeletTlsConfig_def by (simp add: bind_def readAndEncode_run)

end

interpretation real_reader: file_reader "RealFileReader E" for E :: "'z env_scheme"
  by unfold_locales (auto simp: RealFileReader_def os_ReadFile_def split: option.splits node.splits)

lemma emits_readTls [emits_intro]: "emits A (readKubeletTlsConfig (RealFileReader E))"
  by (simp add: emits_def real_reader.readTls_run)

text \<open>
  The kubelet's TLS configuration is used exactly when both the serving certificate and its key
  can be read and are not empty; it then holds the base64 text of the two files, and reading it
  never changes anything or fails.
\<close>

theorem readKubeletTlsConfig_both:
  "\<exists>r. readKubeletTlsConfig (RealFileReader E) w = (Ok r, w)
    \<and> (r = Some tls \<longleftrightarrow> (\<exists>c k. os_ReadFile E kubeletServingCertFile w = (Ok c, w) \<and> c \<noteq> []
         \<and> os_ReadFile E kubeletServingPrivateKeyFile w = (Ok k, w) \<and> k \<noteq> []
         \<and> tls = \<lparr>KubeletServingCert = EncodeToString c, KubeletServingPrivateKey = EncodeToString k\<rparr>))"
  using real_reader.reads [of E kubeletServingCertFile w] real_reader.reads [of E kubeletServingPrivateKeyFile w]
  by (auto simp: real_reader.readTls_run real_reader.content_of_def RealFileReader_def)

section \<open>Order of the steps\<close>

datatype kstep =
    Version | Certs | Kubeconfig | ControlPlane | EtcdLocal | BootstrapToken | ListToken
  | Register | Finish | ReadDNS | SetDNS | Prepare | KubeletStart | KillKubeletStart | EtcdJoin | KillEtcdJoin

definition phase_step :: "string \<Rightarrow> kstep list" where
  "phase_step p = (case map_of [(''certs'', Certs), (''kubeconfig'', Kubeconfig), (''control-plane'', ControlPlane),
     (''etcd'', EtcdLocal), (''bootstrap-token'', BootstrapToken), (''control-plane-prepare'', Prepare),
     (''kubelet-start'', KubeletStart), (''control-plane-join'', EtcdJoin)] p of None \<Rightarrow> [] | Some s \<Rightarrow> [s])"

definition argv_step :: "string list \<Rightarrow> kstep list" where
  "argv_step argv = (case argv of
     [] \<Rightarrow> []
   | b # args \<Rightarrow>
       if b = kubeadmBinary then (case args of
           v # _ # ph # p # _ \<Rightarrow> if ph = ''phase'' then phase_step p
             else if v = ''token'' then [ListToken] else if ph = ''--skip-phases'' then [Finish] else []
         | [v, _] \<Rightarrow> [Version]
         | _ \<Rightarrow> [])
       else if b = kubectl then (if ''svc'' \<in> set args then [ReadDNS] else [])
       else if b = ApiclientBinary then (case args of
           _ # a # _ \<Rightarrow> if prefix ''kubernetes.api-server='' a then [Register] else [SetDNS]
         | _ \<Rightarrow> [])
       else [])"

fun kubeadm_step :: "event \<Rightarrow> kstep list" where
  "kubeadm_step (Exec _ argv) = argv_step argv"
| "kubeadm_step (Start argv) = argv_step argv"
| "kubeadm_step (Kill argv) = (if argv = kubeletStartArgv then [KillKubeletStart] else [KillEtcdJoin])"
| "kubeadm_step _ = []"

lemmas kubeadm_argv_defs =
  initCertsArgv_def initPhaseArgv_def kubeadmPhase_def etcdJoinArgv_def kubeletStartArgv_def joinPrepareArgv_def
  joinFinishArgv_def joinRegisterArgv_def initRegisterArgv_def kubeadmBinary_def kubectl_def ApiclientBinary_def
  LogVerbosity_def

lemma argv_steps [simp]:
  "argv_step [kubeadmBinary, ''version'', o1] = [Version]"
  "argv_step initCertsArgv = [Certs]"
  "argv_step (initPhaseArgv ''kubeconfig'' a) = [Kubeconfig]"
  "argv_step (initPhaseArgv ''control-plane'' a) = [ControlPlane]"
  "argv_step (initPhaseArgv ''etcd'' a) = [EtcdLocal]"
  "argv_step (kubeadmPhase [''init'', ''phase'', ''bootstrap-token'', c, f]) = [BootstrapToken]"
  "argv_step [kubeadmBinary, ''token'', ''list'', ''-o'', f] = [ListToken]"
  "argv_step (initRegisterArgv s ca t tls) = [Register]"
  "argv_step (joinRegisterArgv s ca d t tls) = [Register]"
  "argv_step (kubeadmPhase [''init'', ''--skip-phases'', p, c, f]) = [Finish]"
  "argv_step joinFinishArgv = [Finish]" "argv_step joinPrepareArgv = [Prepare]"
  "argv_step kubeletStartArgv = [KubeletStart]" "argv_step etcdJoinArgv = [EtcdJoin]"
  "argv_step [ApiclientBinary, ''set'', ''kubernetes.cluster-dns-ip='' @ dns] = [SetDNS]"
  "argv_step (''bash'' # args) = []" "argv_step (staticPodCommand n b) = []"
  by (simp_all add: argv_step_def phase_step_def kubeadm_argv_defs staticPodCommand_def)

lemma follows_exec_checked: "follows L (exec_checked E argv msg) (L (Exec Combined argv))"
  by (auto simp: follows_def exec_checked_def exec_cmd_def bind_def split: prod.splits option.splits)

lemma follows_KillCmd:
  assumes "L (Sleep (2 * second)) = []"
  shows "follows L (KillCmdAfterFilesGeneration E cmd fl) (L (Kill cmd))"
proof -
  have "labels L (replicate k (Sleep (2 * second))) = []" for k using assms by (induction k) simp_all
  note silent = this [simplified]
  show ?thesis
    unfolding follows_def
  proof
    fix w
    obtain k ok w1 where run: "pollFiles E fl 20 w = (ok, w1)"
        "trace w1 = trace w @ replicate k (Sleep (2 * second))"
      using pollFiles_facts [of 20 E fl w] by blast
    show "\<exists>t. trace (snd (KillCmdAfterFilesGeneration E cmd fl w)) = trace w @ t
        \<and> prefix (labels L t) (L (Kill cmd))
        \<and> (is_ok (fst (KillCmdAfterFilesGeneration E cmd fl w)) \<longrightarrow> labels L t = L (Kill cmd))"
      by (rule exI [of _ "replicate k (Sleep (2 * second)) @ [Kill cmd]"])
        (simp add: KillCmdAfterFilesGeneration_def run silent)
  qed
qed

lemma emits_state [emits_intro]: "emits A (\<lambda>w. (Ok (f w), w))"
  by (simp add: emits_def)

lemma emits_firstReadinessURL [emits_intro]: "emits A (firstReadinessURL cs)"
proof (induction cs)
  case Nil
  show ?case unfolding firstReadinessURL.simps by (rule emits_pure)
next
  case (Cons c cs)
  then show ?case unfolding firstReadinessURL.simps by (auto split: option.splits intro!: emits_bind emits_pure)
qed

lemma emits_conversions [emits_intro]: "emits A (as_map v)" "emits A (as_string v)"
  by (auto simp: as_map_def as_string_def split: option.splits json.splits intro!: emits_intro)

lemma emits_setHostName [emits_intro]:
  "A (MkdirAll (Dir p) 416) \<Longrightarrow> (\<And>c. A (WriteFile p c 416)) \<Longrightarrow> emits A (setHostName E p)"
  unfolding setHostName_def by (intro emits_intro)

lemma emits_startEbsInit [emits_intro]: "emits A (startEbsInit E)"
  by (auto simp: startEbsInit_def split: stat.splits intro!: emits_intro)

lemma emits_finishEbs [emits_intro]: "emits A (finishEbs E c)"
  by (auto simp: finishEbs_def checkEbsInit_def emits_def split: option.splits)

lemma emits_lookups [emits_intro]:
  "emits A (GetApiServerFromKubeConfig E p)" "emits A (getEncodedCA E)" "emits A (localReadiness E)"
  "emits A (getBootstrapFromJoinConfig E p)"
  by (auto simp: GetApiServerFromKubeConfig_def getKubeConfigRaw_def getEncodedCA_def localReadiness_def
      getLocalApiServerReadinessEndpoint_def UnmarshalPodDefinition_def getBootstrapFromJoinConfig_def
      unmarshalIntoMap_def split: sum.splits intro!: emits_intro)

lemma emits_migratePods [emits_intro]:
  "(\<And>n c. A (Exec Combined (staticPodCommand n c))) \<Longrightarrow> (\<And>u. A (HttpGet u)) \<Longrightarrow> A (Sleep (10 * second)) \<Longrightarrow>
   emits A (migratePods E)"
  unfolding migratePods_def by (intro emits_intro)

lemma emits_waits [emits_intro]:
  "(\<And>u. A (HttpGet u)) \<Longrightarrow> A (Sleep (10 * second)) \<Longrightarrow> emits A (waitApiServer E l a)"
  "A (Sleep (20 * second)) \<Longrightarrow> emits A (waitForActiveKubelet E)"
  unfolding waitApiServer_def waitForActiveKubelet_def waitForKubelet_def by (intro emits_intro; simp)+

lemma labels_effects [simp]:
  "kubeadm_step (HttpGet u) = []" "kubeadm_step (Sleep d) = []" "kubeadm_step (MkdirAll p m) = []"
  "kubeadm_step (WriteFile p c m) = []"
  by simp_all

lemma follows_then_ret: "follows L m p \<Longrightarrow> follows L (bind m (\<lambda>x. ret (f x))) p"
  using follows_bind [of L m p "\<lambda>x. ret (f x)" "[]"] by (simp add: follows_def)

text \<open>Rules with the plan of a step written out, for stepping through a sequence.\<close>

lemma step_checked:
  assumes "argv_step argv = s" and "\<And>out. follows kubeadm_step (k out) q"
  shows "follows kubeadm_step (bind (exec_checked E argv msg) k) (s @ q)"
  using follows_bind [OF follows_exec_checked assms(2), of E argv msg] assms(1) by simp

lemma step_run:
  assumes "argv_step argv = s" and "\<And>u. follows kubeadm_step (k u) q"
  shows "follows kubeadm_step (bind (wrap m (exec_run E argv)) k) (s @ q)"
  using follows_bind [OF follows_handlers(2) [OF follows_exec_run] assms(2), of m E argv] assms(1) by simp

lemma step_output:
  assumes "argv_step argv = s"
  shows "follows kubeadm_step (wrap m (bind (wrap m' (exec_out E cap argv)) (\<lambda>x. ret (f x)))) s"
proof -
  have "follows kubeadm_step (exec_out E cap argv) s"
    using follows_exec_out [of kubeadm_step E cap argv] assms by simp
  then show ?thesis by (intro follows_handlers(2) follows_then_ret)
qed

lemma initVersion_follows: "follows kubeadm_step (initVersion E) [Version]"
proof -
  have "emits (\<lambda>e. kubeadm_step e = []) (bind (wrap (out @ '' is not a valid kubeadm version'')
        (lift_sum (parseGeneric E (TrimSuffix out [CHR 0x0A])))) (\<lambda>v.
      bind (wrap ''Error comparing kubeadm version with v1.29.0'' (lift_sum (versionCompare E v ''1.29.0''))) (\<lambda>c.
      bind (do_if (c \<noteq> -1) (wrap ''Error patching kube-vip manifest'' (patchKubeVipManifest E))) (\<lambda>_. ret v))))"
    for out
    unfolding patchKubeVipManifest_def Let_def by (intro emits_intro labels_effects)
  then have "follows kubeadm_step (initVersion E) ([Version] @ [])"
    unfolding initVersion_def Let_def by (intro step_checked follows_silent) simp_all
  then show ?thesis by simp
qed

lemma initPhases_follows:
  "follows kubeadm_step (initPhases E) [Certs, Kubeconfig, ControlPlane, EtcdLocal]"
proof -
  have last: "follows kubeadm_step (ret ()) []" by (simp add: follows_def)
  have "follows kubeadm_step (initPhases E) ([Certs] @ [Kubeconfig] @ [ControlPlane] @ [EtcdLocal] @ [])"
    unfolding initPhases_def for_each.simps bind_assoc bind_ret
    by (intro step_checked last) simp_all
  then show ?thesis by simp
qed

lemma initRegister_follows:
  "follows kubeadm_step (initRegister E s ca) [BootstrapToken, ListToken, Register]"
proof -
  have wait: "emits (\<lambda>e. kubeadm_step e = []) (wrap m (waitForActiveKubelet E))" for m
    by (intro emits_intro labels_effects)
  have token: "follows kubeadm_step (wrap m (getBootstrapToken E)) [ListToken]" for m
    unfolding getBootstrapToken_def
    by (rule step_output) simp
  have tls: "emits (\<lambda>e. kubeadm_step e = []) (readKubeletTlsConfig (RealFileReader E))"
    by (intro emits_intro)
  have "follows kubeadm_step (initRegister E s ca) ([BootstrapToken] @ [ListToken] @ [Register] @ [])"
    unfolding initRegister_def Let_def
    by (intro step_run follows_bind token follows_bind_silent tls step_checked follows_silent wait) simp_all
  then show ?thesis by simp
qed

lemma initFinish_follows: "follows kubeadm_step (initFinish E v) [Finish, ReadDNS, SetDNS]"
proof -
  have last: "follows kubeadm_step (ret ()) []" by (simp add: follows_def)
  have dns: "follows kubeadm_step (wrap m (getDNS E p)) [ReadDNS]" for m p
    unfolding getDNS_def
    by (rule step_output) (simp add: argv_step_def kubectl_def kubeadmBinary_def)
  have "follows kubeadm_step (initFinish E v) ([Finish] @ [ReadDNS] @ [SetDNS] @ [])"
    unfolding initFinish_def Let_def
    by (intro follows_wrap_sum step_checked follows_bind dns last)
      (simp_all add: argv_step_def kubeadm_argv_defs)
  then show ?thesis by simp
qed

lemma kubeadm_silent:
  "emits (\<lambda>e. kubeadm_step e = []) (wrap m (setHostName E p))"
  "emits (\<lambda>e. kubeadm_step e = []) (startEbsInit E)" "emits (\<lambda>e. kubeadm_step e = []) (migratePods E)"
  "emits (\<lambda>e. kubeadm_step e = []) (wrap m (GetApiServerFromKubeConfig E p))"
  "emits (\<lambda>e. kubeadm_step e = []) (wrap m (getEncodedCA E))"
  "emits (\<lambda>e. kubeadm_step e = []) (localReadiness E)"
  "emits (\<lambda>e. kubeadm_step e = []) (waitApiServer E a b)"
  "emits (\<lambda>e. kubeadm_step e = []) (finishEbs E c)"
  "emits (\<lambda>e. kubeadm_step e = []) (wrap m (getBootstrapFromJoinConfig E p))"
  "emits (\<lambda>e. kubeadm_step e = []) (wrap m (getDNSFromJoinConfig E p))"
  "emits (\<lambda>e. kubeadm_step e = []) (wrap m (waitForActiveKubelet E))"
  unfolding getDNSFromJoinConfig_def by (intro emits_intro; simp)+

text \<open>
  Initialising a control plane runs its steps in one order, whatever fails: the version check,
  certificates, kubeconfigs, control-plane and etcd manifests, the bootstrap token, the registration
  of the host through the API, the remaining kubeadm phases, and the cluster DNS last.  The steps
  run are a prefix of this list, and all of it on success.
\<close>

theorem controlPlaneInit_order:
  "follows kubeadm_step (controlPlaneInit E)
     [Version, Certs, Kubeconfig, ControlPlane, EtcdLocal, BootstrapToken, ListToken, Register, Finish, ReadDNS, SetDNS]"
proof -
  have "follows kubeadm_step (controlPlaneInit E)
    ([Version] @ [Certs, Kubeconfig, ControlPlane, EtcdLocal] @ [BootstrapToken, ListToken, Register] @
     [Finish, ReadDNS, SetDNS] @ [])"
    unfolding controlPlaneInit_def
    by (rule follows_bind_silent, rule kubeadm_silent, rule follows_bind_silent, rule kubeadm_silent,
        rule follows_bind, rule initVersion_follows, rule follows_bind, rule initPhases_follows,
        rule follows_bind_silent, rule kubeadm_silent, rule follows_bind_silent, rule kubeadm_silent,
        rule follows_bind_silent, rule kubeadm_silent, rule follows_bind_silent, rule kubeadm_silent,
        rule follows_bind_silent, rule kubeadm_silent, rule follows_bind, rule initRegister_follows,
        rule follows_bind, rule initFinish_follows, rule follows_silent, rule kubeadm_silent)
  then show ?thesis by simp
qed

lemma startKubeletJoin_follows:
  "follows kubeadm_step (startKubeletJoin E) [KubeletStart, KillKubeletStart]"
proof -
  have "follows kubeadm_step (startKubeletJoin E)
      (kubeadm_step (Start kubeletStartArgv) @ kubeadm_step (Kill kubeletStartArgv))"
    unfolding startKubeletJoin_def killCmdAfterJoinFilesGeneration_def
    by (intro follows_bind follows_handlers(2) follows_exec_start follows_KillCmd) simp
  then show ?thesis by simp
qed

text \<open>
  Joining a worker starts kubeadm's kubelet phase in the background, always kills it again
  before going on, and registers the host through the API once after that; nothing is registered
  if the files of the phase did not appear.
\<close>

theorem workerJoin_order:
  "follows kubeadm_step (workerJoin E) [KubeletStart, KillKubeletStart, Register]"
proof -
  have "follows kubeadm_step (workerJoin E) ([KubeletStart, KillKubeletStart] @ [Register] @ [])"
    unfolding workerJoin_def Let_def
    by (rule follows_bind_silent, rule kubeadm_silent, rule follows_bind, rule startKubeletJoin_follows,
        rule follows_bind_silent, rule kubeadm_silent, split prod.split, intro allI impI,
        rule follows_bind_silent, rule kubeadm_silent, rule follows_bind_silent, rule kubeadm_silent,
        rule step_checked, simp, rule follows_silent, intro emits_intro labels_effects)
  then show ?thesis by simp
qed

text \<open>The local etcd member is joined or not, depending on the cluster; the other steps are fixed.\<close>

definition join_step :: "event \<Rightarrow> kstep list" where
  "join_step e = filter (\<lambda>s. s \<notin> {EtcdJoin, KillEtcdJoin}) (kubeadm_step e)"

lemma follows_mono:
  assumes "follows L m p"
  shows "follows (\<lambda>e. filter P (L e)) m (filter P p)"
proof -
  have f: "labels (\<lambda>e. filter P (L e)) t = filter P (labels L t)" for t by (induction t) simp_all
  have "prefix xs ys \<Longrightarrow> prefix (filter P xs) (filter P ys)" for xs ys by (auto simp: prefix_def)
  then show ?thesis
    unfolding follows_def f
    by (metis (no_types, lifting) assms follows_def)
qed

lemma joinRegister_follows: "follows kubeadm_step (joinRegister E) [Register]"
proof -
  have tls: "emits (\<lambda>e. kubeadm_step e = []) (readKubeletTlsConfig (RealFileReader E))"
    by (intro emits_intro)
  have last: "follows kubeadm_step (bind (wrap m (waitForActiveKubelet E)) (\<lambda>_. ret s)) []" for m s
    by (rule follows_silent) (intro emits_intro kubeadm_silent)
  have "follows kubeadm_step (joinRegister E) ([Register] @ [])"
    unfolding joinRegister_def Let_def
    by (rule follows_bind_silent, rule kubeadm_silent, rule follows_bind_silent, rule kubeadm_silent,
        split prod.split, intro allI impI, rule follows_bind_silent, rule kubeadm_silent,
        rule follows_bind_silent, rule tls, rule step_run, simp, rule last)
  then show ?thesis by simp
qed

lemma joinEtcd_silent: "emits (\<lambda>e. join_step e = []) (joinEtcdIfLocal E)"
  unfolding joinEtcdIfLocal_def isClusterWithExternalEtcd_def getClusterConfigurationFromCluster_def
    isExternalEtcd_def unmarshalIntoMap_def joinLocalEtcd_def
  by (intro emits_intro)
    (simp_all add: join_step_def, simp_all add: argv_step_def phase_step_def kubeadm_argv_defs kubeconfigPath_def)

lemma join_silent: "emits (\<lambda>e. kubeadm_step e = []) m \<Longrightarrow> emits (\<lambda>e. join_step e = []) m"
  by (erule emits_weaken) (simp add: join_step_def)

text \<open>
  Joining a control plane runs its steps in one order, whatever fails: prepare, the kubelet
  phase in the background and its kill, the registration of the host, and the remaining phases
  last; a local etcd member is joined between the last two.
\<close>

theorem controlPlaneJoin_order:
  "follows join_step (controlPlaneJoin E) [Prepare, KubeletStart, KillKubeletStart, Register, Finish]"
proof -
  have prep: "follows join_step (wrap m (exec_run E joinPrepareArgv)) [Prepare]"
    and fin: "follows join_step (wrap m (exec_run E joinFinishArgv)) [Finish]" for m
    using follows_exec_run [of join_step E joinPrepareArgv] follows_exec_run [of join_step E joinFinishArgv]
    by (simp_all add: join_step_def follows_handlers(2))
  have start: "follows join_step (startKubeletJoin E) [KubeletStart, KillKubeletStart]"
    and reg: "follows join_step (joinRegister E) [Register]"
    using follows_mono [OF startKubeletJoin_follows, of "\<lambda>s. s \<notin> {EtcdJoin, KillEtcdJoin}" E]
      follows_mono [OF joinRegister_follows, of "\<lambda>s. s \<notin> {EtcdJoin, KillEtcdJoin}" E]
    unfolding join_step_def by simp_all
  have "follows join_step (controlPlaneJoin E)
      ([Prepare] @ [KubeletStart, KillKubeletStart] @ [Register] @ [Finish] @ [])"
    unfolding controlPlaneJoin_def
    by (rule follows_bind_silent, rule join_silent, rule kubeadm_silent, rule follows_bind_silent,
        rule join_silent, rule kubeadm_silent, rule follows_bind, rule prep, rule follows_bind, rule start,
        rule follows_bind, rule reg, rule follows_bind_silent, rule joinEtcd_silent,
        rule follows_bind_silent, rule join_silent, rule kubeadm_silent, rule follows_bind_silent,
        rule join_silent, rule kubeadm_silent, rule follows_bind_silent, rule join_silent,
        rule kubeadm_silent, rule follows_bind, rule fin, rule follows_silent, rule join_silent,
        rule kubeadm_silent)
  then show ?thesis by simp
qed

definition kubeadm_plan :: "string \<Rightarrow> kstep list" where
  "kubeadm_plan cmd =
     (if cmd = ''ControlPlaneInit'' then
        [Version, Certs, Kubeconfig, ControlPlane, EtcdLocal, BootstrapToken, ListToken, Register, Finish, ReadDNS, SetDNS]
      else if cmd = ''ControlPlaneJoin'' then [Prepare, KubeletStart, KillKubeletStart, Register, Finish]
      else if cmd = ''WorkerJoin'' then [KubeletStart, KillKubeletStart, Register]
      else [])"

text \<open>
  C13.  Whatever fails, a kubeadm bootstrap goes through the steps of its command in one order, and
  through all of them when it succeeds.  Initialising a control plane: the version check, certificates,
  kubeconfigs, control-plane and etcd manifests, the bootstrap token, the registration of the host,
  the remaining phases, the cluster DNS.  Joining one: prepare, the kubelet phase in the background
  and its kill, the registration, the remaining phases (joining a local etcd member before them
  depends on the cluster and is not counted).  Joining a worker: the kubelet phase, its kill, the
  registration.  Any other command succeeds without doing anything.
\<close>

theorem kubeadm_RunCmd_order: "follows join_step (kubeadm_RunCmd E ud) (kubeadm_plan (RunCmd ud))"
proof -
  have i: "follows join_step (controlPlaneInit E) (kubeadm_plan ''ControlPlaneInit'')"
    and w: "follows join_step (workerJoin E) (kubeadm_plan ''WorkerJoin'')"
    using follows_mono [OF controlPlaneInit_order, of "\<lambda>s. s \<notin> {EtcdJoin, KillEtcdJoin}" E]
      follows_mono [OF workerJoin_order, of "\<lambda>s. s \<notin> {EtcdJoin, KillEtcdJoin}" E]
    unfolding join_step_def by (simp_all add: kubeadm_plan_def)
  have j: "follows join_step (controlPlaneJoin E) (kubeadm_plan ''ControlPlaneJoin'')"
    using controlPlaneJoin_order by (simp add: kubeadm_plan_def)
  have n: "follows join_step (ret ()) []" by (simp add: follows_def)
  show ?thesis
    using i j w n by (auto simp: kubeadm_RunCmd_def kubeadm_plan_def intro!: follows_handlers(2))
qed

section \<open>What the host is given\<close>

lemma getEncodedCA_Ok:
  "getEncodedCA E w = (Ok b, w') \<longleftrightarrow>
     (\<exists>ca. os_ReadFile E kubernetesCACertFile w = (Ok ca, w') \<and> b = EncodeToString ca)"
  by (auto simp: getEncodedCA_def bind_Ok_iff)

lemma os_ReadFile_Ok:
  "os_ReadFile E p w = (Ok c, w') \<Longrightarrow> w' = w \<and> (\<exists>m. fs_get (fs w) p = Some (File c m))"
  by (auto simp: os_ReadFile_def split: option.splits node.splits)

lemma emits_grows: "emits A m \<Longrightarrow> m w = (r, w') \<Longrightarrow> set (trace w) \<subseteq> set (trace w')"
  by (erule (1) emitsE) auto

lemma getBootstrapFromJoinConfig_Ok:
  assumes "getBootstrapFromJoinConfig E p w = (Ok (s, t), w')"
  shows "\<exists>ep. s = ''https://'' @ ep"
  using assms
  by (auto simp: getBootstrapFromJoinConfig_def bind_Ok_iff)

text \<open>
  A worker that joined was registered with the cluster's API server over https and with the
  certificate in the CA file: the API command carries the base64 text of that file, which decodes
  to it, and turns standalone mode off.
\<close>

theorem workerJoin_registers:
  assumes "workerJoin E w = (Ok (), w')"
  shows "\<exists>(v :: world) ep ca m dns token. fs_get (fs v) kubernetesCACertFile = Some (File ca m)
    \<and> Exec Combined (joinRegisterArgv (''https://'' @ ep) (EncodeToString ca) dns token None) \<in> set (trace w')
    \<and> DecodeString (EncodeToString ca) = Inr ca"
proof -
  from assms obtain s t w1 b w2 w3 dns w4 out w5 w6 where
      boot: "getBootstrapFromJoinConfig E kubeadmJoinFile w1 = (Ok (s, t), w2)"
    and ca: "getEncodedCA E w2 = (Ok b, w3)"
    and reg: "exec_checked E (joinRegisterArgv s b dns t None)
        (withOutput E (joinRegisterArgv s b dns t None) ''output'') w4 = (Ok out, w5)"
    and wait: "waitForActiveKubelet E w5 = (Ok (), w')"
    by (auto simp: workerJoin_def bind_Ok_iff Let_def)
  obtain ep where ep: "s = ''https://'' @ ep" using getBootstrapFromJoinConfig_Ok [OF boot] by blast
  obtain c m where c: "fs_get (fs w2) kubernetesCACertFile = Some (File c m)" "b = EncodeToString c"
    using ca by (auto simp: getEncodedCA_Ok dest!: os_ReadFile_Ok)
  have "Exec Combined (joinRegisterArgv s b dns t None) \<in> set (trace w5)"
    using reg by (auto simp: exec_checked_def exec_cmd_def bind_Ok_iff split: prod.splits option.splits)
  moreover have live: "emits (\<lambda>_. True) (waitForActiveKubelet E)" by (intro emits_intro) simp
  ultimately have "Exec Combined (joinRegisterArgv s b dns t None) \<in> set (trace w')"
    using emits_grows [OF live wait] by blast
  then show ?thesis
    using ep c DecodeString_EncodeToString
    by (intro exI [of _ w2] exI [of _ ep] exI [of _ c] exI [of _ m] exI [of _ dns] exI [of _ t]) simp
qed

definition worker_env :: bb_env where
  "worker_env = bb_quiet\<lparr>
     unitEvents := (\<lambda>_. [(second, StatusChange [(''kubelet.service'', Some (''active'', ''running''))])]),
     yamlMap := (\<lambda>_. Inr [(''discovery'', JObj [(''bootstrapToken'',
       JObj [(''apiServerEndpoint'', JStr ''10.0.0.1:6443''), (''token'', JStr ''abc'')])])])\<rparr>"

definition worker_world :: world where
  "worker_world = start\<lparr>fs := [(''/tmp/kubeadm-join-config.yaml'', File ''x'' 416),
     (''/var/lib/kubelet/config.yaml'', File ''y'' 416), (''/var/lib/kubelet/kubeadm-flags.env'', File ''z'' 416),
     (''/var/lib/kubeadm/pki/ca.crt'', File ''ca'' 416), (''/etc/kubernetes/pki/ca.crt'', File ''ca'' 416)]\<rparr>"

lemma worker_path: "Dir kubeadmJoinFile = ''/tmp''" "ancestors ''/tmp'' = [''/tmp'']"
  "ReplaceAll ''x'' hostnamePlaceholder ''node'' = ''x''"
  by code_simp+

lemma pollFiles_first:
  "allFilesExist E (sleep_for E (2 * second) w) fl \<Longrightarrow> pollFiles E fl 20 w = (True, sleep_for E (2 * second) w)"
  using pollFiles.simps(2) [of E fl 19 w] by (simp add: Let_def)

lemmas worker_eval =
  worker_env_def worker_world_def bb_quiet_def os_ReadFile_def fs_get_def bind_def wrap_def map_err_def

lemma worker_hostname:
  "\<exists>w. setHostName worker_env kubeadmJoinFile worker_world = (Ok (), w) \<and>
     list_all (\<lambda>(p, n). fs_get (fs w) p = Some n) (fs worker_world)"
  using worker_path
  by (simp add: worker_eval setHostName_def Write_def os_MkdirAll_def os_WriteFile_def with_io_def
      kubeadmJoinFile_def fs_write_def fs_put_def is_file_def fs_mkdirs_def fs_mkdir1_def)

lemma worker_kubelet: "\<exists>w'. waitForActiveKubelet worker_env w = (Ok (), w')"
  by (simp add: waitForActiveKubelet_def waitForKubelet_def WaitForSystemdService_def dbusConnection_def
      worker_eval unitReadiness_def KubeletService_def HasSuffix_def suffix_def time_Sleep_def)

lemma worker_joins: "\<exists>w'. workerJoin worker_env worker_world = (Ok (), w')"
proof -
  obtain w where host: "setHostName worker_env kubeadmJoinFile worker_world = (Ok (), w)"
    and files: "list_all (\<lambda>(p, n). fs_get (fs w) p = Some n) (fs worker_world)"
    using worker_hostname by blast
  have "\<exists>w1. startKubeletJoin worker_env w = (Ok (), w1) \<and> fs w1 = fs w"
    using files
    by (simp add: startKubeletJoin_def exec_start_def killCmdAfterJoinFilesGeneration_def
        KillCmdAfterFilesGeneration_def bind_def wrap_def map_err_def worker_env_def bb_quiet_def
        pollFiles_first allFilesExist_def fileMissing_def os_Stat_def joinCheckFiles_def sleep_for_def
        worker_world_def)
  then obtain w1 where start: "startKubeletJoin worker_env w = (Ok (), w1)" "fs w1 = fs w" by blast
  have get: "fs_get (fs w1) kubeadmJoinFile = Some (File ''x'' 416)"
      "fs_get (fs w1) kubernetesCACertFile = Some (File ''ca'' 416)"
      "fs_get (fs w1) kubeletConfigFile = Some (File ''y'' 416)"
    using files start(2)
    by (simp_all add: worker_world_def kubeadmJoinFile_def kubernetesCACertFile_def kubeletConfigFile_def)
  have boot: "getBootstrapFromJoinConfig worker_env kubeadmJoinFile w1 = (Ok (''https://10.0.0.1:6443'', ''abc''), w1)"
    using get(1)
    by (simp add: getBootstrapFromJoinConfig_def unmarshalIntoMap_def os_ReadFile_def worker_env_def bb_quiet_def
        as_map_def as_string_def bind_def wrap_def map_err_def)
  have ca: "getEncodedCA worker_env w1 = (Ok (EncodeToString ''ca''), w1)"
    using get(2) by (simp add: getEncodedCA_def os_ReadFile_def worker_env_def bb_quiet_def bind_def wrap_def map_err_def)
  have "\<exists>d w2. getDNSFromJoinConfig worker_env kubeletConfigFile w1 = (Ok d, w2)"
    using get(3)
    by (simp add: getDNSFromJoinConfig_def os_ReadFile_def exec_out_def exec_cmd_def worker_env_def bb_quiet_def
        bind_def wrap_def map_err_def)
  then obtain d w2 where dns: "getDNSFromJoinConfig worker_env kubeletConfigFile w1 = (Ok d, w2)" by blast
  have reg: "\<exists>o1 w3. exec_checked worker_env argv msg w2 = (Ok o1, w3)" for argv msg
    by (simp add: exec_checked_def exec_cmd_def worker_env_def bb_quiet_def bind_def)
  show ?thesis
    by (simp add: workerJoin_def bind_Ok_iff host start(1) boot ca dns Let_def) (meson worker_kubelet reg)
qed

theorem workerJoin_registers_witness:
  "\<exists>(v :: world) ep ca m dns token. fs_get (fs v) kubernetesCACertFile = Some (File ca m)
    \<and> Exec Combined (joinRegisterArgv (''https://'' @ ep) (EncodeToString ca) dns token None)
        \<in> set (trace (snd (workerJoin worker_env worker_world)))
    \<and> DecodeString (EncodeToString ca) = Inr ca"
  using worker_joins workerJoin_registers [of worker_env worker_world] by fastforce

section \<open>The walk over the root volume\<close>

fun leaf_at :: "tree \<Rightarrow> string list \<Rightarrow> kind \<Rightarrow> bool" where
  "leaf_at (Leaf name k) q k' \<longleftrightarrow> q = [name] \<and> k' = k"
| "leaf_at (Branch name ts) q k' \<longleftrightarrow> (case q of [] \<Rightarrow> False | n # r \<Rightarrow> n = name \<and> (\<exists>t \<in> set ts. leaf_at t r k'))"

definition special :: "string set" where
  "special = {''proc'', ''sys'', ''run''}"

lemma leaf_at_ne: "leaf_at t q k \<Longrightarrow> q \<noteq> []"
  by (cases t) auto

lemma leaf_at_Branch: "leaf_at (Branch name ts) q k \<longleftrightarrow> (\<exists>t \<in> set ts. \<exists>r. q = name # r \<and> leaf_at t r k)"
  by (cases q) auto

text \<open>
  The background read of the root volume reads exactly the regular files of the tree none of
  whose directories is called \<open>proc\<close>, \<open>sys\<close> or \<open>run\<close>.
\<close>

theorem walkDir_reads:
  "p \<in> set (walkDir pre t) \<longleftrightarrow> (\<exists>q. p = pre @ q \<and> leaf_at t q Regular \<and> set (butlast q) \<inter> special = {})"
proof (induction t arbitrary: pre)
  case (Leaf name k)
  show ?case by (auto simp: walkDirFunc_def)
next
  case (Branch name ts)
  have "p \<in> set (walkDir pre (Branch name ts)) \<longleftrightarrow>
      name \<notin> special \<and> (\<exists>t \<in> set ts. p \<in> set (walkDir (pre @ [name]) t))"
    by (auto simp: walkDirFunc_def special_def)
  also have "\<dots> \<longleftrightarrow> (\<exists>t \<in> set ts. \<exists>r. p = pre @ name # r \<and> leaf_at t r Regular
      \<and> set (butlast (name # r)) \<inter> special = {})"
    using Branch.IH by (auto dest: leaf_at_ne)
  also have "\<dots> \<longleftrightarrow> (\<exists>q. p = pre @ q \<and> leaf_at (Branch name ts) q Regular \<and> set (butlast q) \<inter> special = {})"
    unfolding leaf_at_Branch by blast
  finally show ?case .
qed

section \<open>Errors that are lost\<close>

text \<open>
  A kubeconfig without exactly one cluster is not reported as an error: the call returns the
  empty server address instead.
\<close>

theorem GetApiServer_silent_failure:
  assumes "fs_get (fs w) p = Some (File c m)" and "ioerr E w (ReadFile p) = None"
    and "kubeconfigParse E c = Inr (Inr clusters)" and "length clusters \<noteq> 1"
  shows "GetApiServerFromKubeConfig E p w = (Ok [], w)"
  using assms
  by (simp add: GetApiServerFromKubeConfig_def getKubeConfigRaw_def os_ReadFile_def bind_def wrap_def map_err_def)

theorem GetApiServer_silent_failure_witness:
  "GetApiServerFromKubeConfig bb_quiet ''/k'' (start\<lparr>fs := [(''/k'', File ''two'' 416)]\<rparr>) =
     (Ok [], start\<lparr>fs := [(''/k'', File ''two'' 416)]\<rparr>)"
  by (rule GetApiServer_silent_failure [where c = "''two''" and m = 416 and clusters = "[]"])
    (simp_all add: bb_quiet_def fs_get_def)

text \<open>
  A command that is none of the three known ones is not an error: kubeadm's \<open>RunCmd\<close> does nothing
  and reports success.
\<close>

theorem kubeadm_RunCmd_unknown:
  assumes "RunCmd ud \<notin> {''ControlPlaneInit'', ''ControlPlaneJoin'', ''WorkerJoin''}"
  shows "kubeadm_RunCmd E ud w = (Ok (), w)"
  using assms by (simp add: kubeadm_RunCmd_def)

theorem kubeadm_RunCmd_unknown_witness:
  "kubeadm_RunCmd bb_quiet \<lparr>UserDataType = [], WriteFiles = [], RunCmd = ''ControlPlaneInitt''\<rparr> start = (Ok (), start)"
  by (rule kubeadm_RunCmd_unknown) simp

end
