(* ===== verification/BB_Bootstrap.thy ===== *)
theory BB_Bootstrap
  imports BB_Etcdadm BB_Kubeadm
begin

text \<open>
  \<open>pkg/bootstrap.go\<close> and \<open>main.go\<close>: the bootstrap of a Bottlerocket host container.  It waits for the
  host, takes its marker, reads the user data, picks the etcdadm or kubeadm bootstrapper, runs it
  and disables its own container at the end.  The Go interface \<open>bootstrapper\<close> is a locale, with both
  implementations as interpretations.
\<close>

section \<open>The program\<close>

definition marker :: string where
  "marker = ''/.bottlerocket/host-containers/'' @ BootstrapContainerName @ ''/.ran''"

text \<open>The marker only says that the program ran before: it goes on after 0.1 ms in either case.\<close>

definition acquireLock :: "'z env_scheme \<Rightarrow> (world, unit) prog" where
  "acquireLock E = bind (os_Stat E marker) (\<lambda>st. case st of
       Exists _ \<Rightarrow> bind (attempt (DisableBootstrapContainer E)) (\<lambda>_. time_Sleep E 100000)
     | _ \<Rightarrow> bind (attempt (os_Create E marker)) (\<lambda>_. ret ()))"

definition waitForPreReqs :: "'z bb_env_scheme \<Rightarrow> (world, unit) prog" where
  "waitForPreReqs E =
     bind (wrap (''Error waiting for multi-user.target'' @ [CHR 0x0A])
       (WaitForSystemdService E MultiUserTarget (300 * second))) (\<lambda>_.
     wrap ''Error waiting for kubelet'' (WaitForSystemdService E KubeletService (30 * second)))"

record bootstrapper =
  InitializeDirectories :: "(world, unit) prog"
  BootstrapRunCmd :: "(world, unit) prog"

definition buildBootstrapper :: "'z bb_env_scheme \<Rightarrow> UserData \<Rightarrow> bootstrapper" where
  "buildBootstrapper E userData =
     (if HasPrefix (RunCmd userData) CmdPrefix then
        \<lparr>InitializeDirectories = etcdadm_InitializeDirectories E, BootstrapRunCmd = etcdadm_RunCmd E userData\<rparr>
      else
        \<lparr>InitializeDirectories = kubeadm_InitializeDirectories E, BootstrapRunCmd = kubeadm_RunCmd E userData\<rparr>)"

definition Bootstrap :: "'z bb_env_scheme \<Rightarrow> (world, unit) prog" where
  "Bootstrap E =
     bind (or_exit 1 (waitForPreReqs E)) (\<lambda>_.
     bind (acquireLock E) (\<lambda>_.
     bind (or_exit 1 (ResolveHostContainerUserData E)) (\<lambda>userData.
     let b = buildBootstrapper E userData in
     bind (or_exit 1 (InitializeDirectories b)) (\<lambda>_.
     bind (or_exit 1 (WriteUserDataFiles E userData)) (\<lambda>_.
     bind (or_exit 1 (BootstrapRunCmd b)) (\<lambda>_.
     bind (or_exit 1 (DisableBootstrapContainer E)) (\<lambda>_.
     exit_with 0)))))))"

section \<open>What a bootstrapper promises\<close>

definition disable_event :: event where
  "disable_event = Exec NoCapture
     [''apiclient'', ''set'', ''host-containers.kubeadm-bootstrap.enabled=false'']"

text \<open>
  Both steps of a bootstrapper come back (with an error perhaps, never by ending the process), and
  neither of them disables the bootstrap container.
\<close>

locale host_bootstrapper =
  fixes init run :: "(world, unit) prog"
  assumes init_returns: "no_exit init" and run_returns: "no_exit run"
    and init_keeps: "emits (\<lambda>e. e \<noteq> disable_event) init"
    and run_keeps: "emits (\<lambda>e. e \<noteq> disable_event) run"
begin

text \<open>The two steps in order, with anything that keeps the same promise in between.\<close>

lemma steps_return:
  "no_exit mid \<Longrightarrow> no_exit (bind init (\<lambda>_. bind mid (\<lambda>_. run)))"
  by (intro no_exit_intro init_returns run_returns)

lemma steps_keep:
  "emits (\<lambda>e. e \<noteq> disable_event) mid \<Longrightarrow>
   emits (\<lambda>e. e \<noteq> disable_event) (bind (or_exit 1 init) (\<lambda>_. bind (or_exit 1 mid) (\<lambda>_. or_exit 1 run)))"
  by (intro emits_intro init_keeps run_keeps)

end

lemma no_exit_WaitFor200 [no_exit_intro]: "no_exit (WaitFor200 E url timeout)"
proof -
  have "fst (wait200_loop E url d w) \<noteq> Exit c" for d w c
    using wait200_facts [of E url d w] by auto
  then show ?thesis by (simp add: no_exit_def WaitFor200_def)
qed

lemma no_exit_WaitForSystemdService [no_exit_intro]: "no_exit (WaitForSystemdService E service timeout)"
proof -
  have "fst (unitLoop E service timeout msgs w) \<noteq> Exit c" for msgs w c
    by (induction msgs arbitrary: w)
      (auto split: prod.splits unit_event.splits readiness.splits if_splits)
  then have "no_exit (\<lambda>w. unitLoop E service timeout (unitEvents E w) w)" by (simp add: no_exit_def)
  then show ?thesis unfolding WaitForSystemdService_def dbusConnection_def by (intro no_exit_intro)
qed

lemma no_exit_KillCmd [no_exit_intro]: "no_exit (KillCmdAfterFilesGeneration E cmd fl)"
  by (auto simp: no_exit_def KillCmdAfterFilesGeneration_def split: prod.splits)

lemma no_exit_pods [no_exit_intro]:
  "no_exit (EnableStaticPods E path)" "no_exit (WaitForPods E pods)"
  by (auto simp: EnableStaticPods_def enableStaticPod_def UnmarshalPodDefinition_def WaitForPods_def
      waitForPodLiveness_def split: option.splits intro!: no_exit_intro)

lemma no_exit_etcdadm: "no_exit (etcdadm_InitializeDirectories E)" "no_exit (etcdadm_RunCmd E ud)"
proof -
  have phases: "no_exit (runPhases E cmd phases flags args)" for cmd phases flags args
    by (auto simp: runPhases_def split: option.splits intro!: no_exit_intro)
  have "no_exit (command_run E cmd)" for cmd
    unfolding command_run_shape startEtcdPods_def by (intro no_exit_intro phases)
  then show "no_exit (etcdadm_RunCmd E ud)" unfolding etcdadm_RunCmd_def by (intro no_exit_intro)
qed (auto simp: etcdadm_InitializeDirectories_def CreateSymLink_def Let_def intro!: no_exit_intro)

lemma keeps_etcdadm:
  "emits (\<lambda>e. e \<noteq> disable_event) (etcdadm_InitializeDirectories E)"
  "emits (\<lambda>e. e \<noteq> disable_event) (etcdadm_RunCmd E ud)"
proof -
  have phases: "emits (\<lambda>e. e \<noteq> disable_event) (runPhases E cmd phases flags args)" for cmd phases flags args
    by (auto simp: runPhases_def disable_event_def split: option.splits intro!: emits_intro)
  have "emits (\<lambda>e. e \<noteq> disable_event) (startEtcdPods E)"
    unfolding startEtcdPods_def by (intro emits_intro) (simp_all add: disable_event_def)
  then have "emits (\<lambda>e. e \<noteq> disable_event) (command_run E cmd)" for cmd
    unfolding command_run_shape by (intro emits_bind phases)
  then show "emits (\<lambda>e. e \<noteq> disable_event) (etcdadm_RunCmd E ud)"
    unfolding etcdadm_RunCmd_def by (intro emits_bind emits_pure)
qed (auto simp: etcdadm_InitializeDirectories_def CreateSymLink_def Let_def disable_event_def intro!: emits_intro)

interpretation etcdadm: host_bootstrapper "etcdadm_InitializeDirectories E" "etcdadm_RunCmd E ud"
  for E :: "'z bb_env_scheme" and ud
  by unfold_locales (rule no_exit_etcdadm keeps_etcdadm)+

lemma no_exit_files [no_exit_intro]: "no_exit (Write E p c m)"
  unfolding Write_def by (intro no_exit_intro)

lemma no_exit_checked [no_exit_intro]: "no_exit (exec_checked E argv msg)"
  by (auto simp: exec_checked_def split: option.splits intro!: no_exit_intro)

lemma no_exit_readTls [no_exit_intro]: "no_exit (readKubeletTlsConfig (RealFileReader E))"
  by (simp add: no_exit_def real_reader.readTls_run)

lemma no_exit_firstReadinessURL [no_exit_intro]: "no_exit (firstReadinessURL cs)"
proof (induction cs)
  case Nil
  show ?case unfolding firstReadinessURL.simps by (rule no_exit_pure)
next
  case (Cons c cs)
  then show ?case unfolding firstReadinessURL.simps by (auto split: option.splits intro!: no_exit_intro)
qed

lemma no_exit_conversions [no_exit_intro]: "no_exit (as_map v)" "no_exit (as_string v)"
  by (auto simp: as_map_def as_string_def split: option.splits json.splits intro!: no_exit_intro)

lemma no_exit_kubeadm_parts [no_exit_intro]:
  "no_exit (setHostName E p)" "no_exit (startEbsInit E)" "no_exit (finishEbs E c)" "no_exit (migratePods E)"
  "no_exit (localReadiness E)" "no_exit (waitApiServer E a b)" "no_exit (waitForActiveKubelet E)"
  "no_exit (getEncodedCA E)" "no_exit (getBootstrapFromJoinConfig E p)" "no_exit (getDNSFromJoinConfig E p)"
  "no_exit (GetApiServerFromKubeConfig E p)" "no_exit (patchKubeVipManifest E)"
  by (auto simp: setHostName_def startEbsInit_def finishEbs_def checkEbsInit_def migratePods_def localReadiness_def
      getLocalApiServerReadinessEndpoint_def UnmarshalPodDefinition_def waitApiServer_def waitForActiveKubelet_def
      waitForKubelet_def getEncodedCA_def getBootstrapFromJoinConfig_def unmarshalIntoMap_def
      getDNSFromJoinConfig_def GetApiServerFromKubeConfig_def getKubeConfigRaw_def patchKubeVipManifest_def Let_def
      split: option.splits stat.splits sum.splits intro!: no_exit_intro)

lemma no_exit_controlPlaneInit: "no_exit (controlPlaneInit E)"
  unfolding controlPlaneInit_def initVersion_def initPhases_def initRegister_def getBootstrapToken_def initFinish_def
    getDNS_def Let_def
  by (intro no_exit_intro)

lemma no_exit_controlPlaneJoin: "no_exit (controlPlaneJoin E)"
  unfolding controlPlaneJoin_def startKubeletJoin_def killCmdAfterJoinFilesGeneration_def joinRegister_def
    joinEtcdIfLocal_def isClusterWithExternalEtcd_def getClusterConfigurationFromCluster_def isExternalEtcd_def
    unmarshalIntoMap_def joinLocalEtcd_def Let_def
  by (auto intro!: no_exit_intro)

lemma no_exit_workerJoin: "no_exit (workerJoin E)"
  unfolding workerJoin_def startKubeletJoin_def killCmdAfterJoinFilesGeneration_def Let_def
  by (auto intro!: no_exit_intro)

lemma no_exit_kubeadm: "no_exit (kubeadm_InitializeDirectories E)" "no_exit (kubeadm_RunCmd E ud)"
  by (auto simp: kubeadm_InitializeDirectories_def kubeadm_RunCmd_def
      intro!: no_exit_intro no_exit_controlPlaneInit no_exit_controlPlaneJoin no_exit_workerJoin)

text \<open>None of the commands kubeadm's bootstrapper runs is the one that disables the container.\<close>

lemma keeps_events [simp]:
  "Exec Combined argv \<noteq> disable_event" "Exec Stdout argv \<noteq> disable_event" "HttpGet u \<noteq> disable_event"
  "Sleep d \<noteq> disable_event" "MkdirAll p m \<noteq> disable_event" "event.WriteFile p c m \<noteq> disable_event"
  "Start argv \<noteq> disable_event" "Kill argv \<noteq> disable_event" "Chown p i j \<noteq> disable_event"
  "Create p \<noteq> disable_event" "Call n args \<noteq> disable_event"
  "Exec cap (kubeadmPhase args) \<noteq> disable_event" "Exec cap (symlinkArgv t) \<noteq> disable_event"
  "Exec cap joinPrepareArgv \<noteq> disable_event" "Exec cap joinFinishArgv \<noteq> disable_event"
  "Exec cap (joinRegisterArgv x1 x2 x3 x4 x5) \<noteq> disable_event"
  by (simp_all add: disable_event_def kubeadm_argv_defs symlinkArgv_def)

lemma emits_checked [emits_intro]: "A (Exec Combined argv) \<Longrightarrow> emits A (exec_checked E argv msg)"
  by (auto simp: exec_checked_def split: option.splits intro!: emits_intro)

lemma keeps_controlPlaneInit: "emits (\<lambda>e. e \<noteq> disable_event) (controlPlaneInit E)"
  unfolding controlPlaneInit_def initVersion_def initPhases_def initRegister_def getBootstrapToken_def initFinish_def
    getDNS_def patchKubeVipManifest_def Let_def
  by (intro emits_intro keeps_events)

lemma keeps_controlPlaneJoin: "emits (\<lambda>e. e \<noteq> disable_event) (controlPlaneJoin E)"
  unfolding controlPlaneJoin_def startKubeletJoin_def killCmdAfterJoinFilesGeneration_def joinRegister_def
    joinEtcdIfLocal_def isClusterWithExternalEtcd_def getClusterConfigurationFromCluster_def isExternalEtcd_def
    unmarshalIntoMap_def joinLocalEtcd_def getDNSFromJoinConfig_def Let_def
  by (auto intro!: emits_intro)

lemma keeps_workerJoin: "emits (\<lambda>e. e \<noteq> disable_event) (workerJoin E)"
  unfolding workerJoin_def startKubeletJoin_def killCmdAfterJoinFilesGeneration_def getDNSFromJoinConfig_def Let_def
  by (auto intro!: emits_intro)

lemma keeps_kubeadm:
  "emits (\<lambda>e. e \<noteq> disable_event) (kubeadm_InitializeDirectories E)"
  "emits (\<lambda>e. e \<noteq> disable_event) (kubeadm_RunCmd E ud)"
  by (auto simp: kubeadm_InitializeDirectories_def kubeadm_RunCmd_def
      intro!: emits_intro keeps_controlPlaneInit keeps_controlPlaneJoin keeps_workerJoin)

interpretation kubeadm: host_bootstrapper "kubeadm_InitializeDirectories E" "kubeadm_RunCmd E ud"
  for E :: "'z bb_env_scheme" and ud
  by unfold_locales (rule no_exit_kubeadm keeps_kubeadm)+

section \<open>Exit code and the container's own state\<close>

lemma build_host_bootstrapper:
  "host_bootstrapper (InitializeDirectories (buildBootstrapper E ud)) (BootstrapRunCmd (buildBootstrapper E ud))"
  by (auto simp: buildBootstrapper_def
      intro: etcdadm.host_bootstrapper_axioms kubeadm.host_bootstrapper_axioms)

text \<open>Everything before the container is disabled.\<close>

definition bootstrap_body :: "'z bb_env_scheme \<Rightarrow> (world, UserData) prog" where
  "bootstrap_body E =
     bind (or_exit 1 (waitForPreReqs E)) (\<lambda>_.
     bind (acquireLock E) (\<lambda>_.
     bind (or_exit 1 (ResolveHostContainerUserData E)) (\<lambda>userData.
     let b = buildBootstrapper E userData in
     bind (bind (or_exit 1 (InitializeDirectories b)) (\<lambda>_.
       bind (or_exit 1 (WriteUserDataFiles E userData)) (\<lambda>_.
       or_exit 1 (BootstrapRunCmd b)))) (\<lambda>_.
     ret userData))))"

lemma Bootstrap_split:
  "Bootstrap E = bind (bootstrap_body E) (\<lambda>_. bind (or_exit 1 (DisableBootstrapContainer E)) (\<lambda>_. exit_with 0))"
  by (simp add: Bootstrap_def bootstrap_body_def Let_def bind_assoc)

lemma emits_WriteUserDataFiles [emits_intro]:
  assumes "\<And>p m. A (MkdirAll p m)" "\<And>p c m. A (event.WriteFile p c m)" "\<And>p i j. A (Chown p i j)"
  shows "emits A (WriteUserDataFiles E ud)"
  unfolding WriteUserDataFiles_def writeUserDataFile_def by (auto intro!: emits_intro assms)

lemma keeps_lock:
  assumes "\<And>n. fst (os_Stat E marker w) \<noteq> Ok (Exists n)"
  shows "emits_at (\<lambda>e. e \<noteq> disable_event) (acquireLock E) w"
proof -
  have "emits (\<lambda>e. e \<noteq> disable_event) (bind (attempt (os_Create E marker)) (\<lambda>_. ret ()))"
    by (intro emits_intro keeps_events)
  moreover have "acquireLock E w = bind (attempt (os_Create E marker)) (\<lambda>_. ret ()) w"
    using assms [of "the (fs_get (fs w) marker)"]
    by (auto simp: acquireLock_def os_Stat_def bind_def split: option.splits)
  ultimately show ?thesis by (simp add: emits_def emits_at_def)
qed

lemma keeps_body:
  assumes "\<And>w1 n. waitForPreReqs E w = (Ok (), w1) \<Longrightarrow> fst (os_Stat E marker w1) \<noteq> Ok (Exists n)"
  shows "emits_at (\<lambda>e. e \<noteq> disable_event) (bootstrap_body E) w"
proof -
  have steps: "emits (\<lambda>e. e \<noteq> disable_event) (bind (or_exit 1 (InitializeDirectories (buildBootstrapper E ud))) (\<lambda>_.
      bind (or_exit 1 (WriteUserDataFiles E ud)) (\<lambda>_. or_exit 1 (BootstrapRunCmd (buildBootstrapper E ud)))))" for ud
    by (rule host_bootstrapper.steps_keep [OF build_host_bootstrapper]) (intro emits_intro keeps_events)
  have wait: "emits (\<lambda>e. e \<noteq> disable_event) (or_exit 1 (waitForPreReqs E))"
    unfolding waitForPreReqs_def by (intro emits_intro)
  have rest: "emits (\<lambda>e. e \<noteq> disable_event) (bind (or_exit 1 (ResolveHostContainerUserData E)) (\<lambda>ud.
      bind (bind (or_exit 1 (InitializeDirectories (buildBootstrapper E ud))) (\<lambda>_.
        bind (or_exit 1 (WriteUserDataFiles E ud)) (\<lambda>_. or_exit 1 (BootstrapRunCmd (buildBootstrapper E ud)))))
      (\<lambda>_. ret ud)))"
    by (rule emits_bind [OF emits_handlers(4) [OF emits_userdata(1)]], rule keeps_events,
        rule emits_bind [OF steps emits_pure(1)])
  show ?thesis
    unfolding bootstrap_body_def Let_def
    by (rule emits_at_bind [OF emits_at [OF wait]], rule emits_at_bind, rule keeps_lock, rule assms)
      (auto intro: emits_at [OF rest])
qed

lemma body_Ok:
  assumes "bootstrap_body E w = (Ok ud, w')"
  shows "\<exists>v. BootstrapRunCmd (buildBootstrapper E ud) v = (Ok (), w')"
  using assms by (auto simp: bootstrap_body_def bind_Ok_iff Let_def)

lemma disable_run:
  "\<exists>r w'. or_exit 1 (DisableBootstrapContainer E) w = (r, w') \<and> (r = Ok () \<or> r = Exit 1)
     \<and> trace w' = trace w @ [disable_event]"
  by (auto simp: DisableBootstrapContainer_def ApiclientBinary_def BootstrapContainerName_def disable_event_def
      or_exit_def wrap_def map_err_def exec_run_def exec_out_def exec_cmd_def bind_def
      split: prod.splits option.splits)

lemma or_exit_outcomes: "no_exit m \<Longrightarrow> or_exit 1 m w = (r, w') \<Longrightarrow> r = Exit 1 \<or> (\<exists>p. r = Panic p) \<or> (\<exists>a. r = Ok a)"
  by (auto simp: or_exit_def no_exit_def split: prod.splits outcome.splits) (metis fst_conv)

text \<open>Ending only with code 1, by panic, or not at all.\<close>

definition exits_1 :: "(world, 'a) prog \<Rightarrow> bool" where
  "exits_1 m \<longleftrightarrow> (\<forall>w r w'. m w = (r, w') \<longrightarrow> r = Exit 1 \<or> (\<exists>p. r = Panic p) \<or> (\<exists>a. r = Ok a))"

lemma exits_1_or_exit: "no_exit m \<Longrightarrow> exits_1 (or_exit 1 m)"
  unfolding exits_1_def using or_exit_outcomes by blast

lemma exits_1_bind: "exits_1 m \<Longrightarrow> (\<And>a. exits_1 (k a)) \<Longrightarrow> exits_1 (bind m k)"
  by (fastforce simp: exits_1_def bind_def split: prod.splits outcome.splits)

lemma code_1_rules:
  "no_exit m \<Longrightarrow> code_1 m" "no_exit m \<Longrightarrow> code_1 (or_exit 1 m)" "code_1 n \<Longrightarrow> exits_1 (or_exit 1 n)"
  "code_1 n \<Longrightarrow> code_1 (wrap s n)"
  by (auto simp: code_1_def no_exit_def or_exit_def exits_1_def wrap_def map_err_def split: prod.splits outcome.splits)
    (metis fst_conv)+

lemma exits_1_resolve: "exits_1 (or_exit 1 (ResolveHostContainerUserData E))"
proof -
  have "no_exit (loadUserDataFromSecretsManager E (SecretsManagerImpl E) ud)" for ud
    unfolding loadUserDataFromSecretsManager_def fetchChunks_def fetchChunk_def GUnzipBytes_def
    by (auto simp: SecretsManagerImpl_def intro!: no_exit_intro)
  then have "code_1 (processAWSSecretsManagerUserData E d (SecretsManagerImpl E))" for d
    unfolding processAWSSecretsManagerUserData_def
    by (intro code_1_bind code_1_rules(1) [OF no_exit_handlers(2) [OF no_exit_pure(4)]] code_1_rules(2))
  moreover have "code_1 (wrap s (NewSecretsManagerService E))" "code_1 (ret ud)"
      "code_1 (wrap s (lift_sum x))" "code_1 (wrap s (os_ReadFile E p))" for s ud p and x :: "string + UserData"
    unfolding NewSecretsManagerService_def by (rule code_1_rules(1), intro no_exit_intro)+
  ultimately have "code_1 (processUserData E d)" for d
    unfolding processUserData_def by (subst service_only) (auto intro!: code_1_bind)
  then show ?thesis
    unfolding ResolveHostContainerUserData_def buildUserData_def
    by (intro code_1_rules(3) code_1_bind code_1_rules(1) [OF no_exit_handlers(2) [OF no_exit_io(1)]])
qed

lemma exits_1_simple:
  "no_exit m \<Longrightarrow> exits_1 (attempt m)" "exits_1 (ret a)" "exits_1 (time_Sleep E d)" "exits_1 (os_Stat E p)"
  by (auto simp: exits_1_def no_exit_def attempt_def time_Sleep_def os_Stat_def
      split: prod.splits outcome.splits option.splits) (metis fst_conv)

lemma exits_1_lock: "exits_1 (acquireLock E)"
proof -
  have "no_exit (DisableBootstrapContainer E)" "no_exit (os_Create E marker)"
    unfolding DisableBootstrapContainer_def by (intro no_exit_intro)+
  then show ?thesis
    unfolding acquireLock_def by (auto split: stat.splits intro!: exits_1_bind exits_1_simple)
qed

lemma body_outcomes:
  assumes "bootstrap_body E w = (r, w')"
  shows "r = Exit 1 \<or> (\<exists>p. r = Panic p) \<or> (\<exists>a. r = Ok a)"
proof -
  have "no_exit (WriteUserDataFiles E ud)" for ud
    unfolding WriteUserDataFiles_def writeUserDataFile_def by (auto intro!: no_exit_intro)
  moreover have "exits_1 (ret ud)" for ud :: UserData by (simp add: exits_1_def)
  moreover note host_bootstrapper.init_returns [OF build_host_bootstrapper]
    host_bootstrapper.run_returns [OF build_host_bootstrapper]
  ultimately have "exits_1 (bootstrap_body E)"
    unfolding bootstrap_body_def Let_def waitForPreReqs_def
    by (intro exits_1_bind exits_1_or_exit exits_1_lock exits_1_resolve no_exit_intro) simp_all
  then show ?thesis using assms unfolding exits_1_def by blast
qed



definition boot_env :: bb_env where
  "boot_env = bb_quiet\<lparr>
     unitEvents := (\<lambda>_. [(second, StatusChange [(''multi-user.target'', Some (''active'', ''active'')),
       (''kubelet.service'', Some (''active'', ''running''))])]),
     yamlUserData := (\<lambda>_. Inr \<lparr>UserDataType = [], WriteFiles = [], RunCmd = ''none''\<rparr>)\<rparr>"

definition boot_world :: world where
  "boot_world = start\<lparr>fs := [(''/.bottlerocket/host-containers/current/user-data'', File ''ud'' 416)]\<rparr>"

lemma boot_prereqs: "waitForPreReqs boot_env boot_world = (Ok (), boot_world\<lparr>clock := 2 * second\<rparr>)"
  by (simp add: waitForPreReqs_def WaitForSystemdService_def dbusConnection_def boot_env_def boot_world_def
      bb_quiet_def bind_def wrap_def map_err_def unitReadiness_def KubeletService_def MultiUserTarget_def
      HasSuffix_def suffix_def pass_time_def)


text \<open>
  The marker does not keep two runs apart: when it is already there, the program asks for its
  container to be disabled, sleeps a tenth of a millisecond and goes on like the first one.
\<close>

theorem acquireLock_does_not_stop:
  assumes "fst (os_Stat E marker w) = Ok (Exists n)"
  shows "\<exists>w'. acquireLock E w = (Ok (), w') \<and> trace w' = trace w @ [disable_event, Sleep 100000]
    \<and> clock w' = clock w + 100000"
proof -
  have "os_Stat E marker w = (Ok (Exists n), w)"
    using assms by (auto simp: os_Stat_def split: option.splits)
  then show ?thesis
    by (auto simp: acquireLock_def bind_def attempt_def DisableBootstrapContainer_def ApiclientBinary_def
        BootstrapContainerName_def disable_event_def wrap_def map_err_def exec_run_def exec_out_def exec_cmd_def
        time_Sleep_def split: prod.splits option.splits)
qed

theorem acquireLock_does_not_stop_witness:
  "\<exists>w'. acquireLock bb_quiet (start\<lparr>fs := [(marker, File [] 438)]\<rparr>) = (Ok (), w')
    \<and> trace w' = trace (start\<lparr>fs := [(marker, File [] 438)]\<rparr>) @ [disable_event, Sleep 100000]
    \<and> clock w' = clock (start\<lparr>fs := [(marker, File [] 438)]\<rparr>) + 100000"
  by (rule acquireLock_does_not_stop [of _ _ "File [] 438"]) (simp add: os_Stat_def bb_quiet_def fs_get_def)

end
