(* ===== verification/BB_Snow.thy ===== *)
theory BB_Snow
  imports BB_Userdata
begin

text \<open>
  \<open>pkg/providers/snow\<close>: the bootstrap container of an AWS Snow node.  It configures Kubernetes and
  kernel settings through the API client, writes the network configuration from the DNIs it finds,
  formats and mounts the containerd volume and reboots the instance once.  What must happen only
  once over several boots is guarded by marker files.  The Go interfaces \<open>APIClient\<close> and \<open>FileSystem\<close>
  are records of operations; \<open>NewSnow\<close> fills them with the executables.
\<close>

section \<open>Data and interfaces\<close>

record StaticIP =
  Address :: string
  Gateway :: string
  Primary :: bool

record Network =
  DeviceIP :: string
  DniCount :: int
  Static :: "StaticIP list"

record NetworkMapping =
  DNI :: string
  MappedIP :: "StaticIP option"

text \<open>From outside: the link and route tables of the kernel, and the YAML of the network file.\<close>

record snow_env = bb_env +
  linkList :: "world \<Rightarrow> string + string list"
  routeList :: "world \<Rightarrow> string + (string option \<times> string) list"
  yamlNetwork :: "string \<Rightarrow> string + Network"

record APIClient =
  CloudProviderOp :: "string \<Rightarrow> (world, unit) prog"
  NodeIPOp :: "string \<Rightarrow> (world, unit) prog"
  ProviderIDOp :: "string \<Rightarrow> (world, unit) prog"
  SetOp :: "APISetting \<Rightarrow> (world, unit) prog"
  RebootOp :: "(world, unit) prog"

record FileSystem =
  MountVolumeOp :: "string \<Rightarrow> string \<Rightarrow> (world, unit) prog"
  PartitionOp :: "string \<Rightarrow> (world, unit) prog"

record Snow =
  api :: APIClient
  volumes :: FileSystem

definition NewAPIClient :: "'z env_scheme \<Rightarrow> APIClient" where
  "NewAPIClient E = \<lparr>CloudProviderOp = SetKubernetesCloudProvider E, NodeIPOp = SetKubernetesNodeIP E,
     ProviderIDOp = SetKubernetesProviderID E, SetOp = api_Set E, RebootOp = Reboot E\<rparr>"

definition NewFileSystem :: "'z env_scheme \<Rightarrow> FileSystem" where
  "NewFileSystem E = \<lparr>MountVolumeOp = MountVolume E, PartitionOp = Partition E\<rparr>"

definition NewSnow :: "'z env_scheme \<Rightarrow> Snow" where
  "NewSnow E = \<lparr>api = NewAPIClient E, volumes = NewFileSystem E\<rparr>"

section \<open>Paths\<close>

definition rootfs :: string where "rootfs = ''/.bottlerocket/rootfs''"
definition metadataServiceIP :: string where "metadataServiceIP = ''169.254.169.254''"
definition networkFilePath :: string where "networkFilePath = ''/tmp/network.yaml''"
definition netConfigPath :: string where "netConfigPath = path_Join [rootfs, ''/var/lib/netdog/net.toml'']"
definition currentIPPath :: string where "currentIPPath = path_Join [rootfs, ''/var/lib/netdog/current_ip'']"
definition bootstrapContainerPath :: string where
  "bootstrapContainerPath = ''/.bottlerocket/bootstrap-containers/current''"
definition rebootedPath :: string where "rebootedPath = path_Join [bootstrapContainerPath, ''rebooted'']"
definition nodeIPConfiguredPath :: string where
  "nodeIPConfiguredPath = path_Join [bootstrapContainerPath, ''nodeip.configured'']"
definition partitionCreatedPath :: string where
  "partitionCreatedPath = path_Join [bootstrapContainerPath, ''partition.created'']"
definition device :: string where "device = path_Join [rootfs, ''/dev/vda'']"
definition containerdDir :: string where "containerdDir = path_Join [rootfs, ''/var/lib/containerd'']"

section \<open>network.go\<close>

definition snow_httpGet :: "'z env_scheme \<Rightarrow> string \<Rightarrow> (world, string) prog" where
  "snow_httpGet E url = bind (http_Get E url) (\<lambda>resp. case resp of
       HttpFail e \<Rightarrow> fail (''error sending http GET request to '' @ url @ '': '' @ e)
     | HttpReply code body \<Rightarrow>
         if code \<noteq> 200 then fail (''requesting '' @ url @ '' returns status code '' @ Itoa code)
         else wrap ''error reading response body'' (lift_sum body))"

definition instanceIP :: "'z env_scheme \<Rightarrow> (world, string) prog" where
  "instanceIP E = wrap ''error requesting instance ip through http''
     (snow_httpGet E (''http://'' @ metadataServiceIP @ ''/latest/meta-data/local-ipv4''))"

definition instanceIDURL :: string where
  "instanceIDURL = ''http://'' @ metadataServiceIP @ ''/latest/meta-data/instance-id''"

definition instanceID :: "'z env_scheme \<Rightarrow> (world, string) prog" where
  "instanceID E = wrap ''error requesting instance id through http''
     (snow_httpGet E instanceIDURL)"

definition defaultGateway :: "'z snow_env_scheme \<Rightarrow> (world, string) prog" where
  "defaultGateway E = (\<lambda>w.
     bind (wrap ''error getting the route list'' (lift_sum (routeList E w))) (\<lambda>routes.
     case find (\<lambda>(dst, gw). dst = None) routes of
       Some (_, gw) \<Rightarrow> ret gw
     | None \<Rightarrow> fail ''default gateway not found'') w)"

definition dniList :: "'z snow_env_scheme \<Rightarrow> (world, string list) prog" where
  "dniList E = (\<lambda>w.
     bind (wrap ''error getting the device list of links'' (lift_sum (linkList E w))) (\<lambda>devices.
     ret (filter (\<lambda>name. name \<noteq> ''lo'' \<and> name \<noteq> ''eth0'') devices)) w)"

definition parseNetworkFile :: "'z snow_env_scheme \<Rightarrow> (world, Network option) prog" where
  "parseNetworkFile E =
     bind (wrap ''error resolving user data'' (ResolveBootstrapContainerUserData E)) (\<lambda>userData.
     case find (\<lambda>f. Path f = networkFilePath) (WriteFiles userData) of
       None \<Rightarrow> ret None
     | Some f \<Rightarrow> bind (wrap ''error unmarshalling network file content'' (lift_sum (yamlNetwork E (Content f))))
         (\<lambda>network. ret (Some network)))"

definition deviceIP :: "'z snow_env_scheme \<Rightarrow> (world, string) prog" where
  "deviceIP E =
     bind (wrap ''error parsing network file'' (parseNetworkFile E)) (\<lambda>network.
     bind (deref network) (\<lambda>n. ret (DeviceIP n)))"

text \<open>
  One mapping per DNI, with the static addresses if there are any.  Both mismatches wrap a nil
  error, so they return no mapping and no error.
\<close>

fun mapDNIs :: "StaticIP list \<Rightarrow> nat \<Rightarrow> string list \<Rightarrow> (world, NetworkMapping list) prog" where
  "mapDNIs static i [] = ret []"
| "mapDNIs static i (dni # dnis) =
     bind (if static \<noteq> [] then bind (index static i) (\<lambda>s. ret (Some s)) else ret None) (\<lambda>ip.
     bind (mapDNIs static (Suc i) dnis) (\<lambda>ms.
     ret (\<lparr>DNI = dni, MappedIP = ip\<rparr> # ms)))"

definition networkMapping :: "'z snow_env_scheme \<Rightarrow> (world, NetworkMapping list) prog" where
  "networkMapping E =
     bind (wrap ''error getting DNI list'' (dniList E)) (\<lambda>dnis.
     bind (wrap ''error parsing network file'' (parseNetworkFile E)) (\<lambda>network.
     bind (deref network) (\<lambda>n.
     if int (length dnis) \<noteq> DniCount n then ret []
     else if 0 < length (Static n) \<and> int (length (Static n)) < DniCount n then ret []
     else mapDNIs (Static n) 0 dnis)))"

text \<open>\<open>config/net.toml\<close>, embedded in the program, and the data it is executed on.\<close>

definition netConfig :: string where
  "netConfig = Join
     [''version = 2'',
      ''{{- range $i, $n := .network }}'',
      ''{{- if $n.StaticIP }}'',
      ''{{- if $n.StaticIP.Primary }}'',
      ''[{{ $n.DNI }}]'',
      ''primary = true'',
      ''{{- end }}'',
      ''[{{ $n.DNI }}.static4]'',
      ''addresses = [\"{{ $n.StaticIP.Address }}\"]'',
      ''[[{{ $n.DNI }}.route]]'',
      ''to = \"default\"'',
      ''via = \"{{ $n.StaticIP.Gateway }}\"'',
      ''{{- else }}'',
      ''[{{ $n.DNI }}]'',
      ''dhcp4 = true'',
      ''{{- if eq $i 0 }}'',
      ''primary = true'',
      ''{{- end }}'',
      ''{{- end }}'',
      ''{{- end }}'',
      ''[eth0.static4]'',
      ''addresses = [\"{{ .instanceIP }}/25\"]'',
      ''[[eth0.route]]'',
      ''to = \"{{ .metadataServiceIP }}/32\"'',
      ''from = \"{{ .instanceIP }}\"'',
      ''via = \"{{ .defaultGateway }}\"'',
      ''''] [CHR 0x0A]"

definition mappingValue :: "NetworkMapping \<Rightarrow> tmpl_value" where
  "mappingValue n = VStruct
     [(''DNI'', VStr (DNI n)),
      (''StaticIP'', case MappedIP n of
          None \<Rightarrow> VNil
        | Some s \<Rightarrow> VStruct [(''Address'', VStr (Address s)), (''Gateway'', VStr (Gateway s)), (''Primary'', VBool (Primary s))])]"

definition templateData :: "NetworkMapping list \<Rightarrow> string \<Rightarrow> string \<Rightarrow> tmpl_value" where
  "templateData network instIP gw = VMap
     [(''network'', VList (map mappingValue network)), (''instanceIP'', VStr instIP), (''defaultGateway'', VStr gw),
      (''metadataServiceIP'', VStr metadataServiceIP)]"

definition GenerateNetworkTemplate :: "tmpl_value \<Rightarrow> (world, string) prog" where
  "GenerateNetworkTemplate data = ExecuteTemplate netConfig data"

definition configureDNI :: "'z snow_env_scheme \<Rightarrow> (world, unit) prog" where
  "configureDNI E =
     bind (PathExists E netConfigPath) (\<lambda>exists.
     if exists then ret ()
     else
       bind (wrap ''error getting local instance ip'' (instanceIP E)) (\<lambda>instIP.
       bind (wrap ''error getting default gateway'' (defaultGateway E)) (\<lambda>gw.
       bind (wrap ''error generating network mapping'' (networkMapping E)) (\<lambda>network.
       bind (wrap ''error generating network template'' (GenerateNetworkTemplate (templateData network instIP gw))) (\<lambda>b.
       wrap (''error writing network configuration to '' @ netConfigPath) (Write E netConfigPath b 416))))))"

text \<open>The first line of the file, as \<open>bufio.Scanner\<close> gives it; a line of 64 KiB or more gives none.\<close>

definition first_line :: "string \<Rightarrow> string" where
  "first_line c =
     (let l = takeWhile (\<lambda>x. x \<noteq> CHR 0x0A) c
      in if 65536 \<le> int (length l) then [] else TrimSuffix l [CHR 0x0D])"

definition currentIP :: "'z env_scheme \<Rightarrow> (world, string) prog" where
  "currentIP E = (\<lambda>w. case ioerr E w (ReadFile currentIPPath) of
       Some (msg, _) \<Rightarrow> (Err msg, w)
     | None \<Rightarrow> (case fs_get (fs w) currentIPPath of
         Some (File c _) \<Rightarrow> (Ok (first_line c), w)
       | Some DirNode \<Rightarrow> (Ok [], w)
       | None \<Rightarrow> (Err (''open '' @ currentIPPath @ '': no such file or directory''), w)))"

section \<open>kubernetes.go, kernel.go\<close>

definition setCloudProvider :: "Snow \<Rightarrow> (world, unit) prog" where
  "setCloudProvider s = CloudProviderOp (api s) []"

text \<open>Errors of the two lookups are wrapped and dropped; the empty strings are used instead.\<close>

definition setProviderID :: "'z snow_env_scheme \<Rightarrow> Snow \<Rightarrow> (world, unit) prog" where
  "setProviderID E s =
     bind (attempt (instanceID E)) (\<lambda>id_r.
     bind (attempt (deviceIP E)) (\<lambda>ip_r.
     ProviderIDOp (api s) (''aws-snow:///'' @ (case ip_r of Inr ip \<Rightarrow> ip | Inl _ \<Rightarrow> []) @ ''/'' @
       (case id_r of Inr i \<Rightarrow> i | Inl _ \<Rightarrow> []))))"

definition setNodeIP :: "'z env_scheme \<Rightarrow> Snow \<Rightarrow> (world, unit) prog" where
  "setNodeIP E s =
     bind (PathExists E rebootedPath) (\<lambda>rebooted.
     bind (PathExists E nodeIPConfiguredPath) (\<lambda>configured.
     if \<not> rebooted \<or> configured then ret ()
     else
       bind (wrap ''Error getting current ip address'' (currentIP E)) (\<lambda>ip.
       bind (NodeIPOp (api s) ip) (\<lambda>_.
       wrap (''Error writing '' @ nodeIPConfiguredPath @ '' file'') (os_Create E nodeIPConfiguredPath)))))"

definition configureKubernetesSettings :: "'z snow_env_scheme \<Rightarrow> Snow \<Rightarrow> (world, unit) prog" where
  "configureKubernetesSettings E s =
     bind (wrap ''Error setting K8s cloud provider'' (setCloudProvider s)) (\<lambda>_.
     bind (wrap ''Error setting K8s provider id'' (setProviderID E s)) (\<lambda>_.
     wrap ''Error setting K8s node ip'' (setNodeIP E s)))"

definition maxSocketBufferSize :: string where "maxSocketBufferSize = ''8388608''"
definition kernelCorePattern :: string where "kernelCorePattern = ''/var/corefile/core.%e.%p.%h.%t''"

definition kernelSetting :: APISetting where
  "kernelSetting = \<lparr>
     KernelSetting = Some \<lparr>Sysctl = [(''net.core.rmem_max'', maxSocketBufferSize),
       (''net.core.wmem_max'', maxSocketBufferSize), (''kernel.core_pattern'', kernelCorePattern)]\<rparr>,
     KubernetesSetting = Some \<lparr>AllowedUnsafeSysctls = [''net.ipv4.tcp_mtu_probing'']\<rparr>\<rparr>"

definition configureKernelSettings :: "Snow \<Rightarrow> (world, unit) prog" where
  "configureKernelSettings s = SetOp (api s) kernelSetting"

section \<open>volume.go, reboot.go\<close>

definition createPartition :: "'z env_scheme \<Rightarrow> Snow \<Rightarrow> (world, unit) prog" where
  "createPartition E s =
     bind (PathExists E partitionCreatedPath) (\<lambda>exists.
     if exists then ret ()
     else
       bind (PartitionOp (volumes s) device) (\<lambda>_.
       wrap ''error writing partition created file'' (os_Create E partitionCreatedPath)))"

definition mountContainerd :: "'z env_scheme \<Rightarrow> Snow \<Rightarrow> (world, unit) prog" where
  "mountContainerd E s =
     bind (wrap ''error creating directory'' (os_MkdirAll E containerdDir 416)) (\<lambda>_.
     MountVolumeOp (volumes s) device containerdDir)"

definition mountContainerdVolume :: "'z env_scheme \<Rightarrow> Snow \<Rightarrow> (world, unit) prog" where
  "mountContainerdVolume E s =
     bind (wrap ''error creating partition'' (createPartition E s)) (\<lambda>_.
     wrap ''error mounting containerd directory'' (mountContainerd E s))"

definition rebootInstanceIfNeeded :: "'z env_scheme \<Rightarrow> Snow \<Rightarrow> (world, unit) prog" where
  "rebootInstanceIfNeeded E s =
     bind (PathExists E rebootedPath) (\<lambda>exists.
     if exists then ret ()
     else
       bind (wrap ''Error writing rebooted file'' (os_Create E rebootedPath)) (\<lambda>_.
       RebootOp (api s)))"

definition Snow_Bootstrap :: "'z snow_env_scheme \<Rightarrow> (world, unit) prog" where
  "Snow_Bootstrap E =
     (let s = NewSnow E in
      bind (or_exit 1 (configureKubernetesSettings E s)) (\<lambda>_.
      bind (or_exit 1 (configureKernelSettings s)) (\<lambda>_.
      bind (or_exit 1 (configureDNI E)) (\<lambda>_.
      bind (or_exit 1 (mountContainerdVolume E s)) (\<lambda>_.
      bind (or_exit 1 (rebootInstanceIfNeeded E s)) (\<lambda>_.
      exit_with 0))))))"

section \<open>The network configuration\<close>

text \<open>The embedded template, parsed.\<close>

definition dniOperand :: pipeline where
  "dniOperand = Operand (Var ''$n'' [''DNI''])"

definition staticNodes :: "tnode list" where
  "staticNodes =
     [IfNode (Operand (Var ''$n'' [''StaticIP'', ''Primary'']))
        [Text ''\<newline>['', Print dniOperand, Text '']\<newline>primary = true''] [],
      Text ''\<newline>['', Print dniOperand, Text ''.static4]\<newline>addresses = [\"'',
      Print (Operand (Var ''$n'' [''StaticIP'', ''Address''])), Text ''\"]\<newline>[['', Print dniOperand,
      Text ''.route]]\<newline>to = \"default\"\<newline>via = \"'', Print (Operand (Var ''$n'' [''StaticIP'', ''Gateway''])), Text ''\"'']"

definition dhcpNodes :: "tnode list" where
  "dhcpNodes =
     [Text ''\<newline>['', Print dniOperand, Text '']\<newline>dhcp4 = true'',
      IfNode (Eq (Var ''$i'' []) (Num 0)) [Text ''\<newline>primary = true''] []]"

definition netTemplate :: "tnode list" where
  "netTemplate =
     [Text ''version = 2'',
      RangeNode ''$i'' ''$n'' (Operand (Dot [''network''])) [IfNode (Operand (Var ''$n'' [''StaticIP''])) staticNodes dhcpNodes] [],
      Text ''\<newline>[eth0.static4]\<newline>addresses = [\"'', Print (Operand (Dot [''instanceIP''])),
      Text ''/25\"]\<newline>[[eth0.route]]\<newline>to = \"'', Print (Operand (Dot [''metadataServiceIP''])),
      Text ''/32\"\<newline>from = \"'', Print (Operand (Dot [''instanceIP''])),
      Text ''\"\<newline>via = \"'', Print (Operand (Dot [''defaultGateway''])), Text ''\"\<newline>'']"

lemma netConfig_parses: "template_Parse netConfig = Inr netTemplate"
  by code_simp

text \<open>The lines of the rendered file.\<close>

definition line :: "string \<Rightarrow> string" where
  "line s = [CHR 0x0A] @ s"

definition quoted :: "string \<Rightarrow> string" where
  "quoted s = [CHR 0x22] @ s @ [CHR 0x22]"

definition mapping_lines :: "bool \<Rightarrow> NetworkMapping \<Rightarrow> string list" where
  "mapping_lines first n = (case MappedIP n of
     Some s \<Rightarrow>
       (if Primary s then [''['' @ DNI n @ '']'', ''primary = true''] else []) @
       [''['' @ DNI n @ ''.static4]'', ''addresses = ['' @ quoted (Address s) @ '']'', ''[['' @ DNI n @ ''.route]]'',
        ''to = '' @ quoted ''default'', ''via = '' @ quoted (Gateway s)]
   | None \<Rightarrow> [''['' @ DNI n @ '']'', ''dhcp4 = true''] @ (if first then [''primary = true''] else []))"

definition config_lines :: "NetworkMapping list \<Rightarrow> string \<Rightarrow> string \<Rightarrow> string list" where
  "config_lines network ip gw =
     ''version = 2'' # concat (map2 (\<lambda>i n. mapping_lines (i = 0) n) [0..<length network] network) @
     [''[eth0.static4]'', ''addresses = ['' @ quoted (ip @ ''/25'') @ '']'', ''[[eth0.route]]'',
      ''to = '' @ quoted (metadataServiceIP @ ''/32''), ''from = '' @ quoted ip, ''via = '' @ quoted gw, []]"

lemma Join_lines: "Join (x # xs) [CHR 0x0A] = x @ concat (map line xs)"
  by (induction xs arbitrary: x) (simp_all add: line_def)

text \<open>One round of the loop prints the section of one DNI, and the loop all of them.\<close>

lemma exec_mapping:
  "execNode ((''$i'', VInt (int k)) # (''$n'', mappingValue n) # vars) dot
     (IfNode (Operand (Var ''$n'' [''StaticIP''])) staticNodes dhcpNodes) =
   Inr (concat (map line (mapping_lines (k = 0) n)))"
proof (cases "MappedIP n")
  case None
  then show ?thesis
    by (simp add: dhcpNodes_def dniOperand_def mappingValue_def mapping_lines_def line_def)
next
  case (Some s)
  then show ?thesis
    by (cases "Primary s") (simp_all add: staticNodes_def dniOperand_def mappingValue_def mapping_lines_def line_def quoted_def)
qed

lemma exec_mappings:
  "sum_concat (map (\<lambda>(k, u). sum_concat (map (execNode ((''$i'', VInt (int k)) # (''$n'', u) # vars) u)
       [IfNode (Operand (Var ''$n'' [''StaticIP''])) staticNodes dhcpNodes])) (enumerate k (map mappingValue ns))) =
   Inr (concat (map line (concat (map2 (\<lambda>i n. mapping_lines (i = 0) n) [k..<k + length ns] ns))))"
proof (induction ns arbitrary: k)
  case (Cons n ns)
  have "[k..<k + length (n # ns)] = k # [Suc k..<Suc k + length ns]" by (simp add: upt_rec)
  with Cons.IH [of "Suc k"] show ?case by (simp add: exec_mapping del: execNode.simps upt_Suc)
qed simp

lemma exec_range:
  "execNode vars (templateData network ip gw)
     (RangeNode ''$i'' ''$n'' (Operand (Dot [''network''])) [IfNode (Operand (Var ''$n'' [''StaticIP''])) staticNodes dhcpNodes] []) =
   Inr (concat (map line (concat (map2 (\<lambda>i n. mapping_lines (i = 0) n) [0..<length network] network))))"
proof (cases network)
  case (Cons n ns)
  then show ?thesis using exec_mappings [of vars 0 network] by (simp add: templateData_def del: execNode.simps add: execNode.simps(4))
qed (simp add: templateData_def)

text \<open>
  Executing the embedded template on the network's data always succeeds and gives exactly the
  expected lines: the version, the section of each DNI in order (a static address with its default
  route, marked primary as configured, or DHCP, with the first DNI primary), then \<open>eth0\<close> with the
  instance address and the route to the metadata service.
\<close>

lemma GenerateNetworkTemplate_lines:
  "GenerateNetworkTemplate (templateData network ip gw) w = (Ok (Join (config_lines network ip gw) [CHR 0x0A]), w)"
proof -
  have "template_Execute netTemplate (templateData network ip gw) = Inr (Join (config_lines network ip gw) [CHR 0x0A])"
    unfolding template_Execute_def netTemplate_def list.map sum_concat.simps exec_range
    by (simp add: config_lines_def Join_lines templateData_def) (simp add: line_def quoted_def)
  then show ?thesis
    by (simp add: GenerateNetworkTemplate_def ExecuteTemplate_def netConfig_parses bind_def wrap_def)
qed

section \<open>What the clients promise\<close>

definition is_reboot :: "event \<Rightarrow> bool" where
  "is_reboot e \<longleftrightarrow> e = Exec Combined [''apiclient'', ''reboot'']"

definition is_format :: "event \<Rightarrow> bool" where
  "is_format e \<longleftrightarrow> (\<exists>d. e = Exec Combined [''mkfs.ext4'', d])"

text \<open>
  The two interfaces of the provider: the setters neither reboot nor format, a reboot and a
  formatting are one request each, mounting is neither.
\<close>

locale snow_clients =
  fixes s :: Snow
  assumes setters: "emits (\<lambda>e. \<not> is_reboot e \<and> \<not> is_format e) (CloudProviderOp (api s) x)"
      "emits (\<lambda>e. \<not> is_reboot e \<and> \<not> is_format e) (NodeIPOp (api s) x)"
      "emits (\<lambda>e. \<not> is_reboot e \<and> \<not> is_format e) (ProviderIDOp (api s) x)"
      "emits (\<lambda>e. \<not> is_reboot e \<and> \<not> is_format e) (SetOp (api s) c)"
    and mount: "emits (\<lambda>e. \<not> is_reboot e \<and> \<not> is_format e) (MountVolumeOp (volumes s) d dir)"
    and reboot: "trace (snd (RebootOp (api s) w)) = trace w @ [Exec Combined [''apiclient'', ''reboot'']]"
    and partition: "trace (snd (PartitionOp (volumes s) d w)) = trace w @ [Exec Combined [''mkfs.ext4'', d]]"
begin

lemma emits_partition: "A (Exec Combined [''mkfs.ext4'', d]) \<Longrightarrow> emits A (PartitionOp (volumes s) d)"
  by (auto simp: emits_def partition)

lemma setNodeIP_quiet: "emits (\<lambda>e. \<not> is_reboot e \<and> \<not> is_format e) (setNodeIP E s)"
  unfolding setNodeIP_def
  by (intro emits_intro setters) (auto simp: is_reboot_def is_format_def currentIP_def emits_def
      split: option.splits node.splits)

lemma createPartition_no_reboot: "emits (\<lambda>e. \<not> is_reboot e) (createPartition E s)"
  unfolding createPartition_def
  by (intro emits_intro emits_partition) (simp_all add: is_reboot_def)

lemma mountContainerd_quiet: "emits (\<lambda>e. \<not> is_reboot e \<and> \<not> is_format e) (mountContainerd E s)"
  unfolding mountContainerd_def
  by (intro emits_intro mount) (simp_all add: is_reboot_def is_format_def)

text \<open>A successful formatting is recorded: with the record in place, nothing is formatted again.\<close>

lemma createPartition_skips:
  "has_path partitionCreatedPath w \<Longrightarrow> createPartition E s w = (Ok (), w)"
  by (auto simp: createPartition_def PathExists_run bind_def has_path_def)

end

lemma Execute_then_trace [simp]:
  "trace (snd (bind (Execute E b args) (\<lambda>_. ret ()) w)) = trace w @ [Exec Combined (b # args)]"
  by (simp add: Execute_def exec_cmd_def bind_def split: prod.splits option.splits)

interpretation snow: snow_clients "NewSnow E" for E :: "'z env_scheme"
  by unfold_locales
    (auto simp: NewSnow_def NewAPIClient_def NewFileSystem_def SetKubernetesCloudProvider_def
      SetKubernetesNodeIP_def SetKubernetesProviderID_def api_Set_def Reboot_def MountVolume_def Partition_def
      api_execute_def ApiclientBinary_def is_reboot_def is_format_def intro!: emits_intro)

section \<open>Rebooting once over many boots\<close>

definition reboots :: "world \<Rightarrow> nat" where
  "reboots w = length (filter is_reboot (trace w))"

text \<open>A history with a reboot has its record on disk.\<close>

definition reboot_inv :: "world \<Rightarrow> bool" where
  "reboot_inv w \<longleftrightarrow> reboots w \<le> 1 \<and> (reboots w = 1 \<longrightarrow> has_path rebootedPath w)"

lemma emits_no_reboot: "emits (\<lambda>e. \<not> is_reboot e) m \<Longrightarrow> reboots (snd (m w)) = reboots w"
  by (auto simp: emits_def reboots_def list_all_iff dest!: spec [of _ w])

lemma quiet_preserves:
  assumes "emits (\<lambda>e. \<not> is_reboot e) m" "preserves (has_path rebootedPath) m"
  shows "preserves reboot_inv m"
  using assms emits_no_reboot [OF assms(1)] by (auto simp: preserves_def reboot_inv_def)

lemma no_reboot_of_quiet:
  "emits (\<lambda>e. \<not> is_reboot e \<and> \<not> is_format e) m \<Longrightarrow> emits (\<lambda>e. \<not> is_reboot e) m"
  "emits (\<lambda>e. \<not> is_reboot e \<and> \<not> is_format e) m \<Longrightarrow> emits (\<lambda>e. \<not> is_format e) m"
  by (auto elim: emits_weaken)

lemma snow_reads [emits_intro]:
  "A (HttpGet u) \<Longrightarrow> emits A (snow_httpGet E u)" "emits A (currentIP E)"
  "(\<And>n a. A (Call n a)) \<Longrightarrow> emits A (parseNetworkFile E)"
  "emits A (defaultGateway E)" "emits A (dniList E)"
  by (auto simp: snow_httpGet_def currentIP_def parseNetworkFile_def intro!: emits_intro
      split: http_reply.splits option.splits)
    (auto simp: emits_def currentIP_def defaultGateway_def dniList_def bind_def wrap_def map_err_def lift_sum_def
      split: option.splits node.splits sum.splits)

lemma emits_mapDNIs [emits_intro]: "emits A (mapDNIs st i dnis)"
  by (induction dnis arbitrary: i) (auto intro!: emits_intro)

lemma snow_lookups [emits_intro]:
  assumes "\<And>u. A (HttpGet u)" "\<And>n a. A (Call n a)"
  shows "emits A (instanceIP E)" "emits A (instanceID E)" "emits A (deviceIP E)" "emits A (networkMapping E)"
  unfolding instanceIP_def instanceID_def deviceIP_def networkMapping_def by (intro emits_intro assms)+

lemma has_path_reads [preserves_intro]:
  "preserves (has_path p) (snow_httpGet E u)" "preserves (has_path p) (currentIP E)"
  "preserves (has_path p) (parseNetworkFile E)"
  "preserves (has_path p) (defaultGateway E)" "preserves (has_path p) (dniList E)"
  by (auto simp: snow_httpGet_def currentIP_def parseNetworkFile_def intro!: preserves_intro
      split: http_reply.splits option.splits)
    (auto simp: preserves_def currentIP_def defaultGateway_def dniList_def bind_def wrap_def map_err_def lift_sum_def
      split: option.splits node.splits sum.splits)

lemma has_path_mapDNIs [preserves_intro]: "preserves P (mapDNIs st i dnis)"
  by (induction dnis arbitrary: i) (auto intro!: preserves_intro)

lemma has_path_lookups [preserves_intro]:
  "preserves (has_path p) (instanceIP E)" "preserves (has_path p) (instanceID E)"
  "preserves (has_path p) (deviceIP E)" "preserves (has_path p) (networkMapping E)"
  unfolding instanceIP_def instanceID_def deviceIP_def networkMapping_def by (intro preserves_intro)+

lemma has_path_exists [preserves_intro]: "preserves P (PathExists E q)"
  by (simp add: preserves_def PathExists_run)

lemma has_path_Execute [preserves_intro]: "keeps_path E p \<Longrightarrow> preserves (has_path p) (Execute E b args)"
  unfolding Execute_def by (auto split: option.splits intro!: preserves_intro)

lemma has_path_Write [preserves_intro]: "keeps_path E p \<Longrightarrow> preserves (has_path p) (Write E q c m)"
  unfolding Write_def by (intro preserves_intro)

lemmas snow_op_defs =
  NewSnow_def NewAPIClient_def NewFileSystem_def SetKubernetesCloudProvider_def SetKubernetesNodeIP_def
  SetKubernetesProviderID_def api_Set_def Reboot_def MountVolume_def Partition_def api_execute_def

lemma has_path_ops [preserves_intro]:
  assumes "keeps_path E p"
  shows "preserves (has_path p) (CloudProviderOp (api (NewSnow E)) x)"
    "preserves (has_path p) (NodeIPOp (api (NewSnow E)) x)" "preserves (has_path p) (ProviderIDOp (api (NewSnow E)) x)"
    "preserves (has_path p) (SetOp (api (NewSnow E)) c)" "preserves (has_path p) (RebootOp (api (NewSnow E)))"
    "preserves (has_path p) (MountVolumeOp (volumes (NewSnow E)) d dir)"
    "preserves (has_path p) (PartitionOp (volumes (NewSnow E)) d)"
  using assms by (auto simp: snow_op_defs intro!: preserves_intro)

text \<open>The steps before the reboot, as one program.\<close>

definition snow_configure :: "'z snow_env_scheme \<Rightarrow> (world, unit) prog" where
  "snow_configure E =
     bind (or_exit 1 (configureKubernetesSettings E (NewSnow E))) (\<lambda>_.
     bind (or_exit 1 (configureKernelSettings (NewSnow E))) (\<lambda>_.
     bind (or_exit 1 (configureDNI E)) (\<lambda>_.
     or_exit 1 (mountContainerdVolume E (NewSnow E)))))"

lemma Snow_Bootstrap_split:
  "Snow_Bootstrap E = bind (snow_configure E) (\<lambda>_.
     bind (or_exit 1 (rebootInstanceIfNeeded E (NewSnow E))) (\<lambda>_. exit_with 0))"
  by (simp add: Snow_Bootstrap_def snow_configure_def Let_def bind_assoc)

lemma snow_configure_keeps: "keeps_path E p \<Longrightarrow> preserves (has_path p) (snow_configure E)"
  unfolding snow_configure_def configureKubernetesSettings_def setCloudProvider_def setProviderID_def setNodeIP_def
    configureKernelSettings_def configureDNI_def GenerateNetworkTemplate_def ExecuteTemplate_def mountContainerdVolume_def createPartition_def mountContainerd_def
  by (intro preserves_intro)

lemma configure_quiet:
  "emits (\<lambda>e. \<not> is_reboot e \<and> \<not> is_format e) (configureKubernetesSettings E (NewSnow E))"
  "emits (\<lambda>e. \<not> is_reboot e \<and> \<not> is_format e) (configureKernelSettings (NewSnow E))"
  "emits (\<lambda>e. \<not> is_reboot e \<and> \<not> is_format e) (configureDNI E)"
  unfolding configureKubernetesSettings_def setCloudProvider_def setProviderID_def configureKernelSettings_def
    configureDNI_def GenerateNetworkTemplate_def ExecuteTemplate_def
  by (intro emits_intro snow.setters snow.setNodeIP_quiet; simp add: is_reboot_def is_format_def)+

lemma snow_configure_no_reboot: "emits (\<lambda>e. \<not> is_reboot e) (snow_configure E)"
  unfolding snow_configure_def mountContainerdVolume_def
  by (intro emits_bind emits_handlers no_reboot_of_quiet(1) [OF configure_quiet(1)]
      no_reboot_of_quiet(1) [OF configure_quiet(2)] no_reboot_of_quiet(1) [OF configure_quiet(3)]
      snow.createPartition_no_reboot no_reboot_of_quiet(1) [OF snow.mountContainerd_quiet])

lemma reboot_inv_reboot:
  assumes "keeps_path E rebootedPath"
  shows "preserves reboot_inv (rebootInstanceIfNeeded E (NewSnow E))"
  unfolding preserves_def
proof (intro allI impI)
  fix w assume inv: "reboot_inv w"
  show "reboot_inv (snd (rebootInstanceIfNeeded E (NewSnow E) w))"
  proof (cases "ioerr E w (Stat rebootedPath) \<noteq> None \<or> fs_get (fs w) rebootedPath \<noteq> None")
    case True
    then show ?thesis using inv by (auto simp: rebootInstanceIfNeeded_def bind_def PathExists_run)
  next
    case False
    then have none: "reboots w = 0" using inv by (auto simp: reboot_inv_def has_path_def le_Suc_eq)
    obtain r w1 where create: "wrap ''Error writing rebooted file'' (os_Create E rebootedPath) w = (r, w1)"
      by fastforce
    have tr: "trace w1 = trace w @ [Create rebootedPath]"
      using create snd_wrap(1) [of "''Error writing rebooted file''" "os_Create E rebootedPath" w]
      by (auto simp: os_Create_def with_io_def split: option.splits prod.splits)
    have run: "snd (rebootInstanceIfNeeded E (NewSnow E) w) =
        (if is_ok r then snd (RebootOp (api (NewSnow E)) w1) else w1)"
      using False create by (cases r)
        (auto simp: rebootInstanceIfNeeded_def bind_def PathExists_run simp del: wrap_Ok_iff)
    have "is_ok r \<Longrightarrow> has_path rebootedPath w1"
      using create False by (cases r) (auto simp: os_Create_def with_io_def has_path_def fs_write_def wrap_def
          map_err_def split: option.splits prod.splits outcome.splits if_splits)
    then have "is_ok r \<Longrightarrow> has_path rebootedPath (snd (RebootOp (api (NewSnow E)) w1))"
      using has_path_ops(5) [OF assms] by (simp add: preserves_def)
    then show ?thesis
      unfolding run using none tr
      by (auto simp: reboot_inv_def reboots_def snow.reboot is_reboot_def)
  qed
qed

fun boots :: "'z snow_env_scheme list \<Rightarrow> world \<Rightarrow> world" where
  "boots [] w = w"
| "boots (E # Es) w = boots Es (snd (Snow_Bootstrap E w))"

lemma reboot_inv_boot: "keeps_path E rebootedPath \<Longrightarrow> preserves reboot_inv (Snow_Bootstrap E)"
  unfolding Snow_Bootstrap_split
  by (intro preserves_intro reboot_inv_reboot quiet_preserves snow_configure_no_reboot snow_configure_keeps)

lemma reboot_inv_boots:
  "list_all (\<lambda>E. keeps_path E rebootedPath) Es \<Longrightarrow> reboot_inv w \<Longrightarrow> reboot_inv (boots Es w)"
  by (induction Es arbitrary: w) (auto simp: reboot_inv_boot [unfolded preserves_def, rule_format])

text \<open>
  C1.  Over any number of boots, whatever fails in each, the instance is rebooted by this program
  at most once, provided nothing else removes the record of the reboot.
\<close>

theorem reboot_once:
  assumes "list_all (\<lambda>E. keeps_path E rebootedPath) Es" and "reboots w = 0"
  shows "reboots (boots Es w) \<le> 1"
  using reboot_inv_boots [OF assms(1), of w] assms(2) by (simp add: reboot_inv_def)

definition snow_good :: snow_env where
  "snow_good = bb_env.extend (bb_quiet\<lparr>
       httpget := (\<lambda>_ _. (0, HttpReply 200 (Inr ''10.0.0.5''))),
       yamlUserData := (\<lambda>_. Inr \<lparr>UserDataType = [], WriteFiles =
         [\<lparr>Path = ''/tmp/network.yaml'', Owner = ''root'', Permissions = [], Content = ''n''\<rparr>], RunCmd = []\<rparr>)\<rparr>)
     \<lparr>linkList = (\<lambda>_. Inr [''lo'', ''eth0'', ''eth1'']), routeList = (\<lambda>_. Inr [(None, ''10.0.0.1'')]),
      yamlNetwork = (\<lambda>_. Inr \<lparr>DeviceIP = ''192.168.1.2'', DniCount = 1, Static = []\<rparr>)\<rparr>"

definition snow_world :: world where
  "snow_world = start\<lparr>fs := [(''/.bottlerocket/bootstrap-containers/current/user-data'', File ''u'' 416),
     (''/.bottlerocket/rootfs/var/lib/netdog/current_ip'', File ''10.0.0.5'' 416)]\<rparr>"

lemma snow_good_keeps: "keeps_path snow_good p"
  by (simp add: keeps_path_def snow_good_def bb_quiet_def bb_env.defs has_path_def)

lemma snow_good_reboots: "reboots (boots [snow_good, snow_good] snow_world) = 1"
  by code_simp

theorem reboot_once_witness:
  "reboots (boots [snow_good, snow_good] snow_world) \<le> 1 \<and> reboots (boots [snow_good, snow_good] snow_world) = 1"
  using reboot_once [of "[snow_good, snow_good]" snow_world] snow_good_reboots
  by (simp add: snow_good_keeps)

section \<open>Formatting the volume\<close>

definition formats :: "world \<Rightarrow> nat" where
  "formats w = length (filter is_format (trace w))"

definition formatted :: "nat \<Rightarrow> world \<Rightarrow> bool" where
  "formatted n w \<longleftrightarrow> has_path partitionCreatedPath w \<and> formats w = n"

lemma quiet_formatted:
  assumes "emits (\<lambda>e. \<not> is_format e) m" "preserves (has_path partitionCreatedPath) m"
  shows "preserves (formatted n) m"
proof -
  have "formats (snd (m w)) = formats w" for w
    using assms(1) by (auto simp: emits_def formats_def list_all_iff dest!: spec [of _ w])
  then show ?thesis using assms(2) by (auto simp: preserves_def formatted_def)
qed

lemma formatted_partition: "preserves (formatted n) (createPartition E (NewSnow E))"
  by (simp add: preserves_def formatted_def snow.createPartition_skips)

lemma configure_keeps:
  assumes "keeps_path E p"
  shows "preserves (has_path p) (configureKubernetesSettings E (NewSnow E))"
    "preserves (has_path p) (configureKernelSettings (NewSnow E))" "preserves (has_path p) (configureDNI E)"
    "preserves (has_path p) (mountContainerd E (NewSnow E))"
    "preserves (has_path p) (rebootInstanceIfNeeded E (NewSnow E))"
    "preserves (has_path p) (createPartition E (NewSnow E))"
  unfolding configureKubernetesSettings_def setCloudProvider_def setProviderID_def setNodeIP_def
    configureKernelSettings_def configureDNI_def GenerateNetworkTemplate_def ExecuteTemplate_def mountContainerd_def rebootInstanceIfNeeded_def createPartition_def
  by (intro preserves_intro assms)+

lemma reboot_no_format: "emits (\<lambda>e. \<not> is_format e) (rebootInstanceIfNeeded E (NewSnow E))"
proof -
  have "emits (\<lambda>e. \<not> is_format e) (RebootOp (api (NewSnow E)))"
    by (auto simp: emits_def snow.reboot is_format_def)
  then show ?thesis
    unfolding rebootInstanceIfNeeded_def by (intro emits_intro) (simp_all add: is_format_def)
qed

lemma formatted_boot:
  assumes "keeps_path E partitionCreatedPath"
  shows "preserves (formatted n) (Snow_Bootstrap E)"
  unfolding Snow_Bootstrap_split snow_configure_def mountContainerdVolume_def
  by (intro preserves_bind preserves_handlers preserves_pure formatted_partition
      quiet_formatted [OF no_reboot_of_quiet(2) [OF configure_quiet(1)] configure_keeps(1) [OF assms]]
      quiet_formatted [OF no_reboot_of_quiet(2) [OF configure_quiet(2)] configure_keeps(2) [OF assms]]
      quiet_formatted [OF no_reboot_of_quiet(2) [OF configure_quiet(3)] configure_keeps(3) [OF assms]]
      quiet_formatted [OF no_reboot_of_quiet(2) [OF snow.mountContainerd_quiet] configure_keeps(4) [OF assms]]
      quiet_formatted [OF reboot_no_format configure_keeps(5) [OF assms]])

lemma formatted_boots:
  "list_all (\<lambda>E. keeps_path E partitionCreatedPath) Es \<Longrightarrow> formatted n w \<Longrightarrow> formatted n (boots Es w)"
  by (induction Es arbitrary: w) (auto simp: formatted_boot [unfolded preserves_def, rule_format])

lemma createPartition_records:
  assumes "createPartition E (NewSnow E) w = (Ok (), w1)" and "ioerr E w (Stat partitionCreatedPath) = None"
  shows "has_path partitionCreatedPath w1"
  using assms
  by (auto simp: createPartition_def bind_Ok_iff PathExists_run os_Create_def with_io_def has_path_def fs_write_def
      split: if_splits option.splits)

text \<open>
  C14.  Once the containerd volume was partitioned successfully, no later boot formats it again,
  whatever else fails, provided nothing else removes the record: the data on it survives.
\<close>

theorem format_once:
  assumes "createPartition E (NewSnow E) w = (Ok (), w1)" and "ioerr E w (Stat partitionCreatedPath) = None"
    and "list_all (\<lambda>E. keeps_path E partitionCreatedPath) Es"
  shows "formats (boots Es w1) = formats w1"
  using formatted_boots [OF assms(3), of "formats w1" w1] createPartition_records [OF assms(1,2)]
  by (simp add: formatted_def)

theorem format_once_witness:
  "formats (boots [snow_good, snow_good] (snd (createPartition snow_good (NewSnow snow_good) snow_world))) =
   formats (snd (createPartition snow_good (NewSnow snow_good) snow_world))"
proof (rule format_once)
  have "fst (createPartition snow_good (NewSnow snow_good) snow_world) = Ok ()" by code_simp
  then show "createPartition snow_good (NewSnow snow_good) snow_world =
      (Ok (), snd (createPartition snow_good (NewSnow snow_good) snow_world))"
    by (simp add: prod_eq_iff)
qed (simp_all add: snow_good_keeps, simp add: snow_good_def bb_quiet_def bb_env.defs)

text \<open>
  A volume that was formatted but whose record could not be written is formatted again by the
  next boot: the step fails, and the record that would prevent it is still missing.
\<close>

theorem format_unrecorded:
  assumes "\<not> has_path partitionCreatedPath w" and "ioerr E w (Stat partitionCreatedPath) = None"
    and "runcmd E w (Exec Combined [''mkfs.ext4'', device]) = (out, None, fs w)"
    and "\<forall>v. ioerr E v (Create partitionCreatedPath) = Some (msg, fs v)"
  shows "\<exists>e w1. createPartition E (NewSnow E) w = (Err e, w1) \<and> formats w1 = Suc (formats w)
    \<and> \<not> has_path partitionCreatedPath w1"
  using assms
  by (simp add: createPartition_def bind_def PathExists_run has_path_def NewSnow_def NewFileSystem_def Partition_def
      Execute_def exec_cmd_def os_Create_def with_io_def wrap_def map_err_def formats_def is_format_def)

theorem format_unrecorded_witness:
  "\<exists>e w1. createPartition (snow_good\<lparr>ioerr := (\<lambda>v ev. case ev of Create _ \<Rightarrow> Some (''full'', fs v) | _ \<Rightarrow> None)\<rparr>)
     (NewSnow (snow_good\<lparr>ioerr := (\<lambda>v ev. case ev of Create _ \<Rightarrow> Some (''full'', fs v) | _ \<Rightarrow> None)\<rparr>)) start = (Err e, w1)
    \<and> formats w1 = Suc (formats start) \<and> \<not> has_path partitionCreatedPath w1"
  by (rule format_unrecorded [where out = "[]" and msg = "''full''"])
    (simp_all add: has_path_def fs_get_def snow_good_def bb_quiet_def bb_env.defs)

section \<open>The network configuration\<close>

lemma mapDNIs_static:
  "i + length dnis \<le> length st \<Longrightarrow> st \<noteq> [] \<Longrightarrow>
   mapDNIs st i dnis w = (Ok (map2 (\<lambda>d s. \<lparr>DNI = d, MappedIP = Some s\<rparr>) dnis (drop i st)), w)"
proof (induction dnis arbitrary: i)
  case (Cons d ds)
  then have "drop i st = st ! i # drop (Suc i) st" by (simp add: Cons_nth_drop_Suc)
  with Cons show ?case by (simp add: bind_def)
qed simp

lemma mapDNIs_dhcp: "mapDNIs [] i dnis w = (Ok (map (\<lambda>d. \<lparr>DNI = d, MappedIP = None\<rparr>) dnis), w)"
  by (induction dnis arbitrary: i) (simp_all add: bind_def)

definition found_dnis :: "string list \<Rightarrow> string list" where
  "found_dnis devices = filter (\<lambda>name. name \<noteq> ''lo'' \<and> name \<noteq> ''eth0'') devices"

text \<open>
  C28.  When links and network file can be read and the counts agree, every DNI (a link other than
  \<open>lo\<close> and \<open>eth0\<close>) is mapped, in order: to the static address at its position if any are given, to
  DHCP otherwise.  No address is skipped and none is read out of range.
\<close>

theorem networkMapping_maps:
  assumes "linkList E w = Inr devices" and "parseNetworkFile E w = (Ok (Some n), w1)"
    and "int (length (found_dnis devices)) = DniCount n"
    and "Static n = [] \<or> DniCount n \<le> int (length (Static n))"
  shows "networkMapping E w = (Ok
    (if Static n = [] then map (\<lambda>d. \<lparr>DNI = d, MappedIP = None\<rparr>) (found_dnis devices)
     else map2 (\<lambda>d s. \<lparr>DNI = d, MappedIP = Some s\<rparr>) (found_dnis devices) (Static n)), w1)"
proof -
  have "dniList E w = (Ok (found_dnis devices), w)"
    using assms(1) by (simp add: dniList_def found_dnis_def bind_def wrap_def map_err_def)
  then show ?thesis
    using assms(2-4) mapDNIs_dhcp [of 0] mapDNIs_static [of 0 "found_dnis devices" "Static n" w1]
    by (auto simp: networkMapping_def bind_def wrap_def map_err_def)
qed

theorem networkMapping_maps_witness:
  "\<exists>w1. networkMapping snow_good snow_world = (Ok [\<lparr>DNI = ''eth1'', MappedIP = None\<rparr>], w1)"
proof -
  have "fst (parseNetworkFile snow_good snow_world) =
      Ok (Some \<lparr>DeviceIP = ''192.168.1.2'', DniCount = 1, Static = []\<rparr>)"
    by code_simp
  then have "parseNetworkFile snow_good snow_world =
      (Ok (Some \<lparr>DeviceIP = ''192.168.1.2'', DniCount = 1, Static = []\<rparr>), snd (parseNetworkFile snow_good snow_world))"
    by (simp add: prod_eq_iff)
  from networkMapping_maps [OF _ this, of "[''lo'', ''eth0'', ''eth1'']"] show ?thesis
    by (simp add: snow_good_def bb_quiet_def bb_env.defs found_dnis_def)
qed

text \<open>
  C12.  A first network configuration is complete: when it succeeds and no configuration was there,
  the file it leaves holds exactly the lines expected for the instance's address, the default
  gateway and the mapping of the DNIs, as they were found: the version, the section of each DNI in
  order (a static address with its default route, marked primary as configured, or DHCP, with the
  first DNI primary), then \<open>eth0\<close> with the route to the metadata service.
\<close>

theorem configureDNI_writes:
  assumes "configureDNI E w = (Ok (), w')" and "fst (PathExists E netConfigPath w) = Ok False"
  shows "\<exists>ip v1 gw v2 network v3 m. instanceIP E w = (Ok ip, v1) \<and> defaultGateway E v1 = (Ok gw, v2) \<and>
    networkMapping E v2 = (Ok network, v3) \<and>
    fs_get (fs w') netConfigPath = Some (File (Join (config_lines network ip gw) [CHR 0x0A]) m)"
proof -
  have "PathExists E netConfigPath w = (Ok False, w)" using assms(2) by (simp add: PathExists_run)
  with assms(1) obtain ip v1 gw v2 network v3 where "instanceIP E w = (Ok ip, v1)" "defaultGateway E v1 = (Ok gw, v2)"
      "networkMapping E v2 = (Ok network, v3)"
    and w: "Write E netConfigPath (Join (config_lines network ip gw) [CHR 0x0A]) 416 v3 = (Ok (), w')"
    by (auto simp: configureDNI_def bind_Ok_iff GenerateNetworkTemplate_lines)
  then show ?thesis using Write_contents [OF w] by blast
qed

definition snow_net :: string where
  "snow_net = Join
     [''version = 2'', ''[eth1]'', ''dhcp4 = true'', ''primary = true'', ''[eth0.static4]'', ''addresses = [\"10.0.0.5/25\"]'',
      ''[[eth0.route]]'', ''to = \"169.254.169.254/32\"'', ''from = \"10.0.0.5\"'', ''via = \"10.0.0.1\"'', []] [CHR 0x0A]"

lemma snow_good_network:
  "map_prod id (\<lambda>w. fs_get (fs w) netConfigPath) (configureDNI snow_good snow_world) = (Ok (), Some (File snow_net 416))"
  "fst (PathExists snow_good netConfigPath snow_world) = Ok False"
  by code_simp+

theorem configureDNI_writes_witness:
  "\<exists>ip gw network m. fs_get (fs (snd (configureDNI snow_good snow_world))) netConfigPath =
     Some (File (Join (config_lines network ip gw) [CHR 0x0A]) m) \<and> Join (config_lines network ip gw) [CHR 0x0A] = snow_net"
proof -
  obtain w' where run: "configureDNI snow_good snow_world = (Ok (), w')" "fs_get (fs w') netConfigPath = Some (File snow_net 416)"
    using snow_good_network(1) by (cases "configureDNI snow_good snow_world") (simp add: map_prod_def)
  obtain ip gw network m where "fs_get (fs w') netConfigPath = Some (File (Join (config_lines network ip gw) [CHR 0x0A]) m)"
    using configureDNI_writes [OF run(1) snow_good_network(2)] by blast
  then show ?thesis using run by (metis node.inject(1) option.inject snd_conv)
qed

text \<open>
  A mismatch between the DNIs found and the count in the network file, or fewer static addresses
  than DNIs, is not an error: the mapping is empty, and the configuration is written with no DNI in
  it at all.
\<close>

theorem networkMapping_mismatch:
  assumes "linkList E w = Inr devices" and "parseNetworkFile E w = (Ok (Some n), w1)"
    and "int (length (found_dnis devices)) \<noteq> DniCount n
      \<or> Static n \<noteq> [] \<and> int (length (Static n)) < DniCount n"
  shows "networkMapping E w = (Ok [], w1)"
proof -
  have "dniList E w = (Ok (found_dnis devices), w)"
    using assms(1) by (simp add: dniList_def found_dnis_def bind_def wrap_def map_err_def)
  then show ?thesis
    using assms(2,3) by (auto simp: networkMapping_def bind_def wrap_def map_err_def)
qed

theorem networkMapping_mismatch_witness:
  "\<exists>w1. networkMapping (snow_good\<lparr>linkList := (\<lambda>_. Inr [''lo'', ''eth0''])\<rparr>) snow_world = (Ok [], w1)"
proof -
  let ?E = "snow_good\<lparr>linkList := (\<lambda>_. Inr [''lo'', ''eth0''])\<rparr>"
  have "fst (parseNetworkFile ?E snow_world) = Ok (Some \<lparr>DeviceIP = ''192.168.1.2'', DniCount = 1, Static = []\<rparr>)"
    by code_simp
  then have "parseNetworkFile ?E snow_world =
      (Ok (Some \<lparr>DeviceIP = ''192.168.1.2'', DniCount = 1, Static = []\<rparr>), snd (parseNetworkFile ?E snow_world))"
    by (simp add: prod_eq_iff)
  from networkMapping_mismatch [OF _ this, of "[''lo'', ''eth0'']"] show ?thesis
    by (simp add: found_dnis_def)
qed

text \<open>
  User data without a network file makes the provider panic: the missing file is reported as a
  nil network without an error, and the device address is read through it.
\<close>

theorem deviceIP_nil_network:
  assumes "ResolveBootstrapContainerUserData E w = (Ok ud, w1)"
    and "find (\<lambda>f. Path f = networkFilePath) (WriteFiles ud) = None"
  shows "deviceIP E w = (Panic ''nil pointer dereference'', w1)"
  using assms by (simp add: deviceIP_def parseNetworkFile_def bind_def wrap_def map_err_def)

definition snow_no_file :: snow_env where
  "snow_no_file = snow_good\<lparr>yamlUserData := (\<lambda>_. Inr \<lparr>UserDataType = [], WriteFiles = [], RunCmd = []\<rparr>)\<rparr>"

theorem deviceIP_nil_network_witness:
  "\<exists>w1. deviceIP snow_no_file snow_world = (Panic ''nil pointer dereference'', w1)"
proof -
  have "fst (ResolveBootstrapContainerUserData snow_no_file snow_world) =
      Ok \<lparr>UserDataType = [], WriteFiles = [], RunCmd = []\<rparr>"
    by code_simp
  then have "ResolveBootstrapContainerUserData snow_no_file snow_world =
      (Ok \<lparr>UserDataType = [], WriteFiles = [], RunCmd = []\<rparr>, snd (ResolveBootstrapContainerUserData snow_no_file snow_world))"
    by (simp add: prod_eq_iff)
  from deviceIP_nil_network [OF this] show ?thesis by simp
qed

section \<open>The node's address\<close>

definition is_node_ip :: "event \<Rightarrow> bool" where
  "is_node_ip e \<longleftrightarrow> (\<exists>ip. e = Exec Combined [''apiclient'', ''set'', ''kubernetes.node-ip='' @ ip])"

text \<open>
  The node's address is set only after the reboot, from the first line of the address file, and
  once: without the record of the reboot, or with the record of an earlier setting, the step does
  nothing; a successful step leaves that record and exactly one request.
\<close>

theorem setNodeIP_once:
  assumes "ioerr E w (Stat rebootedPath) = None" and "ioerr E w (Stat nodeIPConfiguredPath) = None"
    and "setNodeIP E (NewSnow E) w = (Ok (), w1)"
  shows "if has_path rebootedPath w \<and> \<not> has_path nodeIPConfiguredPath w
    then has_path nodeIPConfiguredPath w1 \<and> (\<exists>ip. currentIP E w = (Ok ip, w) \<and>
      trace w1 = trace w @ [Exec Combined [''apiclient'', ''set'', ''kubernetes.node-ip='' @ ip], Create nodeIPConfiguredPath])
    else w1 = w"
proof (cases "has_path rebootedPath w \<and> \<not> has_path nodeIPConfiguredPath w")
  case True
  then obtain ip w2 w3 where "currentIP E w = (Ok ip, w2)" "NodeIPOp (api (NewSnow E)) ip w2 = (Ok (), w3)"
      "os_Create E nodeIPConfiguredPath w3 = (Ok (), w1)"
    using assms by (auto simp: setNodeIP_def bind_Ok_iff PathExists_run has_path_def)
  moreover from this have "w2 = w" by (auto simp: currentIP_def split: option.splits node.splits)
  moreover have "trace (snd (NodeIPOp (api (NewSnow E)) ip w2)) =
      trace w2 @ [Exec Combined [''apiclient'', ''set'', ''kubernetes.node-ip='' @ ip]]"
    by (simp add: snow_op_defs ApiclientBinary_def)
  ultimately show ?thesis
    using True by (auto simp: os_Create_def with_io_def has_path_def fs_write_def split: option.splits if_splits)
next
  case False
  then show ?thesis
    using assms by (auto simp: setNodeIP_def bind_def PathExists_run has_path_def split: if_splits)
qed

theorem setNodeIP_once_witness:
  "trace (snd (setNodeIP snow_good (NewSnow snow_good) (snow_world\<lparr>fs := (rebootedPath, File [] 438) # fs snow_world\<rparr>))) =
     [Exec Combined [''apiclient'', ''set'', ''kubernetes.node-ip=10.0.0.5''], Create nodeIPConfiguredPath]"
proof -
  let ?w = "snow_world\<lparr>fs := (rebootedPath, File [] 438) # fs snow_world\<rparr>"
  have "fst (setNodeIP snow_good (NewSnow snow_good) ?w) = Ok ()" and ip: "fst (currentIP snow_good ?w) = Ok ''10.0.0.5''"
    and "has_path rebootedPath ?w \<and> \<not> has_path nodeIPConfiguredPath ?w" and "trace ?w = []"
    by code_simp+
  moreover from this have "setNodeIP snow_good (NewSnow snow_good) ?w =
      (Ok (), snd (setNodeIP snow_good (NewSnow snow_good) ?w))"
    by (simp add: prod_eq_iff)
  ultimately show ?thesis
    using setNodeIP_once [of snow_good ?w "snd (setNodeIP snow_good (NewSnow snow_good) ?w)"]
    by (auto simp: snow_good_def bb_quiet_def bb_env.defs)
qed

text \<open>
  A metadata service that cannot be reached does not stop the node from being registered: the
  provider id is set with an empty instance part.
\<close>

theorem setProviderID_drops_errors:
  assumes "httpget E w instanceIDURL = (d, HttpFail e)"
    and "deviceIP E ((emit (HttpGet instanceIDURL) w)\<lparr>clock := clock w + d\<rparr>) = (Ok ip, w2)"
  shows "trace (snd (setProviderID E (NewSnow E) w)) =
    trace w2 @ [Exec Combined [''apiclient'', ''set'', ''kubernetes.provider-id=aws-snow:///'' @ ip @ ''/'']]"
proof -
  have "\<exists>m. instanceID E w = (Err m, (emit (HttpGet instanceIDURL) w)\<lparr>clock := clock w + d\<rparr>)"
    using assms(1) by (simp add: instanceID_def snow_httpGet_def http_Get_def bind_def wrap_def map_err_def)
  then have "snd (setProviderID E (NewSnow E) w) = snd (ProviderIDOp (api (NewSnow E)) (''aws-snow:///'' @ ip @ ''/'') w2)"
    using assms(2) by (auto simp: setProviderID_def bind_def attempt_def)
  then show ?thesis by (simp add: snow_op_defs ApiclientBinary_def)
qed

definition snow_offline :: snow_env where
  "snow_offline = snow_good\<lparr>httpget := (\<lambda>_ _. (0, HttpFail ''down''))\<rparr>"

theorem setProviderID_drops_errors_witness:
  "Exec Combined [''apiclient'', ''set'', ''kubernetes.provider-id=aws-snow:///192.168.1.2/''] \<in>
     set (trace (snd (setProviderID snow_offline (NewSnow snow_offline) snow_world)))"
proof -
  let ?v = "(emit (HttpGet instanceIDURL) snow_world)\<lparr>clock := clock snow_world + 0\<rparr>"
  have "fst (deviceIP snow_offline ?v) = Ok ''192.168.1.2''" by code_simp
  then have "deviceIP snow_offline ?v = (Ok ''192.168.1.2'', snd (deviceIP snow_offline ?v))"
    by (simp add: prod_eq_iff)
  from setProviderID_drops_errors [OF _ this, of "''down''"] show ?thesis
    by (simp add: snow_offline_def snow_good_def bb_quiet_def bb_env.defs)
qed

end
