(* ===== verification/Go_Os.thy ===== *)
theory Go_Os
  imports Go_World
begin

text \<open>
  More of the operating system interface: commands with extra environment variables, file modes,
  globbing, walking a tree, creating and filling a file, reading the body of an HTTP answer.
\<close>

definition exec_env :: "'z env_scheme \<Rightarrow> string list \<Rightarrow> string list \<Rightarrow> (world, unit) prog" where
  "exec_env E vars argv = (\<lambda>w. case runcmd E w (ExecEnv vars argv) of
       (_, err, g) \<Rightarrow> ((case err of None \<Rightarrow> Ok () | Some e \<Rightarrow> Err e), (emit (ExecEnv vars argv) w)\<lparr>fs := g\<rparr>))"

definition fs_chmod :: "string \<Rightarrow> nat \<Rightarrow> files \<Rightarrow> files" where
  "fs_chmod p m f = (case fs_get f p of Some (File c _) \<Rightarrow> fs_put p (File c m) f | _ \<Rightarrow> f)"

definition os_Chmod :: "'z env_scheme \<Rightarrow> string \<Rightarrow> nat \<Rightarrow> (world, unit) prog" where
  "os_Chmod E p m = with_io E (Chmod p m) (\<lambda>w. (Ok (), fs_chmod p m (fs w)))"

text \<open>
  \<open>os.Create\<close> followed by \<open>io.Copy\<close> of contents that may end with a read error: what was read before
  the error is not kept by the model, the file is then empty.
\<close>

definition create_and_fill :: "'z env_scheme \<Rightarrow> string \<Rightarrow> string + string \<Rightarrow> (world, unit) prog" where
  "create_and_fill E p body =
     bind (os_Create E p) (\<lambda>_. case body of
         Inl e \<Rightarrow> fail e
       | Inr c \<Rightarrow> os_WriteFile E p c 438)"

text \<open>
  \<open>filepath.Glob\<close> for patterns made of literals and \<open>*\<close>, component by component, in lexical order.
  It reports nothing but a malformed pattern, and these patterns are never malformed.
\<close>

definition Glob :: "string \<Rightarrow> world \<Rightarrow> string list" where
  "Glob pat w = sort (remdups (filter (glob_match pat) (map fst (fs w))))"

text \<open>The regular files below a directory, in the lexical order in which \<open>filepath.Walk\<close> visits them.\<close>

definition walk_files :: "files \<Rightarrow> string \<Rightarrow> (string \<times> string \<times> nat) list" where
  "walk_files f d = List.map_filter (\<lambda>p. case fs_get f p of Some (File c m) \<Rightarrow> Some (p, c, m) | _ \<Rightarrow> None)
     (map (\<lambda>cs. Join cs ''/'') (sort (remdups (map (\<lambda>(p, _). Split p ''/'') (filter (\<lambda>(p, _). below d p) f)))))"

definition Base :: "string \<Rightarrow> string" where
  "Base p = (if p = [] then ''.'' else (let q = TrimRight p ''/'' in if q = [] then ''/'' else last_elem q))"

text \<open>\<open>filepath.Abs\<close> joins a relative path to the working directory.\<close>

definition Abs :: "'z env_scheme \<Rightarrow> string \<Rightarrow> string + string" where
  "Abs E p = (if HasPrefix p ''/'' then Inr (Clean p)
     else (case getwd E of Inl e \<Rightarrow> Inl e | Inr d \<Rightarrow> Inr (path_Join [d, p])))"

lemma emits_os [emits_intro]:
  "A (ExecEnv vars argv) \<Longrightarrow> emits A (exec_env E vars argv)"
  "A (Chmod p m) \<Longrightarrow> emits A (os_Chmod E p m)"
  "A (Create p) \<Longrightarrow> (\<And>c. A (WriteFile p c 438)) \<Longrightarrow> emits A (create_and_fill E p body)"
  by (auto simp: os_Chmod_def create_and_fill_def exec_env_def emits_def split: prod.splits
      intro!: emits_with_io [unfolded emits_def, rule_format])
    (auto split: sum.splits intro!: emits_intro [unfolded emits_def, rule_format])

lemma follows_exec_env: "follows L (exec_env E vars argv) (L (ExecEnv vars argv))"
  by (auto simp: follows_def exec_env_def split: prod.splits option.splits)

lemma follows_chmod: "follows L (os_Chmod E p m) (L (Chmod p m))"
  by (simp add: os_Chmod_def follows_with_io)

lemma no_exit_os [no_exit_intro]:
  "no_exit (exec_env E vars argv)" "no_exit (os_Chmod E p m)" "no_exit (create_and_fill E p body)"
proof -
  show "no_exit (exec_env E vars argv)"
    by (auto simp: no_exit_def exec_env_def split: prod.splits option.splits)
  show "no_exit (os_Chmod E p m)"
    by (auto simp: no_exit_def os_Chmod_def with_io_def split: prod.splits option.splits)
  show "no_exit (create_and_fill E p body)"
    by (cases body) (auto simp: create_and_fill_def intro!: no_exit_intro)
qed

text \<open>A machine on which every file operation works, commands succeed silently and there is no network.\<close>

definition quiet :: env where
  "quiet = \<lparr>ioerr = (\<lambda>w e. None), runcmd = (\<lambda>w e. ([], None, fs w)), httpget = (\<lambda>w u. (0, HttpFail ''offline'')),
     getenv = (\<lambda>k. None), getwd = Inr ''/work'', hostname = Inr ''builder'', lookPath = (\<lambda>s. s), meanwhile = (\<lambda>w d. fs w)\<rparr>"

end
