(* ===== verification/Go_Unmarshal.thy ===== *)
theory Go_Unmarshal
  imports Go_Json Go_Strings
begin

text \<open>
  The reading half of \<open>encoding/json\<close>: the parser of JSON texts, with the proof that it reads back
  what the writer prints, and the decoding of objects into structs whose fields are all strings,
  which is what the configuration files of the image builder are.
\<close>

section \<open>Reading JSON\<close>

text \<open>
  The reader follows RFC 8259 as \<open>json.Unmarshal\<close> does: no control characters in strings, strict
  number syntax, only white space after the value.  A \<open>\\u\<close> escape becomes the UTF-8 bytes of its
  code point; surrogates give the replacement character.
\<close>

definition skip_ws :: "string \<Rightarrow> string" where
  "skip_ws s = dropWhile (\<lambda>c. c \<in> {CHR 0x20, CHR 0x09, CHR 0x0A, CHR 0x0D}) s"

definition hex_val :: "char \<Rightarrow> nat option" where
  "hex_val c = (let n = of_char c :: nat in
     if 48 \<le> n \<and> n \<le> 57 then Some (n - 48)
     else if 97 \<le> n \<and> n \<le> 102 then Some (n - 87)
     else if 65 \<le> n \<and> n \<le> 70 then Some (n - 55) else None)"

definition hex4 :: "char \<Rightarrow> char \<Rightarrow> char \<Rightarrow> char \<Rightarrow> nat option" where
  "hex4 a b c d = (case (hex_val a, hex_val b, hex_val c, hex_val d) of
     (Some w, Some x, Some y, Some z) \<Rightarrow> Some (((w * 16 + x) * 16 + y) * 16 + z) | _ \<Rightarrow> None)"

definition utf8 :: "nat \<Rightarrow> string" where
  "utf8 n =
     (if n < 128 then [char_of n]
      else if n < 2048 then [char_of (192 + n div 64), char_of (128 + n mod 64)]
      else if 55296 \<le> n \<and> n < 57344 then [CHR 0xEF, CHR 0xBF, CHR 0xBD]
      else [char_of (224 + n div 4096), char_of (128 + (n div 64) mod 64), char_of (128 + n mod 64)])"

definition simple_escape :: "char \<Rightarrow> char option" where
  "simple_escape e = map_of [(CHR 0x22, CHR 0x22), (CHR 0x5C, CHR 0x5C), (CHR ''/'', CHR ''/''),
     (CHR ''b'', CHR 0x08), (CHR ''f'', CHR 0x0C), (CHR ''n'', CHR 0x0A), (CHR ''r'', CHR 0x0D), (CHR ''t'', CHR 0x09)] e"

definition prepend :: "string \<Rightarrow> (string \<times> string) option \<Rightarrow> (string \<times> string) option" where
  "prepend x r = map_option (\<lambda>(s, rest). (x @ s, rest)) r"

fun parse_chars :: "string \<Rightarrow> (string \<times> string) option" where
  "parse_chars [] = None"
| "parse_chars (c # cs) =
     (if c = CHR 0x22 then Some ([], cs)
      else if c = CHR 0x5C then (case cs of
          [] \<Rightarrow> None
        | e # r \<Rightarrow>
            if e = CHR ''u'' then (case r of
                h1 # h2 # h3 # h4 # r' \<Rightarrow> (case hex4 h1 h2 h3 h4 of
                    None \<Rightarrow> None | Some n \<Rightarrow> prepend (utf8 n) (parse_chars r'))
              | _ \<Rightarrow> None)
            else (case simple_escape e of None \<Rightarrow> None | Some x \<Rightarrow> prepend [x] (parse_chars r)))
      else if (of_char c :: nat) < 32 then None
      else prepend [c] (parse_chars cs))"

definition digit :: "char \<Rightarrow> bool" where
  "digit c \<longleftrightarrow> c \<in> set ''0123456789''"

definition number_char :: "char \<Rightarrow> bool" where
  "number_char c \<longleftrightarrow> c \<in> set ''0123456789+-.eE''"

text \<open>An optional sign, an integer part without a leading zero, a fraction, an exponent.\<close>

definition valid_number :: "string \<Rightarrow> bool" where
  "valid_number s =
     (let s1 = (case s of c # cs \<Rightarrow> if c = CHR ''-'' then cs else s | [] \<Rightarrow> s);
          ip = takeWhile digit s1; s2 = dropWhile digit s1;
          (frac_ok, s3) = (case s2 of c # cs \<Rightarrow> if c = CHR ''.'' then (takeWhile digit cs \<noteq> [], dropWhile digit cs)
                                              else (True, s2) | [] \<Rightarrow> (True, []));
          exp_ok = (case s3 of [] \<Rightarrow> True
            | c # cs \<Rightarrow> (c = CHR ''e'' \<or> c = CHR ''E'') \<and>
                (let ds = (case cs of d # r \<Rightarrow> if d = CHR ''+'' \<or> d = CHR ''-'' then r else cs | [] \<Rightarrow> cs)
                 in ds \<noteq> [] \<and> list_all digit ds))
      in ip \<noteq> [] \<and> (length ip = 1 \<or> hd ip \<noteq> CHR ''0'') \<and> frac_ok \<and> exp_ok)"

definition parse_number :: "string \<Rightarrow> (json \<times> string) option" where
  "parse_number s =
     (let l = takeWhile number_char s
      in if valid_number l then Some (JNum l, dropWhile number_char s) else None)"

fun parse_value :: "nat \<Rightarrow> string \<Rightarrow> (json \<times> string) option"
  and parse_elems :: "nat \<Rightarrow> string \<Rightarrow> (json list \<times> string) option"
  and parse_members :: "nat \<Rightarrow> string \<Rightarrow> ((string \<times> json) list \<times> string) option" where
  "parse_value 0 s = None"
| "parse_value (Suc n) s = (case skip_ws s of
       [] \<Rightarrow> None
     | c # cs \<Rightarrow>
         if c = CHR ''{'' then (case skip_ws cs of
             d # r \<Rightarrow> if d = CHR ''}'' then Some (JObj [], r)
               else map_option (\<lambda>(ms, rest). (JObj ms, rest)) (parse_members n (d # r))
           | [] \<Rightarrow> None)
         else if c = CHR ''['' then (case skip_ws cs of
             d # r \<Rightarrow> if d = CHR '']'' then Some (JArr [], r)
               else map_option (\<lambda>(vs, rest). (JArr vs, rest)) (parse_elems n (d # r))
           | [] \<Rightarrow> None)
         else if c = CHR 0x22 then map_option (\<lambda>(t, rest). (JStr t, rest)) (parse_chars cs)
         else if prefix ''true'' (c # cs) then Some (JBool True, drop 4 (c # cs))
         else if prefix ''false'' (c # cs) then Some (JBool False, drop 5 (c # cs))
         else if prefix ''null'' (c # cs) then Some (JNull, drop 4 (c # cs))
         else parse_number (c # cs))"
| "parse_elems 0 s = None"
| "parse_elems (Suc n) s = (case parse_value n s of
       None \<Rightarrow> None
     | Some (v, r) \<Rightarrow> (case skip_ws r of
           d # r' \<Rightarrow> if d = CHR '','' then map_option (\<lambda>(vs, rest). (v # vs, rest)) (parse_elems n r')
             else if d = CHR '']'' then Some ([v], r') else None
         | [] \<Rightarrow> None))"
| "parse_members 0 s = None"
| "parse_members (Suc n) s = (case skip_ws s of
       [] \<Rightarrow> None
     | q # s1 \<Rightarrow> if q \<noteq> CHR 0x22 then None else (case parse_chars s1 of
           None \<Rightarrow> None
         | Some (k, s2) \<Rightarrow> (case skip_ws s2 of
               [] \<Rightarrow> None
             | col # s3 \<Rightarrow> if col \<noteq> CHR '':'' then None else (case parse_value n s3 of
                   None \<Rightarrow> None
                 | Some (v, s4) \<Rightarrow> (case skip_ws s4 of
                       d # s5 \<Rightarrow> if d = CHR '','' then map_option (\<lambda>(ms, rest). ((k, v) # ms, rest)) (parse_members n s5)
                         else if d = CHR ''}'' then Some ([(k, v)], s5) else None
                     | [] \<Rightarrow> None)))))"

definition parse_json :: "string \<Rightarrow> json option" where
  "parse_json s = (case parse_value (2 * length s + 2) s of
     Some (v, r) \<Rightarrow> if skip_ws r = [] then Some v else None | None \<Rightarrow> None)"


section \<open>The parser reads what the writer prints\<close>

lemma parse_chars_escape:
  "parse_chars (json_escape c @ s) = prepend [c] (parse_chars s)"
proof -
  have hv: "hex_val (hex_digit n) = Some n" if "n < 16" for n
    using that by (simp add: hex_digit_def hex_val_def)
  show ?thesis
  proof (cases "json_escape c = unicode_escape c")
    case True
    let ?n = "of_char c :: nat"
    have "unicode_escape c \<noteq> [c]" by (simp add: unicode_escape_def Let_def)
    then have "?n < 32 \<or> c \<in> set ''<>&'' \<or> c \<in> {CHR 0x22, CHR 0x5C, CHR 0x0A, CHR 0x0D, CHR 0x09}"
      using True by (auto simp: json_escape_def split: if_splits)
    then have n: "?n < 128" by auto
    have "hex4 (CHR ''0'') (CHR ''0'') (hex_digit (?n div 16)) (hex_digit (?n mod 16)) = Some ?n"
      using n by (simp add: hex4_def hv) (simp add: hex_val_def)
    then show ?thesis using True n by (simp add: unicode_escape_def Let_def utf8_def)
  next
    case False
    then show ?thesis
      by (auto simp: json_escape_def simple_escape_def split: if_splits)
  qed
qed

lemma parse_chars_quote: "parse_chars (concat (map json_escape s) @ CHR 0x22 # r) = Some (s, r)"
  by (induction s) (simp_all add: parse_chars_escape prepend_def del: parse_chars.simps(2), simp)

text \<open>A value that can be printed: its number literals are JSON numbers.\<close>

fun wf_json :: "json \<Rightarrow> bool" where
  "wf_json (JNum n) = (valid_number n \<and> list_all number_char n)"
| "wf_json (JArr vs) = (\<forall>v \<in> set vs. wf_json v)"
| "wf_json (JObj ms) = (\<forall>kv \<in> set ms. wf_json (snd kv))"
| "wf_json _ = True"

definition token_start :: "char \<Rightarrow> bool" where
  "token_start c \<longleftrightarrow> c \<notin> set [CHR 0x20, CHR 0x09, CHR 0x0A, CHR 0x0D, CHR '','', CHR '']'', CHR ''}'', CHR '':'']"

lemma valid_number_ne: "valid_number n \<Longrightarrow> n \<noteq> []"
  by (auto simp: valid_number_def)

lemma number_char_start: "number_char c \<Longrightarrow> token_start c \<and> c \<notin> set [CHR ''{'', CHR ''['', CHR 0x22, CHR ''t'', CHR ''f'', CHR ''n'']"
  by (auto simp: number_char_def token_start_def)

lemma print_json_start: "wf_json v \<Longrightarrow> \<exists>c t. print_json v = c # t \<and> token_start c"
proof (cases v)
  case (JNum n)
  assume "wf_json v"
  with JNum have "n \<noteq> []" "list_all number_char n" by (auto dest: valid_number_ne)
  with JNum show ?thesis by (cases n) (auto dest: number_char_start)
qed (auto simp: json_quote_def token_start_def)

lemma skip_ws_start [simp]: "token_start c \<Longrightarrow> skip_ws (c # s) = c # s"
  by (auto simp: token_start_def skip_ws_def)

lemma skip_ws_punct [simp]:
  "skip_ws (CHR '','' # s) = CHR '','' # s" "skip_ws (CHR '']'' # s) = CHR '']'' # s"
  "skip_ws (CHR ''}'' # s) = CHR ''}'' # s" "skip_ws (CHR '':'' # s) = CHR '':'' # s"
  "skip_ws [] = []"
  by (simp_all add: skip_ws_def)

definition ends_number :: "string \<Rightarrow> bool" where
  "ends_number r \<longleftrightarrow> r = [] \<or> \<not> number_char (hd r)"

lemma ends_number_simps [simp]:
  "ends_number []" "ends_number (CHR '','' # s)" "ends_number (CHR '']'' # s)" "ends_number (CHR ''}'' # s)"
  by (simp_all add: ends_number_def number_char_def)

lemma parse_number_append:
  assumes "valid_number n" and "list_all number_char n" and "ends_number r"
  shows "parse_number (n @ r) = Some (JNum n, r)"
proof -
  have "takeWhile number_char (n @ r) = n @ takeWhile number_char r"
       "dropWhile number_char (n @ r) = dropWhile number_char r"
    using assms(2) by (simp_all add: list_all_iff)
  moreover have "takeWhile number_char r = []" "dropWhile number_char r = r"
    using assms(3) by (cases r; simp add: ends_number_def)+
  ultimately show ?thesis using assms(1) by (simp add: parse_number_def)
qed

lemma parse_value_number:
  assumes "valid_number n" and "list_all number_char n" and "ends_number r"
  shows "parse_value (Suc k) (n @ r) = Some (JNum n, r)"
proof -
  obtain c t where n: "n = c # t" using valid_number_ne [OF assms(1)] by (cases n) auto
  then have "token_start c" and "c \<notin> set [CHR ''{'', CHR ''['', CHR 0x22, CHR ''t'', CHR ''f'', CHR ''n'']"
    using assms(2) number_char_start [of c] by auto
  then show ?thesis using parse_number_append [OF assms] by (auto simp: n)
qed

lemma quote_start [simp]: "token_start (CHR 0x22)" "token_start (CHR ''['')" "token_start (CHR ''{'')"
  "token_start (CHR ''n'')" "token_start (CHR ''t'')" "token_start (CHR ''f'')"
  by (simp_all add: token_start_def)

lemma json_quote_append: "json_quote k @ s = CHR 0x22 # concat (map json_escape k) @ CHR 0x22 # s"
  by (simp add: json_quote_def)

lemma parse_value_print:
  "\<lbrakk> wf_json v; 2 * length (print_json v) \<le> n; ends_number r \<rbrakk> \<Longrightarrow>
     parse_value n (print_json v @ r) = Some (v, r)"
  and parse_elems_print:
  "\<lbrakk> vs \<noteq> []; \<forall>v \<in> set vs. wf_json v; 2 * length (print_elems vs) < n \<rbrakk> \<Longrightarrow>
     parse_elems n (print_elems vs @ CHR '']'' # r) = Some (vs, r)"
  and parse_members_print:
  "\<lbrakk> ms \<noteq> []; \<forall>kv \<in> set ms. wf_json (snd kv); 2 * length (print_members ms) < n \<rbrakk> \<Longrightarrow>
     parse_members n (print_members ms @ CHR ''}'' # r) = Some (ms, r)"
proof (induction v and vs and ms arbitrary: n r and n r and n r rule: print_json_print_elems_print_members.induct)
  case (3 l)
  then obtain k where "n = Suc k" by (cases n) (auto dest: valid_number_ne)
  with 3 show ?case using parse_value_number [of l r k] by simp
next
  case (4 s)
  then obtain k where "n = Suc k" by (cases n) (auto simp: json_quote_def)
  then show ?case by (simp add: json_quote_append parse_chars_quote)
next
  case (5 vs)
  then obtain k where n: "n = Suc k" by (cases n) auto
  show ?case
  proof (cases vs)
    case (Cons v vs')
    obtain c t where c: "print_json v = c # t" "token_start c"
      using print_json_start [of v] 5 Cons by auto
    then have "\<exists>t'. print_elems vs = c # t'" using Cons by (cases vs') auto
    then show ?thesis using 5 c Cons n by (auto simp: token_start_def)
  qed (simp add: n)
next
  case (6 ms)
  then obtain k where n: "n = Suc k" by (cases n) auto
  show ?case
  proof (cases ms)
    case (Cons kv ms')
    then have "\<exists>t'. print_members ms = CHR 0x22 # t'"
      by (cases kv, cases ms') (auto simp: json_quote_def)
    then show ?thesis using 6 Cons n by auto
  qed (simp add: n)
next
  case (8 v)
  then obtain k where n: "n = Suc k" by (cases n) auto
  show ?case using 8 by (simp add: n)
next
  case (9 v w vs)
  then obtain k where n: "n = Suc k" by (cases n) auto
  have "parse_value k (print_json v @ CHR '','' # print_elems (w # vs) @ CHR '']'' # r) = Some (v, CHR '','' # print_elems (w # vs) @ CHR '']'' # r)"
    using 9 n by (intro "9.IH"(1)) auto
  moreover have "parse_elems k (print_elems (w # vs) @ CHR '']'' # r) = Some (w # vs, r)"
    using 9 n by (intro "9.IH"(2)) auto
  ultimately show ?case by (simp add: n)
next
  case (11 k v)
  then obtain j where n: "n = Suc j" by (cases n) auto
  show ?case using 11 by (simp add: n json_quote_append parse_chars_quote)
next
  case (12 k v m ms)
  then obtain j where n: "n = Suc j" by (cases n) auto
  have "parse_value j (print_json v @ CHR '','' # print_members (m # ms) @ CHR ''}'' # r) = Some (v, CHR '','' # print_members (m # ms) @ CHR ''}'' # r)"
    using 12 n by (intro "12.IH"(1)) auto
  moreover have "parse_members j (print_members (m # ms) @ CHR ''}'' # r) = Some (m # ms, r)"
    using 12 n by (intro "12.IH"(2)) auto
  ultimately show ?case by (simp add: n json_quote_append parse_chars_quote)
next
  case 1
  then obtain k where n: "n = Suc k" by (cases n) auto
  then show ?case by simp
next
  case (2 b)
  then obtain k where n: "n = Suc k" by (cases n) (auto split: if_splits)
  then show ?case by simp
qed auto

lemma parse_print_json: "wf_json v \<Longrightarrow> parse_json (print_json v) = Some v"
  using parse_value_print [of v "2 * length (print_json v) + 2" "[]"] by (simp add: parse_json_def)

section \<open>Structs\<close>

text \<open>
  A struct whose fields are all strings is described by its field table: for each field the JSON
  name, whether it is tagged \<open>omitempty\<close>, and how to read and set it.  The fields of an embedded
  struct are part of the table of the outer one, as \<open>encoding/json\<close> has it.
\<close>

record 'r jfield =
  jkey :: string
  jomit :: bool
  jget :: "'r \<Rightarrow> string"
  jput :: "string \<Rightarrow> 'r \<Rightarrow> 'r"

definition fld :: "string \<Rightarrow> bool \<Rightarrow> ('r \<Rightarrow> string) \<Rightarrow> ((string \<Rightarrow> string) \<Rightarrow> 'r \<Rightarrow> 'r) \<Rightarrow> 'r jfield" where
  "fld k om g u = \<lparr>jkey = k, jomit = om, jget = g, jput = (\<lambda>s. u (\<lambda>_. s))\<rparr>"

definition embed :: "('o \<Rightarrow> 'i) \<Rightarrow> (('i \<Rightarrow> 'i) \<Rightarrow> 'o \<Rightarrow> 'o) \<Rightarrow> 'i jfield list \<Rightarrow> 'o jfield list" where
  "embed g u t = map (\<lambda>f. \<lparr>jkey = jkey f, jomit = jomit f, jget = (\<lambda>r. jget f (g r)), jput = (\<lambda>s. u (jput f s))\<rparr>) t"

definition marshal_field :: "'r \<Rightarrow> 'r jfield \<Rightarrow> (string \<times> json) list" where
  "marshal_field r f = (if jomit f then field_opt (jkey f) (jget f r) else field (jkey f) (jget f r))"

definition marshal_fields :: "'r jfield list \<Rightarrow> 'r \<Rightarrow> (string \<times> json) list" where
  "marshal_fields t r = concat (map (marshal_field r) t)"

definition marshal_struct :: "'r jfield list \<Rightarrow> 'r \<Rightarrow> string" where
  "marshal_struct t r = print_json (JObj (marshal_fields t r))"

text \<open>\<open>json.Marshal\<close> of a pointer: a nil pointer is \<open>null\<close>.\<close>

definition marshal_ptr :: "'r jfield list \<Rightarrow> 'r option \<Rightarrow> string" where
  "marshal_ptr t p = (case p of None \<Rightarrow> print_json JNull | Some r \<Rightarrow> marshal_struct t r)"

text \<open>An object member goes to the field of that name; failing that, to one that differs in letter case.\<close>

definition find_field :: "('f \<Rightarrow> string) \<Rightarrow> 'f list \<Rightarrow> string \<Rightarrow> 'f option" where
  "find_field key t k = (case find (\<lambda>f. key f = k) t of
     Some f \<Rightarrow> Some f | None \<Rightarrow> find (\<lambda>f. ToLower (key f) = ToLower k) t)"

fun json_kind :: "json \<Rightarrow> string" where
  "json_kind JNull = ''null''"
| "json_kind (JBool _) = ''bool''"
| "json_kind (JNum _) = ''number''"
| "json_kind (JStr _) = ''string''"
| "json_kind (JArr _) = ''array''"
| "json_kind (JObj _) = ''object''"

definition type_error :: "json \<Rightarrow> string \<Rightarrow> string" where
  "type_error v what = ''json: cannot unmarshal '' @ json_kind v @ '' into Go '' @ what"

text \<open>A type mismatch does not stop the decoding; the first one is reported at the end.\<close>

definition first_error :: "string option \<Rightarrow> string \<Rightarrow> string option" where
  "first_error e m = (case e of None \<Rightarrow> Some m | Some _ \<Rightarrow> e)"

definition decode_string :: "(string \<Rightarrow> 'r \<Rightarrow> 'r) \<Rightarrow> string \<Rightarrow> json \<Rightarrow> 'r \<times> string option \<Rightarrow> 'r \<times> string option" where
  "decode_string put k v st = (case v of
       JStr s \<Rightarrow> (put s (fst st), snd st)
     | JNull \<Rightarrow> st
     | _ \<Rightarrow> (fst st, first_error (snd st) (type_error v (''struct field '' @ k @ '' of type string''))))"

definition decode_member :: "'r jfield list \<Rightarrow> 'r \<times> string option \<Rightarrow> string \<times> json \<Rightarrow> 'r \<times> string option" where
  "decode_member t st m = (case find_field jkey t (fst m) of
       None \<Rightarrow> st
     | Some f \<Rightarrow> decode_string (jput f) (jkey f) (snd m) st)"

definition decode_members :: "'r jfield list \<Rightarrow> (string \<times> json) list \<Rightarrow> 'r \<Rightarrow> 'r \<times> string option" where
  "decode_members t ms r = foldl (decode_member t) (r, None) ms"

text \<open>
  \<open>json.Unmarshal\<close> into a struct and into a pointer to one: \<open>null\<close> leaves a struct as it is and sets
  a pointer to nil; for any other value a nil pointer is first set to a fresh struct \<open>z\<close>.  The text
  is checked before anything is decoded.  The wording of a syntax error is not modelled.
\<close>

definition syntax_error :: string where
  "syntax_error = ''invalid JSON''"

definition decode_struct :: "'r jfield list \<Rightarrow> string \<Rightarrow> json \<Rightarrow> 'r \<Rightarrow> 'r \<times> string option" where
  "decode_struct t what v r = (case v of
       JObj ms \<Rightarrow> decode_members t ms r
     | JNull \<Rightarrow> (r, None)
     | _ \<Rightarrow> (r, Some (type_error v (''value of type '' @ what))))"

definition Unmarshal_struct :: "'r jfield list \<Rightarrow> string \<Rightarrow> string \<Rightarrow> 'r \<Rightarrow> string + 'r" where
  "Unmarshal_struct t what s r = (case parse_json s of
       None \<Rightarrow> Inl syntax_error
     | Some v \<Rightarrow> (case decode_struct t what v r of (r', None) \<Rightarrow> Inr r' | (_, Some e) \<Rightarrow> Inl e))"

definition Unmarshal_ptr :: "'r jfield list \<Rightarrow> string \<Rightarrow> 'r \<Rightarrow> string \<Rightarrow> 'r option \<Rightarrow> string + 'r option" where
  "Unmarshal_ptr t what z s p = (case parse_json s of
       None \<Rightarrow> Inl syntax_error
     | Some JNull \<Rightarrow> Inr None
     | Some v \<Rightarrow> (case decode_struct t what v (case p of None \<Rightarrow> z | Some r \<Rightarrow> r) of
         (r', None) \<Rightarrow> Inr (Some r') | (_, Some e) \<Rightarrow> Inl e))"

section \<open>Decoding what was encoded\<close>

text \<open>Setting one field reads back, and leaves every other field alone.\<close>

definition independent :: "'r jfield \<Rightarrow> 'r jfield \<Rightarrow> bool" where
  "independent f g \<longleftrightarrow> (\<forall>s r. jget f (jput g s r) = jget f r) \<and> (\<forall>s r. jget g (jput f s r) = jget g r)"

definition reads_back :: "'r jfield \<Rightarrow> bool" where
  "reads_back f \<longleftrightarrow> (\<forall>s r. jget f (jput f s r) = s)"

locale struct_table =
  fixes t :: "'r jfield list"
  assumes put_get: "list_all reads_back t"
    and apart: "sorted_wrt independent t"
    and keys: "distinct (map jkey t)"
    and determined: "\<And>r r'. list_all (\<lambda>f. jget f r = jget f r') t \<Longrightarrow> r = r'"
begin

lemma get_put_same: "f \<in> set t \<Longrightarrow> jget f (jput f s r) = s"
  using put_get by (simp add: list_all_iff reads_back_def)

lemma apart_cases: "f \<in> set t \<Longrightarrow> g \<in> set t \<Longrightarrow> f = g \<or> independent f g \<or> independent g f"
  using apart by (auto simp: sorted_wrt_iff_nth_less in_set_conv_nth) (metis linorder_neqE_nat)

lemma get_put_other: "f \<in> set t \<Longrightarrow> g \<in> set t \<Longrightarrow> f \<noteq> g \<Longrightarrow> jget f (jput g s r) = jget f r"
  using apart_cases [of f g] by (auto simp: independent_def)

lemma key_inject: "f \<in> set t \<Longrightarrow> g \<in> set t \<Longrightarrow> jkey f = jkey g \<longleftrightarrow> f = g"
  using keys by (auto simp: distinct_map inj_on_def)

lemma determined_iff: "list_all (\<lambda>f. jget f r = jget f r') t \<longleftrightarrow> r = r'"
  using determined by (auto simp: list_all_iff)

lemma find_own: "f \<in> set t \<Longrightarrow> find_field jkey t (jkey f) = Some f"
proof -
  assume f: "f \<in> set t"
  then obtain g where g: "find (\<lambda>g. jkey g = jkey f) t = Some g"
    by (cases "find (\<lambda>g. jkey g = jkey f) t") (auto simp: find_None_iff)
  then have "g \<in> set t" "jkey g = jkey f" by (auto simp: find_Some_iff in_set_conv_nth)
  with f g show ?thesis using key_inject by (simp add: find_field_def)
qed

lemma decode_field:
  assumes "f \<in> set t"
  shows "foldl (decode_member t) (z, e) (marshal_field r f) =
           (if jomit f \<and> jget f r = [] then z else jput f (jget f r) z, e)"
  using find_own [OF assms]
  by (simp add: marshal_field_def field_def field_opt_def decode_member_def decode_string_def)

text \<open>The members written for some of the fields set exactly these fields.\<close>

lemma decode_marshal_fields:
  assumes "set fs \<subseteq> set t" and "distinct fs" and "\<And>f. f \<in> set t \<Longrightarrow> jomit f \<Longrightarrow> jget f z = []"
  shows "\<exists>z'. foldl (decode_member t) (z, e) (concat (map (marshal_field r) fs)) = (z', e) \<and>
           (\<forall>f \<in> set t. jget f z' = (if f \<in> set fs then jget f r else jget f z))"
  using assms
proof (induction fs rule: rev_induct)
  case Nil
  then show ?case by simp
next
  case (snoc f fs)
  then obtain z' where z': "foldl (decode_member t) (z, e) (concat (map (marshal_field r) fs)) = (z', e)"
    and g: "\<forall>h \<in> set t. jget h z' = (if h \<in> set fs then jget h r else jget h z)"
    by auto
  have f: "f \<in> set t" "f \<notin> set fs" using snoc.prems by auto
  have "jget f z' = jget f z" using f g by simp
  moreover have "jget h (jput f s z') = (if h = f then s else jget h z')" if "h \<in> set t" for h s
    using f that by (simp add: get_put_same get_put_other)
  ultimately show ?case
    using z' g f snoc.prems(3) [of f] by (auto simp: decode_field)
qed

lemma distinct_table: "distinct t"
  using keys by (simp add: distinct_map)

theorem decode_marshal:
  assumes "\<And>f. f \<in> set t \<Longrightarrow> jomit f \<Longrightarrow> jget f z = []"
  shows "decode_members t (marshal_fields t r) z = (r, None)"
proof -
  obtain z' where "decode_members t (marshal_fields t r) z = (z', None)" "\<forall>f \<in> set t. jget f z' = jget f r"
    using decode_marshal_fields [of t z None r] distinct_table assms
    unfolding decode_members_def marshal_fields_def by auto
  then show ?thesis using determined [of z' r] by (simp add: list_all_iff)
qed

lemma wf_marshal: "wf_json (JObj (marshal_fields t r))"
  by (auto simp: marshal_fields_def marshal_field_def field_def field_opt_def)

theorem Unmarshal_marshal:
  assumes "\<And>f. f \<in> set t \<Longrightarrow> jomit f \<Longrightarrow> jget f z = []"
  shows "Unmarshal_ptr t what z (marshal_ptr t (Some r)) None = Inr (Some r)"
  using decode_marshal [OF assms] parse_print_json [OF wf_marshal [of r]]
  by (simp add: Unmarshal_ptr_def marshal_ptr_def marshal_struct_def decode_struct_def del: print_json.simps)

end

section \<open>Tables of embedded structs\<close>

text \<open>Reading and updating an embedded struct, and two of them side by side.\<close>

definition lens :: "('o \<Rightarrow> 'i) \<Rightarrow> (('i \<Rightarrow> 'i) \<Rightarrow> 'o \<Rightarrow> 'o) \<Rightarrow> bool" where
  "lens g u \<longleftrightarrow> (\<forall>h r. g (u h r) = h (g r))"

definition avoids :: "('o \<Rightarrow> 'i) \<Rightarrow> (('i \<Rightarrow> 'i) \<Rightarrow> 'o \<Rightarrow> 'o) \<Rightarrow> 'o jfield \<Rightarrow> bool" where
  "avoids g u f \<longleftrightarrow> (\<forall>h r. jget f (u h r) = jget f r) \<and> (\<forall>s r. g (jput f s r) = g r)"

definition cross :: "'r jfield list \<Rightarrow> 'r jfield list \<Rightarrow> bool" where
  "cross a b \<longleftrightarrow> (\<forall>x \<in> set a. \<forall>y \<in> set b. independent x y)"

lemma table_append:
  "sorted_wrt independent (a @ b) \<longleftrightarrow> sorted_wrt independent a \<and> sorted_wrt independent b \<and> cross a b"
  by (auto simp: sorted_wrt_append cross_def)

lemma cross_append: "cross a (b @ c) \<longleftrightarrow> cross a b \<and> cross a c"
  by (auto simp: cross_def)

lemma reads_back_embed: "lens g u \<Longrightarrow> list_all reads_back t \<Longrightarrow> list_all reads_back (embed g u t)"
  by (auto simp: lens_def embed_def reads_back_def list_all_iff)

lemma apart_embed:
  assumes "lens g u" "sorted_wrt independent t"
  shows "sorted_wrt independent (embed g u t)"
  unfolding embed_def sorted_wrt_map
  by (rule sorted_wrt_mono_rel [OF _ assms(2)]) (use assms(1) in \<open>auto simp: independent_def lens_def\<close>)

lemma cross_embed: "list_all (avoids g u) a \<Longrightarrow> cross a (embed g u t)"
  by (auto simp: cross_def avoids_def independent_def embed_def list_all_iff)

lemma avoids_embed:
  "(\<And>h r. g' (u h r) = g' r) \<Longrightarrow> (\<And>h r. g (u' h r) = g r) \<Longrightarrow> list_all (avoids g u) (embed g' u' t)"
  by (auto simp: avoids_def embed_def list_all_iff)

lemma list_all_embed: "list_all P (embed g u t) \<longleftrightarrow> list_all (\<lambda>f. P \<lparr>jkey = jkey f, jomit = jomit f,
    jget = (\<lambda>r. jget f (g r)), jput = (\<lambda>s. u (jput f s))\<rparr>) t"
  by (simp add: embed_def list_all_iff)

lemma keys_embed: "map jkey (embed g u t) = map jkey t"
  by (simp add: embed_def comp_def)

lemmas table_intros = reads_back_embed apart_embed cross_embed avoids_embed
lemmas table_simps = table_append cross_append list_all_embed keys_embed

end
