(* ===== verification/IB_Types.thy ===== *)
theory IB_Types
  imports Go_Os Go_Unmarshal
begin

text \<open>
  \<open>builder/types.go\<close>, \<open>builder/files.go\<close> and \<open>builder/constants.go\<close> of the image builder: the build
  options, the configuration structs with their JSON tags, the additional files and the constants.
  An embedded struct is a field of its own here; its JSON fields belong to the outer table.  A
  pointer to a configuration is an option.  Every table of a configuration file interprets
  \<open>struct_table\<close>, which gives the round trip through its JSON text.
\<close>

section \<open>Constants\<close>

definition Ubuntu :: string where "Ubuntu = ''ubuntu''"
definition RedHat :: string where "RedHat = ''redhat''"
definition VSphere :: string where "VSphere = ''vsphere''"
definition Baremetal :: string where "Baremetal = ''baremetal''"
definition Nutanix :: string where "Nutanix = ''nutanix''"
definition CloudStack :: string where "CloudStack = ''cloudstack''"
definition AMI :: string where "AMI = ''ami''"
definition EFI :: string where "EFI = ''efi''"
definition BIOS :: string where "BIOS = ''bios''"

lemmas ib_names = Ubuntu_def RedHat_def VSphere_def Baremetal_def Nutanix_def CloudStack_def AMI_def EFI_def BIOS_def

definition SupportedHypervisors :: "string list" where
  "SupportedHypervisors = [VSphere, Baremetal, Nutanix, CloudStack, AMI]"

definition SupportedUbuntuVersions :: "string list" where
  "SupportedUbuntuVersions = [''20.04'', ''22.04'']"

definition SupportedRedHatVersions :: "string list" where
  "SupportedRedHatVersions = [''8'', ''9'']"

definition SupportedRedHatEfiVersions :: "string list" where
  "SupportedRedHatEfiVersions = [''9'']"

definition SupportedFirmwares :: "string list" where
  "SupportedFirmwares = [BIOS, EFI]"

definition DefaultUbuntu2004AMIFilterName :: string where
  "DefaultUbuntu2004AMIFilterName = ''ubuntu/images/*ubuntu-focal-20.04-amd64-server-*''"
definition DefaultUbuntu2204AMIFilterName :: string where
  "DefaultUbuntu2204AMIFilterName = ''ubuntu/images/*ubuntu-jammy-22.04-amd64-server-*''"
definition DefaultUbuntuAMIFilterOwners :: string where
  "DefaultUbuntuAMIFilterOwners = ''679593333241''"
definition DefaultAMIBuildRegion :: string where
  "DefaultAMIBuildRegion = ''us-west-2''"
definition DefaultAMIBuilderInstanceType :: string where
  "DefaultAMIBuilderInstanceType = ''t3.small''"
definition DefaultAMIRootDeviceName :: string where
  "DefaultAMIRootDeviceName = ''/dev/sda1''"
definition DefaultAMIVolumeSize :: string where
  "DefaultAMIVolumeSize = ''25''"
definition DefaultAMIVolumeType :: string where
  "DefaultAMIVolumeType = ''gp3''"
definition DefaultAMIManifestOutput :: string where
  "DefaultAMIManifestOutput = ''manifest.json''"

section \<open>Embedded configurations\<close>

record IsoConfig =
  IsoUrl :: string
  IsoChecksum :: string
  IsoChecksumType :: string

record RhsmConfig =
  ProxyHostname :: string
  ProxyPort :: string
  ServerHostname :: string
  ServerReleaseVersion :: string
  ActivationKey :: string
  OrgId :: string

record RhelConfig =
  RhelUsername :: string
  RhelPassword :: string
  Rhsm :: RhsmConfig

record ProxyConfig =
  HttpProxy :: string
  HttpsProxy :: string
  NoProxy :: string

record ExtraPackagesConfig =
  ExtraDebs :: string
  ExtraRepos :: string
  ExtraRpms :: string

record ExtraOverridesConfig =
  FirstbootCustomRolesPre :: string
  FirstbootCustomRolesPost :: string
  NodeCustomRolesPre :: string
  NodeCustomRolesPost :: string
  DisablePublicRepos :: string
  ReenablePublicRepos :: string

record AirGappedConfig =
  EksABuildToolingRepoUrl :: string
  ImageBuilderRepoUrl :: string
  PrivateServerEksDDomainUrl :: string
  PrivateServerEksADomainUrl :: string

section \<open>Configurations of the hypervisors\<close>

record VsphereConfig =
  Cluster :: string
  ConvertToTemplate :: string
  CreateSnapshot :: string
  Datacenter :: string
  Datastore :: string
  Folder :: string
  InsecureConnection :: string
  LinkedClone :: string
  Network :: string
  ResourcePool :: string
  Template :: string
  VcenterServer :: string
  Username :: string
  Password :: string
  vs_Iso :: IsoConfig
  vs_Rhel :: RhelConfig
  vs_Proxy :: ProxyConfig
  vs_Packages :: ExtraPackagesConfig
  vs_Overrides :: ExtraOverridesConfig
  vs_AirGapped :: AirGappedConfig

record BaremetalConfig =
  bm_Iso :: IsoConfig
  bm_Rhel :: RhelConfig
  bm_Proxy :: ProxyConfig
  bm_Packages :: ExtraPackagesConfig
  bm_Overrides :: ExtraOverridesConfig
  bm_AirGapped :: AirGappedConfig

record CloudstackConfig =
  AnsibleUserVars :: string
  cs_Iso :: IsoConfig
  cs_Rhel :: RhelConfig
  cs_Proxy :: ProxyConfig
  cs_Packages :: ExtraPackagesConfig
  cs_Overrides :: ExtraOverridesConfig
  cs_AirGapped :: AirGappedConfig

record NutanixConfig =
  ClusterName :: string
  ImageName :: string
  ImageUrl :: string
  ImageExport :: string
  SourceImageName :: string
  NutanixEndpoint :: string
  NutanixInsecure :: string
  NutanixPort :: string
  NutanixUserName :: string
  NutanixPassword :: string
  NutanixSubnetName :: string
  nx_Rhel :: RhelConfig
  nx_Proxy :: ProxyConfig
  nx_Packages :: ExtraPackagesConfig
  nx_Overrides :: ExtraOverridesConfig
  nx_AirGapped :: AirGappedConfig

record AMIConfig =
  AMIFilterName :: string
  AMIFilterOwners :: string
  AMIRegions :: string
  AWSRegion :: string
  BuilderInstanceType :: string
  ManifestOutput :: string
  RootDeviceName :: string
  SubnetID :: string
  VolumeSize :: string
  VolumeType :: string
  ami_Proxy :: ProxyConfig
  ami_Packages :: ExtraPackagesConfig
  ami_Overrides :: ExtraOverridesConfig

section \<open>Additional files\<close>

record File =
  Source :: string
  Destination :: string
  Owner :: string
  Group :: string
  Mode :: int

text \<open>
  The list of additional files is a slice, and one may share the array of the package variable
  \<open>DefaultAMIAdditionalFiles\<close>: then writing an element of one changes the other.  A slice is either a
  prefix of that array or an array of its own.
\<close>

datatype file_slice = SharedWithDefault nat | OwnFiles "File list"

record FileVars =
  AdditionalFiles :: string
  AdditionalFilesList :: file_slice

record FilesAnsibleConfig =
  AnsibleExtraVars :: string
  CustomRole :: string
  CustomRoleNames :: string

record AdditionalFilesConfig =
  FileVarsOf :: FileVars
  AnsibleOf :: FilesAnsibleConfig

definition DefaultAMIAdditionalFiles :: "File list" where
  "DefaultAMIAdditionalFiles =
     [\<lparr>Source = ''packer/ami/additional_files/bootstrap.sh'', Destination = ''/etc/eks/'',
       Owner = ''root'', Group = ''root'', Mode = 744\<rparr>,
      \<lparr>Source = ''packer/ami/additional_files/logging.sh'', Destination = ''/etc/eks/'',
       Owner = ''root'', Group = ''root'', Mode = 744\<rparr>]"

section \<open>Build options\<close>

record BuildOptions =
  Os :: string
  OsVersion :: string
  Arch :: string
  Hypervisor :: string
  VsphereConfigOf :: "VsphereConfig option"
  BaremetalConfigOf :: "BaremetalConfig option"
  NutanixConfigOf :: "NutanixConfig option"
  CloudstackConfigOf :: "CloudstackConfig option"
  AMIConfigOf :: "AMIConfig option"
  FilesConfig :: "AdditionalFilesConfig option"
  ReleaseChannel :: string
  Force :: bool
  AirGapped :: bool
  ManifestTarball :: string
  Firmware :: string
  AnsibleVerbosity :: int
  EKSAReleaseVersion :: string

section \<open>JSON field tables\<close>

definition IsoConfig_fields :: "IsoConfig jfield list" where
  "IsoConfig_fields =
     [fld ''iso_url'' True IsoUrl IsoUrl_update,
      fld ''iso_checksum'' True IsoChecksum IsoChecksum_update,
      fld ''iso_checksum_type'' True IsoChecksumType IsoChecksumType_update]"

definition RhsmConfig_fields :: "RhsmConfig jfield list" where
  "RhsmConfig_fields =
     [fld ''rhsm_server_proxy_hostname'' True ProxyHostname ProxyHostname_update,
      fld ''rhsm_server_proxy_port'' True ProxyPort ProxyPort_update,
      fld ''rhsm_server_hostname'' True ServerHostname ServerHostname_update,
      fld ''rhsm_server_release_version'' True ServerReleaseVersion ServerReleaseVersion_update,
      fld ''rhsm_activation_key'' True ActivationKey ActivationKey_update,
      fld ''rhsm_org_id'' True OrgId OrgId_update]"

definition RhelConfig_fields :: "RhelConfig jfield list" where
  "RhelConfig_fields =
     [fld ''rhel_username'' False RhelUsername RhelUsername_update,
      fld ''rhel_password'' False RhelPassword RhelPassword_update] @
     embed Rhsm Rhsm_update RhsmConfig_fields"

definition ProxyConfig_fields :: "ProxyConfig jfield list" where
  "ProxyConfig_fields =
     [fld ''http_proxy'' True HttpProxy HttpProxy_update,
      fld ''https_proxy'' True HttpsProxy HttpsProxy_update,
      fld ''no_proxy'' True NoProxy NoProxy_update]"

definition ExtraPackagesConfig_fields :: "ExtraPackagesConfig jfield list" where
  "ExtraPackagesConfig_fields =
     [fld ''extra_debs'' True ExtraDebs ExtraDebs_update,
      fld ''extra_repos'' True ExtraRepos ExtraRepos_update,
      fld ''extra_rpms'' True ExtraRpms ExtraRpms_update]"

definition ExtraOverridesConfig_fields :: "ExtraOverridesConfig jfield list" where
  "ExtraOverridesConfig_fields =
     [fld ''firstboot_custom_roles_pre'' True FirstbootCustomRolesPre FirstbootCustomRolesPre_update,
      fld ''firstboot_custom_roles_post'' True FirstbootCustomRolesPost FirstbootCustomRolesPost_update,
      fld ''node_custom_roles_pre'' True NodeCustomRolesPre NodeCustomRolesPre_update,
      fld ''node_custom_roles_post'' True NodeCustomRolesPost NodeCustomRolesPost_update,
      fld ''disable_public_repos'' True DisablePublicRepos DisablePublicRepos_update,
      fld ''reenable_public_repos'' True ReenablePublicRepos ReenablePublicRepos_update]"

definition AirGappedConfig_fields :: "AirGappedConfig jfield list" where
  "AirGappedConfig_fields =
     [fld ''eksa_build_tooling_repo_url'' True EksABuildToolingRepoUrl EksABuildToolingRepoUrl_update,
      fld ''image_builder_repo_url'' True ImageBuilderRepoUrl ImageBuilderRepoUrl_update,
      fld ''private_artifacts_eksd_fqdn'' True PrivateServerEksDDomainUrl PrivateServerEksDDomainUrl_update,
      fld ''private_artifacts_eksa_fqdn'' True PrivateServerEksADomainUrl PrivateServerEksADomainUrl_update]"

definition VsphereConfig_fields :: "VsphereConfig jfield list" where
  "VsphereConfig_fields =
     [fld ''cluster'' False Cluster Cluster_update,
      fld ''convert_to_template'' False ConvertToTemplate ConvertToTemplate_update,
      fld ''create_snapshot'' False CreateSnapshot CreateSnapshot_update,
      fld ''datacenter'' False Datacenter Datacenter_update,
      fld ''datastore'' False Datastore Datastore_update,
      fld ''folder'' False Folder Folder_update,
      fld ''insecure_connection'' False InsecureConnection InsecureConnection_update,
      fld ''linked_clone'' False LinkedClone LinkedClone_update,
      fld ''network'' False Network Network_update,
      fld ''resource_pool'' False ResourcePool ResourcePool_update,
      fld ''template'' False Template Template_update,
      fld ''vcenter_server'' False VcenterServer VcenterServer_update,
      fld ''username'' False Username Username_update,
      fld ''password'' False Password Password_update] @
     embed vs_Iso vs_Iso_update IsoConfig_fields @
     embed vs_Rhel vs_Rhel_update RhelConfig_fields @
     embed vs_Proxy vs_Proxy_update ProxyConfig_fields @
     embed vs_Packages vs_Packages_update ExtraPackagesConfig_fields @
     embed vs_Overrides vs_Overrides_update ExtraOverridesConfig_fields @
     embed vs_AirGapped vs_AirGapped_update AirGappedConfig_fields"

definition BaremetalConfig_fields :: "BaremetalConfig jfield list" where
  "BaremetalConfig_fields =
     embed bm_Iso bm_Iso_update IsoConfig_fields @
     embed bm_Rhel bm_Rhel_update RhelConfig_fields @
     embed bm_Proxy bm_Proxy_update ProxyConfig_fields @
     embed bm_Packages bm_Packages_update ExtraPackagesConfig_fields @
     embed bm_Overrides bm_Overrides_update ExtraOverridesConfig_fields @
     embed bm_AirGapped bm_AirGapped_update AirGappedConfig_fields"

definition CloudstackConfig_fields :: "CloudstackConfig jfield list" where
  "CloudstackConfig_fields =
     [fld ''ansible_user_vars'' False AnsibleUserVars AnsibleUserVars_update] @
     embed cs_Iso cs_Iso_update IsoConfig_fields @
     embed cs_Rhel cs_Rhel_update RhelConfig_fields @
     embed cs_Proxy cs_Proxy_update ProxyConfig_fields @
     embed cs_Packages cs_Packages_update ExtraPackagesConfig_fields @
     embed cs_Overrides cs_Overrides_update ExtraOverridesConfig_fields @
     embed cs_AirGapped cs_AirGapped_update AirGappedConfig_fields"

definition NutanixConfig_fields :: "NutanixConfig jfield list" where
  "NutanixConfig_fields =
     [fld ''nutanix_cluster_name'' False ClusterName ClusterName_update,
      fld ''image_name'' False ImageName ImageName_update,
      fld ''image_url'' True ImageUrl ImageUrl_update,
      fld ''image_export'' True ImageExport ImageExport_update,
      fld ''source_image_name'' True SourceImageName SourceImageName_update,
      fld ''nutanix_endpoint'' False NutanixEndpoint NutanixEndpoint_update,
      fld ''nutanix_insecure'' False NutanixInsecure NutanixInsecure_update,
      fld ''nutanix_port'' False NutanixPort NutanixPort_update,
      fld ''nutanix_username'' False NutanixUserName NutanixUserName_update,
      fld ''nutanix_password'' False NutanixPassword NutanixPassword_update,
      fld ''nutanix_subnet_name'' False NutanixSubnetName NutanixSubnetName_update] @
     embed nx_Rhel nx_Rhel_update RhelConfig_fields @
     embed nx_Proxy nx_Proxy_update ProxyConfig_fields @
     embed nx_Packages nx_Packages_update ExtraPackagesConfig_fields @
     embed nx_Overrides nx_Overrides_update ExtraOverridesConfig_fields @
     embed nx_AirGapped nx_AirGapped_update AirGappedConfig_fields"

definition AMIConfig_fields :: "AMIConfig jfield list" where
  "AMIConfig_fields =
     [fld ''ami_filter_name'' False AMIFilterName AMIFilterName_update,
      fld ''ami_filter_owners'' False AMIFilterOwners AMIFilterOwners_update,
      fld ''ami_regions'' False AMIRegions AMIRegions_update,
      fld ''aws_region'' False AWSRegion AWSRegion_update,
      fld ''builder_instance_type'' False BuilderInstanceType BuilderInstanceType_update,
      fld ''manifest_output'' False ManifestOutput ManifestOutput_update,
      fld ''root_device_name'' False RootDeviceName RootDeviceName_update,
      fld ''subnet_id'' False SubnetID SubnetID_update,
      fld ''volume_size'' False VolumeSize VolumeSize_update,
      fld ''volume_type'' False VolumeType VolumeType_update] @
     embed ami_Proxy ami_Proxy_update ProxyConfig_fields @
     embed ami_Packages ami_Packages_update ExtraPackagesConfig_fields @
     embed ami_Overrides ami_Overrides_update ExtraOverridesConfig_fields"

definition FilesAnsibleConfig_fields :: "FilesAnsibleConfig jfield list" where
  "FilesAnsibleConfig_fields =
     [fld ''ansible_extra_vars'' False AnsibleExtraVars AnsibleExtraVars_update,
      fld ''custom_role'' False CustomRole CustomRole_update,
      fld ''custom_role_names'' False CustomRoleNames CustomRoleNames_update]"

text \<open>The zero values that \<open>json.Unmarshal\<close> starts from.\<close>

definition zero_IsoConfig :: IsoConfig where
  "zero_IsoConfig = \<lparr>IsoUrl = [], IsoChecksum = [], IsoChecksumType = []\<rparr>"

definition zero_RhsmConfig :: RhsmConfig where
  "zero_RhsmConfig = \<lparr>ProxyHostname = [], ProxyPort = [], ServerHostname = [], ServerReleaseVersion = [], ActivationKey = [], OrgId = []\<rparr>"

definition zero_RhelConfig :: RhelConfig where
  "zero_RhelConfig = \<lparr>RhelUsername = [], RhelPassword = [], Rhsm = zero_RhsmConfig\<rparr>"

definition zero_ProxyConfig :: ProxyConfig where
  "zero_ProxyConfig = \<lparr>HttpProxy = [], HttpsProxy = [], NoProxy = []\<rparr>"

definition zero_ExtraPackagesConfig :: ExtraPackagesConfig where
  "zero_ExtraPackagesConfig = \<lparr>ExtraDebs = [], ExtraRepos = [], ExtraRpms = []\<rparr>"

definition zero_ExtraOverridesConfig :: ExtraOverridesConfig where
  "zero_ExtraOverridesConfig = \<lparr>FirstbootCustomRolesPre = [], FirstbootCustomRolesPost = [], NodeCustomRolesPre = [], NodeCustomRolesPost = [], DisablePublicRepos = [], ReenablePublicRepos = []\<rparr>"

definition zero_AirGappedConfig :: AirGappedConfig where
  "zero_AirGappedConfig = \<lparr>EksABuildToolingRepoUrl = [], ImageBuilderRepoUrl = [], PrivateServerEksDDomainUrl = [], PrivateServerEksADomainUrl = []\<rparr>"

definition zero_VsphereConfig :: VsphereConfig where
  "zero_VsphereConfig = \<lparr>Cluster = [], ConvertToTemplate = [], CreateSnapshot = [], Datacenter = [], Datastore = [], Folder = [], InsecureConnection = [], LinkedClone = [], Network = [], ResourcePool = [], Template = [], VcenterServer = [], Username = [], Password = [], vs_Iso = zero_IsoConfig, vs_Rhel = zero_RhelConfig, vs_Proxy = zero_ProxyConfig, vs_Packages = zero_ExtraPackagesConfig, vs_Overrides = zero_ExtraOverridesConfig, vs_AirGapped = zero_AirGappedConfig\<rparr>"

definition zero_BaremetalConfig :: BaremetalConfig where
  "zero_BaremetalConfig = \<lparr>bm_Iso = zero_IsoConfig, bm_Rhel = zero_RhelConfig, bm_Proxy = zero_ProxyConfig, bm_Packages = zero_ExtraPackagesConfig, bm_Overrides = zero_ExtraOverridesConfig, bm_AirGapped = zero_AirGappedConfig\<rparr>"

definition zero_CloudstackConfig :: CloudstackConfig where
  "zero_CloudstackConfig = \<lparr>AnsibleUserVars = [], cs_Iso = zero_IsoConfig, cs_Rhel = zero_RhelConfig, cs_Proxy = zero_ProxyConfig, cs_Packages = zero_ExtraPackagesConfig, cs_Overrides = zero_ExtraOverridesConfig, cs_AirGapped = zero_AirGappedConfig\<rparr>"

definition zero_NutanixConfig :: NutanixConfig where
  "zero_NutanixConfig = \<lparr>ClusterName = [], ImageName = [], ImageUrl = [], ImageExport = [], SourceImageName = [], NutanixEndpoint = [], NutanixInsecure = [], NutanixPort = [], NutanixUserName = [], NutanixPassword = [], NutanixSubnetName = [], nx_Rhel = zero_RhelConfig, nx_Proxy = zero_ProxyConfig, nx_Packages = zero_ExtraPackagesConfig, nx_Overrides = zero_ExtraOverridesConfig, nx_AirGapped = zero_AirGappedConfig\<rparr>"

definition zero_AMIConfig :: AMIConfig where
  "zero_AMIConfig = \<lparr>AMIFilterName = [], AMIFilterOwners = [], AMIRegions = [], AWSRegion = [], BuilderInstanceType = [], ManifestOutput = [], RootDeviceName = [], SubnetID = [], VolumeSize = [], VolumeType = [], ami_Proxy = zero_ProxyConfig, ami_Packages = zero_ExtraPackagesConfig, ami_Overrides = zero_ExtraOverridesConfig\<rparr>"

definition zero_FilesAnsibleConfig :: FilesAnsibleConfig where
  "zero_FilesAnsibleConfig = \<lparr>AnsibleExtraVars = [], CustomRole = [], CustomRoleNames = []\<rparr>"

lemmas zero_structs = zero_IsoConfig_def zero_RhsmConfig_def zero_RhelConfig_def zero_ProxyConfig_def
  zero_ExtraPackagesConfig_def zero_ExtraOverridesConfig_def zero_AirGappedConfig_def

lemmas own_fields = fld_def reads_back_def independent_def

interpretation iso: struct_table IsoConfig_fields
  by unfold_locales (simp_all add: IsoConfig_fields_def own_fields)

interpretation rhsm: struct_table RhsmConfig_fields
  by unfold_locales (simp_all add: RhsmConfig_fields_def own_fields)

interpretation proxy: struct_table ProxyConfig_fields
  by unfold_locales (simp_all add: ProxyConfig_fields_def own_fields)

interpretation packages: struct_table ExtraPackagesConfig_fields
  by unfold_locales (simp_all add: ExtraPackagesConfig_fields_def own_fields)

interpretation overrides: struct_table ExtraOverridesConfig_fields
  by unfold_locales (simp_all add: ExtraOverridesConfig_fields_def own_fields)

interpretation airgapped: struct_table AirGappedConfig_fields
  by unfold_locales (simp_all add: AirGappedConfig_fields_def own_fields)

interpretation ansible: struct_table FilesAnsibleConfig_fields
  by unfold_locales (simp_all add: FilesAnsibleConfig_fields_def own_fields)

lemmas sub_tables = iso.put_get iso.apart rhsm.put_get rhsm.apart proxy.put_get proxy.apart
  packages.put_get packages.apart overrides.put_get overrides.apart airgapped.put_get airgapped.apart

lemmas sub_fields = iso.determined_iff rhsm.determined_iff proxy.determined_iff packages.determined_iff
  overrides.determined_iff airgapped.determined_iff

interpretation rhel: struct_table RhelConfig_fields
proof
  show "list_all reads_back RhelConfig_fields"
    unfolding RhelConfig_fields_def list_all_append
    by (intro conjI reads_back_embed sub_tables; simp add: own_fields lens_def)
  show "sorted_wrt independent RhelConfig_fields"
    unfolding RhelConfig_fields_def table_append cross_append
    by (intro conjI apart_embed cross_embed avoids_embed sub_tables; simp add: own_fields lens_def avoids_def)
  show "distinct (map jkey RhelConfig_fields)"
    by code_simp
  show "r = r'" if "list_all (\<lambda>f. jget f r = jget f r') RhelConfig_fields" for r r'
    using that by (simp add: RhelConfig_fields_def table_simps fld_def sub_fields)
qed

interpretation vsphere: struct_table VsphereConfig_fields
proof
  show "list_all reads_back VsphereConfig_fields"
    unfolding VsphereConfig_fields_def list_all_append
    by (intro conjI reads_back_embed sub_tables rhel.put_get rhel.apart; simp add: own_fields lens_def)
  show "sorted_wrt independent VsphereConfig_fields"
    unfolding VsphereConfig_fields_def table_append cross_append
    by (intro conjI apart_embed cross_embed avoids_embed sub_tables rhel.put_get rhel.apart; simp add: own_fields lens_def avoids_def)
  show "distinct (map jkey VsphereConfig_fields)"
    by code_simp
  show "r = r'" if "list_all (\<lambda>f. jget f r = jget f r') VsphereConfig_fields" for r r'
    using that by (simp add: VsphereConfig_fields_def table_simps fld_def sub_fields rhel.determined_iff)
qed

interpretation baremetal: struct_table BaremetalConfig_fields
proof
  show "list_all reads_back BaremetalConfig_fields"
    unfolding BaremetalConfig_fields_def list_all_append
    by (intro conjI reads_back_embed sub_tables rhel.put_get rhel.apart; simp add: own_fields lens_def)
  show "sorted_wrt independent BaremetalConfig_fields"
    unfolding BaremetalConfig_fields_def table_append cross_append
    by (intro conjI apart_embed cross_embed avoids_embed sub_tables rhel.put_get rhel.apart; simp add: own_fields lens_def avoids_def)
  show "distinct (map jkey BaremetalConfig_fields)"
    by code_simp
  show "r = r'" if "list_all (\<lambda>f. jget f r = jget f r') BaremetalConfig_fields" for r r'
    using that by (simp add: BaremetalConfig_fields_def table_simps fld_def sub_fields rhel.determined_iff)
qed

interpretation cloudstack: struct_table CloudstackConfig_fields
proof
  show "list_all reads_back CloudstackConfig_fields"
    unfolding CloudstackConfig_fields_def list_all_append
    by (intro conjI reads_back_embed sub_tables rhel.put_get rhel.apart; simp add: own_fields lens_def)
  show "sorted_wrt independent CloudstackConfig_fields"
    unfolding CloudstackConfig_fields_def table_append cross_append
    by (intro conjI apart_embed cross_embed avoids_embed sub_tables rhel.put_get rhel.apart; simp add: own_fields lens_def avoids_def)
  show "distinct (map jkey CloudstackConfig_fields)"
    by code_simp
  show "r = r'" if "list_all (\<lambda>f. jget f r = jget f r') CloudstackConfig_fields" for r r'
    using that by (simp add: CloudstackConfig_fields_def table_simps fld_def sub_fields rhel.determined_iff)
qed

interpretation nutanix: struct_table NutanixConfig_fields
proof
  show "list_all reads_back NutanixConfig_fields"
    unfolding NutanixConfig_fields_def list_all_append
    by (intro conjI reads_back_embed sub_tables rhel.put_get rhel.apart; simp add: own_fields lens_def)
  show "sorted_wrt independent NutanixConfig_fields"
    unfolding NutanixConfig_fields_def table_append cross_append
    by (intro conjI apart_embed cross_embed avoids_embed sub_tables rhel.put_get rhel.apart; simp add: own_fields lens_def avoids_def)
  show "distinct (map jkey NutanixConfig_fields)"
    by code_simp
  show "r = r'" if "list_all (\<lambda>f. jget f r = jget f r') NutanixConfig_fields" for r r'
    using that by (simp add: NutanixConfig_fields_def table_simps fld_def sub_fields rhel.determined_iff)
qed

interpretation ami: struct_table AMIConfig_fields
proof
  show "list_all reads_back AMIConfig_fields"
    unfolding AMIConfig_fields_def list_all_append
    by (intro conjI reads_back_embed sub_tables rhel.put_get rhel.apart; simp add: own_fields lens_def)
  show "sorted_wrt independent AMIConfig_fields"
    unfolding AMIConfig_fields_def table_append cross_append
    by (intro conjI apart_embed cross_embed avoids_embed sub_tables rhel.put_get rhel.apart; simp add: own_fields lens_def avoids_def)
  show "distinct (map jkey AMIConfig_fields)"
    by code_simp
  show "r = r'" if "list_all (\<lambda>f. jget f r = jget f r') AMIConfig_fields" for r r'
    using that by (simp add: AMIConfig_fields_def table_simps fld_def sub_fields rhel.determined_iff)
qed

section \<open>Configurations through their JSON text\<close>

lemma zero_fields:
  "f \<in> set VsphereConfig_fields \<Longrightarrow> jget f zero_VsphereConfig = []"
  "f' \<in> set BaremetalConfig_fields \<Longrightarrow> jget f' zero_BaremetalConfig = []"
  "g \<in> set CloudstackConfig_fields \<Longrightarrow> jget g zero_CloudstackConfig = []"
  "g' \<in> set NutanixConfig_fields \<Longrightarrow> jget g' zero_NutanixConfig = []"
  "h \<in> set AMIConfig_fields \<Longrightarrow> jget h zero_AMIConfig = []"
proof -
  have "list_all (\<lambda>f. jget f zero_VsphereConfig = []) VsphereConfig_fields"
    "list_all (\<lambda>f. jget f zero_BaremetalConfig = []) BaremetalConfig_fields"
    "list_all (\<lambda>f. jget f zero_CloudstackConfig = []) CloudstackConfig_fields"
    "list_all (\<lambda>f. jget f zero_NutanixConfig = []) NutanixConfig_fields"
    "list_all (\<lambda>f. jget f zero_AMIConfig = []) AMIConfig_fields"
    by code_simp+
  then show
    "f \<in> set VsphereConfig_fields \<Longrightarrow> jget f zero_VsphereConfig = []"
    "f' \<in> set BaremetalConfig_fields \<Longrightarrow> jget f' zero_BaremetalConfig = []"
    "g \<in> set CloudstackConfig_fields \<Longrightarrow> jget g zero_CloudstackConfig = []"
    "g' \<in> set NutanixConfig_fields \<Longrightarrow> jget g' zero_NutanixConfig = []"
    "h \<in> set AMIConfig_fields \<Longrightarrow> jget h zero_AMIConfig = []"
    by (auto simp: list_all_iff)
qed


end
