(* ===== verification/IB_Files.thy ===== *)
theory IB_Files
  imports IB_Types "HOL-Library.Multiset"
begin

text \<open>
  The operations of \<open>builder/files.go\<close>, and how a files configuration is decoded.  The second part
  keeps track of the array behind the list of files, because \<open>ValidateInputs\<close> puts the package
  variable \<open>DefaultAMIAdditionalFiles\<close> itself into the options and then decodes the user's file over it.
\<close>

section \<open>builder/files.go\<close>

text \<open>The elements of a slice, given the present contents of the package variable.\<close>

fun files_of :: "File list \<Rightarrow> file_slice \<Rightarrow> File list" where
  "files_of pkg (SharedWithDefault n) = take n pkg"
| "files_of pkg (OwnFiles xs) = xs"

definition ProcessAdditionalFiles :: "File list \<Rightarrow> AdditionalFilesConfig \<Rightarrow> AdditionalFilesConfig" where
  "ProcessAdditionalFiles pkg afc =
     (if length (files_of pkg (AdditionalFilesList (FileVarsOf afc))) \<noteq> 0
      then afc\<lparr>FileVarsOf := (FileVarsOf afc)\<lparr>AdditionalFiles := ''true''\<rparr>,
               AnsibleOf := (AnsibleOf afc)\<lparr>CustomRole := ''true''\<rparr>\<rparr>
      else afc)"

text \<open>The map of counts, as an association list: \<open>m[v]++\<close>, and the loop that counts down.\<close>

definition count_up :: "(File \<times> int) list \<Rightarrow> File \<Rightarrow> (File \<times> int) list" where
  "count_up m v = AList.update v ((case map_of m v of None \<Rightarrow> 0 | Some n \<Rightarrow> n) + 1) m"

fun count_down :: "(File \<times> int) list \<Rightarrow> File list \<Rightarrow> bool" where
  "count_down m [] = (length m = 0)"
| "count_down m (v # b) = (case map_of m v of
       None \<Rightarrow> False
     | Some n \<Rightarrow> count_down (if n - 1 = 0 then AList.delete v m else AList.update v (n - 1) m) b)"

definition SameFilesProvided :: "File list \<Rightarrow> File list \<Rightarrow> bool" where
  "SameFilesProvided a b =
     (if length a \<noteq> length b then False else count_down (foldl count_up [] a) b)"

section \<open>Decoding a files configuration\<close>

definition zero_File :: File where
  "zero_File = \<lparr>Source = [], Destination = [], Owner = [], Group = [], Mode = 0\<rparr>"

definition zero_AdditionalFilesConfig :: AdditionalFilesConfig where
  "zero_AdditionalFilesConfig =
     \<lparr>FileVarsOf = \<lparr>AdditionalFiles = [], AdditionalFilesList = OwnFiles []\<rparr>, AnsibleOf = zero_FilesAnsibleConfig\<rparr>"

definition decode_int :: "(int \<Rightarrow> 'r \<Rightarrow> 'r) \<Rightarrow> string \<Rightarrow> json \<Rightarrow> 'r \<times> string option \<Rightarrow> 'r \<times> string option" where
  "decode_int put k v st = (case v of
       JNum l \<Rightarrow> (case ParseInt 10 l of
           Inr i \<Rightarrow> (put i (fst st), snd st)
         | Inl _ \<Rightarrow> (fst st, first_error (snd st) (type_error v (''struct field '' @ k @ '' of type int''))))
     | JNull \<Rightarrow> st
     | _ \<Rightarrow> (fst st, first_error (snd st) (type_error v (''struct field '' @ k @ '' of type int''))))"

text \<open>Which field a member sets: the exact name, or one that differs in letter case.\<close>

definition known_key :: "string list \<Rightarrow> string \<Rightarrow> string option" where
  "known_key ks k = find_field (\<lambda>x. x) ks k"

definition File_keys :: "string list" where
  "File_keys = [''src'', ''dest'', ''owner'', ''group'', ''mode'']"

definition decode_file_member :: "File \<times> string option \<Rightarrow> string \<times> json \<Rightarrow> File \<times> string option" where
  "decode_file_member st m = (case known_key File_keys (fst m) of
       None \<Rightarrow> st
     | Some k \<Rightarrow>
         if k = ''src'' then decode_string (\<lambda>s f. f\<lparr>Source := s\<rparr>) k (snd m) st
         else if k = ''dest'' then decode_string (\<lambda>s f. f\<lparr>Destination := s\<rparr>) k (snd m) st
         else if k = ''owner'' then decode_string (\<lambda>s f. f\<lparr>Owner := s\<rparr>) k (snd m) st
         else if k = ''group'' then decode_string (\<lambda>s f. f\<lparr>Group := s\<rparr>) k (snd m) st
         else decode_int (\<lambda>i f. f\<lparr>Mode := i\<rparr>) k (snd m) st)"

definition decode_File :: "json \<Rightarrow> File \<times> string option \<Rightarrow> File \<times> string option" where
  "decode_File v st = (case v of
       JObj ms \<Rightarrow> foldl decode_file_member st ms
     | JNull \<Rightarrow> st
     | _ \<Rightarrow> (fst st, first_error (snd st) (type_error v ''value of type builder.File'')))"

text \<open>
  Decoding an array into a slice writes over the elements that are there: a member that the user's
  object leaves out keeps the old element's value.  Elements past the capacity start from zero.
\<close>

fun decode_elems :: "File list \<Rightarrow> json list \<Rightarrow> string option \<Rightarrow> File list \<times> string option" where
  "decode_elems base [] e = ([], e)"
| "decode_elems base (v # vs) e =
     (let (f, e1) = decode_File v (case base of [] \<Rightarrow> zero_File | b # _ \<Rightarrow> b, e);
          (rest, e2) = decode_elems (tl base) vs e1
      in (f # rest, e2))"

record files_state =
  fs_config :: AdditionalFilesConfig
  fs_pkg :: "File list"

definition set_list :: "file_slice \<Rightarrow> files_state \<Rightarrow> files_state" where
  "set_list sl st = st\<lparr>fs_config := (fs_config st)\<lparr>FileVarsOf := (FileVarsOf (fs_config st))\<lparr>AdditionalFilesList := sl\<rparr>\<rparr>\<rparr>"

text \<open>
  The array of the package variable has no spare capacity.  While the new list fits, the slice goes
  on sharing it; the elements that fit are written there before the slice moves to a larger array.
\<close>

definition decode_list :: "json list \<Rightarrow> files_state \<times> string option \<Rightarrow> files_state \<times> string option" where
  "decode_list vs st =
     (case AdditionalFilesList (FileVarsOf (fs_config (fst st))) of
        OwnFiles xs \<Rightarrow> (case decode_elems xs vs (snd st) of (new, e) \<Rightarrow> (set_list (OwnFiles new) (fst st), e))
      | SharedWithDefault n \<Rightarrow> (case decode_elems (fs_pkg (fst st)) vs (snd st) of (new, e) \<Rightarrow>
          (let cap = length (fs_pkg (fst st));
               st' = (fst st)\<lparr>fs_pkg := take cap new @ drop (length new) (fs_pkg (fst st))\<rparr>
           in (set_list (if new \<noteq> [] \<and> length new \<le> cap then SharedWithDefault (length new) else OwnFiles new) st', e))))"

definition FilesConfig_keys :: "string list" where
  "FilesConfig_keys = [''additional_files'', ''additional_files_list'', ''ansible_extra_vars'', ''custom_role'', ''custom_role_names'']"

definition on_config :: "(AdditionalFilesConfig \<Rightarrow> AdditionalFilesConfig) \<Rightarrow> files_state \<Rightarrow> files_state" where
  "on_config f st = st\<lparr>fs_config := f (fs_config st)\<rparr>"

definition decode_files_member :: "files_state \<times> string option \<Rightarrow> string \<times> json \<Rightarrow> files_state \<times> string option" where
  "decode_files_member st m = (case known_key FilesConfig_keys (fst m) of
       None \<Rightarrow> st
     | Some k \<Rightarrow>
         if k = ''additional_files'' then decode_string (\<lambda>s. on_config (FileVarsOf_update (AdditionalFiles_update (\<lambda>_. s)))) k (snd m) st
         else if k = ''additional_files_list'' then (case snd m of
             JArr vs \<Rightarrow> decode_list vs st
           | JNull \<Rightarrow> (set_list (OwnFiles []) (fst st), snd st)
           | v \<Rightarrow> (fst st, first_error (snd st) (type_error v (''struct field '' @ k @ '' of type []builder.File''))))
         else if k = ''ansible_extra_vars'' then decode_string (\<lambda>s. on_config (AnsibleOf_update (AnsibleExtraVars_update (\<lambda>_. s)))) k (snd m) st
         else if k = ''custom_role'' then decode_string (\<lambda>s. on_config (AnsibleOf_update (CustomRole_update (\<lambda>_. s)))) k (snd m) st
         else decode_string (\<lambda>s. on_config (AnsibleOf_update (CustomRoleNames_update (\<lambda>_. s)))) k (snd m) st)"

text \<open>\<open>json.Unmarshal(filesConfig, &bo.FilesConfig)\<close>: the pointer afterwards and the package variable.\<close>

definition Unmarshal_files ::
  "string \<Rightarrow> AdditionalFilesConfig option \<Rightarrow> File list \<Rightarrow> string + AdditionalFilesConfig option \<times> File list" where
  "Unmarshal_files s p pkg = (case parse_json s of
       None \<Rightarrow> Inl syntax_error
     | Some JNull \<Rightarrow> Inr (None, pkg)
     | Some (JObj ms) \<Rightarrow>
         (case foldl decode_files_member
             (\<lparr>fs_config = (case p of None \<Rightarrow> zero_AdditionalFilesConfig | Some c \<Rightarrow> c), fs_pkg = pkg\<rparr>, None) ms of
            (st, None) \<Rightarrow> Inr (Some (fs_config st), fs_pkg st)
          | (_, Some e) \<Rightarrow> Inl e)
     | Some v \<Rightarrow> Inl (type_error v ''value of type builder.AdditionalFilesConfig''))"

section \<open>Comparing lists of files\<close>

definition counts :: "(File \<times> int) list \<Rightarrow> File multiset \<Rightarrow> bool" where
  "counts m M \<longleftrightarrow> (\<forall>v. map_of m v = (if v \<in># M then Some (int (count M v)) else None))"

lemma counts_up: "counts m M \<Longrightarrow> counts (count_up m v) (add_mset v M)"
  by (auto simp: counts_def count_up_def update_conv not_in_iff)

lemma counts_foldl: "counts m M \<Longrightarrow> counts (foldl count_up m a) (M + mset a)"
proof (induction a arbitrary: m M)
  case (Cons v a)
  then show ?case using Cons.IH [OF counts_up [OF Cons.prems, of v]] by simp
qed simp

lemma counts_Nil: "counts [] {#}"
  by (simp add: counts_def)

lemma counts_empty: "counts m M \<Longrightarrow> length m = 0 \<longleftrightarrow> M = {#}"
proof
  assume c: "counts m M"
  show "M = {#}" if "length m = 0"
  proof (rule ccontr)
    assume "M \<noteq> {#}"
    then obtain v where "v \<in># M" by (auto elim: multiset_nonemptyE)
    then have "map_of m v \<noteq> None" using c unfolding counts_def by simp
    with that show False by simp
  qed
  show "length m = 0" if "M = {#}"
  proof (cases m)
    case (Cons x m')
    then have "map_of m (fst x) \<noteq> None" by (cases x) simp
    moreover have "map_of m (fst x) = None" using c that unfolding counts_def by simp
    ultimately show ?thesis by simp
  qed simp
qed

lemma counts_remove:
  assumes "counts m M" "v \<in># M"
  shows "counts (if int (count M v) - 1 = 0 then AList.delete v m else AList.update v (int (count M v) - 1) m) (M - {#v#})"
proof -
  have "count M v = 1 \<or> 1 < count M v" using count_greater_zero_iff [of M v] assms(2) by linarith
  then show ?thesis
    using assms(1) by (auto simp: counts_def update_conv delete_conv' restrict_map_def in_diff_count)
qed

lemma count_down_iff: "counts m M \<Longrightarrow> count_down m b \<longleftrightarrow> M = mset b"
proof (induction b arbitrary: m M)
  case Nil
  then show ?case using counts_empty by simp
next
  case (Cons v b)
  show ?case
  proof (cases "v \<in># M")
    case True
    then have "map_of m v = Some (int (count M v))" using Cons.prems by (simp add: counts_def)
    then show ?thesis using Cons.IH [OF counts_remove [OF Cons.prems True]] True
      by simp (metis add_mset_remove_trivial insert_DiffM)
  next
    case False
    then show ?thesis using Cons.prems by (auto simp: counts_def)
  qed
qed

lemma SameFilesProvided_mset: "SameFilesProvided a b \<longleftrightarrow> mset a = mset b"
proof -
  have "mset a = mset b \<Longrightarrow> length a = length b" by (rule mset_eq_length)
  then show ?thesis using count_down_iff [OF counts_foldl [OF counts_Nil], of a b] by (auto simp: SameFilesProvided_def)
qed

text \<open>
  C31.  \<open>SameFilesProvided\<close> says exactly whether the two lists hold the same files the same number of
  times, in any order.
\<close>

theorem SameFilesProvided_iff: "SameFilesProvided a b \<longleftrightarrow> mset a = mset b"
  by (rule SameFilesProvided_mset)

end
