(* ===== verification/IB_Validate.thy ===== *)
theory IB_Validate
  imports IB_Files
begin

text \<open>
  \<open>cmd/build.go\<close>: the validation of the command line and of the configuration files.  The flags that
  name configuration files are a record; \<open>bo\<close> is passed and returned; so is the package variable
  \<open>DefaultAMIAdditionalFiles\<close>, which decoding may change.  A validator returns the text of its error,
  or \<open>None\<close> for \<open>nil\<close>.
\<close>

section \<open>Validators\<close>

definition SliceContains :: "string list \<Rightarrow> string \<Rightarrow> bool" where
  "SliceContains s str = list_ex (\<lambda>elem. elem = str) s"

definition validateOSHypervisorCombinations :: "string \<Rightarrow> string \<Rightarrow> string option" where
  "validateOSHypervisorCombinations os hypervisor =
     (if hypervisor = CloudStack \<and> os \<noteq> RedHat then Some ''Invalid OS type. Only redhat OS is supported for CloudStack''
      else if hypervisor = AMI \<and> os \<noteq> Ubuntu then Some ''Invalid OS type. Only ubuntu OS is supported for AMI''
      else None)"

definition validateRHSM :: "string \<Rightarrow> RhsmConfig \<Rightarrow> string option" where
  "validateRHSM os rhsmConfig =
     (if ServerHostname rhsmConfig \<noteq> [] then
        (if os \<noteq> RedHat then Some ''RedHat Subscription Manager Config (RHSM) cannot be provided when OS is not RedHat''
         else if ServerReleaseVersion rhsmConfig = [] then Some ''RHSM version required when satelite server hostname is set for RHSM''
         else if ActivationKey rhsmConfig = [] \<or> OrgId rhsmConfig = [] then Some ''Activation key and Org ID are required to use RHSM with satellite''
         else None)
      else None)"

definition validateRedhat :: "RhelConfig \<Rightarrow> string \<Rightarrow> string option" where
  "validateRedhat rhelConfig isoUrl =
     (if ServerHostname (Rhsm rhelConfig) = [] \<and> (RhelUsername rhelConfig = [] \<or> RhelPassword rhelConfig = [])
      then Some (Quote ''rhel_username'' @ '' and '' @ Quote ''rhel_password'' @ '' are required fields in config when os is redhat'')
      else if isoUrl = [] then Some (Quote ''iso_url'' @ '' is a required field in config when os is redhat'')
      else None)"

definition validateCustomIso :: "string \<Rightarrow> string \<Rightarrow> string option" where
  "validateCustomIso isoChecksum isoChecksumType =
     (if isoChecksum = [] then
        Some (''Please provide a valid checksum for '' @ Quote ''iso_checksum'' @ '' when providing '' @ Quote ''iso_url'')
      else if isoChecksumType \<noteq> ''sha256'' \<and> isoChecksumType \<noteq> ''sha512'' then
        Some (Quote ''iso_checksum_type'' @ '' is a required field when providing iso_checksum. Checksum type can be sha256 or sha512'')
      else None)"

definition validateSupportedHypervisors :: "string \<Rightarrow> string option" where
  "validateSupportedHypervisors hypervisor =
     (if SliceContains SupportedHypervisors hypervisor then None
      else Some (hypervisor @ '' is not supported yet. Please select one of '' @ Join SupportedHypervisors '',''))"

definition validateOSVersion :: "string \<Rightarrow> string \<Rightarrow> string option" where
  "validateOSVersion os osVersion =
     (if os \<noteq> RedHat \<and> os \<noteq> Ubuntu then Some (os @ '' is not a supported OS.'')
      else if os = Ubuntu \<and> \<not> SliceContains SupportedUbuntuVersions osVersion then
        Some (osVersion @ '' is not a supported version of Ubuntu. Please select one of '' @ Join SupportedUbuntuVersions '','')
      else if os = RedHat \<and> \<not> SliceContains SupportedRedHatVersions osVersion then
        Some (osVersion @ '' is not a supported version of Redhat. Please select one of '' @ Join SupportedRedHatVersions '','')
      else None)"

definition validateFirmware :: "string \<Rightarrow> string \<Rightarrow> string \<Rightarrow> string \<Rightarrow> string option" where
  "validateFirmware firmware os osVersion hypervisor =
     (if firmware = [] then None
      else if \<not> SliceContains SupportedFirmwares firmware then
        Some (firmware @ '' is not a firmware. Please select one of '' @ Join SupportedFirmwares '','')
      else if firmware = EFI \<and> os = Ubuntu \<and> \<not> SliceContains [VSphere, Baremetal] hypervisor then
        Some ''For Ubuntu, EFI firmware is only supported for OVA and Raw builds''
      else if firmware = EFI \<and> os = RedHat \<and> hypervisor \<noteq> Baremetal then
        Some ''For RedHat, EFI firmware is only supported for Raw builds''
      else if firmware = EFI \<and> os = RedHat \<and> \<not> SliceContains SupportedRedHatEfiVersions osVersion then
        Some ''Only RedHat version 9 supports EFI firmware''
      else if firmware = EFI \<and> \<not> SliceContains [RedHat, Ubuntu] os then
        Some ''EFI firmware is only support for Ubuntu and Redhat OS''
      else if firmware = BIOS \<and> os = Ubuntu \<and> hypervisor = Baremetal then
        Some ''Ubuntu Raw builds only support EFI firmware.''
      else None)"

definition validateAirGapped :: "AirGappedConfig \<Rightarrow> string \<Rightarrow> string \<Rightarrow> string option" where
  "validateAirGapped airgappedConfig extraRepos isoUrl =
     (if EksABuildToolingRepoUrl airgappedConfig = [] then Some ''eksa_build_tooling_repo_url must be set when using air-gapped mode''
      else if ImageBuilderRepoUrl airgappedConfig = [] then Some ''image_builder_repo_url must be set when using air-gapped mode''
      else if extraRepos = [] then Some ''Please set extra_repos to internal os package repo when using air-gapped mode''
      else if PrivateServerEksDDomainUrl airgappedConfig = [] then
        Some (''Please set private_artifacts_eksd_fqdn to internal artifacts server'' @ [CHR 0x27] @ ''s eks-d endpoint'')
      else if PrivateServerEksADomainUrl airgappedConfig = [] then
        Some (''Please set private_artifacts_eksa_fqdn to internal artifacts server'' @ [CHR 0x27] @ ''s eks-a endpoint'')
      else if isoUrl = [] then Some ''Please provide iso_url when building in air-gapped mode''
      else None)"

section \<open>ValidateInputs\<close>

record build_flags =
  vSphereConfigFile :: string
  baremetalConfigFile :: string
  nutanixConfigFile :: string
  cloudstackConfigFile :: string
  amiConfigFile :: string
  additionalFilesConfigFile :: string

text \<open>\<open>log.Fatal\<close> on a validator's error, and returning it.\<close>

definition fatal_on :: "string option \<Rightarrow> (world, unit) prog" where
  "fatal_on e = (case e of None \<Rightarrow> ret () | Some m \<Rightarrow> log_fatal m)"

definition return_on :: "string option \<Rightarrow> (world, unit) prog" where
  "return_on e = (case e of None \<Rightarrow> ret () | Some m \<Rightarrow> fail m)"

text \<open>The checks and defaults that need no file.\<close>

definition defaultOsVersion :: "BuildOptions \<Rightarrow> BuildOptions" where
  "defaultOsVersion bo =
     (if OsVersion bo \<noteq> [] then bo
      else if Os bo = Ubuntu then bo\<lparr>OsVersion := ''20.04''\<rparr>
      else if Os bo = RedHat then bo\<lparr>OsVersion := ''8''\<rparr> else bo)"

definition defaultFirmware :: "BuildOptions \<Rightarrow> BuildOptions" where
  "defaultFirmware bo =
     (if Firmware bo = [] then
        bo\<lparr>Firmware := (if Os bo = Ubuntu \<and> Hypervisor bo = Baremetal then EFI else BIOS)\<rparr>
      else bo)"

definition checkAirGapped :: "BuildOptions \<Rightarrow> (world, unit) prog" where
  "checkAirGapped bo =
     (if AirGapped bo then
        (if ManifestTarball bo = [] then log_fatal ''Please provide --manifest-tarball when running air-gapped builds''
         else if Os bo \<noteq> Ubuntu then log_fatal ''Only Ubuntu os is supported for air-gapped builds''
         else if Hypervisor bo = AMI then log_fatal ''AMI hypervisor not supported for air-gapped builds''
         else ret ())
      else ret ())"

definition validateOptions :: "BuildOptions \<Rightarrow> (world, BuildOptions) prog" where
  "validateOptions bo =
     bind (if Os bo \<noteq> Ubuntu \<and> Os bo \<noteq> RedHat then log_fatal ''Invalid OS type. Please choose ubuntu or redhat'' else ret ()) (\<lambda>_.
     bind (fatal_on (validateSupportedHypervisors (Hypervisor bo))) (\<lambda>_.
     bind (fatal_on (validateOSHypervisorCombinations (Os bo) (Hypervisor bo))) (\<lambda>_.
     bind (if AnsibleVerbosity bo < 0 \<or> AnsibleVerbosity bo > 6 then
             log_fatal ''Invalid Ansible verbosity level. Please provide a value in the range 0 to 6'' else ret ()) (\<lambda>_.
     let bo1 = defaultOsVersion bo in
     bind (if Hypervisor bo1 \<noteq> Nutanix \<and> Hypervisor bo1 \<noteq> CloudStack \<and> Hypervisor bo1 \<noteq> Baremetal \<and> Os bo1 = RedHat \<and> OsVersion bo1 \<noteq> ''8''
           then log_fatal ''Invalid OS version for RedHat. Please choose 8'' else ret ()) (\<lambda>_.
     bind (fatal_on (validateOSVersion (Os bo1) (OsVersion bo1))) (\<lambda>_.
     bind (fatal_on (validateFirmware (Firmware bo1) (Os bo1) (OsVersion bo1) (Hypervisor bo1))) (\<lambda>_.
     let bo2 = defaultFirmware bo1 in
     bind (checkAirGapped bo2) (\<lambda>_. ret bo2))))))))"

definition selectConfigPath :: "build_flags \<Rightarrow> string \<Rightarrow> string" where
  "selectConfigPath fl hypervisor =
     (if hypervisor = VSphere then vSphereConfigFile fl
      else if hypervisor = Baremetal then baremetalConfigFile fl
      else if hypervisor = Nutanix then nutanixConfigFile fl
      else if hypervisor = CloudStack then cloudstackConfigFile fl
      else if hypervisor = AMI then amiConfigFile fl else [])"

definition normalise :: "BuildOptions \<Rightarrow> BuildOptions" where
  "normalise bo =
     (let bo1 = bo\<lparr>Os := ToLower (Os bo), Hypervisor := ToLower (Hypervisor bo)\<rparr>
      in if OsVersion bo1 \<noteq> [] then bo1\<lparr>OsVersion := ReplaceAll (OsVersion bo1) ''.'' []\<rparr> else bo1)"

text \<open>
  The configuration of each hypervisor.  \<open>null\<close> as the contents of the file leaves the pointer nil,
  and the next use of a field panics.
\<close>

definition loadVsphere :: "string \<Rightarrow> BuildOptions \<Rightarrow> (world, BuildOptions) prog" where
  "loadVsphere config bo =
     bind (lift_sum (Unmarshal_ptr VsphereConfig_fields ''builder.VsphereConfig'' zero_VsphereConfig config (VsphereConfigOf bo))) (\<lambda>p.
     bind (deref p) (\<lambda>c.
     bind (do_if (Os bo = RedHat) (return_on (validateRedhat (vs_Rhel c) (IsoUrl (vs_Iso c))))) (\<lambda>_.
     bind (do_if (IsoUrl (vs_Iso c) \<noteq> []) (return_on (validateCustomIso (IsoChecksum (vs_Iso c)) (IsoChecksumType (vs_Iso c))))) (\<lambda>_.
     bind (return_on (validateRHSM (Os bo) (Rhsm (vs_Rhel c)))) (\<lambda>_.
     bind (do_if (AirGapped bo) (return_on (validateAirGapped (vs_AirGapped c) (ExtraRepos (vs_Packages c)) (IsoUrl (vs_Iso c))))) (\<lambda>_.
     ret (bo\<lparr>VsphereConfigOf := p\<rparr>)))))))"

definition loadBaremetal :: "string \<Rightarrow> BuildOptions \<Rightarrow> (world, BuildOptions) prog" where
  "loadBaremetal config bo =
     bind (lift_sum (Unmarshal_ptr BaremetalConfig_fields ''builder.BaremetalConfig'' zero_BaremetalConfig config (BaremetalConfigOf bo))) (\<lambda>p.
     bind (do_if (Os bo = RedHat) (bind (deref p) (\<lambda>c. return_on (validateRedhat (bm_Rhel c) (IsoUrl (bm_Iso c)))))) (\<lambda>_.
     bind (case p of None \<Rightarrow> ret ()
           | Some c \<Rightarrow> do_if (IsoUrl (bm_Iso c) \<noteq> []) (return_on (validateCustomIso (IsoChecksum (bm_Iso c)) (IsoChecksumType (bm_Iso c))))) (\<lambda>_.
     bind (deref p) (\<lambda>c.
     bind (return_on (validateRHSM (Os bo) (Rhsm (bm_Rhel c)))) (\<lambda>_.
     bind (do_if (AirGapped bo) (return_on (validateAirGapped (bm_AirGapped c) (ExtraRepos (bm_Packages c)) (IsoUrl (bm_Iso c))))) (\<lambda>_.
     ret (bo\<lparr>BaremetalConfigOf := p\<rparr>)))))))"

definition loadNutanix :: "string \<Rightarrow> BuildOptions \<Rightarrow> (world, BuildOptions) prog" where
  "loadNutanix config bo =
     bind (lift_sum (Unmarshal_ptr NutanixConfig_fields ''builder.NutanixConfig'' zero_NutanixConfig config (NutanixConfigOf bo))) (\<lambda>p.
     bind (deref p) (\<lambda>c.
     bind (do_if (Os bo = RedHat) (return_on (validateRedhat (nx_Rhel c) (''Don'' @ [CHR 0x27] @ ''t check IsoUrl Param'')))) (\<lambda>_.
     bind (if NutanixUserName c = [] \<or> NutanixPassword c = [] then
             log_fatal (Quote ''nutanix_username'' @ '' and '' @ Quote ''nutanix_password'' @ '' are required fields in nutanix-config'')
           else ret ()) (\<lambda>_.
     bind (do_if (AirGapped bo) (return_on (validateAirGapped (nx_AirGapped c) (ExtraRepos (nx_Packages c)) (ImageName c)))) (\<lambda>_.
     ret (bo\<lparr>NutanixConfigOf := p\<rparr>))))))"

definition loadCloudstack :: "string \<Rightarrow> BuildOptions \<Rightarrow> (world, BuildOptions) prog" where
  "loadCloudstack config bo =
     bind (lift_sum (Unmarshal_ptr CloudstackConfig_fields ''builder.CloudstackConfig'' zero_CloudstackConfig config (CloudstackConfigOf bo))) (\<lambda>p.
     bind (deref p) (\<lambda>c.
     bind (do_if (Os bo = RedHat) (return_on (validateRedhat (cs_Rhel c) (IsoUrl (cs_Iso c))))) (\<lambda>_.
     bind (do_if (IsoUrl (cs_Iso c) \<noteq> []) (return_on (validateCustomIso (IsoChecksum (cs_Iso c)) (IsoChecksumType (cs_Iso c))))) (\<lambda>_.
     bind (return_on (validateRHSM (Os bo) (Rhsm (cs_Rhel c)))) (\<lambda>_.
     bind (do_if (AirGapped bo) (return_on (validateAirGapped (cs_AirGapped c) (ExtraRepos (cs_Packages c)) (IsoUrl (cs_Iso c))))) (\<lambda>_.
     ret (bo\<lparr>CloudstackConfigOf := p\<rparr>)))))))"

text \<open>The AMI configuration is decoded over defaults, and the default files are put in place.\<close>

definition defaultAMIConfig :: "string \<Rightarrow> AMIConfig" where
  "defaultAMIConfig osVersion = zero_AMIConfig
     \<lparr>AMIFilterName := (if osVersion = ''2204'' then DefaultUbuntu2204AMIFilterName else DefaultUbuntu2004AMIFilterName),
      AMIFilterOwners := DefaultUbuntuAMIFilterOwners, AMIRegions := DefaultAMIBuildRegion,
      AWSRegion := DefaultAMIBuildRegion, BuilderInstanceType := DefaultAMIBuilderInstanceType,
      ManifestOutput := DefaultAMIManifestOutput, RootDeviceName := DefaultAMIRootDeviceName,
      VolumeSize := DefaultAMIVolumeSize, VolumeType := DefaultAMIVolumeType\<rparr>"

definition defaultAMIFiles :: "File list \<Rightarrow> AdditionalFilesConfig" where
  "defaultAMIFiles pkg = zero_AdditionalFilesConfig
     \<lparr>FileVarsOf := \<lparr>AdditionalFiles = ''true'', AdditionalFilesList = SharedWithDefault (length pkg)\<rparr>\<rparr>"

definition loadAMI :: "string \<Rightarrow> BuildOptions \<Rightarrow> File list \<Rightarrow> (world, BuildOptions) prog" where
  "loadAMI config bo pkg =
     bind (lift_sum (Unmarshal_struct AMIConfig_fields ''builder.AMIConfig'' config (defaultAMIConfig (OsVersion bo)))) (\<lambda>c.
     ret (bo\<lparr>AMIConfigOf := Some c, FilesConfig := Some (defaultAMIFiles pkg)\<rparr>))"

definition loadConfig :: "'z env_scheme \<Rightarrow> string \<Rightarrow> BuildOptions \<Rightarrow> File list \<Rightarrow> (world, BuildOptions) prog" where
  "loadConfig E configPath bo pkg =
     (if configPath = [] then
        (if Hypervisor bo = VSphere \<or> (Hypervisor bo = Baremetal \<and> Os bo = RedHat) \<or>
            Hypervisor bo = Nutanix \<or> Hypervisor bo = CloudStack
         then fail (Hypervisor bo @ ''-config is a required flag for '' @ Hypervisor bo @ '' hypervisor or when os is redhat'')
         else ret bo)
      else
        bind (wrapf (''Error converting '' @ Hypervisor bo @ '' config file path to absolute path: '') (lift_sum (Abs E configPath))) (\<lambda>path.
        bind (wrapf (''Error reading '' @ Hypervisor bo @ '' config file: '') (os_ReadFile E path)) (\<lambda>config.
        if Hypervisor bo = VSphere then loadVsphere config bo
        else if Hypervisor bo = Baremetal then loadBaremetal config bo
        else if Hypervisor bo = Nutanix then loadNutanix config bo
        else if Hypervisor bo = CloudStack then loadCloudstack config bo
        else if Hypervisor bo = AMI then loadAMI config bo pkg
        else ret bo)))"

definition set_files :: "file_slice \<Rightarrow> AdditionalFilesConfig \<Rightarrow> AdditionalFilesConfig" where
  "set_files sl c = c\<lparr>FileVarsOf := (FileVarsOf c)\<lparr>AdditionalFilesList := sl\<rparr>\<rparr>"

text \<open>\<open>append\<close> never fits: the array of the package variable has no room for another copy of itself.\<close>

definition applyFilesConfig :: "string \<Rightarrow> BuildOptions \<Rightarrow> File list \<Rightarrow> (world, BuildOptions \<times> File list) prog" where
  "applyFilesConfig filesConfig bo pkg =
     bind (lift_sum (Unmarshal_files filesConfig (FilesConfig bo) pkg)) (\<lambda>(p, pkg').
     bind (deref p) (\<lambda>c0.
     let c = ProcessAdditionalFiles pkg' c0;
         xs = files_of pkg' (AdditionalFilesList (FileVarsOf c))
     in ret (bo\<lparr>FilesConfig := Some
          (if AMIConfigOf bo \<noteq> None \<and> \<not> SameFilesProvided xs pkg' then set_files (OwnFiles (xs @ pkg')) c else c)\<rparr>, pkg')))"

definition loadFilesConfig :: "'z env_scheme \<Rightarrow> string \<Rightarrow> BuildOptions \<Rightarrow> File list \<Rightarrow> (world, BuildOptions \<times> File list) prog" where
  "loadFilesConfig E path bo pkg =
     (if path \<noteq> [] then
        bind (wrapf ''Error reading additional files config path: '' (os_ReadFile E path)) (\<lambda>filesConfig.
        applyFilesConfig filesConfig bo pkg)
      else ret (bo, pkg))"

definition ValidateInputs :: "'z env_scheme \<Rightarrow> build_flags \<Rightarrow> BuildOptions \<Rightarrow> File list \<Rightarrow> (world, BuildOptions \<times> File list) prog" where
  "ValidateInputs E fl bo pkg =
     bind (validateOptions bo) (\<lambda>bo1.
     bind (loadConfig E (selectConfigPath fl (Hypervisor bo1)) (normalise bo1) pkg) (\<lambda>bo2.
     loadFilesConfig E (additionalFilesConfigFile fl) bo2 pkg))"

section \<open>Which platforms are accepted\<close>

text \<open>The supported combinations, as a table: operating system, version, hypervisor, firmware (empty: not given).\<close>

definition accepted_platform :: "string \<Rightarrow> string \<Rightarrow> string \<Rightarrow> string \<Rightarrow> bool" where
  "accepted_platform os ver hyp fw \<longleftrightarrow>
     os = Ubuntu \<and> ver \<in> {''20.04'', ''22.04''} \<and>
       (hyp = VSphere \<and> fw \<in> {[], BIOS, EFI} \<or> hyp = Baremetal \<and> fw \<in> {[], EFI} \<or>
        hyp \<in> {Nutanix, AMI} \<and> fw \<in> {[], BIOS}) \<or>
     os = RedHat \<and>
       (hyp = VSphere \<and> ver = ''8'' \<and> fw \<in> {[], BIOS} \<or>
        hyp = Baremetal \<and> (ver = ''8'' \<and> fw \<in> {[], BIOS} \<or> ver = ''9'' \<and> fw \<in> {[], BIOS, EFI}) \<or>
        hyp \<in> {Nutanix, CloudStack} \<and> ver \<in> {''8'', ''9''} \<and> fw \<in> {[], BIOS})"

definition accepted_options :: "BuildOptions \<Rightarrow> bool" where
  "accepted_options bo \<longleftrightarrow>
     accepted_platform (Os bo) (OsVersion (defaultOsVersion bo)) (Hypervisor bo) (Firmware bo) \<and>
     0 \<le> AnsibleVerbosity bo \<and> AnsibleVerbosity bo \<le> 6 \<and>
     (AirGapped bo \<longrightarrow> ManifestTarball bo \<noteq> [] \<and> Os bo = Ubuntu \<and> Hypervisor bo \<noteq> AMI)"

lemma default_simps [simp]:
  "Os (defaultOsVersion bo) = Os bo" "Hypervisor (defaultOsVersion bo) = Hypervisor bo"
  "Firmware (defaultOsVersion bo) = Firmware bo" "AirGapped (defaultOsVersion bo) = AirGapped bo"
  "ManifestTarball (defaultOsVersion bo) = ManifestTarball bo" "AnsibleVerbosity (defaultOsVersion bo) = AnsibleVerbosity bo"
  "Os (defaultFirmware bo) = Os bo" "Hypervisor (defaultFirmware bo) = Hypervisor bo"
  "OsVersion (defaultFirmware bo) = OsVersion bo" "AirGapped (defaultFirmware bo) = AirGapped bo"
  "ManifestTarball (defaultFirmware bo) = ManifestTarball bo" "AnsibleVerbosity (defaultFirmware bo) = AnsibleVerbosity bo"
  by (simp_all add: defaultOsVersion_def defaultFirmware_def)

lemma platform_checks:
  "accepted_platform os ver hyp fw \<longleftrightarrow>
     (os = Ubuntu \<or> os = RedHat) \<and> validateSupportedHypervisors hyp = None \<and>
     validateOSHypervisorCombinations os hyp = None \<and>
     \<not> (hyp \<noteq> Nutanix \<and> hyp \<noteq> CloudStack \<and> hyp \<noteq> Baremetal \<and> os = RedHat \<and> ver \<noteq> ''8'') \<and>
     validateOSVersion os ver = None \<and> validateFirmware fw os ver hyp = None"
proof -
  consider "os = Ubuntu" | "os = RedHat" | "os \<noteq> Ubuntu" "os \<noteq> RedHat" by blast
  then show ?thesis
  proof cases
    case 1
    then show ?thesis
      by (auto simp: accepted_platform_def validateSupportedHypervisors_def SupportedHypervisors_def SliceContains_def
          validateOSHypervisorCombinations_def validateOSVersion_def validateFirmware_def SupportedUbuntuVersions_def
          SupportedFirmwares_def ib_names split: if_splits)
  next
    case 2
    then show ?thesis
      by (auto simp: accepted_platform_def validateSupportedHypervisors_def SupportedHypervisors_def SliceContains_def
          validateOSHypervisorCombinations_def validateOSVersion_def validateFirmware_def SupportedRedHatVersions_def
          SupportedRedHatEfiVersions_def SupportedFirmwares_def ib_names split: if_splits)
  next
    case 3
    then show ?thesis by (auto simp: accepted_platform_def)
  qed
qed

lemma bind_fatal_on: "bind (fatal_on e) k w = (if e = None then k () w else (Exit 1, w))"
  by (cases e) (simp_all add: fatal_on_def)

lemma bind_fatal_if: "bind (if b then log_fatal m else ret ()) k w = (if b then (Exit 1, w) else k () w)"
  by simp

lemma if_chain:
  "(if b then y else if c then x else y) = (if \<not> b \<and> c then x else y)"
  "(if b then if c then x else y else y) = (if b \<and> c then x else y)"
  by auto

lemma bind_checkAirGapped:
  "bind (checkAirGapped bo) k w =
     (if AirGapped bo \<longrightarrow> ManifestTarball bo \<noteq> [] \<and> Os bo = Ubuntu \<and> Hypervisor bo \<noteq> AMI then k () w else (Exit 1, w))"
  by (simp add: checkAirGapped_def)

lemma validateOptions_run:
  "validateOptions bo w =
     (if accepted_options bo then (Ok (defaultFirmware (defaultOsVersion bo)), w) else (Exit 1, w))"
proof -
  have "validateOptions bo w =
     (if (Os bo = Ubuntu \<or> Os bo = RedHat) \<and> validateSupportedHypervisors (Hypervisor bo) = None \<and>
         validateOSHypervisorCombinations (Os bo) (Hypervisor bo) = None \<and>
         0 \<le> AnsibleVerbosity bo \<and> AnsibleVerbosity bo \<le> 6 \<and>
         \<not> (Hypervisor bo \<noteq> Nutanix \<and> Hypervisor bo \<noteq> CloudStack \<and> Hypervisor bo \<noteq> Baremetal \<and> Os bo = RedHat \<and>
            OsVersion (defaultOsVersion bo) \<noteq> ''8'') \<and>
         validateOSVersion (Os bo) (OsVersion (defaultOsVersion bo)) = None \<and>
         validateFirmware (Firmware bo) (Os bo) (OsVersion (defaultOsVersion bo)) (Hypervisor bo) = None \<and>
         (AirGapped bo \<longrightarrow> ManifestTarball bo \<noteq> [] \<and> Os bo = Ubuntu \<and> Hypervisor bo \<noteq> AMI)
      then (Ok (defaultFirmware (defaultOsVersion bo)), w) else (Exit 1, w))"
    unfolding validateOptions_def Let_def bind_fatal_on bind_fatal_if bind_checkAirGapped default_simps
    by (simp only: ret_def if_chain de_Morgan_disj de_Morgan_conj not_less not_not simp_thms conj_assoc)
  then show ?thesis unfolding accepted_options_def platform_checks by (simp only: conj_ac)
qed

text \<open>
  C15.  The checks of the command line accept exactly the supported combinations of operating system,
  version, hypervisor and firmware, a verbosity from 0 to 6, and air-gapped builds of Ubuntu images
  (not AMI) with a manifest tarball; then they fill in the default version and firmware.  Everything
  else ends the process with exit code 1, and no file is touched.
\<close>

theorem validateOptions_iff:
  "validateOptions bo w =
     (if accepted_options bo then (Ok (defaultFirmware (defaultOsVersion bo)), w) else (Exit 1, w))"
  by (rule validateOptions_run)

section \<open>What a validated build looks like\<close>

text \<open>The platforms after validation: versions without a dot, the firmware always set.\<close>

definition valid_platform :: "string \<Rightarrow> string \<Rightarrow> string \<Rightarrow> string \<Rightarrow> bool" where
  "valid_platform os ver hyp fw \<longleftrightarrow>
     os = Ubuntu \<and> ver \<in> {''2004'', ''2204''} \<and>
       (hyp = VSphere \<and> fw \<in> {BIOS, EFI} \<or> hyp = Baremetal \<and> fw = EFI \<or> hyp \<in> {Nutanix, AMI} \<and> fw = BIOS) \<or>
     os = RedHat \<and>
       (hyp = VSphere \<and> ver = ''8'' \<and> fw = BIOS \<or>
        hyp = Baremetal \<and> (ver = ''8'' \<and> fw = BIOS \<or> ver = ''9'' \<and> fw \<in> {BIOS, EFI}) \<or>
        hyp \<in> {Nutanix, CloudStack} \<and> ver \<in> {''8'', ''9''} \<and> fw = BIOS)"

definition air_gapped_ready :: "AirGappedConfig \<Rightarrow> bool" where
  "air_gapped_ready a \<longleftrightarrow> EksABuildToolingRepoUrl a \<noteq> [] \<and> ImageBuilderRepoUrl a \<noteq> [] \<and>
     PrivateServerEksDDomainUrl a \<noteq> [] \<and> PrivateServerEksADomainUrl a \<noteq> []"

definition rhel_ready :: "RhelConfig \<Rightarrow> bool" where
  "rhel_ready r \<longleftrightarrow> ServerHostname (Rhsm r) \<noteq> [] \<or> RhelUsername r \<noteq> [] \<and> RhelPassword r \<noteq> []"

text \<open>Every hypervisor has its configuration, complete for the kind of build; a raw Ubuntu build may have none.\<close>

definition config_ready :: "BuildOptions \<Rightarrow> bool" where
  "config_ready bo \<longleftrightarrow>
     (Hypervisor bo = VSphere \<longrightarrow> (\<exists>c. VsphereConfigOf bo = Some c \<and>
        (Os bo = RedHat \<longrightarrow> rhel_ready (vs_Rhel c) \<and> IsoUrl (vs_Iso c) \<noteq> []) \<and> (AirGapped bo \<longrightarrow> air_gapped_ready (vs_AirGapped c)))) \<and>
     (Hypervisor bo = Nutanix \<longrightarrow> (\<exists>c. NutanixConfigOf bo = Some c \<and> NutanixUserName c \<noteq> [] \<and> NutanixPassword c \<noteq> [] \<and>
        (Os bo = RedHat \<longrightarrow> rhel_ready (nx_Rhel c)) \<and> (AirGapped bo \<longrightarrow> air_gapped_ready (nx_AirGapped c)))) \<and>
     (Hypervisor bo = CloudStack \<longrightarrow> (\<exists>c. CloudstackConfigOf bo = Some c \<and>
        (Os bo = RedHat \<longrightarrow> rhel_ready (cs_Rhel c) \<and> IsoUrl (cs_Iso c) \<noteq> []))) \<and>
     (Hypervisor bo = Baremetal \<longrightarrow> (case BaremetalConfigOf bo of
          None \<Rightarrow> Os bo \<noteq> RedHat
        | Some c \<Rightarrow> (Os bo = RedHat \<longrightarrow> rhel_ready (bm_Rhel c) \<and> IsoUrl (bm_Iso c) \<noteq> []) \<and> (AirGapped bo \<longrightarrow> air_gapped_ready (bm_AirGapped c))))"

definition valid_options :: "BuildOptions \<Rightarrow> bool" where
  "valid_options bo \<longleftrightarrow>
     valid_platform (Os bo) (OsVersion bo) (Hypervisor bo) (Firmware bo) \<and>
     0 \<le> AnsibleVerbosity bo \<and> AnsibleVerbosity bo \<le> 6 \<and>
     (AirGapped bo \<longrightarrow> ManifestTarball bo \<noteq> [] \<and> Os bo = Ubuntu \<and> Hypervisor bo \<noteq> AMI) \<and> config_ready bo"

lemma return_on_Ok [simp]: "return_on e w = (Ok (), w') \<longleftrightarrow> e = None \<and> w' = w"
  by (cases e) (auto simp: return_on_def)

lemma do_if_Ok: "do_if b m w = (Ok (), w') \<longleftrightarrow> (if b then m w = (Ok (), w') else w' = w)"
  by auto

lemma fatal_if_Ok: "(if b then log_fatal m else ret ()) w = (Ok (), w') \<longleftrightarrow> \<not> b \<and> w' = w"
  by auto

lemma validated_configs:
  "validateRedhat r u = None \<Longrightarrow> rhel_ready r \<and> u \<noteq> []"
  "validateAirGapped a repos u = None \<Longrightarrow> air_gapped_ready a"
  by (auto simp: validateRedhat_def rhel_ready_def validateAirGapped_def air_gapped_ready_def split: if_splits)

lemma os_ReadFile_world: "os_ReadFile E p w = (r, w') \<Longrightarrow> w' = w"
  by (auto simp: os_ReadFile_def split: option.splits node.splits)

lemmas load_Ok = bind_Ok_iff do_if_Ok fatal_if_Ok

lemma loadVsphere_Ok:
  assumes "loadVsphere config bo w = (Ok bo', w')"
  shows "w' = w \<and> (\<exists>c. bo' = bo\<lparr>VsphereConfigOf := Some c\<rparr> \<and>
     (Os bo = RedHat \<longrightarrow> rhel_ready (vs_Rhel c) \<and> IsoUrl (vs_Iso c) \<noteq> []) \<and> (AirGapped bo \<longrightarrow> air_gapped_ready (vs_AirGapped c)))"
  using assms unfolding loadVsphere_def by (auto simp: load_Ok split: if_splits dest: validated_configs)

lemma loadBaremetal_Ok:
  assumes "loadBaremetal config bo w = (Ok bo', w')"
  shows "w' = w \<and> (\<exists>c. bo' = bo\<lparr>BaremetalConfigOf := Some c\<rparr> \<and>
     (Os bo = RedHat \<longrightarrow> rhel_ready (bm_Rhel c) \<and> IsoUrl (bm_Iso c) \<noteq> []) \<and> (AirGapped bo \<longrightarrow> air_gapped_ready (bm_AirGapped c)))"
  using assms unfolding loadBaremetal_def by (auto simp: load_Ok split: if_splits dest: validated_configs)

lemma loadNutanix_Ok:
  assumes "loadNutanix config bo w = (Ok bo', w')"
  shows "w' = w \<and> (\<exists>c. bo' = bo\<lparr>NutanixConfigOf := Some c\<rparr> \<and> NutanixUserName c \<noteq> [] \<and> NutanixPassword c \<noteq> [] \<and>
     (Os bo = RedHat \<longrightarrow> rhel_ready (nx_Rhel c)) \<and> (AirGapped bo \<longrightarrow> air_gapped_ready (nx_AirGapped c)))"
  using assms unfolding loadNutanix_def by (auto simp: load_Ok split: if_splits dest: validated_configs)

lemma loadCloudstack_Ok:
  assumes "loadCloudstack config bo w = (Ok bo', w')"
  shows "w' = w \<and> (\<exists>c. bo' = bo\<lparr>CloudstackConfigOf := Some c\<rparr> \<and>
     (Os bo = RedHat \<longrightarrow> rhel_ready (cs_Rhel c) \<and> IsoUrl (cs_Iso c) \<noteq> []))"
  using assms unfolding loadCloudstack_def by (auto simp: load_Ok split: if_splits dest: validated_configs)

lemma loadAMI_Ok:
  "loadAMI config bo pkg w = (Ok bo', w') \<Longrightarrow>
     w' = w \<and> (\<exists>c fc. bo' = bo\<lparr>AMIConfigOf := Some c, FilesConfig := fc\<rparr>)"
  unfolding loadAMI_def by (auto simp: load_Ok)

text \<open>Loading keeps the options that were checked and adds the configuration of the hypervisor.\<close>

lemma ib_lower:
  "ToLower Ubuntu = Ubuntu" "ToLower RedHat = RedHat" "ToLower VSphere = VSphere" "ToLower Baremetal = Baremetal"
  "ToLower Nutanix = Nutanix" "ToLower CloudStack = CloudStack" "ToLower AMI = AMI"
  by code_simp+

lemma without_dots:
  "ReplaceAll ''20.04'' ''.'' [] = ''2004''" "ReplaceAll ''22.04'' ''.'' [] = ''2204''"
  "ReplaceAll ''8'' ''.'' [] = ''8''" "ReplaceAll ''9'' ''.'' [] = ''9''"
  by code_simp+

lemma ib_distinct:
  "Ubuntu \<noteq> RedHat" "RedHat \<noteq> Ubuntu" "Baremetal \<noteq> VSphere" "VSphere \<noteq> Baremetal" "Nutanix \<noteq> Baremetal" "AMI \<noteq> Baremetal"
  "CloudStack \<noteq> Baremetal" "EFI \<noteq> []" "BIOS \<noteq> []" "BIOS \<noteq> EFI" "EFI \<noteq> BIOS" "Nutanix \<noteq> AMI" "VSphere \<noteq> AMI" "CloudStack \<noteq> AMI"
  by (simp_all add: ib_names)

lemma accepted_becomes_valid:
  assumes "accepted_platform os ver hyp fw"
  shows "valid_platform os (ReplaceAll ver ''.'' []) hyp (if fw = [] then if os = Ubuntu \<and> hyp = Baremetal then EFI else BIOS else fw) \<and>
     ToLower os = os \<and> ToLower hyp = hyp \<and> ver \<noteq> []"
  using assms unfolding accepted_platform_def insert_iff empty_iff
  by (elim disjE conjE; simp only: valid_platform_def ib_lower without_dots ib_distinct if_True if_False simp_thms insert_iff list.distinct)

lemma platform_of_normalised:
  assumes "accepted_options bo"
  defines "b \<equiv> normalise (defaultFirmware (defaultOsVersion bo))"
  shows "valid_platform (Os b) (OsVersion b) (Hypervisor b) (Firmware b)" "Os b = Os bo" "Hypervisor b = Hypervisor bo"
     "AirGapped b = AirGapped bo" "ManifestTarball b = ManifestTarball bo" "AnsibleVerbosity b = AnsibleVerbosity bo"
proof -
  have "accepted_platform (Os bo) (OsVersion (defaultOsVersion bo)) (Hypervisor bo) (Firmware bo)"
    using assms(1) by (simp add: accepted_options_def)
  note v = accepted_becomes_valid [OF this]
  then show "valid_platform (Os b) (OsVersion b) (Hypervisor b) (Firmware b)" "Os b = Os bo" "Hypervisor b = Hypervisor bo"
     "AirGapped b = AirGapped bo" "ManifestTarball b = ManifestTarball bo" "AnsibleVerbosity b = AnsibleVerbosity bo"
    unfolding b_def normalise_def Let_def by simp_all (auto simp: defaultFirmware_def split: if_splits)
qed

text \<open>Loading only adds configurations, so it keeps the platform.\<close>

definition same_platform :: "BuildOptions \<Rightarrow> BuildOptions \<Rightarrow> bool" where
  "same_platform bo' bo \<longleftrightarrow> Os bo' = Os bo \<and> OsVersion bo' = OsVersion bo \<and> Hypervisor bo' = Hypervisor bo \<and>
     Firmware bo' = Firmware bo \<and> AnsibleVerbosity bo' = AnsibleVerbosity bo \<and> AirGapped bo' = AirGapped bo \<and>
     ManifestTarball bo' = ManifestTarball bo"

lemma hypervisors_distinct:
  "VSphere \<noteq> Nutanix" "VSphere \<noteq> CloudStack" "VSphere \<noteq> Baremetal" "VSphere \<noteq> AMI" "Nutanix \<noteq> CloudStack"
  "Nutanix \<noteq> Baremetal" "Nutanix \<noteq> AMI" "CloudStack \<noteq> Baremetal" "CloudStack \<noteq> AMI" "Baremetal \<noteq> AMI"
  by (simp_all add: ib_names)

lemmas hypervisor_simps = hypervisors_distinct hypervisors_distinct [symmetric]

lemma loadConfig_Ok:
  assumes "loadConfig E path bo pkg w = (Ok bo', w')"
    and "Hypervisor bo \<in> {VSphere, Baremetal, Nutanix, CloudStack, AMI}" and "BaremetalConfigOf bo = None"
  shows "w' = w \<and> same_platform bo' bo \<and> config_ready bo'"
proof (cases "path = []")
  case True
  then show ?thesis using assms
    by (auto simp: loadConfig_def same_platform_def config_ready_def hypervisor_simps split: if_splits)
next
  case False
  with assms(1) obtain p config where load:
    "(if Hypervisor bo = VSphere then loadVsphere config bo
        else if Hypervisor bo = Baremetal then loadBaremetal config bo
        else if Hypervisor bo = Nutanix then loadNutanix config bo
        else if Hypervisor bo = CloudStack then loadCloudstack config bo
        else if Hypervisor bo = AMI then loadAMI config bo pkg
        else ret bo) w = (Ok bo', w')"
    by (auto simp: loadConfig_def bind_Ok_iff dest: os_ReadFile_world)
  consider "Hypervisor bo = VSphere" | "Hypervisor bo = Baremetal" | "Hypervisor bo = Nutanix"
    | "Hypervisor bo = CloudStack" | "Hypervisor bo = AMI" using assms(2) by blast
  then show ?thesis
  proof cases
    case 1
    with load have "loadVsphere config bo w = (Ok bo', w')" by simp
    from loadVsphere_Ok [OF this] 1 show ?thesis
      by (auto simp: same_platform_def config_ready_def hypervisor_simps)
  next
    case 2
    with load have "loadBaremetal config bo w = (Ok bo', w')" by (simp add: hypervisor_simps)
    from loadBaremetal_Ok [OF this] 2 show ?thesis
      by (auto simp: same_platform_def config_ready_def hypervisor_simps)
  next
    case 3
    with load have "loadNutanix config bo w = (Ok bo', w')" by (simp add: hypervisor_simps)
    from loadNutanix_Ok [OF this] 3 show ?thesis
      by (auto simp: same_platform_def config_ready_def hypervisor_simps)
  next
    case 4
    with load have "loadCloudstack config bo w = (Ok bo', w')" by (simp add: hypervisor_simps)
    from loadCloudstack_Ok [OF this] 4 show ?thesis
      by (auto simp: same_platform_def config_ready_def hypervisor_simps)
  next
    case 5
    with load have "loadAMI config bo pkg w = (Ok bo', w')" by (simp add: hypervisor_simps)
    from loadAMI_Ok [OF this] 5 show ?thesis
      by (auto simp: same_platform_def config_ready_def hypervisor_simps)
  qed
qed

lemma loadFilesConfig_Ok:
  "loadFilesConfig E path bo pkg w = (Ok (bo', pkg'), w') \<Longrightarrow> w' = w \<and> (\<exists>fc. bo' = bo\<lparr>FilesConfig := fc\<rparr>)"
  by (auto simp: loadFilesConfig_def applyFilesConfig_def bind_Ok_iff Let_def split: if_splits prod.splits dest!: os_ReadFile_world)
    (metis BuildOptions.surjective BuildOptions.update_convs(10))

lemma valid_platform_hypervisor:
  "valid_platform os ver hyp fw \<Longrightarrow> hyp \<in> {VSphere, Baremetal, Nutanix, CloudStack, AMI}"
  by (auto simp: valid_platform_def)

lemma valid_options_intro:
  assumes "valid_platform (Os b) (OsVersion b) (Hypervisor b) (Firmware b)" "same_platform bo' b" "config_ready bo'"
    and "0 \<le> AnsibleVerbosity b" "AnsibleVerbosity b \<le> 6"
    and "AirGapped b \<longrightarrow> ManifestTarball b \<noteq> [] \<and> Os b = Ubuntu \<and> Hypervisor b \<noteq> AMI"
  shows "valid_options (bo'\<lparr>FilesConfig := fc\<rparr>)"
  using assms unfolding valid_options_def same_platform_def config_ready_def by (simp split: option.splits)

lemma ValidateInputs_valid:
  assumes "ValidateInputs E fl bo pkg w = (Ok (bo', pkg'), w')" and "BaremetalConfigOf bo = None"
  shows "valid_options bo' \<and> w' = w"
proof -
  obtain b bo2 w1 w2 where v: "validateOptions bo w = (Ok b, w1)"
    and l: "loadConfig E (selectConfigPath fl (Hypervisor b)) (normalise b) pkg w1 = (Ok bo2, w2)"
    and f: "loadFilesConfig E (additionalFilesConfigFile fl) bo2 pkg w2 = (Ok (bo', pkg'), w')"
    using assms(1) unfolding ValidateInputs_def by (auto simp: bind_Ok_iff)
  have acc: "accepted_options bo" and b: "b = defaultFirmware (defaultOsVersion bo)" "w1 = w"
    using v unfolding validateOptions_run by (auto split: if_splits)
  note p = platform_of_normalised [OF acc]
  have "BaremetalConfigOf (normalise b) = None"
    using assms(2) by (simp add: b normalise_def Let_def defaultFirmware_def defaultOsVersion_def)
  then have r: "w2 = w1" "same_platform bo2 (normalise b)" "config_ready bo2"
    using loadConfig_Ok [OF l] valid_platform_hypervisor [OF p(1)] by (simp_all add: b)
  obtain fc where "bo' = bo2\<lparr>FilesConfig := fc\<rparr>" "w' = w2" using loadFilesConfig_Ok [OF f] by blast
  moreover have "valid_options (bo2\<lparr>FilesConfig := fc\<rparr>)"
    using valid_options_intro [of "normalise b" bo2 fc] p r acc by (simp add: b accepted_options_def)
  ultimately show ?thesis using r b by simp
qed


definition zero_BuildOptions :: BuildOptions where
  "zero_BuildOptions = \<lparr>Os = [], OsVersion = [], Arch = [], Hypervisor = [], VsphereConfigOf = None, BaremetalConfigOf = None,
     NutanixConfigOf = None, CloudstackConfigOf = None, AMIConfigOf = None, FilesConfig = None, ReleaseChannel = ''1-27'',
     Force = False, AirGapped = False, ManifestTarball = [], Firmware = [], AnsibleVerbosity = 0, EKSAReleaseVersion = []\<rparr>"

definition no_flags :: build_flags where
  "no_flags = \<lparr>vSphereConfigFile = [], baremetalConfigFile = [], nutanixConfigFile = [], cloudstackConfigFile = [],
     amiConfigFile = [], additionalFilesConfigFile = []\<rparr>"

definition nutanix_text :: string where
  "nutanix_text = marshal_struct NutanixConfig_fields (zero_NutanixConfig\<lparr>NutanixUserName := ''u'', NutanixPassword := ''p''\<rparr>)"

definition nutanix_world :: world where
  "nutanix_world = \<lparr>fs = [(''/work/nutanix.json'', node.File nutanix_text 420)], trace = [], clock = 0\<rparr>"


section \<open>The default files of an AMI build\<close>

text \<open>A files configuration that spells out every field of every file.\<close>

definition json_of_File :: "File \<Rightarrow> json" where
  "json_of_File f = JObj [(''src'', JStr (Source f)), (''dest'', JStr (Destination f)), (''owner'', JStr (Owner f)),
     (''group'', JStr (Group f)), (''mode'', JNum (Itoa (Mode f)))]"

definition files_text :: "File list \<Rightarrow> string" where
  "files_text xs = print_json (JObj [(''additional_files_list'', JArr (map json_of_File xs))])"

lemma known_File_keys:
  "known_key File_keys ''src'' = Some ''src''" "known_key File_keys ''dest'' = Some ''dest''"
  "known_key File_keys ''owner'' = Some ''owner''" "known_key File_keys ''group'' = Some ''group''"
  "known_key File_keys ''mode'' = Some ''mode''"
  "known_key FilesConfig_keys ''additional_files_list'' = Some ''additional_files_list''"
  by (simp_all add: known_key_def find_field_def File_keys_def FilesConfig_keys_def)

lemma ParseInt_Itoa: "in_int64 i \<Longrightarrow> ParseInt 10 (Itoa i) = Inr i"
  using Atoi_Itoa [of i] by (auto simp: ParseInt_def Atoi_def parse_int_def Let_def split: if_splits option.splits)

lemma decode_json_of_File: "in_int64 (Mode f) \<Longrightarrow> decode_File (json_of_File f) (b, e) = (f, e)"
  by (simp add: decode_File_def json_of_File_def decode_file_member_def known_File_keys decode_string_def
      decode_int_def ParseInt_Itoa)

lemma decode_elems_files:
  "\<forall>f \<in> set xs. in_int64 (Mode f) \<Longrightarrow> decode_elems base (map json_of_File xs) e = (xs, e)"
  by (induction xs arbitrary: base) (simp_all add: decode_json_of_File)

lemma digit_show_nat: "list_all digit (show_nat n)"
proof -
  have "digit (digit_char d)" if "d < 10" for d
  proof -
    have "\<forall>d \<in> set [0..<10]. digit (digit_char d)" by code_simp
    with that show ?thesis by simp
  qed
  then show ?thesis using show_nat_digits by (fastforce simp: list_all_iff)
qed

lemma hd_show_nat: "0 < n \<Longrightarrow> hd (show_nat n) \<noteq> CHR ''0''"
proof (induction n rule: show_nat.induct)
  case (1 n)
  show ?case
  proof (cases "n < 10")
    case True
    then have "n \<in> set [1..<10]" using 1 by simp
    moreover have "\<forall>d \<in> set [1..<10]. digit_char d \<noteq> CHR ''0''" by code_simp
    ultimately show ?thesis using True by (simp add: show_nat.simps [of n])
  next
    case False
    then show ?thesis using 1 by (simp add: show_nat.simps [of n] hd_append)
  qed
qed

lemma valid_show_nat: "valid_number (show_nat n)" "valid_number (CHR ''-'' # show_nat n)"
proof -
  have d: "takeWhile digit (show_nat n) = show_nat n" "dropWhile digit (show_nat n) = []"
    using digit_show_nat [of n] by (simp_all add: list_all_iff)
  have l: "length (show_nat n) = 1 \<or> hd (show_nat n) \<noteq> CHR ''0''"
    using hd_show_nat [of n] by (cases "n = 0") (simp_all add: show_nat.simps)
  obtain c cs where s: "show_nat n = c # cs" by (cases "show_nat n") auto
  then have "c \<noteq> CHR ''-''" using digit_show_nat [of n] by (auto simp: digit_def)
  then show "valid_number (show_nat n)" "valid_number (CHR ''-'' # show_nat n)"
    using d l s by (auto simp: valid_number_def)
qed

lemma number_Itoa: "valid_number (Itoa i) \<and> list_all number_char (Itoa i)"
proof -
  have "list_all number_char (show_nat n)" for n
    by (rule list.pred_mono_strong [OF digit_show_nat]) (auto simp: digit_def number_char_def)
  then show ?thesis by (auto simp: Itoa_def valid_show_nat number_char_def)
qed

lemma parse_files_text:
  "parse_json (files_text xs) = Some (JObj [(''additional_files_list'', JArr (map json_of_File xs))])"
  unfolding files_text_def by (rule parse_print_json) (auto simp: json_of_File_def number_Itoa)

lemma AMI_files_decoded:
  assumes "FilesConfig bo = Some (defaultAMIFiles pkg)" "AMIConfigOf bo \<noteq> None" "\<forall>f \<in> set xs. in_int64 (Mode f)" "xs \<noteq> []"
  shows "\<exists>c. applyFilesConfig (files_text xs) bo pkg w =
           (Ok (bo\<lparr>FilesConfig := Some c\<rparr>, take (length pkg) xs @ drop (length xs) pkg), w) \<and>
         files_of (take (length pkg) xs @ drop (length xs) pkg) (AdditionalFilesList (FileVarsOf c)) =
           (let pkg' = take (length pkg) xs @ drop (length xs) pkg in if mset xs = mset pkg' then xs else xs @ pkg')"
proof -
  let ?pkg = "take (length pkg) xs @ drop (length xs) pkg"
  define c0 where "c0 = zero_AdditionalFilesConfig\<lparr>FileVarsOf := \<lparr>AdditionalFiles = ''true'', AdditionalFilesList =
     if length xs \<le> length pkg then SharedWithDefault (length xs) else OwnFiles xs\<rparr>\<rparr>"
  have u: "Unmarshal_files (files_text xs) (FilesConfig bo) pkg = Inr (Some c0, ?pkg)"
    using assms(1,3,4)
    by (simp add: Unmarshal_files_def parse_files_text decode_files_member_def known_File_keys decode_list_def
        decode_elems_files defaultAMIFiles_def set_list_def Let_def c0_def)
  have l: "files_of ?pkg (AdditionalFilesList (FileVarsOf c0)) = xs"
    by (simp add: c0_def)
  have "files_of ?pkg (AdditionalFilesList (FileVarsOf (ProcessAdditionalFiles ?pkg c0))) = xs"
    using l assms(4) by (simp add: ProcessAdditionalFiles_def)
  then show ?thesis using u assms(2)
    by (auto simp: applyFilesConfig_def SameFilesProvided_mset Let_def set_files_def)
qed

lemma overwritten_pair:
  assumes "xs \<noteq> []"
  shows "set (take 2 xs @ drop (length xs) [d1, d2]) \<subseteq> insert d2 (set xs)"
    and "2 \<le> length xs \<Longrightarrow> set (take 2 xs @ drop (length xs) [d1, d2]) \<subseteq> set xs"
proof -
  obtain x ys where xs: "xs = x # ys" using assms by (cases xs) auto
  show "set (take 2 xs @ drop (length xs) [d1, d2]) \<subseteq> insert d2 (set xs)"
    using set_take_subset [of 2 xs] by (cases ys) (auto simp: xs)
  show "2 \<le> length xs \<Longrightarrow> set (take 2 xs @ drop (length xs) [d1, d2]) \<subseteq> set xs"
    using set_take_subset [of 2 xs] by simp
qed

text \<open>
  C35.  An AMI build is meant to carry the default files \<open>bootstrap.sh\<close> and \<open>logging.sh\<close> besides the ones
  the user adds.  It does not: the options share the array of \<open>DefaultAMIAdditionalFiles\<close>, decoding the
  user's list writes over it, and what is then appended is the overwritten array.  The first default
  file is in the result only if the user listed it, and from two user files on nothing but the
  user's files is left.
\<close>

theorem AMI_default_files_overwritten:
  assumes "FilesConfig bo = Some (defaultAMIFiles DefaultAMIAdditionalFiles)" and "AMIConfigOf bo \<noteq> None"
    and "\<forall>f \<in> set xs. in_int64 (Mode f)" and "xs \<noteq> []"
  shows "\<exists>c pkg'. applyFilesConfig (files_text xs) bo DefaultAMIAdditionalFiles w = (Ok (bo\<lparr>FilesConfig := Some c\<rparr>, pkg'), w) \<and>
     (let ys = files_of pkg' (AdditionalFilesList (FileVarsOf c)) in
        (hd DefaultAMIAdditionalFiles \<in> set ys \<longrightarrow> hd DefaultAMIAdditionalFiles \<in> set xs) \<and>
        (2 \<le> length xs \<longrightarrow> set ys = set xs))"
proof -
  obtain d1 d2 where D: "DefaultAMIAdditionalFiles = [d1, d2]" "d1 \<noteq> d2" by (simp add: DefaultAMIAdditionalFiles_def)
  define pkg' where "pkg' = take (length DefaultAMIAdditionalFiles) xs @ drop (length xs) DefaultAMIAdditionalFiles"
  have p: "pkg' = take 2 xs @ drop (length xs) [d1, d2]" by (simp add: pkg'_def D numeral_2_eq_2)
  have sub: "set pkg' \<subseteq> insert d2 (set xs)" "2 \<le> length xs \<Longrightarrow> set pkg' \<subseteq> set xs"
    unfolding p by (rule overwritten_pair [OF assms(4)], rule overwritten_pair [OF assms(4)])
  obtain c where run: "applyFilesConfig (files_text xs) bo DefaultAMIAdditionalFiles w = (Ok (bo\<lparr>FilesConfig := Some c\<rparr>, pkg'), w)"
    and ys: "files_of pkg' (AdditionalFilesList (FileVarsOf c)) = (if mset xs = mset pkg' then xs else xs @ pkg')"
    using AMI_files_decoded [OF assms, of w] unfolding Let_def pkg'_def [symmetric] by blast
  have lost: "hd DefaultAMIAdditionalFiles \<in> set (files_of pkg' (AdditionalFilesList (FileVarsOf c))) \<Longrightarrow>
      hd DefaultAMIAdditionalFiles \<in> set xs"
    using sub(1) D(2) unfolding ys D(1) by (auto split: if_splits)
  have only: "2 \<le> length xs \<Longrightarrow> set (files_of pkg' (AdditionalFilesList (FileVarsOf c))) = set xs"
    using sub(2) unfolding ys by auto
  show ?thesis unfolding Let_def using run lost only by blast
qed

theorem AMI_default_files_overwritten_witness:
  "\<exists>c pkg'. applyFilesConfig (files_text [zero_File, zero_File])
       (zero_BuildOptions\<lparr>AMIConfigOf := Some zero_AMIConfig, FilesConfig := Some (defaultAMIFiles DefaultAMIAdditionalFiles)\<rparr>)
       DefaultAMIAdditionalFiles nutanix_world =
     (Ok (zero_BuildOptions\<lparr>AMIConfigOf := Some zero_AMIConfig, FilesConfig := Some c\<rparr>, pkg'), nutanix_world) \<and>
     set (files_of pkg' (AdditionalFilesList (FileVarsOf c))) = {zero_File}"
  using AMI_default_files_overwritten [of "zero_BuildOptions\<lparr>AMIConfigOf := Some zero_AMIConfig,
      FilesConfig := Some (defaultAMIFiles DefaultAMIAdditionalFiles)\<rparr>" "[zero_File, zero_File]" nutanix_world]
  by (simp add: Let_def zero_File_def in_int64_def) blast

text \<open>
  A configuration file that holds just \<open>null\<close> is not reported as an error: the pointer stays nil
  and the validation panics, for every hypervisor that reads a configuration through a pointer.
\<close>

theorem null_config_panics:
  "loadVsphere ''null'' bo w = (Panic ''nil pointer dereference'', w) \<and>
   loadBaremetal ''null'' bo w = (Panic ''nil pointer dereference'', w) \<and>
   loadNutanix ''null'' bo w = (Panic ''nil pointer dereference'', w) \<and>
   loadCloudstack ''null'' bo w = (Panic ''nil pointer dereference'', w) \<and>
   applyFilesConfig ''null'' bo pkg w = (Panic ''nil pointer dereference'', w)"
proof -
  have "parse_json ''null'' = Some JNull" by code_simp
  then show ?thesis
    by (simp add: loadVsphere_def loadBaremetal_def loadNutanix_def loadCloudstack_def applyFilesConfig_def
        Unmarshal_ptr_def Unmarshal_files_def do_if_def)
qed

end
