(* ===== verification/Go_Url.thy ===== *)
theory Go_Url
  imports Go_Unmarshal Go_Path
begin

text \<open>
  The parts of \<open>net/url\<close> and \<open>net\<close> the image builder uses: \<open>url.Parse\<close> (scheme, authority, path, query,
  fragment, with their escapes), \<open>url.JoinPath\<close> on the result, and \<open>net.SplitHostPort\<close>.
\<close>

section \<open>Escapes\<close>

fun unescape :: "string \<Rightarrow> string option" where
  "unescape [] = Some []"
| "unescape (c # cs) =
     (if c = CHR ''%'' then (case cs of
          a # b # r \<Rightarrow> (case (hex_val a, hex_val b) of
              (Some x, Some y) \<Rightarrow> map_option (\<lambda>s. char_of (16 * x + y) # s) (unescape r)
            | _ \<Rightarrow> None)
        | _ \<Rightarrow> None)
      else map_option (\<lambda>s. c # s) (unescape cs))"

lemma unescape_plain: "CHR ''%'' \<notin> set s \<Longrightarrow> unescape s = Some s"
  by (induction s) auto

section \<open>Parsing\<close>

record url =
  u_scheme :: string
  u_opaque :: string
  u_user :: "string option"
  u_host :: string
  u_rawpath :: string
  u_path :: string
  u_query :: "string option"
  u_fragment :: "string option"

definition letter :: "char \<Rightarrow> bool" where
  "letter c \<longleftrightarrow> (CHR ''a'' \<le> c \<and> c \<le> CHR ''z'') \<or> (CHR ''A'' \<le> c \<and> c \<le> CHR ''Z'')"

text \<open>The scheme: letters, then letters, digits and \<open>+-.\<close> up to a colon; anything else means there is none.\<close>

fun scheme_from :: "bool \<Rightarrow> string \<Rightarrow> (string + string \<times> string) option" where
  "scheme_from first [] = None"
| "scheme_from first (c # cs) =
     (if c = CHR '':'' then (if first then Some (Inl ''missing protocol scheme'') else Some (Inr ([], cs)))
      else if letter c \<or> \<not> first \<and> (digit c \<or> c \<in> set ''+-.'') then
        (case scheme_from False cs of
           Some (Inr (s, r)) \<Rightarrow> Some (Inr (c # s, r)) | x \<Rightarrow> x)
      else None)"

definition getScheme :: "string \<Rightarrow> string + string \<times> string" where
  "getScheme s = (case scheme_from True s of
     None \<Rightarrow> Inr ([], s) | Some (Inl e) \<Rightarrow> Inl e | Some (Inr (sch, r)) \<Rightarrow> Inr (ToLower sch, r))"

text \<open>Cutting at the last occurrence of a character.\<close>

definition cut_last :: "char \<Rightarrow> string \<Rightarrow> (string \<times> string) option" where
  "cut_last c s = (if c \<in> set s then
     Some (rev (tl (dropWhile (\<lambda>x. x \<noteq> c) (rev s))), rev (takeWhile (\<lambda>x. x \<noteq> c) (rev s))) else None)"

definition validOptionalPort :: "string \<Rightarrow> bool" where
  "validOptionalPort p = (case p of [] \<Rightarrow> True | c # ds \<Rightarrow> c = CHR '':'' \<and> list_all digit ds)"

text \<open>Characters a host may hold unescaped, besides bytes above ASCII; a percent sign only as \<open>%25\<close> or above ASCII.\<close>

definition host_char :: "char \<Rightarrow> bool" where
  "host_char c \<longleftrightarrow> letter c \<or> digit c \<or> c \<in> set ''-_.~!$&()*+,;=:[]<>'' \<or> c = CHR 0x27 \<or> c = CHR 0x22 \<or> (of_char c :: nat) \<ge> 128"

fun unescape_host :: "string \<Rightarrow> string option" where
  "unescape_host [] = Some []"
| "unescape_host (c # cs) =
     (if c = CHR ''%'' then (case cs of
          a # b # r \<Rightarrow> (case (hex_val a, hex_val b) of
              (Some x, Some y) \<Rightarrow> if x < 8 \<and> \<not> (x = 2 \<and> y = 5) then None
                else map_option (\<lambda>s. char_of (16 * x + y) # s) (unescape_host r)
            | _ \<Rightarrow> None)
        | _ \<Rightarrow> None)
      else if host_char c then map_option (\<lambda>s. c # s) (unescape_host cs) else None)"

definition parseHost :: "string \<Rightarrow> string + string" where
  "parseHost h =
     (let port_ok = (if HasPrefix h ''['' then (case cut_last (CHR '']'') h of
                        None \<Rightarrow> Inl ''missing closing bracket in host''
                      | Some (_, p) \<Rightarrow> if validOptionalPort p then Inr () else Inl (''invalid port '' @ Quote p @ '' after host''))
                     else (case cut_last (CHR '':'') h of
                        None \<Rightarrow> Inr ()
                      | Some (_, p) \<Rightarrow> if validOptionalPort (CHR '':'' # p) then Inr ()
                          else Inl (''invalid port '' @ Quote (CHR '':'' # p) @ '' after host'')))
      in case port_ok of Inl e \<Rightarrow> Inl e
         | Inr _ \<Rightarrow> (case unescape_host h of None \<Rightarrow> Inl ''invalid character in host name'' | Some x \<Rightarrow> Inr x))"

definition user_char :: "char \<Rightarrow> bool" where
  "user_char c \<longleftrightarrow> letter c \<or> digit c \<or> c \<in> set ''-._:~!$&()*+,;=%@'' \<or> c = CHR 0x27"

definition parseAuthority :: "string \<Rightarrow> string + string option \<times> string" where
  "parseAuthority a = (case cut_last (CHR ''@'') a of
       None \<Rightarrow> (case parseHost a of Inl e \<Rightarrow> Inl e | Inr h \<Rightarrow> Inr (None, h))
     | Some (user, h) \<Rightarrow> (case parseHost h of Inl e \<Rightarrow> Inl e
         | Inr h' \<Rightarrow> if \<not> list_all user_char user then Inl ''net/url: invalid userinfo''
             else if unescape user = None then Inl ''invalid URL escape'' else Inr (Some user, h')))"

definition control_char :: "char \<Rightarrow> bool" where
  "control_char c \<longleftrightarrow> (of_char c :: nat) < 32 \<or> (of_char c :: nat) = 127"

definition with_path :: "string \<Rightarrow> url \<Rightarrow> string + url" where
  "with_path p u = (case unescape p of
     None \<Rightarrow> Inl ''invalid URL escape'' | Some q \<Rightarrow> Inr (u\<lparr>u_rawpath := p, u_path := q\<rparr>))"

definition before_query :: "string \<Rightarrow> string \<times> string option" where
  "before_query s = (case cut ''?'' s of None \<Rightarrow> (s, None) | Some (a, q) \<Rightarrow> (a, Some q))"

definition parse_rest :: "url \<Rightarrow> string \<Rightarrow> string + url" where
  "parse_rest u rest =
     (if \<not> HasPrefix rest ''/'' then
        (if u_scheme u \<noteq> [] then Inr (u\<lparr>u_opaque := rest\<rparr>)
         else if Contains (takeWhile (\<lambda>c. c \<noteq> CHR ''/'') rest) '':'' then Inl ''first path segment in URL cannot contain colon''
         else with_path rest u)
      else if (u_scheme u \<noteq> [] \<or> \<not> HasPrefix rest ''///'') \<and> HasPrefix rest ''//'' then
        (let auth = takeWhile (\<lambda>c. c \<noteq> CHR ''/'') (drop 2 rest);
             path = dropWhile (\<lambda>c. c \<noteq> CHR ''/'') (drop 2 rest)
         in case parseAuthority auth of Inl e \<Rightarrow> Inl e
            | Inr (user, h) \<Rightarrow> with_path path (u\<lparr>u_user := user, u_host := h\<rparr>))
      else with_path rest u)"

definition empty_url :: url where
  "empty_url = \<lparr>u_scheme = [], u_opaque = [], u_user = None, u_host = [], u_rawpath = [], u_path = [], u_query = None, u_fragment = None\<rparr>"

definition parse_url :: "string \<Rightarrow> string + url" where
  "parse_url s =
     (let (raw, frag) = (case cut ''#'' s of None \<Rightarrow> (s, None) | Some (a, f) \<Rightarrow> (a, Some f))
      in if list_ex control_char raw then Inl ''net/url: invalid control character in URL''
         else if raw = ''*'' then Inr (empty_url\<lparr>u_rawpath := ''*'', u_path := ''*'', u_fragment := frag\<rparr>)
         else (case getScheme raw of Inl e \<Rightarrow> Inl e
           | Inr (sch, r) \<Rightarrow>
               (let (rest, q) = before_query r
                in case parse_rest (empty_url\<lparr>u_scheme := sch, u_query := q\<rparr>) rest of Inl e \<Rightarrow> Inl e
                   | Inr u \<Rightarrow> (case frag of None \<Rightarrow> Inr u
                       | Some f \<Rightarrow> if unescape f = None then Inl ''invalid URL escape'' else Inr (u\<lparr>u_fragment := frag\<rparr>)))))"

text \<open>The error carries the URL, as \<open>*url.Error\<close> prints it.\<close>

definition url_Parse :: "string \<Rightarrow> string + url" where
  "url_Parse s = (case parse_url s of Inl e \<Rightarrow> Inl (''parse '' @ Quote s @ '': '' @ e) | Inr u \<Rightarrow> Inr u)"

section \<open>Printing and joining\<close>

definition url_String :: "url \<Rightarrow> string" where
  "url_String u =
     (if u_scheme u \<noteq> [] then u_scheme u @ '':'' else []) @
     (if u_opaque u \<noteq> [] then u_opaque u
      else (if u_scheme u \<noteq> [] \<or> u_host u \<noteq> [] \<or> u_user u \<noteq> None then
              (if u_host u \<noteq> [] \<or> u_rawpath u \<noteq> [] \<or> u_user u \<noteq> None then ''//'' else []) @
              (case u_user u of None \<Rightarrow> [] | Some x \<Rightarrow> x @ ''@'') @ u_host u
            else []) @
           (if u_rawpath u \<noteq> [] \<and> \<not> HasPrefix (u_rawpath u) ''/'' \<and> u_host u \<noteq> [] then ''/'' else []) @ u_rawpath u) @
     (case u_query u of None \<Rightarrow> [] | Some q \<Rightarrow> ''?'' @ q) @
     (case u_fragment u of None \<Rightarrow> [] | Some f \<Rightarrow> ''#'' @ f)"

definition url_JoinPath :: "string \<Rightarrow> string \<Rightarrow> string + string" where
  "url_JoinPath base elem = (case url_Parse base of Inl e \<Rightarrow> Inl e
     | Inr u \<Rightarrow>
         (let p0 = (if HasPrefix (u_rawpath u) ''/'' then path_Join [u_rawpath u, elem]
                    else tl (path_Join [''/'' @ u_rawpath u, elem]));
              p = (if HasSuffix elem ''/'' \<and> \<not> HasSuffix p0 ''/'' then p0 @ ''/'' else p0)
          in case with_path p u of Inl e \<Rightarrow> Inr (url_String u) | Inr u' \<Rightarrow> Inr (url_String u')))"

section \<open>net.SplitHostPort\<close>

definition SplitHostPort :: "string \<Rightarrow> string + string \<times> string" where
  "SplitHostPort hp =
     (let err = (\<lambda>why. ''address '' @ hp @ '': '' @ why)
      in case cut_last (CHR '':'') hp of
        None \<Rightarrow> Inl (err ''missing port in address'')
      | Some (h, port) \<Rightarrow>
          (if HasPrefix hp ''['' then (case cut '']'' hp of
               None \<Rightarrow> Inl (err ''missing ] in address'')
             | Some (inner, after) \<Rightarrow>
                 (if after = [] then Inl (err ''missing port in address'')
                  else if after = CHR '':'' # port then
                    (if Contains (tl inner) ''['' then Inl (err ''unexpected [ in address'')
                     else if Contains after '']'' then Inl (err ''unexpected ] in address'')
                     else Inr (tl inner, port))
                  else if HasPrefix after '':'' then Inl (err ''too many colons in address'')
                  else Inl (err ''missing port in address'')))
           else if Contains h '':'' then Inl (err ''too many colons in address'')
           else if Contains hp ''['' then Inl (err ''unexpected [ in address'')
           else if Contains hp '']'' then Inl (err ''unexpected ] in address'')
           else Inr (h, port)))"

end
