(* ===== verification/IB_Utils.thy ===== *)
theory IB_Utils
  imports IB_Validate Go_Url
begin

text \<open>
  \<open>builder/utils.go\<close>: the build tooling repository, the release manifests, downloads, the proxy of the
  subscription manager, tarballs.  Not part of the sources, and so in the environment: the YAML
  decoders (with the types of the two release APIs, reduced to the fields that are read), the two
  halves of \<open>archive/tar\<close>, the values set at link time, and the order in which Go ranges over a map.
\<close>

section \<open>Environment\<close>

record ReleaseEntry =
  re_Version :: string
  BundleManifestUrl :: string

record EksARelease =
  LatestVersion :: string
  Releases :: "ReleaseEntry list"

record EksDBundle =
  GitCommit :: string
  EksDReleaseUrl :: string
  ContainerdURI :: string
  CrictlURI :: string
  EtcdadmURI :: string

record VersionsBundle =
  KubeVersion :: string
  EksD :: EksDBundle

record Asset =
  AssetName :: string
  ArchiveURI :: "string option"

record EksDComponent =
  ComponentName :: string
  GitTag :: string
  Assets :: "Asset list"

text \<open>An entry of an archive: name, contents, mode.\<close>

type_synonym tar_entry = "string \<times> string \<times> nat"

record ib_env = env +
  eksaVersion :: string
  eksaReleaseManifest :: string
  yamlRelease :: "string \<Rightarrow> string + EksARelease"
  yamlBundles :: "string \<Rightarrow> string + VersionsBundle list"
  yamlEksDReleases :: "string \<Rightarrow> string + (string \<times> string) list"
  yamlEksDManifest :: "string \<Rightarrow> string + EksDComponent list"
  yamlFileVars :: "string \<Rightarrow> File list \<Rightarrow> string + string"
  untar :: "string \<Rightarrow> tar_entry list \<times> string option"
  mktar :: "tar_entry list \<Rightarrow> string"
  mapOrder :: "(string \<times> string) list \<Rightarrow> (string \<times> string) list"

definition buildToolingRepoUrl :: string where
  "buildToolingRepoUrl = ''https://github.com/aws/eks-anywhere-build-tooling.git''"
definition prodEksaReleaseManifestURL :: string where
  "prodEksaReleaseManifestURL = ''https://anywhere-assets.eks.amazonaws.com/releases/eks-a/manifest.yaml''"
definition devEksaReleaseManifestURL :: string where
  "devEksaReleaseManifestURL = ''https://dev-release-assets.eks-anywhere.model-rocket.aws.dev/eks-a-release.yaml''"
definition devBranchEksaReleaseManifestURL :: "string \<Rightarrow> string" where
  "devBranchEksaReleaseManifestURL b = ''https://dev-release-assets.eks-anywhere.model-rocket.aws.dev/'' @ b @ ''/eks-a-release.yaml''"
definition eksDistroManifestFileName :: "string \<Rightarrow> string" where
  "eksDistroManifestFileName b = ''eks-d-'' @ b @ ''.yaml''"
definition eksAnywhereManifestFileName :: string where
  "eksAnywhereManifestFileName = ''eks-a-manifest.yaml''"
definition eksAnywhereBundlesFileName :: "string \<Rightarrow> string" where
  "eksAnywhereBundlesFileName v = ''eks-a-bundles-'' @ v @ ''.yaml''"
definition manifestsDirName :: string where
  "manifestsDirName = ''eks-a-d-manifests''"
definition supportedReleaseBranchesFileName :: string where
  "supportedReleaseBranchesFileName = ''release/SUPPORTED_RELEASE_BRANCHES''"
definition eksDLatestReleasesFileName :: string where
  "eksDLatestReleasesFileName = ''EKSD_LATEST_RELEASES''"

definition codebuild :: "'z env_scheme \<Rightarrow> string" where
  "codebuild E = os_Getenv E ''CODEBUILD_CI''"

section \<open>Commands\<close>

definition execCommandWithStreamOutput :: "'z env_scheme \<Rightarrow> string list \<Rightarrow> (world, unit) prog" where
  "execCommandWithStreamOutput E cmd = wrapf ''failed to run command: '' (exec_run E cmd)"

definition cloneRepo :: "'z env_scheme \<Rightarrow> string \<Rightarrow> string \<Rightarrow> (world, unit) prog" where
  "cloneRepo E cloneUrl destination =
     execCommandWithStreamOutput E [''bash'', ''-c'', ''git clone '' @ cloneUrl @ '' '' @ destination]"

definition checkoutRepo :: "'z env_scheme \<Rightarrow> string \<Rightarrow> string \<Rightarrow> (world, unit) prog" where
  "checkoutRepo E gitRoot commit =
     execCommandWithStreamOutput E [''bash'', ''-c'', ''git -C '' @ gitRoot @ '' checkout '' @ commit]"

text \<open>The command runs with the variables of this process and, after them, the given ones.\<close>

definition executeMakeBuildCommand :: "'z env_scheme \<Rightarrow> string \<Rightarrow> string list \<Rightarrow> (world, unit) prog" where
  "executeMakeBuildCommand E buildCommand envVars =
     wrapf ''failed to run command: '' (exec_env E envVars [''bash'', ''-c'', buildCommand])"

definition execCommand :: "'z env_scheme \<Rightarrow> string list \<Rightarrow> (world, string) prog" where
  "execCommand E cmd = bind (exec_cmd E Combined cmd) (\<lambda>(out, err). case err of
     None \<Rightarrow> ret (TrimSpace out) | Some e \<Rightarrow> fail (''failed to run command: '' @ e))"

definition cleanup :: "'z env_scheme \<Rightarrow> string \<Rightarrow> (world, unit) prog" where
  "cleanup E buildToolingDir =
     (if codebuild E = ''true'' then ret () else or_fatal (os_RemoveAll E buildToolingDir))"

section \<open>Paths\<close>

definition getBuildToolingPath :: "'z env_scheme \<Rightarrow> string \<Rightarrow> string" where
  "getBuildToolingPath E cwd =
     (if codebuild E = ''true'' then os_Getenv E ''CODEBUILD_SRC_DIR'' else path_Join [cwd, ''eks-anywhere-build-tooling''])"

definition get_cwd :: "'z env_scheme \<Rightarrow> (world, string) prog" where
  "get_cwd E = wrapf ''error retrieving current working directory: '' (lift_sum (getwd E))"

definition getRepoRoot :: "'z env_scheme \<Rightarrow> (world, string) prog" where
  "getRepoRoot E = bind (get_cwd E) (\<lambda>cwd.
     execCommand E [''git'', ''-C'', getBuildToolingPath E cwd, ''rev-parse'', ''--show-toplevel''])"

definition getManifestRoot :: "'z env_scheme \<Rightarrow> (world, string) prog" where
  "getManifestRoot E = bind (get_cwd E) (\<lambda>cwd. ret (path_Join [cwd, manifestsDirName]))"

text \<open>The file is split at line ends; an unreadable file counts as empty.\<close>

definition GetSupportedReleaseBranches :: "'z env_scheme \<Rightarrow> (world, string list) prog" where
  "GetSupportedReleaseBranches E =
     bind (or_fatal (getRepoRoot E)) (\<lambda>buildToolingPath.
     bind (attempt (os_ReadFile E (path_Join [buildToolingPath, supportedReleaseBranchesFileName]))) (\<lambda>r.
     ret (Split (case r of Inl _ \<Rightarrow> [] | Inr data \<Rightarrow> data) [CHR 0x0A])))"

text \<open>A map from branch to number: a later entry for the same branch replaces the earlier one.\<close>

definition getEksDReleaseBranchesWithNumber :: "'z ib_env_scheme \<Rightarrow> (world, (string \<times> string) list) prog" where
  "getEksDReleaseBranchesWithNumber E =
     bind (or_fatal (getRepoRoot E)) (\<lambda>buildToolingPath.
     bind (attempt (os_ReadFile E (path_Join [buildToolingPath, eksDLatestReleasesFileName]))) (\<lambda>r.
     bind (wrapf ''unmarshalling EKSD_LATEST_RELEASES file: '' (lift_sum (yamlEksDReleases E (case r of Inl _ \<Rightarrow> [] | Inr data \<Rightarrow> data)))) (\<lambda>rels.
     ret (foldl (\<lambda>m (branch, number). AList.update branch number m) [] rels))))"

section \<open>Downloads\<close>

text \<open>The status of the answer is not looked at.  A failure to make the directory shows when the file is created.\<close>

definition downloadFile :: "'z env_scheme \<Rightarrow> string \<Rightarrow> string \<Rightarrow> (world, unit) prog" where
  "downloadFile E path url =
     bind (http_Get E url) (\<lambda>resp. case resp of
         HttpFail e \<Rightarrow> fail e
       | HttpReply status body \<Rightarrow>
           bind (os_Stat E (Dir path)) (\<lambda>st.
           bind (case st of NotExist _ \<Rightarrow> bind (attempt (os_MkdirAll E (Dir path) 493)) (\<lambda>_. ret ()) | _ \<Rightarrow> ret ()) (\<lambda>_.
           create_and_fill E path body)))"

definition readFileFromURL :: "'z env_scheme \<Rightarrow> string \<Rightarrow> (world, string) prog" where
  "readFileFromURL E url =
     bind (wrapf ''failed creating http GET request for downloading file: '' (lift_sum (url_Parse url))) (\<lambda>_.
     bind (http_Get E url) (\<lambda>resp. case resp of
         HttpFail e \<Rightarrow> fail (''failed reading file from URL ['' @ url @ '']: '' @ e)
       | HttpReply status (Inl e) \<Rightarrow> fail (''failed reading contents of URL body ['' @ url @ '']: '' @ e)
       | HttpReply status (Inr body) \<Rightarrow> ret body))"

section \<open>The EKS-A release\<close>

definition getEksAReleasesManifestURL :: "'z ib_env_scheme \<Rightarrow> bool \<Rightarrow> (world, string) prog" where
  "getEksAReleasesManifestURL E airgapped =
     (if os_Getenv E ''EKSA_USE_DEV_RELEASE'' \<noteq> ''true'' then
        (if eksaReleaseManifest E \<noteq> [] then ret (eksaReleaseManifest E)
         else if airgapped then
           bind (attempt (getManifestRoot E)) (\<lambda>r. case r of
               Inl _ \<Rightarrow> ret []
             | Inr root \<Rightarrow> ret (''file://'' @ root @ ''/'' @ eksAnywhereManifestFileName))
         else ret prodEksaReleaseManifestURL)
      else
        (let branchName = (case getenv E ''BRANCH_NAME'' of None \<Rightarrow> ''main'' | Some b \<Rightarrow> b)
         in ret (if branchName \<noteq> ''main'' then devBranchEksaReleaseManifestURL branchName else devEksaReleaseManifestURL)))"

definition chooseReleaseVersion :: "'z ib_env_scheme \<Rightarrow> BuildOptions \<Rightarrow> EksARelease \<Rightarrow> string" where
  "chooseReleaseVersion E bo rel =
     (if os_Getenv E ''EKSA_USE_DEV_RELEASE'' = ''true'' then LatestVersion rel
      else if EKSAReleaseVersion bo \<noteq> [] then EKSAReleaseVersion bo
      else if eksaVersion E \<noteq> [] then eksaVersion E
      else LatestVersion rel)"

text \<open>An entry with exactly that version; failing that, the first whose version contains it.\<close>

definition findRelease :: "string \<Rightarrow> ReleaseEntry list \<Rightarrow> ReleaseEntry option" where
  "findRelease v rs = (case find (\<lambda>r. re_Version r = v) rs of
     Some r \<Rightarrow> Some r | None \<Rightarrow> find (\<lambda>r. Contains (re_Version r) v) rs)"

definition readReleaseManifest :: "'z ib_env_scheme \<Rightarrow> BuildOptions \<Rightarrow> string \<Rightarrow> string \<Rightarrow> (world, string) prog" where
  "readReleaseManifest E bo manifestDirPath url =
     (if ManifestTarball bo \<noteq> [] then os_ReadFile E (path_Join [manifestDirPath, eksAnywhereManifestFileName])
      else readFileFromURL E url)"

definition readBundleManifest :: "'z ib_env_scheme \<Rightarrow> BuildOptions \<Rightarrow> string \<Rightarrow> string \<Rightarrow> string \<Rightarrow> (world, string) prog" where
  "readBundleManifest E bo manifestDirPath version url =
     (if ManifestTarball bo = [] then readFileFromURL E url
      else os_ReadFile E (path_Join [manifestDirPath, eksAnywhereBundlesFileName version]))"

definition getBundle :: "'z ib_env_scheme \<Rightarrow> BuildOptions \<Rightarrow> (world, VersionsBundle list \<times> string) prog" where
  "getBundle E bo =
     bind (getManifestRoot E) (\<lambda>manifestDirPath.
     bind (getEksAReleasesManifestURL E (AirGapped bo)) (\<lambda>url.
     bind (readReleaseManifest E bo manifestDirPath url) (\<lambda>contents.
     bind (wrapf (''failed to unmarshal release manifest from ['' @ url @ '']: '') (lift_sum (yamlRelease E contents))) (\<lambda>releases.
     let version = chooseReleaseVersion E bo releases in
     case findRelease version (Releases releases) of
       None \<Rightarrow> fail (''version '' @ version @ '' is not a valid EKS-A release'')
     | Some r \<Rightarrow>
         bind (readBundleManifest E bo manifestDirPath version (BundleManifestUrl r)) (\<lambda>bundleContents.
         bind (wrapf (''failed to unmarshal bundles manifest from ['' @ BundleManifestUrl r @ '']: '') (lift_sum (yamlBundles E bundleContents))) (\<lambda>bundles.
         ret (bundles, version)))))))"

definition getGitCommitFromBundle :: "'z ib_env_scheme \<Rightarrow> BuildOptions \<Rightarrow> (world, string \<times> string) prog" where
  "getGitCommitFromBundle E bo =
     bind (getBundle E bo) (\<lambda>(bundles, version).
     bind (index bundles 0) (\<lambda>b. ret (GitCommit (EksD b), version)))"

section \<open>The build tooling repository\<close>

definition airGappedConfig :: "BuildOptions \<Rightarrow> (world, AirGappedConfig option) prog" where
  "airGappedConfig bo =
     (if Hypervisor bo = VSphere then bind (deref (VsphereConfigOf bo)) (\<lambda>c. ret (Some (vs_AirGapped c)))
      else if Hypervisor bo = Baremetal then bind (deref (BaremetalConfigOf bo)) (\<lambda>c. ret (Some (bm_AirGapped c)))
      else if Hypervisor bo = Nutanix then bind (deref (NutanixConfigOf bo)) (\<lambda>c. ret (Some (nx_AirGapped c)))
      else if Hypervisor bo = CloudStack then bind (deref (CloudstackConfigOf bo)) (\<lambda>c. ret (Some (cs_AirGapped c)))
      else ret None)"

definition getBuildToolingRepoUrl :: "BuildOptions \<Rightarrow> (world, string) prog" where
  "getBuildToolingRepoUrl bo =
     (if AirGapped bo then
        bind (airGappedConfig bo) (\<lambda>a. ret (case a of None \<Rightarrow> buildToolingRepoUrl | Some c \<Rightarrow> EksABuildToolingRepoUrl c))
      else ret buildToolingRepoUrl)"

definition prepBuildToolingRepo ::
  "'z ib_env_scheme \<Rightarrow> BuildOptions \<Rightarrow> string \<Rightarrow> (world, VersionsBundle list \<times> string) prog" where
  "prepBuildToolingRepo E bo buildToolingRepoPath =
     bind (do_if (Force bo) (cleanup E buildToolingRepoPath)) (\<lambda>_.
     bind (wrapf ''Error getting git commit from bundle: '' (getBundle E bo)) (\<lambda>(bundles, detectedEksaVersion).
     bind (index bundles 0) (\<lambda>b.
     let gitCommitFromBundle = GitCommit (EksD b) in
     bind (do_if (codebuild E \<noteq> ''true'')
       (bind (getBuildToolingRepoUrl bo) (\<lambda>url.
        bind (wrapf ''Error cloning build tooling repo: '' (cloneRepo E url buildToolingRepoPath)) (\<lambda>_.
        wrapf (''Error checking out build tooling repo at commit '' @ gitCommitFromBundle @ '': '')
          (checkoutRepo E buildToolingRepoPath gitCommitFromBundle))))) (\<lambda>_.
     ret (bundles, detectedEksaVersion)))))"

definition getAirGapCmdEnvVars :: "'z env_scheme \<Rightarrow> string \<Rightarrow> string \<Rightarrow> string \<Rightarrow> (world, string list) prog" where
  "getAirGapCmdEnvVars E cloneUrl eksAVersion eksDReleaseBranch =
     bind (getManifestRoot E) (\<lambda>root.
     let manifestRoot = ''file://'' @ root in
     ret [''EKSA_BUNDLE_MANIFEST_URL='' @ path_Join [manifestRoot, eksAnywhereBundlesFileName eksAVersion],
          ''EKSD_MANIFEST_URL='' @ path_Join [manifestRoot, eksDistroManifestFileName eksDReleaseBranch],
          ''CLONE_URL='' @ cloneUrl])"

section \<open>Proxy of the subscription manager\<close>

definition parseUrl :: "string \<Rightarrow> string + string \<times> string" where
  "parseUrl endpoint = (case url_Parse endpoint of Inl e \<Rightarrow> Inl e | Inr u \<Rightarrow> SplitHostPort (u_host u))"

definition setRhsmProxy :: "ProxyConfig \<Rightarrow> RhsmConfig \<Rightarrow> string + RhsmConfig" where
  "setRhsmProxy proxy rhsm =
     (if NoProxy proxy \<noteq> [] \<and> ServerHostname rhsm \<in> set (Split (NoProxy proxy) '','') then Inr rhsm
      else if HttpProxy proxy \<noteq> [] then
        (case parseUrl (HttpProxy proxy) of Inl e \<Rightarrow> Inl e
         | Inr (host, port) \<Rightarrow> Inr (rhsm\<lparr>ProxyHostname := host, ProxyPort := port\<rparr>))
      else Inr rhsm)"

section \<open>Tarballs and text replacement\<close>

text \<open>
  The walk adds every regular file below the path under its base name.  A file that cannot be opened
  ends the walk after its header was written, and the error of the walk is dropped; closing the
  writer then fails, and panics, if the header announced any bytes.
\<close>

fun tar_walk :: "'z env_scheme \<Rightarrow> world \<Rightarrow> (string \<times> string \<times> nat) list \<Rightarrow> tar_entry list \<times> bool" where
  "tar_walk E w [] = ([], False)"
| "tar_walk E w ((p, c, m) # xs) =
     (case ioerr E w (ReadFile p) of
        Some _ \<Rightarrow> ([(Base p, [], m)], c \<noteq> [])
      | None \<Rightarrow> (case tar_walk E w xs of (es, missed) \<Rightarrow> ((Base p, c, m) # es, missed)))"

definition createTarball :: "'z ib_env_scheme \<Rightarrow> string \<Rightarrow> string \<Rightarrow> (world, unit) prog" where
  "createTarball E fileName path =
     bind (attempt (os_Create E fileName)) (\<lambda>r. case r of
         Inl e \<Rightarrow> panic e
       | Inr _ \<Rightarrow> (\<lambda>w. case tar_walk E w (walk_files (fs w) path) of (es, missed) \<Rightarrow>
           if missed then panic ''archive/tar: missed writing bytes'' w
           else bind (attempt (os_WriteFile E fileName (mktar E es) 438)) (\<lambda>r. case r of
               Inl e \<Rightarrow> panic e | Inr _ \<Rightarrow> ret ()) w))"

definition replaceStringInFile :: "'z env_scheme \<Rightarrow> string \<Rightarrow> string \<Rightarrow> string \<Rightarrow> (world, unit) prog" where
  "replaceStringInFile E filePath oldString newString =
     bind (os_ReadFile E filePath) (\<lambda>fileContents.
     bind (os_Remove E filePath) (\<lambda>_.
     os_WriteFile E filePath (ReplaceAll fileContents oldString newString) 493))"

section \<open>Proxies\<close>

text \<open>The characters of host names, which no escaping rule touches.\<close>

definition name_char :: "char \<Rightarrow> bool" where
  "name_char c \<longleftrightarrow> letter c \<or> digit c \<or> c \<in> set ''-.''"

lemma letter_code: "letter c \<longleftrightarrow> (let n = of_char c :: nat in 97 \<le> n \<and> n \<le> 122 \<or> 65 \<le> n \<and> n \<le> 90)"
  by (simp add: letter_def less_eq_char_def Let_def)

lemma digit_code: "digit c \<Longrightarrow> (let n = of_char c :: nat in 48 \<le> n \<and> n \<le> 57)"
  by (auto simp: digit_def)

lemma name_char_props:
  assumes "name_char c"
  shows "c \<notin> set ''#?/:@[]%*''" "\<not> control_char c" "host_char c"
  using assms letter_code [of c] digit_code [of c]
  by (auto simp: name_char_def host_char_def control_char_def Let_def)

lemma name_string:
  assumes "list_all name_char s"
  shows "CHR ''#'' \<notin> set s" "CHR ''?'' \<notin> set s" "CHR ''/'' \<notin> set s" "CHR '':'' \<notin> set s" "CHR ''@'' \<notin> set s"
    "CHR ''['' \<notin> set s" "CHR '']'' \<notin> set s" "CHR ''*'' \<notin> set s" "\<not> list_ex control_char s"
    "list_all (\<lambda>c. host_char c \<and> c \<noteq> CHR ''%'') s"
  using assms by (induction s) (auto dest: name_char_props)

lemma digits_name: "list_all digit s \<Longrightarrow> list_all name_char s"
  and letters_name: "list_all letter s \<Longrightarrow> list_all name_char s"
  by (simp_all add: list_all_iff name_char_def)

lemma scheme_from_letters:
  "list_all letter sch \<Longrightarrow> scheme_from False (sch @ CHR '':'' # r) = Some (Inr (sch, r))"
proof (induction sch)
  case (Cons c sch)
  then have "c \<noteq> CHR '':''" using name_string(4) [OF letters_name [OF Cons.prems]] by auto
  with Cons show ?case by simp
qed simp

lemma getScheme_letters:
  assumes "list_all letter sch" "sch \<noteq> []"
  shows "getScheme (sch @ CHR '':'' # r) = Inr (ToLower sch, r)"
proof -
  obtain c cs where s: "sch = c # cs" using assms(2) by (cases sch) auto
  then have "letter c" "list_all letter cs" using assms(1) by simp_all
  moreover have "c \<noteq> CHR '':''" using name_string(4) [OF letters_name [OF assms(1)]] s by auto
  ultimately show ?thesis using scheme_from_letters [of cs r] by (simp add: getScheme_def s)
qed

lemma unescape_host_plain: "list_all (\<lambda>c. host_char c \<and> c \<noteq> CHR ''%'') h \<Longrightarrow> unescape_host h = Some h"
  by (induction h) auto

lemma cut_last_append:
  assumes "c \<notin> set b"
  shows "cut_last c (a @ c # b) = Some (a, b)"
proof -
  have "\<And>x. x \<in> set (rev b) \<Longrightarrow> x \<noteq> c" using assms by auto
  then have "takeWhile (\<lambda>x. x \<noteq> c) (rev b @ c # rev a) = rev b" "dropWhile (\<lambda>x. x \<noteq> c) (rev b @ c # rev a) = c # rev a"
    by (subst takeWhile_append2 dropWhile_append2; simp)+
  then show ?thesis by (simp add: cut_last_def)
qed

lemma cut_last_none: "c \<notin> set s \<Longrightarrow> cut_last c s = None"
  by (simp add: cut_last_def)

lemma cut_none: "c \<notin> set s \<Longrightarrow> cut [c] s = None"
  by (simp add: cut_None_iff)

lemma HasPrefix_absent: "c \<notin> set s \<Longrightarrow> \<not> HasPrefix s [c]"
  by (cases s) (auto simp: HasPrefix_def)

lemma parseHost_plain:
  assumes "list_all name_char host" and "list_all digit port"
  shows "parseHost (host @ CHR '':'' # port) = Inr (host @ CHR '':'' # port)"
proof -
  note h = name_string [OF assms(1)] and p = name_string [OF digits_name [OF assms(2)]]
  have "\<not> HasPrefix (host @ CHR '':'' # port) ''[''" using h p by (intro HasPrefix_absent) simp
  moreover have "unescape_host (host @ CHR '':'' # port) = Some (host @ CHR '':'' # port)"
    using h p by (intro unescape_host_plain) (simp add: host_char_def)
  ultimately show ?thesis
    using assms(2) p by (simp add: parseHost_def cut_last_append validOptionalPort_def)
qed

lemma SplitHostPort_plain:
  assumes "list_all name_char host" and "list_all digit port"
  shows "SplitHostPort (host @ CHR '':'' # port) = Inr (host, port)"
proof -
  note h = name_string [OF assms(1)] and p = name_string [OF digits_name [OF assms(2)]]
  have "\<not> HasPrefix (host @ CHR '':'' # port) ''[''" using h p by (intro HasPrefix_absent) simp
  then show ?thesis
    using h p by (simp add: SplitHostPort_def cut_last_append Contains_def)
qed

lemma parse_url_host_port:
  assumes sch: "list_all letter sch" "sch \<noteq> []" and host: "list_all name_char host" and port: "list_all digit port"
  shows "\<exists>u. url_Parse (sch @ ''://'' @ host @ '':'' @ port) = Inr u \<and> u_host u = host @ CHR '':'' # port"
proof -
  define hp where "hp = host @ CHR '':'' # port"
  define s where "s = sch @ CHR '':'' # CHR ''/'' # CHR ''/'' # hp"
  note l = name_string [OF letters_name [OF sch(1)]] and h = name_string [OF host] and p = name_string [OF digits_name [OF port]]
  have "CHR ''#'' \<notin> set s" "CHR ''*'' \<notin> set s" using l h p by (simp_all add: s_def hp_def)
  then have a: "cut ''#'' s = None" "s \<noteq> ''*''" using cut_none by auto
  have b: "\<not> list_ex control_char s" using l h p by (simp add: s_def hp_def control_char_def)
  have c: "getScheme s = Inr (ToLower sch, CHR ''/'' # CHR ''/'' # hp)"
    unfolding s_def by (rule getScheme_letters [OF sch])
  have "CHR ''?'' \<notin> set (CHR ''/'' # CHR ''/'' # hp)" using h p by (simp add: hp_def)
  then have d: "before_query (CHR ''/'' # CHR ''/'' # hp) = (CHR ''/'' # CHR ''/'' # hp, None)"
    by (simp add: before_query_def cut_none del: cut.simps)
  have sl: "CHR ''/'' \<notin> set hp" "CHR ''@'' \<notin> set hp" using h p by (simp_all add: hp_def)
  have e: "takeWhile (\<lambda>c. c \<noteq> CHR ''/'') hp = hp" "dropWhile (\<lambda>c. c \<noteq> CHR ''/'') hp = []"
    using sl(1) by auto
  have "ToLower sch \<noteq> []" using sch(2) by (simp add: ToLower_def)
  then have "url_Parse s = Inr (empty_url\<lparr>u_scheme := ToLower sch, u_host := hp\<rparr>)"
    using a b c d sl(2) parseHost_plain [OF host port]
    by (simp add: e Let_def url_Parse_def parse_url_def parse_rest_def HasPrefix_def parseAuthority_def cut_last_none with_path_def
        hp_def [symmetric] empty_url_def del: cut.simps)
  then show ?thesis by (simp add: s_def hp_def)
qed

text \<open>
  C32.  Behind a proxy \<open>scheme://host:port\<close> the subscription manager of a Red Hat build gets exactly that
  host and port, unless the satellite server is listed in \<open>no_proxy\<close>; then nothing is set.
\<close>

theorem setRhsmProxy_sets:
  assumes "list_all letter sch" "sch \<noteq> []" "list_all name_char host" "list_all digit port"
    and "HttpProxy proxy = sch @ ''://'' @ host @ '':'' @ port"
  shows "setRhsmProxy proxy rhsm =
     Inr (if NoProxy proxy \<noteq> [] \<and> ServerHostname rhsm \<in> set (Split (NoProxy proxy) '','') then rhsm
          else rhsm\<lparr>ProxyHostname := host, ProxyPort := port\<rparr>)"
proof -
  have "parseUrl (HttpProxy proxy) = Inr (host, port)"
    using parse_url_host_port [OF assms(1-4)] SplitHostPort_plain [OF assms(3,4)] by (auto simp: parseUrl_def assms(5))
  then show ?thesis using assms(2) by (auto simp: setRhsmProxy_def assms(5))
qed

theorem setRhsmProxy_sets_witness:
  "setRhsmProxy \<lparr>HttpProxy = ''http://proxy.corp:3128'', HttpsProxy = [], NoProxy = ''a.b,satellite.corp''\<rparr>
     \<lparr>ProxyHostname = [], ProxyPort = [], ServerHostname = ''sat'', ServerReleaseVersion = [], ActivationKey = [], OrgId = []\<rparr> =
   Inr \<lparr>ProxyHostname = ''proxy.corp'', ProxyPort = ''3128'', ServerHostname = ''sat'', ServerReleaseVersion = [], ActivationKey = [], OrgId = []\<rparr>"
proof -
  have "ServerHostname \<lparr>ProxyHostname = [], ProxyPort = [], ServerHostname = ''sat'', ServerReleaseVersion = [], ActivationKey = [], OrgId = []\<rparr>
      \<notin> set (Split ''a.b,satellite.corp'' '','')" by code_simp
  then show ?thesis
    using setRhsmProxy_sets [of "''http''" "''proxy.corp''" "''3128''"
        "\<lparr>HttpProxy = ''http://proxy.corp:3128'', HttpsProxy = [], NoProxy = ''a.b,satellite.corp''\<rparr>"
        "\<lparr>ProxyHostname = [], ProxyPort = [], ServerHostname = ''sat'', ServerReleaseVersion = [], ActivationKey = [], OrgId = []\<rparr>"]
    by (simp add: letter_code name_char_def digit_def)
qed

section \<open>Choosing the release\<close>

text \<open>
  The release a version names: the first entry with exactly that version if there is one, else
  the first whose version contains it anywhere (the comment in the source speaks of a prefix); no
  entry is found only if no version contains it.
\<close>

theorem findRelease_spec:
  "(\<forall>r. findRelease v rs = Some r \<longrightarrow>
      r \<in> set rs \<and> (re_Version r = v \<or> (\<forall>r' \<in> set rs. re_Version r' \<noteq> v) \<and> Contains (re_Version r) v)) \<and>
   (findRelease v rs = None \<longleftrightarrow> (\<forall>r \<in> set rs. \<not> Contains (re_Version r) v))"
proof (cases "find (\<lambda>r. re_Version r = v) rs")
  case None
  then have n: "\<forall>r' \<in> set rs. re_Version r' \<noteq> v" by (auto simp: find_None_iff)
  have "findRelease v rs = find (\<lambda>r. Contains (re_Version r) v) rs" using None by (simp add: findRelease_def)
  then show ?thesis using n by (auto simp: find_Some_iff find_None_iff)
next
  case (Some r)
  then have "r \<in> set rs" "re_Version r = v" by (auto simp: find_Some_iff)
  moreover from this have "Contains (re_Version r) v" by (simp add: Contains_def)
  ultimately show ?thesis using Some by (auto simp: findRelease_def)
qed

theorem findRelease_spec_witness:
  "findRelease ''1.2'' [\<lparr>re_Version = ''v0.11.2'', BundleManifestUrl = ''u''\<rparr>] = Some \<lparr>re_Version = ''v0.11.2'', BundleManifestUrl = ''u''\<rparr> \<and>
   \<not> HasPrefix ''v0.11.2'' ''1.2'' \<and> Contains ''v0.11.2'' ''1.2''"
proof -
  have f: "findRelease ''1.2'' [\<lparr>re_Version = ''v0.11.2'', BundleManifestUrl = ''u''\<rparr>] = Some \<lparr>re_Version = ''v0.11.2'', BundleManifestUrl = ''u''\<rparr>"
    by code_simp
  have "Contains ''v0.11.2'' ''1.2''"
    using findRelease_spec [of "''1.2''" "[\<lparr>re_Version = ''v0.11.2'', BundleManifestUrl = ''u''\<rparr>]"] unfolding f by auto
  with f show ?thesis by (simp add: HasPrefix_def)
qed

section \<open>File URLs\<close>

lemma file_url_join:
  assumes "clean_abs d" "clean_rel n"
  shows "path_Join [''file://'' @ d, n] = ''file:'' @ d @ ''/'' @ n"
proof -
  obtain ds where ds: "ds \<noteq> []" "list_all plain ds" "d = CHR ''/'' # Join ds ''/''"
    using assms(1) by (rule clean_absE)
  obtain ns where ns: "ns \<noteq> []" "list_all plain ns" "n = Join ns ''/''"
    using assms(2) by (rule clean_relE)
  define cs where "cs = ds @ ns"
  have cs: "cs \<noteq> []" "list_all plain cs" using ds ns by (simp_all add: cs_def)
  have eq: "(''file://'' @ d) @ ''/'' @ n = Join (''file:'' # [] # [] # cs) ''/''"
    using ds ns cs by (simp add: cs_def Join_append Join_Cons_ne)
  have "\<forall>x \<in> set (''file:'' # [] # [] # cs). CHR ''/'' \<notin> set x" using cs(2) by (auto dest: plain_no_slash)
  then have sp: "Split (Join (''file:'' # [] # [] # cs) ''/'') ''/'' = ''file:'' # [] # [] # cs"
    by (rule Split_Join [rotated]) simp
  have "\<not> HasPrefix (Join (''file:'' # [] # [] # cs) ''/'') ''/''"
    by (simp add: HasPrefix_def)
  moreover have "clean_comps False (''file:'' # [] # [] # cs) = ''file:'' # cs"
    using cs(2) by (simp add: clean_comps_def foldl_push_plain)
  ultimately have "Clean (Join (''file:'' # [] # [] # cs) ''/'') = Join (''file:'' # cs) ''/''"
    using sp cs(1) by (simp add: Clean_def Join_Cons_ne)
  then have "path_Join [''file://'' @ d, n] = Join (''file:'' # cs) ''/''"
    using eq by (simp add: path_Join_def)
  also have "\<dots> = ''file:'' @ d @ ''/'' @ n"
    using ds ns cs(1) by (simp add: cs_def Join_append Join_Cons_ne)
  finally show ?thesis .
qed

lemma clean_rel_name: "CHR ''/'' \<notin> set p \<Longrightarrow> p \<noteq> [] \<Longrightarrow> p \<noteq> ''.'' \<Longrightarrow> p \<noteq> ''..'' \<Longrightarrow> clean_rel p"
  by (simp add: clean_rel_def Split_def split_single_none plain_def)

text \<open>
  The manifest locations that an air-gapped build hands to \<open>make\<close> are meant to be \<open>file://\<close> URLs, but
  they are put together with \<open>filepath.Join\<close>, which cleans the two slashes after the colon away: the
  variables hold \<open>file:/dir/...\<close>.
\<close>

theorem getAirGapCmdEnvVars_value:
  assumes "getwd E = Inr cwd" "clean_abs cwd" "CHR ''/'' \<notin> set version" "CHR ''/'' \<notin> set branch"
  shows "getAirGapCmdEnvVars E cloneUrl version branch w =
     (Ok [''EKSA_BUNDLE_MANIFEST_URL=file:'' @ cwd @ ''/eks-a-d-manifests/eks-a-bundles-'' @ version @ ''.yaml'',
          ''EKSD_MANIFEST_URL=file:'' @ cwd @ ''/eks-a-d-manifests/eks-d-'' @ branch @ ''.yaml'',
          ''CLONE_URL='' @ cloneUrl], w)"
proof -
  have m: "clean_rel manifestsDirName"
    by (rule clean_rel_name) (simp_all add: manifestsDirName_def)
  have root: "path_Join [cwd, manifestsDirName] = cwd @ ''/'' @ manifestsDirName" "clean_abs (cwd @ ''/'' @ manifestsDirName)"
    using path_Join_clean [OF assms(2) m] by simp_all
  have b: "clean_rel (eksAnywhereBundlesFileName version)" "clean_rel (eksDistroManifestFileName branch)"
    using assms(3,4) by (auto intro!: clean_rel_name simp: eksAnywhereBundlesFileName_def eksDistroManifestFileName_def)
  have run: "getAirGapCmdEnvVars E cloneUrl version branch w =
     (Ok [''EKSA_BUNDLE_MANIFEST_URL='' @ path_Join [''file://'' @ path_Join [cwd, manifestsDirName], eksAnywhereBundlesFileName version],
          ''EKSD_MANIFEST_URL='' @ path_Join [''file://'' @ path_Join [cwd, manifestsDirName], eksDistroManifestFileName branch],
          ''CLONE_URL='' @ cloneUrl], w)"
  proof -
    have "getManifestRoot E w = (Ok (path_Join [cwd, manifestsDirName]), w)"
      using assms(1) by (simp add: getManifestRoot_def get_cwd_def)
    then show ?thesis unfolding getAirGapCmdEnvVars_def Let_def ret_def by (rule bind_run_Ok [THEN trans]) (rule refl)
  qed
  show ?thesis
    unfolding run root(1) file_url_join [OF root(2) b(1)] file_url_join [OF root(2) b(2)]
    by (simp add: eksAnywhereBundlesFileName_def eksDistroManifestFileName_def manifestsDirName_def)
qed

theorem getAirGapCmdEnvVars_value_witness:
  "getAirGapCmdEnvVars quiet ''u'' ''v1'' ''1-27'' nutanix_world =
     (Ok [''EKSA_BUNDLE_MANIFEST_URL=file:/work/eks-a-d-manifests/eks-a-bundles-v1.yaml'',
          ''EKSD_MANIFEST_URL=file:/work/eks-a-d-manifests/eks-d-1-27.yaml'', ''CLONE_URL=u''], nutanix_world)"
proof -
  have "clean_abs ''/work''" by code_simp
  then show ?thesis
    using getAirGapCmdEnvVars_value [of quiet "''/work''" "''v1''" "''1-27''" "''u''" nutanix_world] by (simp add: quiet_def)
qed

section \<open>Downloads\<close>

text \<open>A machine on which no file operation fails for a reason of its own.\<close>

definition io_ok :: "'z env_scheme \<Rightarrow> bool" where
  "io_ok E \<longleftrightarrow> (\<forall>w e. ioerr E w e = None)"

lemma io_ok_run:
  assumes "io_ok E"
  shows "with_io E e f w = (case f w of (r, g) \<Rightarrow> (r, (emit e w)\<lparr>fs := g\<rparr>))"
    and "os_ReadFile E p w = ((case fs_get (fs w) p of
         Some (node.File c _) \<Rightarrow> Ok c
       | Some DirNode \<Rightarrow> Err (''read '' @ p @ '': is a directory'')
       | None \<Rightarrow> Err (''open '' @ p @ '': no such file or directory'')), w)"
  using assms by (auto simp: io_ok_def with_io_def os_ReadFile_def split: option.splits node.splits)

lemma create_and_fill_run:
  assumes "io_ok E" "fs_get (fs w) p \<noteq> Some DirNode"
  shows "create_and_fill E p (Inr c) w =
     (Ok (), (emit (WriteFile p c 438) (emit (Create p) w))\<lparr>fs := fs_write p c 438 (fs_write p [] 438 (fs w))\<rparr>)"
proof -
  have "fs_get (fs_write p [] 438 (fs w)) p \<noteq> Some DirNode" by (simp add: fs_write_def)
  then show ?thesis
    using assms(2) by (simp add: create_and_fill_def os_Create_def os_WriteFile_def io_ok_run [OF assms(1)] bind_def)
qed

lemma fs_get_write: "fs_get (fs_write p c m f) q =
    (if q = p then Some (node.File c (case fs_get f p of Some (node.File _ m0) \<Rightarrow> m0 | _ \<Rightarrow> m)) else fs_get f q)"
  by (simp add: fs_write_def)

text \<open>
  \<open>downloadFile\<close> does not look at the status of the answer: whatever the server replied, an error page
  included, its body becomes the file and the download counts as a success.
\<close>

theorem downloadFile_any_status:
  assumes "io_ok E" and "httpget E w url = (d, HttpReply status (Inr body))"
    and "fs_get (fs w) (Dir path) \<noteq> None" and "fs_get (fs w) path = None"
  shows "\<exists>w'. downloadFile E path url w = (Ok (), w') \<and> fs_get (fs w') path = Some (node.File body 438)"
proof -
  let ?w = "(emit (HttpGet url) w)\<lparr>clock := clock w + d\<rparr>"
  obtain n where n: "fs_get (fs w) (Dir path) = Some n" using assms(3) by auto
  have g: "http_Get E url w = (Ok (HttpReply status (Inr body)), ?w)" using assms(2) by (simp add: http_Get_def)
  have s: "os_Stat E (Dir path) ?w = (Ok (Exists n), ?w)"
    using assms(1) n by (simp add: os_Stat_def io_ok_def)
  have "downloadFile E path url w = create_and_fill E path (Inr body) ?w"
    using g s by (simp add: downloadFile_def bind_def)
  then show ?thesis
    using assms(4) by (simp add: create_and_fill_run [OF assms(1)] fs_get_write)
qed

theorem downloadFile_any_status_witness:
  "\<exists>w'. downloadFile (quiet\<lparr>httpget := (\<lambda>w u. (0, HttpReply 404 (Inr ''not found'')))\<rparr>) ''/work/a'' ''https://x/a''
       \<lparr>fs = [(''/work'', DirNode)], trace = [], clock = 0\<rparr> = (Ok (), w') \<and>
     fs_get (fs w') ''/work/a'' = Some (node.File ''not found'' 438)"
proof (rule downloadFile_any_status)
  have "Dir ''/work/a'' = ''/work''" by code_simp
  then show "fs_get (fs \<lparr>fs = [(''/work'', DirNode)], trace = [], clock = 0\<rparr>) (Dir ''/work/a'') \<noteq> None" by (simp add: fs_get_def)
qed (simp_all add: io_ok_def quiet_def fs_get_def)

section \<open>A quiet machine\<close>

definition ib_quiet :: ib_env where
  "ib_quiet = \<lparr>ioerr = (\<lambda>w e. None), runcmd = (\<lambda>w e. ([], None, fs w)), httpget = (\<lambda>w u. (0, HttpFail ''offline'')),
     getenv = (\<lambda>k. None), getwd = Inr ''/work'', hostname = Inr ''builder'', lookPath = (\<lambda>s. s), meanwhile = (\<lambda>w d. fs w),
     eksaVersion = ''v0.18.0'', eksaReleaseManifest = [],
     yamlRelease = (\<lambda>s. Inr \<lparr>LatestVersion = ''v0.18.0'', Releases = [\<lparr>re_Version = ''v0.18.0'', BundleManifestUrl = ''https://a/b.yaml''\<rparr>]\<rparr>),
     yamlBundles = (\<lambda>s. Inr [\<lparr>KubeVersion = ''1.27'', EksD = \<lparr>GitCommit = ''abc'', EksDReleaseUrl = ''https://a/d.yaml'',
        ContainerdURI = ''https://a/c'', CrictlURI = ''https://a/r'', EtcdadmURI = ''https://a/e''\<rparr>\<rparr>]),
     yamlEksDReleases = (\<lambda>s. Inr []), yamlEksDManifest = (\<lambda>s. Inr []), yamlFileVars = (\<lambda>s fs. Inr ''vars''),
     untar = (\<lambda>s. if s = ''TAR'' then ([(''eks-d-1-27.yaml'', ''uri: https://distro.eks.amazonaws.com/x'', 420)], None) else ([], Some ''unexpected EOF'')),
     mktar = (\<lambda>es. ''TAR''), mapOrder = (\<lambda>m. m)\<rparr>"

lemma ib_quiet_io: "io_ok ib_quiet"
  by (simp add: io_ok_def ib_quiet_def)

end
