(* ===== verification/IB_Manifests.thy ===== *)
theory IB_Manifests
  imports IB_Utils
begin

text \<open>
  \<open>builder/manifests.go\<close> and \<open>builder/artifacts.go\<close>: collecting the release manifests into a tarball on a
  connected machine, unpacking it on an air-gapped one and pointing the manifests at the private
  servers, and downloading the artifacts they name.
\<close>

definition eksDistroProdDomain :: string where
  "eksDistroProdDomain = ''distro.eks.amazonaws.com''"
definition eksAnywhereAssetsProdDomain :: string where
  "eksAnywhereAssetsProdDomain = ''anywhere-assets.eks.amazonaws.com''"
definition manifestsTarballName :: string where
  "manifestsTarballName = ''eks-a-manifests.tar''"

section \<open>Downloading manifests\<close>

definition eksDManifestUrl :: "string \<Rightarrow> string \<Rightarrow> string" where
  "eksDManifestUrl branch number = ''https://'' @ eksDistroProdDomain @ ''/kubernetes-'' @ branch @ ''/kubernetes-'' @ branch @
     ''-eks-'' @ number @ ''.yaml''"

definition downloadEKSDManifests :: "'z ib_env_scheme \<Rightarrow> string \<Rightarrow> (world, unit) prog" where
  "downloadEKSDManifests E outputPath =
     bind (getEksDReleaseBranchesWithNumber E) (\<lambda>branches.
     bind (os_MkdirAll E outputPath 493) (\<lambda>_.
     for_each (mapOrder E branches) (\<lambda>(branch, number).
       downloadFile E (path_Join [outputPath, eksDistroManifestFileName branch]) (eksDManifestUrl branch number))))"

definition downloadEKSAManifests :: "'z ib_env_scheme \<Rightarrow> string \<Rightarrow> (world, unit) prog" where
  "downloadEKSAManifests E outputPath =
     bind (getEksAReleasesManifestURL E False) (\<lambda>releaseManifestUrl.
     bind (os_MkdirAll E outputPath 493) (\<lambda>_.
     let releaseManifestPath = path_Join [outputPath, eksAnywhereManifestFileName] in
     bind (downloadFile E releaseManifestPath releaseManifestUrl) (\<lambda>_.
     bind (os_ReadFile E releaseManifestPath) (\<lambda>releaseManifestData.
     bind (lift_sum (yamlRelease E releaseManifestData)) (\<lambda>releases.
     for_each (Releases releases) (\<lambda>r.
       downloadFile E (path_Join [outputPath, eksAnywhereBundlesFileName (re_Version r)]) (BundleManifestUrl r)))))))"

definition DownloadManifests :: "'z ib_env_scheme \<Rightarrow> BuildOptions \<Rightarrow> (world, unit) prog" where
  "DownloadManifests E b =
     bind (wrapf ''Error retrieving current working directory: '' (lift_sum (getwd E))) (\<lambda>cwd.
     let buildToolingRepoPath = getBuildToolingPath E cwd; manifestsPath = path_Join [cwd, ''manifests''] in
     bind (prepBuildToolingRepo E b buildToolingRepoPath) (\<lambda>_.
     bind (downloadEKSDManifests E manifestsPath) (\<lambda>_.
     bind (downloadEKSAManifests E manifestsPath) (\<lambda>_.
     bind (createTarball E manifestsTarballName manifestsPath) (\<lambda>_.
     bind (os_RemoveAll E manifestsPath) (\<lambda>_.
     cleanup E buildToolingRepoPath))))))"

section \<open>Unpacking\<close>

definition extractEntry :: "'z env_scheme \<Rightarrow> string \<Rightarrow> tar_entry \<Rightarrow> (world, unit) prog" where
  "extractEntry E path entry = (case entry of (name, contents, mode) \<Rightarrow>
     bind (create_and_fill E (path_Join [path, name]) (Inr contents)) (\<lambda>_.
     bind (attempt (os_Chmod E (path_Join [path, name]) mode)) (\<lambda>_. ret ())))"

definition extractTarball :: "'z ib_env_scheme \<Rightarrow> string \<Rightarrow> string \<Rightarrow> (world, unit) prog" where
  "extractTarball E tarball path =
     bind (os_ReadFile E tarball) (\<lambda>archive.
     bind (os_RemoveAll E path) (\<lambda>_.
     bind (os_MkdirAll E path 493) (\<lambda>_.
     bind (for_each (fst (untar E archive)) (extractEntry E path)) (\<lambda>_.
     case snd (untar E archive) of None \<Rightarrow> ret () | Some e \<Rightarrow> fail e))))"

definition eksDManifestFilePattern :: string where
  "eksDManifestFilePattern = ''eks-d-*.yaml''"
definition eksABundlesManifestFilePattern :: string where
  "eksABundlesManifestFilePattern = ''eks-a-bundles-*.yaml''"

definition prepManifestFile :: "'z env_scheme \<Rightarrow> string \<Rightarrow> string \<Rightarrow> string \<Rightarrow> string \<times> bool \<Rightarrow> (world, unit) prog" where
  "prepManifestFile E manifestDir privateEksD privateEksA entry = (case entry of (name, isDir) \<Rightarrow>
     if isDir then ret ()
     else
       bind (do_if (glob_match eksDManifestFilePattern name)
         (replaceStringInFile E (path_Join [manifestDir, name]) (''https://'' @ eksDistroProdDomain) privateEksD)) (\<lambda>_.
       do_if (glob_match eksABundlesManifestFilePattern name)
         (replaceStringInFile E (path_Join [manifestDir, name]) (''https://'' @ eksAnywhereAssetsProdDomain) privateEksA)))"

definition extractAndPrepManifestTarball ::
  "'z ib_env_scheme \<Rightarrow> string \<Rightarrow> string \<Rightarrow> string \<Rightarrow> (world, unit) prog" where
  "extractAndPrepManifestTarball E tarballFile privateEksD privateEksA =
     bind (map_err (\<lambda>_. ''Error retrieving manifest root'') (getManifestRoot E)) (\<lambda>manifestDir.
     bind (wrapf ''Error extracting tarball: '' (extractTarball E tarballFile manifestDir)) (\<lambda>_.
     bind (os_ReadDir E manifestDir) (\<lambda>files.
     for_each files (prepManifestFile E manifestDir privateEksD privateEksA))))"

section \<open>Downloading artifacts\<close>

definition getArtifactFilePathFromUrl :: "string \<Rightarrow> string + string" where
  "getArtifactFilePathFromUrl artifactUrl = (case url_Parse artifactUrl of
     Inl e \<Rightarrow> Inl e | Inr u \<Rightarrow> Inr (TrimPrefix (u_path u) ''/''))"

definition downloadArtifact :: "'z env_scheme \<Rightarrow> string \<Rightarrow> string \<Rightarrow> (world, unit) prog" where
  "downloadArtifact E outputPath artifactUrl =
     bind (wrapf ''failed to get artifacts path from url: '' (lift_sum (getArtifactFilePathFromUrl artifactUrl))) (\<lambda>artifactsPath.
     downloadFile E (path_Join [outputPath, artifactsPath]) artifactUrl)"

definition zero_VersionsBundle :: VersionsBundle where
  "zero_VersionsBundle = \<lparr>KubeVersion = [],
     EksD = \<lparr>GitCommit = [], EksDReleaseUrl = [], ContainerdURI = [], CrictlURI = [], EtcdadmURI = []\<rparr>\<rparr>"

text \<open>Without a bundle for the version, the zero bundle with its empty URLs is used.\<close>

definition chooseBundle :: "string \<Rightarrow> VersionsBundle list \<Rightarrow> VersionsBundle" where
  "chooseBundle kubeVersion bundles = (case find (\<lambda>b. KubeVersion b = kubeVersion) bundles of
     None \<Rightarrow> zero_VersionsBundle | Some b \<Rightarrow> b)"

definition downloadEKSAArtifacts ::
  "'z ib_env_scheme \<Rightarrow> string \<Rightarrow> string \<Rightarrow> VersionsBundle list \<Rightarrow> (world, VersionsBundle) prog" where
  "downloadEKSAArtifacts E outputPath kubeVersion bundles =
     (let versionBundle = chooseBundle kubeVersion bundles; d = EksD versionBundle
      in bind (for_each (mapOrder E [(''containerd'', ContainerdURI d), (''crictl'', CrictlURI d), (''etcdadm'', EtcdadmURI d)])
           (\<lambda>(artifact, url). downloadArtifact E outputPath url)) (\<lambda>_.
         ret versionBundle))"

text \<open>The base URL is that of the API server's archive; the last match counts.  Etcd and CNI archives are fetched on the way.\<close>

definition apiServerAsset :: "string \<Rightarrow> string" where
  "apiServerAsset arch = ''bin/linux/'' @ arch @ ''/kube-apiserver.tar''"

definition scanAsset :: "'z env_scheme \<Rightarrow> string \<Rightarrow> string \<Rightarrow> EksDComponent \<Rightarrow> string \<Rightarrow> Asset \<Rightarrow> (world, string) prog" where
  "scanAsset E arch outputPath component base asset =
     bind (if ComponentName component = ''kubernetes'' \<and> AssetName asset = apiServerAsset arch
           then bind (deref (ArchiveURI asset)) (\<lambda>uri. ret (ReplaceAll uri ''/kube-apiserver.tar'' []))
           else ret base) (\<lambda>base'.
     bind (do_if (ComponentName component \<in> {''etcd'', ''cni-plugins''} \<and>
                  AssetName asset = ComponentName component @ ''-linux-'' @ arch @ ''-'' @ GitTag component @ ''.tar.gz'')
             (bind (deref (ArchiveURI asset)) (\<lambda>uri. downloadArtifact E outputPath uri))) (\<lambda>_.
     ret base'))"

definition scanComponent :: "'z env_scheme \<Rightarrow> string \<Rightarrow> string \<Rightarrow> string \<Rightarrow> EksDComponent \<Rightarrow> (world, string) prog" where
  "scanComponent E arch outputPath base component = fold_prog (scanAsset E arch outputPath component) base (Assets component)"

definition eksDKubeArtifacts :: "string list" where
  "eksDKubeArtifacts = [''kube-apiserver.tar'', ''kube-scheduler.tar'', ''kube-controller-manager.tar'', ''kube-proxy.tar'',
     ''pause.tar'', ''coredns.tar'', ''etcd.tar'', ''kubeadm'', ''kubelet'', ''kubectl'']"

definition downloadEKSDArtifacts :: "'z ib_env_scheme \<Rightarrow> BuildOptions \<Rightarrow> string \<Rightarrow> string \<Rightarrow> (world, unit) prog" where
  "downloadEKSDArtifacts E b outputPath manifestUrl =
     bind (wrapf ''failed to read manifest file from url: '' (readFileFromURL E manifestUrl)) (\<lambda>manifestData.
     bind (lift_sum (yamlEksDManifest E manifestData)) (\<lambda>components.
     bind (fold_prog (scanComponent E (Arch b) outputPath) [] components) (\<lambda>eksDBaseUrl.
     for_each eksDKubeArtifacts (\<lambda>artifact.
       bind (wrapf (''failed to construct url for artifact '' @ artifact @ '': '') (lift_sum (url_JoinPath eksDBaseUrl artifact))) (\<lambda>url.
       downloadArtifact E outputPath url)))))"

definition DownloadArtifacts :: "'z ib_env_scheme \<Rightarrow> BuildOptions \<Rightarrow> (world, unit) prog" where
  "DownloadArtifacts E b0 =
     (let b = (if Arch b0 = [] then b0\<lparr>Arch := ''amd64''\<rparr> else b0) in
     bind (wrapf ''Error retrieving current working directory: '' (lift_sum (getwd E))) (\<lambda>cwd.
     let buildToolingRepoPath = getBuildToolingPath E cwd in
     bind (prepBuildToolingRepo E b buildToolingRepoPath) (\<lambda>(bundles, _).
     bind (GetSupportedReleaseBranches E) (\<lambda>supported.
     bind (if \<not> SliceContains supported (ReleaseChannel b) then
             bind (cleanup E buildToolingRepoPath) (\<lambda>_. log_fatal ''release-channel should be one of the supported ones'')
           else ret ()) (\<lambda>_.
     let kubeVersion = ReplaceAll (ReleaseChannel b) ''-'' ''.'';
         eksaArtifactsPath = path_Join [cwd, ''eks-a-artifacts''];
         eksdArtifactsPath = path_Join [cwd, ''eks-d-artifacts''] in
     bind (do_if (Force b) (bind (cleanup E eksaArtifactsPath) (\<lambda>_. cleanup E eksdArtifactsPath))) (\<lambda>_.
     bind (wrapf ''failed to download eks-a artifacts: '' (downloadEKSAArtifacts E eksaArtifactsPath kubeVersion bundles)) (\<lambda>versionBundle.
     bind (wrapf ''failed to download eks-d artifacts: '' (downloadEKSDArtifacts E b eksdArtifactsPath (EksDReleaseUrl (EksD versionBundle)))) (\<lambda>_.
     cleanup E buildToolingRepoPath))))))))"

section \<open>What unpacking leaves in the manifest directory\<close>

definition flat_name :: "string \<Rightarrow> bool" where
  "flat_name n \<longleftrightarrow> n \<noteq> [] \<and> n \<noteq> ''.'' \<and> n \<noteq> ''..'' \<and> CHR ''/'' \<notin> set n"

lemma flat_path: "clean_abs d \<Longrightarrow> flat_name n \<Longrightarrow> path_Join [d, n] = d @ ''/'' @ n"
  by (intro path_Join_clean clean_rel_name) (auto simp: flat_name_def)

lemma os_Chmod_run: "io_ok E \<Longrightarrow> os_Chmod E p m w = (Ok (), (emit (Chmod p m) w)\<lparr>fs := fs_chmod p m (fs w)\<rparr>)"
  by (simp add: os_Chmod_def io_ok_run)

lemma extractEntry_run:
  assumes "io_ok E" "clean_abs d" "flat_name n" "fs_get (fs w) (d @ ''/'' @ n) \<noteq> Some DirNode"
  shows "\<exists>w'. extractEntry E d (n, c, m) w = (Ok (), w') \<and>
     (\<forall>q. fs_get (fs w') q = (if q = d @ ''/'' @ n then Some (node.File c m) else fs_get (fs w) q))"
proof -
  let ?p = "d @ ''/'' @ n"
  have "extractEntry E d (n, c, m) w = (Ok (), (emit (Chmod ?p m) (emit (WriteFile ?p c 438) (emit (Create ?p) w)))
      \<lparr>fs := fs_chmod ?p m (fs_write ?p c 438 (fs_write ?p [] 438 (fs w)))\<rparr>)"
    using assms by (simp add: extractEntry_def flat_path [OF assms(2,3), simplified] create_and_fill_run os_Chmod_run bind_def attempt_def)
  then show ?thesis by (simp add: fs_chmod_def fs_get_write split: option.splits node.splits)
qed

lemma extractEntries_run:
  assumes "io_ok E" "clean_abs d"
  shows "\<lbrakk> \<forall>e \<in> set es. flat_name (fst e); distinct (map fst es);
      \<forall>e \<in> set es. fs_get (fs w) (d @ ''/'' @ fst e) \<noteq> Some DirNode \<rbrakk> \<Longrightarrow>
    \<exists>w'. for_each es (extractEntry E d) w = (Ok (), w') \<and>
      (\<forall>n c m. (n, c, m) \<in> set es \<longrightarrow> fs_get (fs w') (d @ ''/'' @ n) = Some (node.File c m)) \<and>
      (\<forall>q. q \<notin> (\<lambda>e. d @ ''/'' @ fst e) ` set es \<longrightarrow> fs_get (fs w') q = fs_get (fs w) q)"
proof (induction es arbitrary: w)
  case (Cons e es)
  obtain n c m where e: "e = (n, c, m)" by (cases e) auto
  obtain w1 where w1: "extractEntry E d e w = (Ok (), w1)"
    "\<And>q. fs_get (fs w1) q = (if q = d @ ''/'' @ n then Some (node.File c m) else fs_get (fs w) q)"
    using extractEntry_run [OF assms, of n w c m] Cons.prems e by auto
  have ne: "d @ ''/'' @ fst x \<noteq> d @ ''/'' @ n" if "x \<in> set es" for x
    using Cons.prems(2) e that by (auto simp: rev_image_eqI)
  have "\<forall>x \<in> set es. fs_get (fs w1) (d @ ''/'' @ fst x) \<noteq> Some DirNode"
    using Cons.prems(3) ne w1(2) by auto
  then obtain w2 where w2: "for_each es (extractEntry E d) w1 = (Ok (), w2)"
    "\<And>n c m. (n, c, m) \<in> set es \<Longrightarrow> fs_get (fs w2) (d @ ''/'' @ n) = Some (node.File c m)"
    "\<And>q. q \<notin> (\<lambda>e. d @ ''/'' @ fst e) ` set es \<Longrightarrow> fs_get (fs w2) q = fs_get (fs w1) q"
    using Cons.IH [of w1] Cons.prems by auto
  have "for_each (e # es) (extractEntry E d) w = (Ok (), w2)"
    using w1(1) w2(1) by (simp add: bind_run_Ok)
  moreover have "fs_get (fs w2) (d @ ''/'' @ n) = Some (node.File c m)"
    using w2(3) [of "d @ ''/'' @ n"] w1(2) ne by force
  ultimately show ?case using w2 w1(2) e by (auto intro!: exI [of _ w2])
qed simp

text \<open>The directory holds exactly the entries of the archive.\<close>

definition holds_exactly :: "files \<Rightarrow> string \<Rightarrow> tar_entry list \<Rightarrow> bool" where
  "holds_exactly f d es \<longleftrightarrow> fs_get f d = Some DirNode \<and>
     (\<forall>n. CHR ''/'' \<notin> set n \<longrightarrow> fs_get f (d @ ''/'' @ n) =
        (if n = [] then None else case map_of es n of None \<Rightarrow> None | Some (c, m) \<Rightarrow> Some (node.File c m)))"

lemma prefix_Join_take: "prefix (Join (take n xs) sep) (Join xs sep)"
proof (induction xs arbitrary: n)
  case (Cons x xs)
  show ?case
  proof (cases n)
    case (Suc k)
    show ?thesis
    proof (cases "xs = [] \<or> k = 0")
      case True
      then show ?thesis using Suc by (cases xs) auto
    next
      case False
      then have "take k xs \<noteq> []" by simp
      then show ?thesis using Cons.IH [of k] False Suc by (simp add: Join_Cons_ne)
    qed
  qed simp
qed simp

lemma ancestors_prefix: "q \<in> set (ancestors d) \<Longrightarrow> prefix q d"
  using prefix_Join_take [of _ "Split d ''/''" "''/''"] by (auto simp: ancestors_def Join_Split)

lemma ancestors_self:
  assumes "clean_abs d"
  shows "d \<in> set (ancestors d)"
proof -
  obtain cs where "cs \<noteq> []" "list_all plain cs" "d = CHR ''/'' # Join cs ''/''" using assms by (rule clean_absE)
  then have "d \<noteq> []" "d \<noteq> ''/''" by (auto simp: Join_plain_ne)
  moreover have "d = Join (take (length (Split d ''/'')) (Split d ''/'')) ''/''" by (simp add: Join_Split)
  moreover have "0 < length (Split d ''/'')" by (simp add: Split_def)
  ultimately show ?thesis unfolding ancestors_def by (auto simp: image_iff Suc_le_eq intro!: bexI [of _ "length (Split d ''/'')"])
qed

lemma extractTarball_run:
  assumes "io_ok E" "clean_abs d" "fs_get (fs w) tarball = Some (node.File archive m0)" "untar E archive = (es, None)"
    and "\<forall>e \<in> set es. flat_name (fst e)" "distinct (map fst es)" "\<forall>q \<in> set (ancestors d). \<not> is_file (fs_get (fs w) q)"
  shows "\<exists>w'. extractTarball E tarball d w = (Ok (), w') \<and> holds_exactly (fs w') d es"
proof -
  let ?w1 = "(emit (RemoveAll d) w)\<lparr>fs := fs_del_tree d (fs w)\<rparr>"
  let ?w2 = "(emit (MkdirAll d 493) ?w1)\<lparr>fs := fs_mkdirs d (fs_del_tree d (fs w))\<rparr>"
  have r: "os_RemoveAll E d w = (Ok (), ?w1)" by (simp add: os_RemoveAll_def io_ok_run [OF assms(1)])
  have "find (\<lambda>q. is_file (fs_get (fs_del_tree d (fs w)) q)) (ancestors d) = None"
    using assms(7) by (auto simp: find_None_iff is_file_def)
  then have m: "os_MkdirAll E d 493 ?w1 = (Ok (), ?w2)" by (simp add: os_MkdirAll_def io_ok_run [OF assms(1)])
  have d: "fs_get (fs ?w2) d = Some DirNode"
    using ancestors_self [OF assms(2)] by (simp add: fs_get_mkdirs below_def)
  have inside: "fs_get (fs ?w2) (d @ ''/'' @ n) = None" for n
    using ancestors_prefix [of "d @ ''/'' @ n" d] by (auto simp: fs_get_mkdirs below_def dest: prefix_length_le)
  obtain w' where w': "for_each es (extractEntry E d) ?w2 = (Ok (), w')"
    "\<And>n c m. (n, c, m) \<in> set es \<Longrightarrow> fs_get (fs w') (d @ ''/'' @ n) = Some (node.File c m)"
    "\<And>q. q \<notin> (\<lambda>e. d @ ''/'' @ fst e) ` set es \<Longrightarrow> fs_get (fs w') q = fs_get (fs ?w2) q"
    using extractEntries_run [OF assms(1,2), of es ?w2] assms(5,6) inside by (metis (no_types, lifting) option.distinct(1))
  have "extractTarball E tarball d w = (Ok (), w')"
    using r m w'(1) assms(3,4) by (simp add: extractTarball_def io_ok_run [OF assms(1)] bind_def)
  moreover have "holds_exactly (fs w') d es"
    unfolding holds_exactly_def
  proof (intro conjI allI impI)
    show "fs_get (fs w') d = Some DirNode" using d w'(3) [of d] by auto
    fix n assume "CHR ''/'' \<notin> set n"
    show "fs_get (fs w') (d @ ''/'' @ n) =
      (if n = [] then None else case map_of es n of None \<Rightarrow> None | Some (c, m) \<Rightarrow> Some (node.File c m))"
    proof (cases "map_of es n")
      case None
      then have "n \<notin> fst ` set es" by (simp add: map_of_eq_None_iff)
      then have "d @ ''/'' @ n \<notin> (\<lambda>e. d @ ''/'' @ fst e) ` set es" by auto
      then show ?thesis using None w'(3) [of "d @ ''/'' @ n"] inside [of n] by simp
    next
      case (Some cm)
      then have "(n, cm) \<in> set es" by (rule map_of_SomeD)
      moreover from this assms(5) have "n \<noteq> []" by (auto simp: flat_name_def)
      ultimately show ?thesis using Some w'(2) by (cases cm) auto
    qed
  qed
  ultimately show ?thesis by blast
qed

section \<open>Manifests point at the private servers\<close>

lemma replaceStringInFile_run:
  assumes "io_ok E" "fs_get (fs w) p = Some (node.File c m)"
  shows "\<exists>w'. replaceStringInFile E p old new w = (Ok (), w') \<and>
     (\<forall>q. fs_get (fs w') q = (if q = p then Some (node.File (ReplaceAll c old new) 493) else fs_get (fs w) q))"
  using assms(2) by (simp add: replaceStringInFile_def os_Remove_def os_WriteFile_def io_ok_run [OF assms(1)] bind_def fs_get_write)

lemma patterns_disjoint:
  "glob_match eksDManifestFilePattern n \<Longrightarrow> \<not> glob_match eksABundlesManifestFilePattern n"
proof
  have d: "eksDManifestFilePattern = ''eks-d-'' @ ''*'' @ ''.yaml''" and a: "eksABundlesManifestFilePattern = ''eks-a-bundles-'' @ ''*'' @ ''.yaml''"
    by (simp_all add: eksDManifestFilePattern_def eksABundlesManifestFilePattern_def)
  assume "glob_match eksDManifestFilePattern n" "glob_match eksABundlesManifestFilePattern n"
  then obtain s t where "n = ''eks-d-'' @ s" "n = ''eks-a-bundles-'' @ t"
    unfolding d a by (subst (asm) (1 2) glob_match_one_star) auto
  then show False by simp
qed

definition private_manifest :: "string \<Rightarrow> string \<Rightarrow> string \<Rightarrow> string \<Rightarrow> nat \<Rightarrow> node" where
  "private_manifest eksd eksa n c m =
     (if glob_match eksDManifestFilePattern n then node.File (ReplaceAll c (''https://'' @ eksDistroProdDomain) eksd) 493
      else if glob_match eksABundlesManifestFilePattern n then node.File (ReplaceAll c (''https://'' @ eksAnywhereAssetsProdDomain) eksa) 493
      else node.File c m)"

lemma prepManifestFile_run:
  assumes "io_ok E" "clean_abs d" "flat_name n" "fs_get (fs w) (d @ ''/'' @ n) = Some (node.File c m)"
  shows "\<exists>w'. prepManifestFile E d eksd eksa (n, False) w = (Ok (), w') \<and>
     (\<forall>q. fs_get (fs w') q = (if q = d @ ''/'' @ n then Some (private_manifest eksd eksa n c m) else fs_get (fs w) q))"
proof -
  let ?p = "d @ ''/'' @ n"
  have eq: "prepManifestFile E d eksd eksa (n, False) =
     bind (do_if (glob_match eksDManifestFilePattern n) (replaceStringInFile E ?p (''https://'' @ eksDistroProdDomain) eksd)) (\<lambda>_.
     do_if (glob_match eksABundlesManifestFilePattern n) (replaceStringInFile E ?p (''https://'' @ eksAnywhereAssetsProdDomain) eksa))"
    by (simp only: prepManifestFile_def prod.case flat_path [OF assms(2,3)] if_False)
  obtain w1 where w1: "replaceStringInFile E ?p (''https://'' @ eksDistroProdDomain) eksd w = (Ok (), w1)"
    "\<And>q. fs_get (fs w1) q = (if q = ?p then Some (node.File (ReplaceAll c (''https://'' @ eksDistroProdDomain) eksd) 493) else fs_get (fs w) q)"
    using replaceStringInFile_run [OF assms(1,4)] by blast
  obtain w2 where w2: "replaceStringInFile E ?p (''https://'' @ eksAnywhereAssetsProdDomain) eksa w = (Ok (), w2)"
    "\<And>q. fs_get (fs w2) q = (if q = ?p then Some (node.File (ReplaceAll c (''https://'' @ eksAnywhereAssetsProdDomain) eksa) 493) else fs_get (fs w) q)"
    using replaceStringInFile_run [OF assms(1,4)] by blast
  consider "glob_match eksDManifestFilePattern n" "\<not> glob_match eksABundlesManifestFilePattern n"
    | "\<not> glob_match eksDManifestFilePattern n" "glob_match eksABundlesManifestFilePattern n"
    | "\<not> glob_match eksDManifestFilePattern n" "\<not> glob_match eksABundlesManifestFilePattern n"
    using patterns_disjoint by blast
  then show ?thesis
  proof cases
    case 1
    then show ?thesis unfolding eq private_manifest_def
      by (intro exI [of _ w1]) (simp only: do_if_simps bind_def w1 prod.case outcome.case ret_def if_True simp_thms)
  next
    case 2
    then show ?thesis unfolding eq private_manifest_def
      by (intro exI [of _ w2]) (simp only: do_if_simps bind_ret w2 if_True if_False simp_thms)
  next
    case 3
    then show ?thesis unfolding eq private_manifest_def
      by (intro exI [of _ w]) (simp add: assms(4) [simplified])
  qed
qed

lemma prepManifestFiles_run:
  assumes "io_ok E" "clean_abs d"
  shows "\<lbrakk> \<forall>n \<in> set ns. flat_name n \<and> fs_get (fs w) (d @ ''/'' @ n) = Some (node.File (c n) (m n)); distinct ns \<rbrakk> \<Longrightarrow>
    \<exists>w'. for_each (map (\<lambda>n. (n, False)) ns) (prepManifestFile E d eksd eksa) w = (Ok (), w') \<and>
      (\<forall>n \<in> set ns. fs_get (fs w') (d @ ''/'' @ n) = Some (private_manifest eksd eksa n (c n) (m n))) \<and>
      (\<forall>q. q \<notin> (\<lambda>n. d @ ''/'' @ n) ` set ns \<longrightarrow> fs_get (fs w') q = fs_get (fs w) q)"
proof (induction ns arbitrary: w)
  case (Cons n ns)
  obtain w1 where w1: "prepManifestFile E d eksd eksa (n, False) w = (Ok (), w1)"
    "\<And>q. fs_get (fs w1) q = (if q = d @ ''/'' @ n then Some (private_manifest eksd eksa n (c n) (m n)) else fs_get (fs w) q)"
    using prepManifestFile_run [OF assms, of n w "c n" "m n" eksd eksa] Cons.prems by auto
  have "\<forall>x \<in> set ns. flat_name x \<and> fs_get (fs w1) (d @ ''/'' @ x) = Some (node.File (c x) (m x))"
    using Cons.prems w1(2) by auto
  then obtain w2 where w2: "for_each (map (\<lambda>n. (n, False)) ns) (prepManifestFile E d eksd eksa) w1 = (Ok (), w2)"
    "\<And>x. x \<in> set ns \<Longrightarrow> fs_get (fs w2) (d @ ''/'' @ x) = Some (private_manifest eksd eksa x (c x) (m x))"
    "\<And>q. q \<notin> (\<lambda>n. d @ ''/'' @ n) ` set ns \<Longrightarrow> fs_get (fs w2) q = fs_get (fs w1) q"
    using Cons.IH [of w1] Cons.prems by auto
  have "for_each (map (\<lambda>n. (n, False)) (n # ns)) (prepManifestFile E d eksd eksa) w = (Ok (), w2)"
    using w1(1) w2(1) by (simp add: bind_run_Ok)
  moreover have "d @ ''/'' @ n \<notin> (\<lambda>n. d @ ''/'' @ n) ` set ns" using Cons.prems(2) by auto
  ultimately show ?case using w2 w1(2) by (intro exI [of _ w2]) auto
qed simp

lemma set_map_filter: "set (List.map_filter g xs) = {y. \<exists>x \<in> set xs. g x = Some y}"
  by (induction xs) (auto simp: map_filter_simps split: option.splits)

lemma dir_names_set: "set (dir_names f d) = {n. n \<noteq> [] \<and> CHR ''/'' \<notin> set n \<and> fs_get f (d @ ''/'' @ n) \<noteq> None}"
proof -
  have c: "child_name d p = Some n \<longleftrightarrow> p = d @ ''/'' @ n \<and> n \<noteq> [] \<and> CHR ''/'' \<notin> set n" for p n
    by (auto simp: child_name_def Let_def prefix_def)
  have k: "fs_get f p \<noteq> None \<longleftrightarrow> p \<in> fst ` set f" for p
    by (simp add: fs_get_def map_of_eq_None_iff)
  have "set (dir_names f d) = {n. \<exists>x \<in> set f. child_name d (fst x) = Some n}"
    by (simp add: dir_names_def set_map_filter case_prod_beta)
  also have "\<dots> = {n. n \<noteq> [] \<and> CHR ''/'' \<notin> set n \<and> d @ ''/'' @ n \<in> fst ` set f}"
    unfolding c by force
  finally show ?thesis unfolding k [symmetric] .
qed

lemma dir_names_distinct: "distinct (dir_names f d)"
  by (simp add: dir_names_def)

text \<open>The listing of a directory that holds exactly the entries of an archive.\<close>

lemma ReadDir_exact:
  assumes "io_ok E" "holds_exactly (fs w) d es" "\<forall>e \<in> set es. flat_name (fst e)"
  shows "\<exists>ns. os_ReadDir E d w = (Ok (map (\<lambda>n. (n, False)) ns), w) \<and> set ns = fst ` set es \<and> distinct ns"
proof -
  let ?ns = "dir_names (fs w) d"
  have mem: "n \<in> set ?ns \<longleftrightarrow> n \<in> fst ` set es" for n
  proof (cases "map_of es n")
    case None
    then have "n \<notin> fst ` set es" by (simp add: map_of_eq_None_iff)
    moreover have "fs_get (fs w) (d @ ''/'' @ n) = None" if "CHR ''/'' \<notin> set n"
      using that assms(2) None unfolding holds_exactly_def by simp
    ultimately show ?thesis unfolding dir_names_set mem_Collect_eq by metis
  next
    case (Some cm)
    then have e: "(n, cm) \<in> set es" by (rule map_of_SomeD)
    then have "flat_name n" using assms(3) by auto
    then show ?thesis using assms(2) Some e
      by (cases cm) (auto simp: dir_names_set holds_exactly_def flat_name_def rev_image_eqI)
  qed
  have files: "fs_get (fs w) (d @ ''/'' @ n) \<noteq> Some DirNode" if "n \<in> set ?ns" for n
    using that assms(2) by (auto simp: dir_names_set holds_exactly_def split: if_splits option.splits)
  have "map (\<lambda>n. (n, fs_get (fs w) (d @ ''/'' @ n) = Some DirNode)) ?ns = map (\<lambda>n. (n, False)) ?ns"
    using files by (intro map_cong) auto
  then have "os_ReadDir E d w = (Ok (map (\<lambda>n. (n, False)) ?ns), w)"
    using assms(1,2) by (simp add: os_ReadDir_def io_ok_def holds_exactly_def)
  then show ?thesis using mem dir_names_distinct by blast
qed



section \<open>Entries that leave the directory\<close>

lemma path_Join_up:
  assumes "clean_abs d" "flat_name b" "flat_name n"
  shows "path_Join [d @ ''/'' @ b, ''../'' @ n] = d @ ''/'' @ n"
proof -
  obtain ds where ds: "ds \<noteq> []" "list_all plain ds" "d = CHR ''/'' # Join ds ''/''"
    using assms(1) by (rule clean_absE)
  have bn: "plain b" "plain n" using assms(2,3) by (auto simp: flat_name_def plain_def)
  let ?cs = "[] # ds @ [b, ''..'', n]"
  have eq: "(d @ ''/'' @ b) @ ''/'' @ (''../'' @ n) = Join ?cs ''/''"
    using ds(1) by (simp add: ds(3) Join_append Join_Cons_ne)
  have "\<forall>x \<in> set ?cs. CHR ''/'' \<notin> set x" using ds(2) bn by (auto simp: plain_def dest: plain_no_slash)
  then have sp: "Split (Join ?cs ''/'') ''/'' = ?cs" by (rule Split_Join [rotated]) simp
  have r: "HasPrefix (Join ?cs ''/'') ''/''" using ds(1) by (simp add: Join_Cons_ne HasPrefix_def)
  have "clean_comps True ?cs = ds @ [n]"
    using ds(2) bn by (simp add: clean_comps_def foldl_push_plain push_plain) (simp add: plain_def)
  then have "Clean (Join ?cs ''/'') = CHR ''/'' # Join (ds @ [n]) ''/''"
    using sp r by (simp add: Clean_def Let_def)
  moreover have "path_Join [d @ ''/'' @ b, ''../'' @ n] = Clean ((d @ ''/'' @ b) @ ''/'' @ (''../'' @ n))"
    by (simp add: path_Join_def)
  ultimately show ?thesis unfolding eq using ds(1,3) by (simp add: Join_append)
qed

text \<open>
  C39.  Unpacking does not check the names in the archive: an entry \<open>../n\<close> is written next to the manifest
  directory instead of into it, over whatever file is there.
\<close>

theorem extractEntry_escapes:
  assumes "io_ok E" "clean_abs d" "flat_name b" "flat_name n" "fs_get (fs w) (d @ ''/'' @ n) \<noteq> Some DirNode"
  shows "\<exists>w'. extractEntry E (d @ ''/'' @ b) (''../'' @ n, c, m) w = (Ok (), w') \<and>
     fs_get (fs w') (d @ ''/'' @ n) = Some (node.File c m)"
proof -
  let ?p = "d @ ''/'' @ n"
  have "extractEntry E (d @ ''/'' @ b) (''../'' @ n, c, m) w =
      (Ok (), (emit (Chmod ?p m) (emit (WriteFile ?p c 438) (emit (Create ?p) w)))
      \<lparr>fs := fs_chmod ?p m (fs_write ?p c 438 (fs_write ?p [] 438 (fs w)))\<rparr>)"
    unfolding extractEntry_def prod.case path_Join_up [OF assms(2-4)]
    using assms(1,5) by (simp add: create_and_fill_run os_Chmod_run bind_def attempt_def)
  then show ?thesis by (simp add: fs_chmod_def fs_get_write split: option.splits node.splits)
qed

theorem extractEntry_escapes_witness:
  "\<exists>w'. extractEntry ib_quiet (''/work'' @ ''/'' @ ''eks-a-d-manifests'') (''../'' @ ''.profile'', ''x'', 493)
       \<lparr>fs = [(''/work/.profile'', node.File ''mine'' 420)], trace = [], clock = 0\<rparr> = (Ok (), w') \<and>
     fs_get (fs w') (''/work'' @ ''/'' @ ''.profile'') = Some (node.File ''x'' 493)"
proof -
  have "clean_abs ''/work''" by code_simp
  then show ?thesis
    by (intro extractEntry_escapes) (simp_all add: ib_quiet_io flat_name_def fs_get_def)
qed

end
