(* ===== verification/IB_Build.thy ===== *)
theory IB_Build
  imports IB_Manifests
begin

text \<open>
  \<open>builder/builder.go\<close>: \<open>BuildImage\<close>, from the prepared repository to the image in the working directory,
  one definition per hypervisor, and the \<open>build\<close>, \<open>download\<close> and \<open>version\<close> commands on top of it.
\<close>

definition imageBuilderProjectDirectory :: string where
  "imageBuilderProjectDirectory = ''projects/kubernetes-sigs/image-builder''"
definition imageBuilderCAPIDirectory :: string where
  "imageBuilderCAPIDirectory = ''image-builder/images/capi''"
definition packerAdditionalFilesConfigFile :: string where
  "packerAdditionalFilesConfigFile = ''packer/config/files.json''"
definition ansibleAdditionalFilesCustomRole :: string where
  "ansibleAdditionalFilesCustomRole = ''ansible/roles/load_additional_files''"
definition packerAdditionalFilesList :: string where
  "packerAdditionalFilesList = ''packer/config/additional_files.yaml''"
definition packerVSphereConfigFile :: string where
  "packerVSphereConfigFile = ''packer/ova/vsphere.json''"
definition packerBaremetalConfigFile :: string where
  "packerBaremetalConfigFile = ''packer/config/baremetal.json''"
definition packerNutanixConfigFile :: string where
  "packerNutanixConfigFile = ''packer/nutanix/nutanix.json''"
definition packerCloudStackConfigFile :: string where
  "packerCloudStackConfigFile = ''packer/config/cloudstack.json''"
definition packerAMIConfigFile :: string where
  "packerAMIConfigFile = ''packer/ami/ami.json''"

section \<open>Environment of the build command\<close>

definition baseEnvVars :: "BuildOptions \<Rightarrow> string \<Rightarrow> string \<Rightarrow> string list" where
  "baseEnvVars b version manifestUrl =
     [''RELEASE_BRANCH='' @ ReleaseChannel b, ''EKSA_RELEASE_VERSION='' @ version, ''EKSA_RELEASE_MANIFEST_URL='' @ manifestUrl] @
     (if AnsibleVerbosity b \<noteq> 0 then [''EKSA_ANSIBLE_VERBOSITY=-'' @ Repeat ''v'' (nat (AnsibleVerbosity b))] else [])"

definition airGapEnvVars :: "'z env_scheme \<Rightarrow> BuildOptions \<Rightarrow> string \<Rightarrow> (world, string list) prog" where
  "airGapEnvVars E b version =
     (if AirGapped b then bind (airGappedConfig b) (\<lambda>a. case a of
          None \<Rightarrow> ret []
        | Some c \<Rightarrow> or_fatal (getAirGapCmdEnvVars E (ImageBuilderRepoUrl c) version (ReleaseChannel b)))
      else ret [])"

definition rhelEnvVars :: "RhelConfig \<Rightarrow> string list" where
  "rhelEnvVars r = [''RHSM_USERNAME='' @ RhelUsername r, ''RHSM_PASSWORD='' @ RhelPassword r,
     ''RHSM_ACTIVATION_KEY='' @ ActivationKey (Rhsm r), ''RHSM_ORG_ID='' @ OrgId (Rhsm r)]"

text \<open>Red Hat builds behind a proxy hand the proxy to the subscription manager.\<close>

definition proxiedRhel :: "ProxyConfig \<Rightarrow> RhelConfig \<Rightarrow> (world, RhelConfig) prog" where
  "proxiedRhel proxy r =
     (if HttpProxy proxy \<noteq> [] then
        bind (or_fatal (lift_sum (setRhsmProxy proxy (Rhsm r)))) (\<lambda>rhsm. ret (r\<lparr>Rhsm := rhsm\<rparr>))
      else ret r)"

definition makeTarget :: "string \<Rightarrow> string \<Rightarrow> string" where
  "makeTarget proj target = ''make -C '' @ proj @ '' local-build-'' @ target"

definition imageName :: "string \<Rightarrow> BuildOptions \<Rightarrow> string \<Rightarrow> string" where
  "imageName cwd b ext = path_Join [cwd, Os b @ ''-'' @ OsVersion b @ ''-kube-'' @ ReleaseChannel b @ ext]"

section \<open>Additional files\<close>

fun set_elem :: "nat \<Rightarrow> File \<Rightarrow> File list \<times> file_slice \<Rightarrow> File list \<times> file_slice" where
  "set_elem i f (pkg, SharedWithDefault n) = (pkg[i := f], SharedWithDefault n)"
| "set_elem i f (pkg, OwnFiles xs) = (pkg, OwnFiles (xs[i := f]))"

definition elem_at :: "nat \<Rightarrow> File list \<times> file_slice \<Rightarrow> File" where
  "elem_at i st = files_of (fst st) (snd st) ! i"

text \<open>
  The sources of the default files are made absolute.  Both loops read the package variable while
  they may be writing to it.
\<close>

definition relocateOne :: "string \<Rightarrow> nat \<Rightarrow> File \<Rightarrow> File list \<times> file_slice \<Rightarrow> nat \<Rightarrow> File list \<times> file_slice" where
  "relocateOne proj i f st j =
     (if f = fst st ! j then set_elem i ((elem_at i st)\<lparr>Source := path_Join [proj, Source (elem_at i st)]\<rparr>) st else st)"

definition relocateFile :: "string \<Rightarrow> File list \<times> file_slice \<Rightarrow> nat \<Rightarrow> File list \<times> file_slice" where
  "relocateFile proj st i = foldl (relocateOne proj i (elem_at i st)) st [0..<length (fst st)]"

definition relocateFiles :: "string \<Rightarrow> File list \<times> file_slice \<Rightarrow> File list \<times> file_slice" where
  "relocateFiles proj st = foldl (relocateFile proj) st [0..<length (files_of (fst st) (snd st))]"

definition prepareFiles ::
  "'z ib_env_scheme \<Rightarrow> string \<Rightarrow> BuildOptions \<Rightarrow> File list \<Rightarrow> (world, string list) prog" where
  "prepareFiles E proj b pkg = (case FilesConfig b of
       None \<Rightarrow> ret []
     | Some fc \<Rightarrow>
         (let listFile = path_Join [proj, packerAdditionalFilesList];
              ansible = (AnsibleOf fc)\<lparr>CustomRoleNames := path_Join [proj, ansibleAdditionalFilesCustomRole],
                                       AnsibleExtraVars := ''@'' @ listFile\<rparr>;
              configFile = path_Join [proj, packerAdditionalFilesConfigFile];
              st = (pkg, AdditionalFilesList (FileVarsOf fc));
              st' = (if AMIConfigOf b \<noteq> None then relocateFiles proj st else st)
          in bind (or_fatal (os_WriteFile E configFile (marshal_struct FilesAnsibleConfig_fields ansible) 420)) (\<lambda>_.
             bind (or_fatal (lift_sum (yamlFileVars E (AdditionalFiles (FileVarsOf fc)) (files_of (fst st') (snd st'))))) (\<lambda>vars.
             bind (or_fatal (os_WriteFile E listFile vars 420)) (\<lambda>_.
             ret [''PACKER_ADDITIONAL_FILES_VAR_FILES='' @ configFile])))))"

section \<open>One build per hypervisor\<close>

text \<open>Each returns the glob of the image it built and where the image goes (both empty: nothing to move).\<close>

definition buildVSphere ::
  "'z env_scheme \<Rightarrow> string \<Rightarrow> string \<Rightarrow> string \<Rightarrow> BuildOptions \<Rightarrow> string list \<Rightarrow> (world, string \<times> string) prog" where
  "buildVSphere E cwd proj version b vars =
     bind (airGapEnvVars E b version) (\<lambda>air.
     bind (if Os b = RedHat then bind (deref (VsphereConfigOf b)) (\<lambda>c. bind (proxiedRhel (vs_Proxy c) (vs_Rhel c)) (\<lambda>r. ret (Some (c\<lparr>vs_Rhel := r\<rparr>))))
           else ret (VsphereConfigOf b)) (\<lambda>cfg.
     bind (or_fatal (os_WriteFile E (path_Join [proj, packerVSphereConfigFile]) (marshal_ptr VsphereConfig_fields cfg) 420)) (\<lambda>_.
     bind (if Os b = Ubuntu then
             ret (makeTarget proj (''ova-ubuntu-'' @ OsVersion b @ (if Firmware b = EFI then ''-efi'' else [])), [])
           else if Os b = RedHat then bind (deref cfg) (\<lambda>c. ret (makeTarget proj (''ova-redhat-'' @ OsVersion b), rhelEnvVars (vs_Rhel c)))
           else ret ([], [])) (\<lambda>(buildCommand, extra).
     bind (or_fatal (executeMakeBuildCommand E buildCommand (vars @ air @ extra))) (\<lambda>_.
     ret (''output/*.ova'', imageName cwd b ''.ova''))))))"

definition buildBaremetal ::
  "'z env_scheme \<Rightarrow> string \<Rightarrow> string \<Rightarrow> string \<Rightarrow> BuildOptions \<Rightarrow> string list \<Rightarrow> (world, string \<times> string) prog" where
  "buildBaremetal E cwd proj version b vars =
     (let baremetalConfigFile = path_Join [proj, packerBaremetalConfigFile] in
     bind (airGapEnvVars E b version) (\<lambda>air.
     bind (if Os b = RedHat then bind (deref (BaremetalConfigOf b)) (\<lambda>c. bind (proxiedRhel (bm_Proxy c) (bm_Rhel c)) (\<lambda>r. ret (Some (c\<lparr>bm_Rhel := r\<rparr>))))
           else ret (BaremetalConfigOf b)) (\<lambda>cfg.
     bind (case cfg of None \<Rightarrow> ret () | Some c \<Rightarrow> or_fatal (os_WriteFile E baremetalConfigFile (marshal_struct BaremetalConfig_fields c) 420)) (\<lambda>_.
     bind (if Os b = Ubuntu then ret (makeTarget proj (''raw-ubuntu-'' @ OsVersion b), [])
           else if Os b = RedHat then bind (deref cfg) (\<lambda>c.
             ret (makeTarget proj (''raw-redhat-'' @ OsVersion b @ (if Firmware b = EFI then ''-efi'' else [])), rhelEnvVars (bm_Rhel c)))
           else ret ([], [])) (\<lambda>(buildCommand, extra).
     bind (or_fatal (executeMakeBuildCommand E buildCommand
       (vars @ air @ extra @ (if cfg \<noteq> None then [''PACKER_TYPE_VAR_FILES='' @ baremetalConfigFile] else [])))) (\<lambda>_.
     ret (''output/*.gz'', imageName cwd b ''.gz'')))))))"

definition buildNutanix ::
  "'z env_scheme \<Rightarrow> string \<Rightarrow> string \<Rightarrow> string \<Rightarrow> BuildOptions \<Rightarrow> string list \<Rightarrow> (world, string \<times> string) prog" where
  "buildNutanix E cwd proj version b vars =
     (let nutanixConfigFile = path_Join [proj, packerNutanixConfigFile] in
     bind (if Os b = RedHat then bind (deref (NutanixConfigOf b)) (\<lambda>c. bind (proxiedRhel (nx_Proxy c) (nx_Rhel c)) (\<lambda>r. ret (Some (c\<lparr>nx_Rhel := r\<rparr>))))
           else ret (NutanixConfigOf b)) (\<lambda>cfg.
     bind (airGapEnvVars E b version) (\<lambda>air.
     bind (or_fatal (os_WriteFile E nutanixConfigFile (marshal_ptr NutanixConfig_fields cfg) 420)) (\<lambda>_.
     bind (if Os b = Ubuntu then ret (makeTarget proj (''nutanix-ubuntu-'' @ OsVersion b), [])
           else if Os b = RedHat then bind (deref cfg) (\<lambda>c. ret (makeTarget proj (''nutanix-redhat-'' @ OsVersion b),
             [''RHSM_USERNAME='' @ RhelUsername (nx_Rhel c), ''RHSM_PASSWORD='' @ RhelPassword (nx_Rhel c), ''RHEL_IMAGE_URL='' @ ImageUrl c]))
           else ret ([], [])) (\<lambda>(buildCommand, extra).
     bind (or_fatal (executeMakeBuildCommand E buildCommand
       (vars @ air @ extra @ (if cfg \<noteq> None then [''PACKER_TYPE_VAR_FILES='' @ nutanixConfigFile] else [])))) (\<lambda>_.
     bind (deref cfg) (\<lambda>c.
     ret (if ImageExport c = ''true'' then (''*.img'', imageName cwd b ''.img'') else ([], []))))))))) "

definition buildCloudStack ::
  "'z env_scheme \<Rightarrow> string \<Rightarrow> string \<Rightarrow> string \<Rightarrow> BuildOptions \<Rightarrow> string list \<Rightarrow> (world, string \<times> string) prog" where
  "buildCloudStack E cwd proj version b vars =
     (let cloudstackConfigFile = path_Join [proj, packerCloudStackConfigFile] in
     bind (airGapEnvVars E b version) (\<lambda>air.
     bind (if Os b = RedHat then bind (deref (CloudstackConfigOf b)) (\<lambda>c. bind (proxiedRhel (cs_Proxy c) (cs_Rhel c)) (\<lambda>r. ret (Some (c\<lparr>cs_Rhel := r\<rparr>))))
           else ret (CloudstackConfigOf b)) (\<lambda>cfg0.
     bind (deref cfg0) (\<lambda>c0.
     let c = c0\<lparr>AnsibleUserVars := ''provider=cloudstack''\<rparr> in
     bind (or_fatal (os_WriteFile E cloudstackConfigFile (marshal_struct CloudstackConfig_fields c) 420)) (\<lambda>_.
     let (glob, buildCommand, extra) = (if Os b = RedHat
           then (''output/rhel-*/rhel-*'', makeTarget proj (''cloudstack-redhat-'' @ OsVersion b), rhelEnvVars (cs_Rhel c))
           else ([], [], [])) in
     bind (or_fatal (executeMakeBuildCommand E buildCommand (vars @ air @ extra @ [''PACKER_TYPE_VAR_FILES='' @ cloudstackConfigFile]))) (\<lambda>_.
     ret (glob, imageName cwd b ''.qcow2'')))))))"

definition buildAMI ::
  "'z env_scheme \<Rightarrow> string \<Rightarrow> string \<Rightarrow> BuildOptions \<Rightarrow> string list \<Rightarrow> (world, string \<times> string) prog" where
  "buildAMI E cwd proj b vars =
     bind (case AMIConfigOf b of
         None \<Rightarrow> ret ()
       | Some c \<Rightarrow>
           (let c' = (if ManifestOutput c = DefaultAMIManifestOutput then c\<lparr>ManifestOutput := path_Join [cwd, ManifestOutput c]\<rparr> else c)
            in or_fatal (os_WriteFile E (path_Join [proj, packerAMIConfigFile]) (marshal_struct AMIConfig_fields c') 420))) (\<lambda>_.
     bind (or_fatal (executeMakeBuildCommand E (makeTarget proj (''ami-ubuntu-'' @ OsVersion b)) vars)) (\<lambda>_.
     ret ([], [])))"

definition buildFor ::
  "'z env_scheme \<Rightarrow> string \<Rightarrow> string \<Rightarrow> string \<Rightarrow> BuildOptions \<Rightarrow> string list \<Rightarrow> (world, string \<times> string) prog" where
  "buildFor E cwd proj version b vars =
     (if Hypervisor b = VSphere then buildVSphere E cwd proj version b vars
      else if Hypervisor b = Baremetal then buildBaremetal E cwd proj version b vars
      else if Hypervisor b = Nutanix then buildNutanix E cwd proj version b vars
      else if Hypervisor b = CloudStack then buildCloudStack E cwd proj version b vars
      else if Hypervisor b = AMI then buildAMI E cwd proj b vars
      else ret ([], []))"

section \<open>BuildImage\<close>

definition prepAirGapped :: "'z ib_env_scheme \<Rightarrow> BuildOptions \<Rightarrow> (world, unit) prog" where
  "prepAirGapped E b =
     do_if (AirGapped b) (bind (airGappedConfig b) (\<lambda>a.
       or_fatal (extractAndPrepManifestTarball E (ManifestTarball b)
         (case a of None \<Rightarrow> [] | Some c \<Rightarrow> PrivateServerEksDDomainUrl c)
         (case a of None \<Rightarrow> [] | Some c \<Rightarrow> PrivateServerEksADomainUrl c))))"

definition moveOutput :: "'z env_scheme \<Rightarrow> string \<Rightarrow> string \<Rightarrow> string \<Rightarrow> (world, unit) prog" where
  "moveOutput E upstream glob out =
     do_if (out \<noteq> []) (\<lambda>w.
       bind (index (Glob (path_Join [upstream, glob]) w) 0) (\<lambda>image. or_fatal (os_Rename E image out)) w)"

definition BuildImage :: "'z ib_env_scheme \<Rightarrow> BuildOptions \<Rightarrow> File list \<Rightarrow> (world, unit) prog" where
  "BuildImage E b pkg =
     bind (or_fatal (lift_sum (getwd E))) (\<lambda>cwd.
     bind (prepAirGapped E b) (\<lambda>_.
     let buildToolingRepoPath = getBuildToolingPath E cwd in
     bind (or_fatal (prepBuildToolingRepo E b buildToolingRepoPath)) (\<lambda>(_, detectedEksaVersion).
     bind (GetSupportedReleaseBranches E) (\<lambda>supported.
     bind (if \<not> SliceContains supported (ReleaseChannel b) then
             bind (cleanup E buildToolingRepoPath) (\<lambda>_. log_fatal ''release-channel should be one of the supported ones'')
           else ret ()) (\<lambda>_.
     let proj = path_Join [buildToolingRepoPath, imageBuilderProjectDirectory];
         upstream = path_Join [proj, imageBuilderCAPIDirectory] in
     bind (or_fatal (getEksAReleasesManifestURL E (AirGapped b))) (\<lambda>manifestUrl.
     bind (prepareFiles E proj b pkg) (\<lambda>fileVars.
     bind (buildFor E cwd proj detectedEksaVersion b (baseEnvVars b detectedEksaVersion manifestUrl @ fileVars)) (\<lambda>(glob, out).
     bind (moveOutput E upstream glob out) (\<lambda>_.
     cleanup E buildToolingRepoPath)))))))))"

section \<open>Commands\<close>

definition buildCmd :: "'z ib_env_scheme \<Rightarrow> build_flags \<Rightarrow> BuildOptions \<Rightarrow> (world, unit) prog" where
  "buildCmd E fl bo =
     bind (or_fatal (ValidateInputs E fl bo DefaultAMIAdditionalFiles)) (\<lambda>(bo', pkg). BuildImage E bo' pkg)"

definition downloadArtifactsCmd :: "'z ib_env_scheme \<Rightarrow> BuildOptions \<Rightarrow> (world, unit) prog" where
  "downloadArtifactsCmd E bo = or_fatal (DownloadArtifacts E bo)"

definition downloadManifestsCmd :: "'z ib_env_scheme \<Rightarrow> BuildOptions \<Rightarrow> (world, unit) prog" where
  "downloadManifestsCmd E bo = or_fatal (DownloadManifests E bo)"

definition printVersion :: "string \<Rightarrow> (world, unit) prog" where
  "printVersion version = print (version @ [CHR 0x0A])"

section \<open>Which make targets are run\<close>

definition build_targets :: "string list" where
  "build_targets =
     [''ova-ubuntu-2004'', ''ova-ubuntu-2204'', ''ova-ubuntu-2004-efi'', ''ova-ubuntu-2204-efi'', ''ova-redhat-8'',
      ''raw-ubuntu-2004'', ''raw-ubuntu-2204'', ''raw-redhat-8'', ''raw-redhat-9'', ''raw-redhat-9-efi'',
      ''nutanix-ubuntu-2004'', ''nutanix-ubuntu-2204'', ''nutanix-redhat-8'', ''nutanix-redhat-9'',
      ''cloudstack-redhat-8'', ''cloudstack-redhat-9'', ''ami-ubuntu-2004'', ''ami-ubuntu-2204'']"

definition project_dir :: "'z env_scheme \<Rightarrow> string \<Rightarrow> string" where
  "project_dir E cwd = path_Join [getBuildToolingPath E cwd, imageBuilderProjectDirectory]"

fun make_only :: "'z env_scheme \<Rightarrow> event \<Rightarrow> bool" where
  "make_only E (ExecEnv vars argv) = (\<exists>cwd. getwd E = Inr cwd \<and>
     (\<exists>t \<in> set build_targets. argv = [''bash'', ''-c'', makeTarget (project_dir E cwd) t]))"
| "make_only E _ = True"

declare emits_case [emits_intro] emits_Pair [emits_intro]

lemma make_only_utils [emits_intro]:
  "emits (make_only E) (execCommandWithStreamOutput F cmd)" "emits (make_only E) (cleanup F d)"
  "emits (make_only E) (get_cwd F)" "emits (make_only E) (execCommand F cmd)"
  "emits (make_only E) (readFileFromURL F url)" "emits (make_only E) (airGappedConfig b)"
  unfolding execCommandWithStreamOutput_def cleanup_def get_cwd_def execCommand_def readFileFromURL_def airGappedConfig_def
  by (auto intro!: emits_intro)

lemma make_only_repo [emits_intro]:
  "emits (make_only E) (getRepoRoot F)" "emits (make_only E) (getManifestRoot F)"
  "emits (make_only E) (cloneRepo F u d)" "emits (make_only E) (checkoutRepo F u d)"
  "emits (make_only E) (GetSupportedReleaseBranches F)"
  "emits (make_only E) (getEksAReleasesManifestURL G air)" "emits (make_only E) (getBuildToolingRepoUrl b)"
  unfolding getRepoRoot_def getManifestRoot_def cloneRepo_def checkoutRepo_def GetSupportedReleaseBranches_def
    getEksAReleasesManifestURL_def getBuildToolingRepoUrl_def Let_def
  by (auto intro!: emits_intro)

lemma make_only_bundle [emits_intro]:
  "emits (make_only E) (getBundle G b)" "emits (make_only E) (prepBuildToolingRepo G b d)"
  "emits (make_only E) (getAirGapCmdEnvVars F u v r)" "emits (make_only E) (replaceStringInFile F p s t)"
  unfolding getBundle_def prepBuildToolingRepo_def getAirGapCmdEnvVars_def replaceStringInFile_def Let_def
    readReleaseManifest_def readBundleManifest_def
  by (auto intro!: emits_intro)

lemma make_only_files [emits_intro]:
  "emits (make_only E) (extractAndPrepManifestTarball G t d a)" "emits (make_only E) (prepareFiles G proj b pkg)"
  "emits (make_only E) (airGapEnvVars F b v)" "emits (make_only E) (proxiedRhel px r)"
  unfolding extractAndPrepManifestTarball_def extractTarball_def extractEntry_def prepManifestFile_def prepareFiles_def
    airGapEnvVars_def proxiedRhel_def Let_def
  by (auto intro!: emits_intro)

lemma make_only_move [emits_intro]: "emits (make_only E) (moveOutput F u g out)"
  unfolding moveOutput_def
  by (rule emits_do_if, rule emits_reader [where f = "\<lambda>v. bind (index (Glob (path_Join [u, g]) v) 0) (\<lambda>image. or_fatal (os_Rename F image out))"])
    (auto intro!: emits_intro)

lemma make_only_make:
  "getwd E = Inr cwd \<Longrightarrow> t \<in> set build_targets \<Longrightarrow>
     emits (make_only E) (executeMakeBuildCommand F (makeTarget (project_dir E cwd) t) vars)"
  unfolding executeMakeBuildCommand_def by (auto intro!: emits_intro)

lemma valid_targets:
  assumes "valid_platform os ver hyp fw"
  shows "hyp = VSphere \<Longrightarrow> os = Ubuntu \<Longrightarrow> ''ova-ubuntu-'' @ ver @ (if fw = EFI then ''-efi'' else []) \<in> set build_targets"
    "hyp = VSphere \<Longrightarrow> os = RedHat \<Longrightarrow> ''ova-redhat-'' @ ver \<in> set build_targets"
    "hyp = Baremetal \<Longrightarrow> os = Ubuntu \<Longrightarrow> ''raw-ubuntu-'' @ ver \<in> set build_targets"
    "hyp = Baremetal \<Longrightarrow> os = RedHat \<Longrightarrow> ''raw-redhat-'' @ ver @ (if fw = EFI then ''-efi'' else []) \<in> set build_targets"
    "hyp = Nutanix \<Longrightarrow> os = Ubuntu \<Longrightarrow> ''nutanix-ubuntu-'' @ ver \<in> set build_targets"
    "hyp = Nutanix \<Longrightarrow> os = RedHat \<Longrightarrow> ''nutanix-redhat-'' @ ver \<in> set build_targets"
    "hyp = CloudStack \<Longrightarrow> os = RedHat \<and> ''cloudstack-redhat-'' @ ver \<in> set build_targets"
    "hyp = AMI \<Longrightarrow> ''ami-ubuntu-'' @ ver \<in> set build_targets"
    "os = Ubuntu \<or> os = RedHat"
  using assms unfolding valid_platform_def by (auto simp: build_targets_def ib_names)

lemma make_only_build:
  assumes "getwd E = Inr cwd" "valid_platform (Os b) (OsVersion b) (Hypervisor b) (Firmware b)"
  shows "emits (make_only E) (buildFor F cwd (project_dir E cwd) v b vars)"
proof -
  note t = valid_targets [OF assms(2)] and m = make_only_make [OF assms(1)]
  note s = ib_distinct(1,2)
  have "emits (make_only E) (buildVSphere F cwd (project_dir E cwd) v b vars)" if "Hypervisor b = VSphere"
    using t(9) unfolding buildVSphere_def
    by (elim disjE) (use t(1,2) that in \<open>auto intro!: emits_intro m simp: s bind_assoc split del: if_split\<close>)
  moreover have "emits (make_only E) (buildBaremetal F cwd (project_dir E cwd) v b vars)" if "Hypervisor b = Baremetal"
    using t(9) unfolding buildBaremetal_def Let_def
    by (elim disjE) (use t(3,4) that in \<open>auto intro!: emits_intro m simp: s bind_assoc split del: if_split\<close>)
  moreover have "emits (make_only E) (buildNutanix F cwd (project_dir E cwd) v b vars)" if "Hypervisor b = Nutanix"
    using t(9) unfolding buildNutanix_def Let_def
    by (elim disjE) (use t(5,6) that in \<open>auto intro!: emits_intro m simp: s bind_assoc split del: if_split\<close>)
  moreover have "emits (make_only E) (buildCloudStack F cwd (project_dir E cwd) v b vars)" if "Hypervisor b = CloudStack"
    using t(7) that unfolding buildCloudStack_def Let_def
    by (auto intro!: emits_intro m simp: s bind_assoc split del: if_split)
  moreover have "emits (make_only E) (buildAMI F cwd (project_dir E cwd) b vars)" if "Hypervisor b = AMI"
    using t(8) that unfolding buildAMI_def Let_def by (auto intro!: emits_intro m)
  ultimately show ?thesis unfolding buildFor_def by (auto intro: emits_intro)
qed

lemma make_only_BuildImage:
  assumes "valid_platform (Os b) (OsVersion b) (Hypervisor b) (Firmware b)"
  shows "emits (make_only E) (BuildImage E b pkg)"
proof (cases "getwd E")
  case (Inr cwd)
  note m = make_only_build [OF Inr assms, unfolded project_dir_def]
  show ?thesis unfolding BuildImage_def prepAirGapped_def Inr Let_def or_fatal_lift(1) bind_ret
    by (auto intro!: emits_intro m)
next
  case (Inl e)
  show ?thesis unfolding BuildImage_def
    by (rule emits_bind_val) (auto simp: or_fatal_lift Inl intro!: emits_intro)
qed

lemma make_only_validate [emits_intro]:
  "emits (make_only E) (fatal_on e)" "emits (make_only E) (return_on e)" "emits (make_only E) (checkAirGapped b)"
  by (auto simp: fatal_on_def return_on_def checkAirGapped_def intro!: emits_intro)

lemma make_only_load [emits_intro]:
  "emits (make_only E) (loadConfig F p b pkg)" "emits (make_only E) (loadFilesConfig F p b pkg)"
  unfolding loadConfig_def loadVsphere_def loadBaremetal_def loadNutanix_def loadCloudstack_def loadAMI_def
    loadFilesConfig_def applyFilesConfig_def Let_def
  by (auto intro!: emits_intro)

lemma make_only_ValidateInputs: "emits (make_only E) (ValidateInputs F fl b pkg)"
  unfolding ValidateInputs_def validateOptions_def Let_def by (auto intro!: emits_intro)

text \<open>
  Whatever flags, configuration files and surroundings it is given, the \<open>build\<close> command never starts a
  \<open>make\<close> target other than one of the eighteen the image builder supports, in the image builder's
  project directory.
\<close>

lemma make_only_buildCmd:
  assumes "BaremetalConfigOf bo = None"
  shows "emits (make_only E) (buildCmd E fl bo)"
proof -
  have "emits (make_only E) (or_fatal (ValidateInputs E fl bo DefaultAMIAdditionalFiles))"
    by (intro emits_intro make_only_ValidateInputs)
  moreover have "emits (make_only E) (BuildImage E (fst r) (snd r))"
    if "or_fatal (ValidateInputs E fl bo DefaultAMIAdditionalFiles) w = (Ok r, w')" for r w w'
  proof -
    have "ValidateInputs E fl bo DefaultAMIAdditionalFiles w = (Ok (fst r, snd r), w')"
      using that by (simp add: or_fatal_lift)
    then have "valid_options (fst r)" using ValidateInputs_valid assms by blast
    then show ?thesis by (auto simp: valid_options_def intro: make_only_BuildImage)
  qed
  ultimately show ?thesis unfolding buildCmd_def case_prod_beta by (rule emits_bind_val)
qed

text \<open>A machine on which a raw Ubuntu build succeeds: the checkout and the built image are there.\<close>

definition builder_machine :: ib_env where
  "builder_machine = ib_quiet
     \<lparr>runcmd := (\<lambda>w e. (''/work/eks-anywhere-build-tooling'', None, fs w)), httpget := (\<lambda>w u. (0, HttpReply 200 (Inr ''yaml'')))\<rparr>"

definition builder_world :: world where
  "builder_world = \<lparr>fs =
     [(''/work/eks-anywhere-build-tooling/release/SUPPORTED_RELEASE_BRANCHES'', node.File ''1-27'' 420),
      (''/work/eks-anywhere-build-tooling/projects/kubernetes-sigs/image-builder/image-builder/images/capi/output/u.gz'', node.File ''IMG'' 420)], trace = [], clock = 0\<rparr>"

definition raw_build :: BuildOptions where
  "raw_build = zero_BuildOptions\<lparr>Os := ''ubuntu'', Hypervisor := ''baremetal'', ReleaseChannel := ''1-27''\<rparr>"

definition make_events :: "world \<Rightarrow> string list list" where
  "make_events w = List.map_filter (\<lambda>e. case e of ExecEnv vars argv \<Rightarrow> Some argv | _ \<Rightarrow> None) (trace w)"

lemma raw_build_run:
  "map_prod id (\<lambda>w. (fs w, make_events w)) (buildCmd builder_machine no_flags raw_build builder_world) =
     (Ok (), [(''/work/ubuntu-2004-kube-1-27.gz'', node.File ''IMG'' 420)],
      [[''bash'', ''-c'', ''make -C /work/eks-anywhere-build-tooling/projects/kubernetes-sigs/image-builder local-build-raw-ubuntu-2004'']])"
  by code_simp

section \<open>What a build leaves behind\<close>

lemma BuildImage_last:
  assumes "BuildImage E b pkg w = (Ok (), w')" "getwd E = Inr cwd"
  obtains w1 where "cleanup E (getBuildToolingPath E cwd) w1 = (Ok (), w')"
  using assms by (auto simp: BuildImage_def Let_def bind_Ok_iff or_fatal_lift split: prod.splits if_splits)

text \<open>
  C25.  A build that succeeds outside of CodeBuild leaves nothing of the build tooling checkout behind.
\<close>

theorem build_cleans_up:
  assumes "buildCmd E fl bo w = (Ok (), w')" "getwd E = Inr cwd" "codebuild E \<noteq> ''true''"
    and "below (path_Join [cwd, ''eks-anywhere-build-tooling'']) p"
  shows "fs_get (fs w') p = None"
proof -
  obtain b pkg w0 where "BuildImage E b pkg w0 = (Ok (), w')"
    using assms(1) by (auto simp: buildCmd_def bind_Ok_iff)
  then obtain w1 where "cleanup E (path_Join [cwd, ''eks-anywhere-build-tooling'']) w1 = (Ok (), w')"
    using assms(2,3) by (auto simp: getBuildToolingPath_def elim: BuildImage_last)
  then show ?thesis using assms(3,4)
    by (auto simp: cleanup_def or_fatal_lift os_RemoveAll_def with_io_def fs_get_del_tree split: option.splits if_splits)
qed

theorem build_cleans_up_witness:
  "fst (buildCmd builder_machine no_flags raw_build builder_world) = Ok () \<and>
   fs_get (fs builder_world) ''/work/eks-anywhere-build-tooling/release/SUPPORTED_RELEASE_BRANCHES'' \<noteq> None \<and>
   fs_get (fs (snd (buildCmd builder_machine no_flags raw_build builder_world)))
     ''/work/eks-anywhere-build-tooling/release/SUPPORTED_RELEASE_BRANCHES'' = None"
proof -
  obtain w' where r: "buildCmd builder_machine no_flags raw_build builder_world = (Ok (), w')"
    using raw_build_run by (cases "buildCmd builder_machine no_flags raw_build builder_world") simp
  have e: "getwd builder_machine = Inr ''/work''" "codebuild builder_machine \<noteq> ''true''"
    "below (path_Join [''/work'', ''eks-anywhere-build-tooling'']) ''/work/eks-anywhere-build-tooling/release/SUPPORTED_RELEASE_BRANCHES''"
    by code_simp+
  show ?thesis using build_cleans_up [OF r e] r by (simp add: builder_world_def fs_get_def)
qed

section \<open>Air-gapped raw images\<close>

text \<open>
  C36.  An air-gapped raw Ubuntu build needs no \<open>--baremetal-config\<close> to pass the validation, and then
  panics on the missing configuration before anything is done.
\<close>

theorem airgapped_raw_panics:
  assumes "Os bo = Ubuntu" "OsVersion bo \<in> {[], ''20.04'', ''22.04''}" "Hypervisor bo = Baremetal" "Firmware bo \<in> {[], EFI}"
    and "0 \<le> AnsibleVerbosity bo" "AnsibleVerbosity bo \<le> 6" "AirGapped bo" "ManifestTarball bo \<noteq> []"
    and "BaremetalConfigOf bo = None" "baremetalConfigFile fl = []" "additionalFilesConfigFile fl = []" "getwd E = Inr cwd"
  shows "buildCmd E fl bo w = (Panic ''nil pointer dereference'', w)"
proof -
  have acc: "accepted_options bo"
    using assms(1-8) ib_distinct(6) unfolding accepted_options_def accepted_platform_def defaultOsVersion_def
    by (elim insertE emptyE) auto
  let ?b = "normalise (defaultFirmware (defaultOsVersion bo))"
  note p = platform_of_normalised [OF acc]
  have n: "BaremetalConfigOf ?b = None"
    using assms(9) by (simp add: normalise_def Let_def defaultFirmware_def defaultOsVersion_def)
  have v: "ValidateInputs E fl bo DefaultAMIAdditionalFiles w = (Ok (?b, DefaultAMIAdditionalFiles), w)"
    unfolding ValidateInputs_def
    by (rule bind_run_Ok [THEN trans], simp only: validateOptions_run acc if_True)
      (simp add: loadConfig_def loadFilesConfig_def selectConfigPath_def p assms(1,3,10,11) hypervisor_simps ib_distinct)
  have "prepAirGapped E ?b = panic ''nil pointer dereference''"
    using n p assms(3,7) by (simp add: prepAirGapped_def airGappedConfig_def hypervisor_simps ib_distinct)
  then have "BuildImage E ?b DefaultAMIAdditionalFiles w = (Panic ''nil pointer dereference'', w)"
    unfolding BuildImage_def assms(12) or_fatal_lift(1) by simp
  moreover have "or_fatal (ValidateInputs E fl bo DefaultAMIAdditionalFiles) w = (Ok (?b, DefaultAMIAdditionalFiles), w)"
    using v by (simp only: or_fatal_lift)
  ultimately show ?thesis unfolding buildCmd_def bind_def by (simp only: prod.case outcome.case)
qed

theorem airgapped_raw_panics_witness:
  "buildCmd builder_machine no_flags (raw_build\<lparr>AirGapped := True, ManifestTarball := ''m.tar''\<rparr>) builder_world =
     (Panic ''nil pointer dereference'', builder_world)"
  by (rule airgapped_raw_panics [where cwd = "''/work''"])
    (simp_all add: raw_build_def zero_BuildOptions_def no_flags_def builder_machine_def ib_quiet_def ib_names)

end
