(* ===== verification/Go_Cobra.thy ===== *)
theory Go_Cobra
  imports Go_World
begin

text \<open>
  Commands and flags as the programs register them with \<open>cobra\<close> and \<open>pflag\<close>.  The two packages are not
  part of the sources: how a command line is read is a parameter, a function from the registered
  commands and the arguments to an \<open>invocation\<close>.  What the sources bind is modelled: a flag has a name,
  a default and the variable it is bound to, given by its update.  Registering a flag stores its
  default; an invocation then stores the values that were given, in their order.
\<close>

datatype flag_value = StrValue string | BoolValue bool | IntValue int

datatype 'o flag =
    StringVar string string "string \<Rightarrow> 'o \<Rightarrow> 'o"
  | BoolVar string bool "bool \<Rightarrow> 'o \<Rightarrow> 'o"
  | IntVar string int "int \<Rightarrow> 'o \<Rightarrow> 'o"

fun flag_name :: "'o flag \<Rightarrow> string" where
  "flag_name (StringVar n _ _) = n"
| "flag_name (BoolVar n _ _) = n"
| "flag_name (IntVar n _ _) = n"

fun set_default :: "'o flag \<Rightarrow> 'o \<Rightarrow> 'o" where
  "set_default (StringVar _ d set_to) vars = set_to d vars"
| "set_default (BoolVar _ d set_to) vars = set_to d vars"
| "set_default (IntVar _ d set_to) vars = set_to d vars"

fun set_flag :: "'o flag \<Rightarrow> flag_value \<Rightarrow> 'o \<Rightarrow> 'o" where
  "set_flag (StringVar _ _ set_to) (StrValue v) vars = set_to v vars"
| "set_flag (BoolVar _ _ set_to) (BoolValue v) vars = set_to v vars"
| "set_flag (IntVar _ _ set_to) (IntValue v) vars = set_to v vars"
| "set_flag _ _ vars = vars"

definition register :: "'o flag list \<Rightarrow> 'o \<Rightarrow> 'o" where
  "register flags vars = foldl (\<lambda>vs f. set_default f vs) vars flags"

definition set_given :: "'o flag list \<Rightarrow> 'o \<Rightarrow> string \<times> flag_value \<Rightarrow> 'o" where
  "set_given flags vars g = (case find (\<lambda>f. flag_name f = fst g) flags of None \<Rightarrow> vars | Some f \<Rightarrow> set_flag f (snd g) vars)"

definition set_flags :: "'o flag list \<Rightarrow> (string \<times> flag_value) list \<Rightarrow> 'o \<Rightarrow> 'o" where
  "set_flags flags given vars = foldl (set_given flags) vars given"

text \<open>\<open>MarkFlagRequired\<close> fails for a flag that was not registered.\<close>

definition MarkFlagRequired :: "'o flag list \<Rightarrow> string \<Rightarrow> (world, unit) prog" where
  "MarkFlagRequired flags n = (if n \<in> set (map flag_name flags) then ret () else fail (''no such flag -'' @ n))"

record 'o command =
  cmd_path :: "string list"
  cmd_flags :: "'o flag list"
  cmd_required :: "string list"

text \<open>
  A command line is refused with an error, answered without running a command of the program (help),
  or runs the command with the path below the root, with the flags that were given.
\<close>

datatype invocation = Usage string | Help | Invoke "string list" "(string \<times> flag_value) list"

type_synonym 'o cobra = "'o command list \<Rightarrow> string list \<Rightarrow> invocation"

definition flags_of :: "'o command list \<Rightarrow> string list \<Rightarrow> 'o flag list" where
  "flags_of cmds p = (case find (\<lambda>c. cmd_path c = p) cmds of None \<Rightarrow> [] | Some c \<Rightarrow> cmd_flags c)"

definition mark_required :: "'o command list \<Rightarrow> (world, unit) prog" where
  "mark_required cmds = for_each cmds (\<lambda>c. for_each (cmd_required c) (\<lambda>n. or_fatal (MarkFlagRequired (cmd_flags c) n)))"

text \<open>\<open>rootCmd.Execute\<close>, with what the commands do, and the \<open>main\<close> that both programs have.\<close>

definition cobra_Execute ::
  "'o cobra \<Rightarrow> 'o command list \<Rightarrow> (string list \<Rightarrow> 'o \<Rightarrow> (world, unit) prog) \<Rightarrow> 'o \<Rightarrow> string list \<Rightarrow> (world, unit) prog" where
  "cobra_Execute cobra cmds run_cmd vars args = (case cobra cmds args of
       Usage e \<Rightarrow> fail e
     | Help \<Rightarrow> ret ()
     | Invoke p given \<Rightarrow> run_cmd p (set_flags (flags_of cmds p) given vars))"

definition exit_main :: "(world, unit) prog \<Rightarrow> (world, unit) prog" where
  "exit_main execute = bind (attempt execute) (\<lambda>r. case r of Inr _ \<Rightarrow> exit_with 0 | Inl _ \<Rightarrow> exit_with (-1))"

section \<open>Lemmas\<close>

lemma set_flags_keeps:
  assumes "\<And>f v vs. f \<in> set flags \<Longrightarrow> P vs \<Longrightarrow> P (set_flag f v vs)" and "P vars"
  shows "P (set_flags flags given vars)"
  using assms(2)
proof (induction given arbitrary: vars)
  case (Cons g given)
  have "P (set_given flags vars g)"
    using Cons.prems assms(1) by (auto simp: set_given_def find_Some_iff in_set_conv_nth split: option.splits)
  then show ?case using Cons.IH by (simp add: set_flags_def)
qed (simp add: set_flags_def)

lemma emits_exit_main [emits_intro]: "emits A m \<Longrightarrow> emits A (exit_main m)"
  unfolding exit_main_def by (auto intro!: emits_intro split: sum.splits)

lemma emits_cobra_Execute:
  assumes "\<And>p given. cobra cmds args = Invoke p given \<Longrightarrow> emits A (run_cmd p (set_flags (flags_of cmds p) given vars))"
  shows "emits A (cobra_Execute cobra cmds run_cmd vars args)"
  using assms unfolding cobra_Execute_def by (auto intro!: emits_intro split: invocation.splits)

text \<open>The process always ends by an exit or a panic, and with code -1 exactly when an error came back.\<close>

lemma exit_main_cases:
  "fst (exit_main m w) = (case fst (m w) of Ok _ \<Rightarrow> Exit 0 | Err _ \<Rightarrow> Exit (-1) | Exit c \<Rightarrow> Exit c | Panic p \<Rightarrow> Panic p)"
  by (auto simp: exit_main_def attempt_def bind_def split: prod.splits outcome.splits)

end
