(* ===== verification/IB_Main.thy ===== *)
theory IB_Main
  imports IB_Build Go_Cobra
begin

text \<open>
  The command line of the image builder: the \<open>init\<close> functions of \<open>cmd\<close>, which bind flags to the build
  options, \<open>Execute\<close>, and \<open>main\<close>.  The lemmas follow a whole run of the program: which \<open>make\<close> target it
  starts for the options it was given, and what its exit code says.
\<close>

section \<open>Commands and flags\<close>

text \<open>The package variables: the build options and the names of the configuration files.\<close>

type_synonym ib_vars = "BuildOptions \<times> build_flags"

definition ib_zero :: ib_vars where
  "ib_zero =
     (\<lparr>Os = [], OsVersion = [], Arch = [], Hypervisor = [], VsphereConfigOf = None, BaremetalConfigOf = None,
       NutanixConfigOf = None, CloudstackConfigOf = None, AMIConfigOf = None, FilesConfig = None, ReleaseChannel = [],
       Force = False, AirGapped = False, ManifestTarball = [], Firmware = [], AnsibleVerbosity = 0, EKSAReleaseVersion = []\<rparr>,
      \<lparr>vSphereConfigFile = [], baremetalConfigFile = [], nutanixConfigFile = [], cloudstackConfigFile = [],
       amiConfigFile = [], additionalFilesConfigFile = []\<rparr>)"

definition build_command :: "ib_vars command" where
  "build_command = \<lparr>cmd_path = [''build''],
     cmd_flags =
       [StringVar ''os'' [] (\<lambda>v. apfst (Os_update (\<lambda>_. v))),
        StringVar ''os-version'' [] (\<lambda>v. apfst (OsVersion_update (\<lambda>_. v))),
        StringVar ''hypervisor'' [] (\<lambda>v. apfst (Hypervisor_update (\<lambda>_. v))),
        StringVar ''baremetal-config'' [] (\<lambda>v. apsnd (baremetalConfigFile_update (\<lambda>_. v))),
        StringVar ''vsphere-config'' [] (\<lambda>v. apsnd (vSphereConfigFile_update (\<lambda>_. v))),
        StringVar ''nutanix-config'' [] (\<lambda>v. apsnd (nutanixConfigFile_update (\<lambda>_. v))),
        StringVar ''cloudstack-config'' [] (\<lambda>v. apsnd (cloudstackConfigFile_update (\<lambda>_. v))),
        StringVar ''ami-config'' [] (\<lambda>v. apsnd (amiConfigFile_update (\<lambda>_. v))),
        StringVar ''files-config'' [] (\<lambda>v. apsnd (additionalFilesConfigFile_update (\<lambda>_. v))),
        StringVar ''release-channel'' ''1-27'' (\<lambda>v. apfst (ReleaseChannel_update (\<lambda>_. v))),
        BoolVar ''force'' False (\<lambda>v. apfst (Force_update (\<lambda>_. v))),
        StringVar ''firmware'' [] (\<lambda>v. apfst (Firmware_update (\<lambda>_. v))),
        StringVar ''eksa-release'' [] (\<lambda>v. apfst (EKSAReleaseVersion_update (\<lambda>_. v))),
        StringVar ''manifest-tarball'' [] (\<lambda>v. apfst (ManifestTarball_update (\<lambda>_. v))),
        IntVar ''ansible-verbosity'' 0 (\<lambda>v. apfst (AnsibleVerbosity_update (\<lambda>_. v))),
        BoolVar ''air-gapped'' False (\<lambda>v. apfst (AirGapped_update (\<lambda>_. v)))],
     cmd_required = [''os'', ''hypervisor'', ''release-channel'']\<rparr>"

definition artifacts_command :: "ib_vars command" where
  "artifacts_command = \<lparr>cmd_path = [''download'', ''artifacts''],
     cmd_flags =
       [BoolVar ''force'' False (\<lambda>v. apfst (Force_update (\<lambda>_. v))),
        StringVar ''release-channel'' ''1-27'' (\<lambda>v. apfst (ReleaseChannel_update (\<lambda>_. v))),
        StringVar ''eksa-release'' [] (\<lambda>v. apfst (EKSAReleaseVersion_update (\<lambda>_. v)))],
     cmd_required = [''eksa-release'', ''release-channel'']\<rparr>"

definition manifests_command :: "ib_vars command" where
  "manifests_command = \<lparr>cmd_path = [''download'', ''manifests''],
     cmd_flags = [BoolVar ''force'' False (\<lambda>v. apfst (Force_update (\<lambda>_. v)))], cmd_required = []\<rparr>"

definition version_command :: "ib_vars command" where
  "version_command = \<lparr>cmd_path = [''version''], cmd_flags = [], cmd_required = []\<rparr>"

definition ib_commands :: "ib_vars command list" where
  "ib_commands = [build_command, artifacts_command, manifests_command, version_command]"

text \<open>The variables after all flags were registered.\<close>

definition ib_defaults :: ib_vars where
  "ib_defaults = foldl (\<lambda>vars c. register (cmd_flags c) vars) ib_zero ib_commands"

section \<open>main\<close>

definition ib_run :: "'z ib_env_scheme \<Rightarrow> string \<Rightarrow> string list \<Rightarrow> ib_vars \<Rightarrow> (world, unit) prog" where
  "ib_run E version path vars =
     (if path = [''build''] then buildCmd E (snd vars) (fst vars)
      else if path = [''download'', ''artifacts''] then downloadArtifactsCmd E (fst vars)
      else if path = [''download'', ''manifests''] then downloadManifestsCmd E (fst vars)
      else if path = [''version''] then printVersion version
      else ret ())"

definition ib_Execute :: "'z ib_env_scheme \<Rightarrow> string \<Rightarrow> ib_vars cobra \<Rightarrow> string list \<Rightarrow> (world, unit) prog" where
  "ib_Execute E version cobra args = cobra_Execute cobra ib_commands (ib_run E version) ib_defaults args"

definition ib_main :: "'z ib_env_scheme \<Rightarrow> string \<Rightarrow> ib_vars cobra \<Rightarrow> string list \<Rightarrow> (world, unit) prog" where
  "ib_main E version cobra args = bind (mark_required ib_commands) (\<lambda>_. exit_main (ib_Execute E version cobra args))"

section \<open>The options of a command line\<close>

lemma ib_required: "mark_required ib_commands = ret ()"
  by (simp add: mark_required_def ib_commands_def build_command_def artifacts_command_def manifests_command_def version_command_def
      MarkFlagRequired_def or_fatal_lift(1) [where a = "()", simplified] fun_eq_iff)

lemma ib_defaults_eq: "ib_defaults = (fst ib_zero\<lparr>ReleaseChannel := ''1-27''\<rparr>, snd ib_zero)"
  by (simp add: ib_defaults_def ib_commands_def register_def build_command_def artifacts_command_def manifests_command_def
      version_command_def ib_zero_def)

text \<open>No flag is bound to a configuration; these are only read from files.\<close>

lemma ib_no_config:
  "BaremetalConfigOf (fst (set_flags (flags_of ib_commands p) given ib_defaults)) = None"
proof (rule set_flags_keeps [where P = "\<lambda>vars. BaremetalConfigOf (fst vars) = None"])
  show "BaremetalConfigOf (fst ib_defaults) = None" by (simp add: ib_defaults_eq ib_zero_def)
  fix f v and vs :: ib_vars
  assume "f \<in> set (flags_of ib_commands p)" "BaremetalConfigOf (fst vs) = None"
  then show "BaremetalConfigOf (fst (set_flag f v vs)) = None"
    by (cases v) (auto simp: flags_of_def ib_commands_def build_command_def artifacts_command_def manifests_command_def
        version_command_def split: if_splits)
qed

section \<open>Which make targets a run starts\<close>

declare emits_stat_case [emits_intro]

lemma make_only_downloadFile [emits_intro]: "emits (make_only E) (downloadFile F p u)"
  unfolding downloadFile_def by (auto intro!: emits_intro)

lemma make_only_artifact [emits_intro]: "emits (make_only E) (downloadArtifact F p u)"
  unfolding downloadArtifact_def by (auto intro!: emits_intro)

lemma make_only_tarball [emits_intro]: "emits (make_only E) (createTarball G n d)"
proof -
  have stored: "emits (make_only E) (bind (attempt (os_WriteFile G n (mktar G es) 438)) (\<lambda>r. case r of Inl e \<Rightarrow> panic e | Inr _ \<Rightarrow> ret ()))" for es
    by (auto intro!: emits_intro split: sum.splits)
  have "emits (make_only E) (\<lambda>w. case tar_walk G w (walk_files (fs w) d) of (es, missed) \<Rightarrow>
      if missed then panic ''archive/tar: missed writing bytes'' w
      else bind (attempt (os_WriteFile G n (mktar G es) 438)) (\<lambda>r. case r of Inl e \<Rightarrow> panic e | Inr _ \<Rightarrow> ret ()) w)"
    using stored unfolding emits_def by (auto simp: panic_def split: prod.splits)
  then show ?thesis unfolding createTarball_def by (auto intro!: emits_intro split: sum.splits)
qed

lemma make_only_downloads:
  "emits (make_only E) (DownloadArtifacts G b)" "emits (make_only E) (DownloadManifests G b)"
  unfolding DownloadArtifacts_def downloadEKSAArtifacts_def downloadEKSDArtifacts_def scanComponent_def scanAsset_def
    DownloadManifests_def downloadEKSDManifests_def downloadEKSAManifests_def getEksDReleaseBranchesWithNumber_def Let_def
  by (auto intro!: emits_intro)

lemma make_only_run:
  assumes "BaremetalConfigOf (fst vars) = None"
  shows "emits (make_only E) (ib_run E version p vars)"
  unfolding ib_run_def downloadArtifactsCmd_def downloadManifestsCmd_def printVersion_def
  by (auto intro!: emits_intro make_only_buildCmd make_only_downloads assms)

lemma make_only_main: "emits (make_only E) (ib_main E version cobra args)"
  unfolding ib_main_def ib_required bind_ret ib_Execute_def
  by (intro emits_intro emits_cobra_Execute make_only_run ib_no_config)

section \<open>The target of a build\<close>

definition make_step :: "event \<Rightarrow> string list list" where
  "make_step e = (case e of ExecEnv vars argv \<Rightarrow> [argv] | _ \<Rightarrow> [])"

text \<open>The target for valid options: image format, operating system, version, and \<open>-efi\<close> where it exists.\<close>

definition target_of :: "BuildOptions \<Rightarrow> string" where
  "target_of b =
     (if Hypervisor b = VSphere then ''ova'' else if Hypervisor b = Baremetal then ''raw'' else Hypervisor b) @
     ''-'' @ Os b @ ''-'' @ OsVersion b @
     (if Firmware b = EFI \<and> (Hypervisor b = VSphere \<and> Os b = Ubuntu \<or> Hypervisor b = Baremetal \<and> Os b = RedHat) then ''-efi'' else [])"

definition make_argv :: "string \<Rightarrow> BuildOptions \<Rightarrow> string list" where
  "make_argv proj b = [''bash'', ''-c'', makeTarget proj (target_of b)]"

text \<open>Without a working directory no target is allowed at all, so what only starts allowed targets there starts none.\<close>

definition nowhere :: ib_env where
  "nowhere = ib_quiet\<lparr>getwd := Inl []\<rparr>"

lemma no_make: "emits (make_only nowhere) m \<Longrightarrow> emits (\<lambda>e. make_step e = []) m"
proof (erule emits_weaken)
  show "make_only nowhere e \<Longrightarrow> make_step e = []" for e by (cases e) (simp_all add: make_step_def nowhere_def)
qed

lemma make_later:
  "(\<And>a. follows make_step (k a) q) \<Longrightarrow> emits (make_only nowhere) m \<Longrightarrow> follows make_step (bind m k) q"
  by (rule follows_bind_silent [OF no_make])

lemma make_then:
  assumes "\<And>u. emits (make_only nowhere) (k u)"
  shows "follows make_step (bind (or_fatal (executeMakeBuildCommand F cmd vars)) k) [[''bash'', ''-c'', cmd]]"
proof -
  have "follows make_step (executeMakeBuildCommand F cmd vars) [[''bash'', ''-c'', cmd]]"
    unfolding executeMakeBuildCommand_def
    by (auto simp: follows_def exec_env_def wrapf_run make_step_def bind_def split: prod.splits option.splits)
  then have "follows make_step (bind (or_fatal (executeMakeBuildCommand F cmd vars)) k) ([[''bash'', ''-c'', cmd]] @ [])"
    unfolding or_fatal_def by (intro follows_bind follows_handlers follows_silent no_make assms)
  then show ?thesis by simp
qed

lemmas make_plan = bind_assoc bind_ret prod.case if_True if_False simp_thms Let_def

lemma follows_Ubuntu:
  assumes "Os b = Ubuntu"
  shows "follows make_step (buildVSphere F cwd proj v b vars)
      [[''bash'', ''-c'', makeTarget proj (''ova-ubuntu-'' @ OsVersion b @ (if Firmware b = EFI then ''-efi'' else []))]]"
    "follows make_step (buildBaremetal F cwd proj v b vars) [[''bash'', ''-c'', makeTarget proj (''raw-ubuntu-'' @ OsVersion b)]]"
    "follows make_step (buildNutanix F cwd proj v b vars) [[''bash'', ''-c'', makeTarget proj (''nutanix-ubuntu-'' @ OsVersion b)]]"
    "follows make_step (buildAMI F cwd proj b vars) [[''bash'', ''-c'', makeTarget proj (''ami-ubuntu-'' @ OsVersion b)]]"
  unfolding buildVSphere_def buildBaremetal_def buildNutanix_def buildAMI_def assms
  by (simp_all only: ib_distinct make_plan)
    ((rule make_then make_later)+, auto intro!: emits_intro)+

lemma follows_RedHat:
  assumes "Os b = RedHat"
  shows "follows make_step (buildVSphere F cwd proj v b vars) [[''bash'', ''-c'', makeTarget proj (''ova-redhat-'' @ OsVersion b)]]"
    "follows make_step (buildBaremetal F cwd proj v b vars)
      [[''bash'', ''-c'', makeTarget proj (''raw-redhat-'' @ OsVersion b @ (if Firmware b = EFI then ''-efi'' else []))]]"
    "follows make_step (buildNutanix F cwd proj v b vars) [[''bash'', ''-c'', makeTarget proj (''nutanix-redhat-'' @ OsVersion b)]]"
    "follows make_step (buildCloudStack F cwd proj v b vars) [[''bash'', ''-c'', makeTarget proj (''cloudstack-redhat-'' @ OsVersion b)]]"
  unfolding buildVSphere_def buildBaremetal_def buildNutanix_def buildCloudStack_def assms
  by (simp_all only: ib_distinct make_plan)
    ((rule make_then make_later)+, auto intro!: emits_intro)+

lemma build_follows:
  assumes "valid_platform (Os b) (OsVersion b) (Hypervisor b) (Firmware b)"
  shows "follows make_step (buildFor F cwd proj v b vars) [make_argv proj b]"
proof -
  consider "Os b = Ubuntu" "Hypervisor b \<in> {VSphere, Baremetal, Nutanix, AMI}" | "Os b = RedHat" "Hypervisor b \<in> {VSphere, Baremetal, Nutanix, CloudStack}"
    using assms unfolding valid_platform_def by blast
  then show ?thesis
  proof cases
    case 1
    note f = follows_Ubuntu [OF 1(1)]
    show ?thesis using 1 f unfolding buildFor_def make_argv_def target_of_def by (auto simp: ib_names)
  next
    case 2
    note f = follows_RedHat [OF 2(1)]
    show ?thesis using 2 f unfolding buildFor_def make_argv_def target_of_def by (auto simp: ib_names)
  qed
qed

lemma BuildImage_follows:
  assumes "valid_platform (Os b) (OsVersion b) (Hypervisor b) (Firmware b)" "getwd E = Inr cwd"
  shows "follows make_step (BuildImage E b pkg) [make_argv (project_dir E cwd) b]"
proof -
  have build: "follows make_step (bind (buildFor E cwd (project_dir E cwd) v b vars) (\<lambda>r.
      bind (moveOutput E up (fst r) (snd r)) (\<lambda>_. cleanup E d))) [make_argv (project_dir E cwd) b]" for v vars up d
  proof -
    have "follows make_step (bind (buildFor E cwd (project_dir E cwd) v b vars) (\<lambda>r.
        bind (moveOutput E up (fst r) (snd r)) (\<lambda>_. cleanup E d))) ([make_argv (project_dir E cwd) b] @ [])"
      by (intro follows_bind build_follows [OF assms(1)] follows_silent no_make) (auto intro!: emits_intro)
    then show ?thesis by simp
  qed
  show ?thesis
    unfolding BuildImage_def prepAirGapped_def Let_def assms(2) or_fatal_lift(1) bind_ret project_dir_def [symmetric] case_prod_beta
    by ((rule build make_later)+, auto intro!: emits_intro)
qed

text \<open>A build that ends normally found its options valid and ran \<open>make\<close> once, for their target.\<close>

lemma buildCmd_make:
  assumes "buildCmd E fl bo w = (Ok (), w')" "BaremetalConfigOf bo = None"
  obtains b pkg cwd t where "ValidateInputs E fl bo DefaultAMIAdditionalFiles w = (Ok (b, pkg), w)" "valid_options b" "getwd E = Inr cwd"
    "trace w' = trace w @ t" "labels make_step t = [make_argv (project_dir E cwd) b]"
proof -
  from assms(1) obtain b pkg w1 where v: "ValidateInputs E fl bo DefaultAMIAdditionalFiles w = (Ok (b, pkg), w1)"
    and run: "BuildImage E b pkg w1 = (Ok (), w')"
    by (auto simp: buildCmd_def bind_Ok_iff or_fatal_lift)
  have valid: "valid_options b" "w1 = w" using ValidateInputs_valid [OF v assms(2)] by blast+
  obtain cwd where cwd: "getwd E = Inr cwd"
    using run by (cases "getwd E") (auto simp: BuildImage_def bind_Ok_iff or_fatal_lift)
  have "follows make_step (BuildImage E b pkg) [make_argv (project_dir E cwd) b]"
    using valid cwd by (intro BuildImage_follows) (simp_all add: valid_options_def)
  from this run obtain t where "trace w' = trace w1 @ t" "labels make_step t = [make_argv (project_dir E cwd) b]"
    by (rule followsE) simp
  then show ?thesis using that v valid cwd by simp
qed

section \<open>The image of a build\<close>

text \<open>Where the image goes, for the hypervisors whose images are always left as a file.\<close>

definition image_path :: "string \<Rightarrow> BuildOptions \<Rightarrow> string" where
  "image_path cwd b = imageName cwd b
     (if Hypervisor b = VSphere then ''.ova'' else if Hypervisor b = Baremetal then ''.gz'' else ''.qcow2'')"

lemma buildFor_output:
  assumes "buildFor E cwd proj v b vars w = (Ok (glob, out), w')" "Hypervisor b \<in> {VSphere, Baremetal, CloudStack}"
  shows "out = image_path cwd b"
  using assms unfolding buildFor_def buildVSphere_def buildBaremetal_def buildCloudStack_def image_path_def Let_def
  by (auto simp: bind_Ok_iff ib_names split: prod.splits if_splits)

lemma image_path_not_empty: "image_path cwd b \<noteq> []"
proof -
  have "Clean s \<noteq> []" for s by (auto simp: Clean_def Let_def)
  then show ?thesis by (simp add: image_path_def imageName_def path_Join_def)
qed

lemma BuildImage_image:
  assumes "BuildImage E b pkg w = (Ok (), w')" "getwd E = Inr cwd" "Hypervisor b \<in> {VSphere, Baremetal, CloudStack}"
    and "\<not> below (getBuildToolingPath E cwd) (image_path cwd b)"
  shows "fs_get (fs w') (image_path cwd b) \<noteq> None"
proof -
  from assms(1,2) obtain proj v vars w1 glob out w2 up w3 where
      build: "buildFor E cwd proj v b vars w1 = (Ok (glob, out), w2)"
    and move: "moveOutput E up glob out w2 = (Ok (), w3)" and clean: "cleanup E (getBuildToolingPath E cwd) w3 = (Ok (), w')"
    by (auto simp: BuildImage_def Let_def bind_Ok_iff or_fatal_lift split: prod.splits if_splits)
  have out: "out = image_path cwd b" using buildFor_output [OF build assms(3)] .
  have "fs_get (fs w3) (image_path cwd b) \<noteq> None"
    using move image_path_not_empty [of cwd b] unfolding moveOutput_def out
    by (auto simp: bind_Ok_iff or_fatal_lift os_Rename_def with_io_def split: option.splits)
  then show ?thesis
    using clean assms(4) by (auto simp: cleanup_def or_fatal_lift os_RemoveAll_def with_io_def fs_get_del_tree split: option.splits if_splits)
qed

section \<open>What the exit code says\<close>

lemmas code_1_os [code_1_intro] = no_exit_os [THEN no_exit_code_1]

lemma code_1_utils [code_1_intro]:
  "code_1 (execCommandWithStreamOutput E cmd)" "code_1 (cleanup E d)" "code_1 (get_cwd E)" "code_1 (execCommand E cmd)"
  "code_1 (readFileFromURL E url)" "code_1 (airGappedConfig b)" "code_1 (executeMakeBuildCommand E command vars)" "code_1 (downloadFile E p url)"
  unfolding execCommandWithStreamOutput_def cleanup_def get_cwd_def execCommand_def readFileFromURL_def airGappedConfig_def
    executeMakeBuildCommand_def downloadFile_def
  by (auto intro!: code_1_intro)

lemma code_1_repo [code_1_intro]:
  "code_1 (getRepoRoot E)" "code_1 (getManifestRoot E)" "code_1 (cloneRepo E u d)" "code_1 (checkoutRepo E u d)"
  "code_1 (GetSupportedReleaseBranches E)" "code_1 (getEksAReleasesManifestURL G air)" "code_1 (getBuildToolingRepoUrl b)"
  unfolding getRepoRoot_def getManifestRoot_def cloneRepo_def checkoutRepo_def GetSupportedReleaseBranches_def
    getEksAReleasesManifestURL_def getBuildToolingRepoUrl_def Let_def
  by (auto intro!: code_1_intro)

lemma code_1_bundle [code_1_intro]:
  "code_1 (getBundle G b)" "code_1 (prepBuildToolingRepo G b d)" "code_1 (getAirGapCmdEnvVars E u v r)" "code_1 (replaceStringInFile E p s t)"
  unfolding getBundle_def prepBuildToolingRepo_def getAirGapCmdEnvVars_def replaceStringInFile_def Let_def
    readReleaseManifest_def readBundleManifest_def
  by (auto intro!: code_1_intro)

lemma code_1_files [code_1_intro]:
  "code_1 (extractAndPrepManifestTarball G t d a)" "code_1 (prepareFiles G proj b pkg)" "code_1 (airGapEnvVars E b v)" "code_1 (proxiedRhel px r)"
  unfolding extractAndPrepManifestTarball_def extractTarball_def extractEntry_def prepManifestFile_def prepareFiles_def
    airGapEnvVars_def proxiedRhel_def Let_def
  by (auto intro!: code_1_intro)

lemma code_1_move [code_1_intro]: "code_1 (moveOutput E u g out)"
  unfolding moveOutput_def
  by (rule code_1_branch(2), rule code_1_reader [where f = "\<lambda>v. bind (index (Glob (path_Join [u, g]) v) 0) (\<lambda>image. or_fatal (os_Rename E image out))"])
    (auto intro!: code_1_intro)

lemma code_1_buildFor [code_1_intro]: "code_1 (buildFor E cwd proj v b vars)"
  unfolding buildFor_def buildVSphere_def buildBaremetal_def buildNutanix_def buildCloudStack_def buildAMI_def Let_def
  by (auto intro!: code_1_intro)

lemma code_1_buildCmd: "code_1 (buildCmd E fl b)"
proof -
  have "code_1 (fatal_on e)" "code_1 (return_on e)" "code_1 (checkAirGapped b)" for e b
    by (auto simp: fatal_on_def return_on_def checkAirGapped_def intro!: code_1_intro)
  note check = this
  have "code_1 (loadConfig E p b pkg)" "code_1 (loadFilesConfig E p b pkg)" for p b pkg
    unfolding loadConfig_def loadVsphere_def loadBaremetal_def loadNutanix_def loadCloudstack_def loadAMI_def
      loadFilesConfig_def applyFilesConfig_def Let_def
    by (auto intro!: code_1_intro check)
  then have "code_1 (ValidateInputs E fl b pkg)" for pkg
    unfolding ValidateInputs_def validateOptions_def Let_def by (auto intro!: code_1_intro check)
  then show ?thesis
    unfolding buildCmd_def BuildImage_def prepAirGapped_def Let_def by (auto intro!: code_1_intro)
qed

text \<open>The options a \<open>build\<close> command line stands for.\<close>

definition build_options :: "(string \<times> flag_value) list \<Rightarrow> ib_vars" where
  "build_options given = set_flags (cmd_flags build_command) given ib_defaults"

text \<open>Exit code 0 of a \<open>build\<close> is a build that ended normally.\<close>

lemma ib_main_build:
  assumes "cobra ib_commands args = Invoke [''build''] given" "ib_main E version cobra args w = (Exit 0, w')"
  shows "buildCmd E (snd (build_options given)) (fst (build_options given)) w = (Ok (), w')"
    and "BaremetalConfigOf (fst (build_options given)) = None"
proof -
  let ?m = "buildCmd E (snd (build_options given)) (fst (build_options given))"
  have flags: "flags_of ib_commands [''build''] = cmd_flags build_command"
    by (simp add: flags_of_def ib_commands_def build_command_def)
  have "ib_main E version cobra args = exit_main ?m"
    unfolding ib_main_def ib_required bind_ret ib_Execute_def cobra_Execute_def assms(1)
    by (simp add: ib_run_def flags build_options_def)
  then have run: "exit_main ?m w = (Exit 0, w')" using assms(2) by simp
  moreover have "fst (?m w) \<noteq> Exit 0" using code_1_buildCmd unfolding code_1_def by (metis zero_neq_one)
  ultimately show "?m w = (Ok (), w')"
    by (auto simp: exit_main_def attempt_def bind_def split: prod.splits outcome.splits)
  show "BaremetalConfigOf (fst (build_options given)) = None"
    using ib_no_config [of "[''build'']" given] by (simp add: build_options_def flags)
qed

end
