(* ===== verification/VT_Types.thy ===== *)
theory VT_Types
  imports Go_Os
begin

text \<open>
  The version tracker's data: \<open>pkg/types/types.go\<close> and \<open>pkg/constants/constants.go\<close>.  A format string
  becomes a function of its arguments, a map a list of its entries.
\<close>

section \<open>Types\<close>

record DisplayOptions =
  do_ProjectName :: string
  PrintLatestVersion :: bool

record UpgradeOptions =
  uo_ProjectName :: string
  DryRun :: bool

record Version =
  Tag :: string
  Commit :: string
  GoVersion :: string

record Repo =
  RepoName :: string
  Versions :: "Version list"

record Project =
  Org :: string
  Repos :: "Repo list"

type_synonym ProjectsList = "Project list"

record ProjectVersionInfo =
  vi_Org :: string
  vi_Repo :: string
  CurrentVersion :: string
  vi_LatestVersion :: string

record ReleaseTarball =
  ta_AssetName :: string
  BinaryName :: string
  Extract :: bool
  OverrideAssetURL :: string
  TrimLeadingVersionPrefix :: bool

record GoVersionSourceOfTruth =
  SourceOfTruthFile :: string
  GoVersionSearchString :: string

record ImageMetadata =
  im_Tag :: string
  ImageDigest :: string

record EKSDistroRelease =
  er_Branch :: string
  er_KubeVersion :: string
  Number :: int
  Dev :: "bool option"

record EKSDistroLatestReleases =
  er_Releases :: "EKSDistroRelease list"
  Latest :: string

section \<open>Constants\<close>

abbreviation backslash :: string where
  "backslash \<equiv> [CHR 0x5C]"

definition BaseRepoOwnerEnvvar :: string where
  "BaseRepoOwnerEnvvar = ''BASE_REPO_OWNER''"
definition HeadRepoOwnerEnvvar :: string where
  "HeadRepoOwnerEnvvar = ''HEAD_REPO_OWNER''"
definition GitHubTokenEnvvar :: string where
  "GitHubTokenEnvvar = ''GITHUB_TOKEN''"
definition CommitAuthorNameEnvvar :: string where
  "CommitAuthorNameEnvvar = ''COMMIT_AUTHOR_NAME''"
definition CommitAuthorEmailEnvvar :: string where
  "CommitAuthorEmailEnvvar = ''COMMIT_AUTHOR_EMAIL''"
definition DefaultCommitAuthorName :: string where
  "DefaultCommitAuthorName = ''EKS Distro PR Bot''"
definition DefaultCommitAuthorEmail :: string where
  "DefaultCommitAuthorEmail = ''aws-model-rocket-bots+eksdistroprbot@amazon.com''"
definition BuildToolingRepoName :: string where
  "BuildToolingRepoName = ''eks-anywhere-build-tooling''"
definition DefaultBaseRepoOwner :: string where
  "DefaultBaseRepoOwner = ''aws''"
definition ReadmeFile :: string where
  "ReadmeFile = ''README.md''"
definition ReadmeUpdateScriptFile :: string where
  "ReadmeUpdateScriptFile = ''build/lib/readme_check.sh''"
definition LicenseBoilerplateFile :: string where
  "LicenseBoilerplateFile = ''hack/boilerplate.yq.txt''"
definition EKSDistroLatestReleasesFile :: string where
  "EKSDistroLatestReleasesFile = ''EKSD_LATEST_RELEASES''"
definition SkippedProjectsFile :: string where
  "SkippedProjectsFile = ''SKIPPED_PROJECTS''"
definition UpstreamProjectsTrackerFile :: string where
  "UpstreamProjectsTrackerFile = ''UPSTREAM_PROJECTS.yaml''"
definition SupportedReleaseBranchesFile :: string where
  "SupportedReleaseBranchesFile = ''release/SUPPORTED_RELEASE_BRANCHES''"
definition GitTagFile :: string where
  "GitTagFile = ''GIT_TAG''"
definition GoVersionFile :: string where
  "GoVersionFile = ''GOLANG_VERSION''"
definition ChecksumsFile :: string where
  "ChecksumsFile = ''CHECKSUMS''"
definition AttributionsFilePattern :: string where
  "AttributionsFilePattern = ''*ATTRIBUTION.txt''"
definition PatchesDirectory :: string where
  "PatchesDirectory = ''patches''"
definition FailedPatchApplyMarker :: string where
  "FailedPatchApplyMarker = ''patch does not apply''"
definition FailedPatchApplyRegex :: string where
  "FailedPatchApplyRegex = ''Patch failed at .*''"
definition FailedPatchFilesRegex :: string where
  "FailedPatchFilesRegex = ''error: (.*): patch does not apply''"
definition BottlerocketReleasesFile :: string where
  "BottlerocketReleasesFile = ''BOTTLEROCKET_RELEASES''"
definition BottlerocketHostContainersTOMLFile :: string where
  "BottlerocketHostContainersTOMLFile = ''sources/models/shared-defaults/public-host-containers.toml''"
definition CiliumImageRepository :: string where
  "CiliumImageRepository = ''public.ecr.aws/isovalent/cilium''"
definition MainBranchName :: string where
  "MainBranchName = ''main''"
definition BaseRepoHeadRevision :: string where
  "BaseRepoHeadRevision = ''refs/remotes/origin/main''"
definition BuildToolingRepoURL :: "string \<Rightarrow> string" where
  "BuildToolingRepoURL owner = ''https://github.com/'' @ owner @ ''/eks-anywhere-build-tooling''"
definition EKSDistroProdReleaseNumberFile :: "string \<Rightarrow> string" where
  "EKSDistroProdReleaseNumberFile branch = ''release/'' @ branch @ ''/production/RELEASE''"
definition KubernetesGitTagFile :: "string \<Rightarrow> string" where
  "KubernetesGitTagFile branch = ''projects/kubernetes/kubernetes/'' @ branch @ ''/GIT_TAG''"
definition BottlerocketContainerMetadataFile :: "string \<Rightarrow> string" where
  "BottlerocketContainerMetadataFile name = ''BOTTLEROCKET_'' @ name @ ''_CONTAINER_METADATA''"

text \<open>The texts of the pull requests.\<close>

definition EKSDistroUpgradePullRequestBody :: "string" where
  "EKSDistroUpgradePullRequestBody = Join
     [''This PR bumps EKS Distro releases to the latest available release versions.'',
      [],
      ''/hold'',
      ''/area dependencies'',
      [],
      ''By submitting this pull request, I confirm that you can use, modify, copy, and redistribute this contribution, under the terms of your choice.''] [CHR 0x0A]"
definition DefaultUpgradePullRequestBody :: "string \<Rightarrow> string \<Rightarrow> string \<Rightarrow> string \<Rightarrow> string" where
  "DefaultUpgradePullRequestBody org repo current latest = Join
     [''This PR bumps '' @ org @ ''/'' @ repo @ '' to the latest Git revision.'',
      [],
      ''[Compare changes](https://github.com/'' @ org @ ''/'' @ repo @ ''/compare/'' @ current @ ''...'' @ latest @ '')'',
      ''[Release notes](https://github.com/'' @ org @ ''/'' @ repo @ ''/releases/'' @ latest @ '')'',
      [],
      ''/hold'',
      ''/area dependencies'',
      [],
      ''By submitting this pull request, I confirm that you can use, modify, copy, and redistribute this contribution, under the terms of your choice.''] [CHR 0x0A]"
definition BottlerocketUpgradePullRequestBody :: "string \<Rightarrow> string \<Rightarrow> string" where
  "BottlerocketUpgradePullRequestBody current latest = Join
     [''This PR bumps Bottlerocket releases to the latest Git revision.'',
      [],
      ''[Compare changes](https://github.com/bottlerocket-os/bottlerocket/compare/'' @ current @ ''...'' @ latest @ '')'',
      ''[Release notes](https://github.com/bottlerocket-os/bottlerocket/releases/'' @ latest @ '')'',
      [],
      ''/hold'',
      ''/area dependencies'',
      [],
      ''By submitting this pull request, I confirm that you can use, modify, copy, and redistribute this contribution, under the terms of your choice.''] [CHR 0x0A]"
definition CombinedImageBuilderBottlerocketUpgradePullRequestBody :: "string \<Rightarrow> string \<Rightarrow> string \<Rightarrow> string \<Rightarrow> string" where
  "CombinedImageBuilderBottlerocketUpgradePullRequestBody current latest currentBR latestBR = Join
     [''This PR bumps kubernetes-sigs/image-builder and Bottlerocket releases to the latest Git revision.'',
      [],
      ''[Compare changes for image-builder](https://github.com/kubernetes-sigs/image-builder/compare/'' @ current @ ''...'' @ latest @ '')'',
      ''[Release notes for image-builder](https://github.com/kubernetes-sigs/image-builder/releases/'' @ latest @ '')'',
      [],
      ''[Compare changes for Bottlerocket](https://github.com/bottlerocket-os/bottlerocket/compare/'' @ currentBR @ ''...'' @ latestBR @ '')'',
      ''[Release notes for Bottlerocket](https://github.com/bottlerocket-os/bottlerocket/releases/'' @ latestBR @ '')'',
      [],
      ''/hold'',
      ''/area dependencies'',
      [],
      ''By submitting this pull request, I confirm that you can use, modify, copy, and redistribute this contribution, under the terms of your choice.''] [CHR 0x0A]"
definition PatchesCommentBody :: "int \<Rightarrow> int \<Rightarrow> string \<Rightarrow> string \<Rightarrow> string" where
  "PatchesCommentBody applied count failedPatch failedFiles = Join
     [''# This pull request is incomplete!'',
      ''## Failed patch details'',
      ''**Only '' @ Itoa applied @ ''/'' @ Itoa count @ '' patches were applied!**'',
      failedPatch,
      ''The following files in the above patch did not apply successfully:'',
      failedFiles,
      [],
      ''The project being upgraded in this pull request needs changes to patches that cannot be handled automatically. A developer will need to regenerate the patches locally and update the pull request. In addition to patches, the checksums and attribution file(s) corresponding to the project will need to be updated.''] [CHR 0x0A]"

text \<open>Where the Go version of a release comes from: a released binary, or a file of the repository.\<close>

definition ProjectReleaseAssets :: "(string \<times> ReleaseTarball) list" where
  "ProjectReleaseAssets =
     [(''apache/cloudstack-cloudmonkey'', ReleaseTarball.make ''cmk.linux.x86-64'' ''cmk.linux.x86-64'' False [] False),
      (''aquasecurity/harbor-scanner-trivy'', ReleaseTarball.make ''harbor-scanner-trivy_%s_Linux_x86_64.tar.gz'' ''scanner-trivy'' True [] True),
      (''aquasecurity/trivy'', ReleaseTarball.make ''trivy_%s_Linux-64bit.tar.gz'' ''trivy'' True [] True),
      (''aws/rolesanywhere-credential-helper'', ReleaseTarball.make ''aws_signing_helper'' ''aws_signing_helper'' False ''https://rolesanywhere.amazonaws.com/releases/%s/X86_64/Linux/aws_signing_helper'' True),
      (''cert-manager/cert-manager'', ReleaseTarball.make ''cmctl-linux-amd64.tar.gz'' ''cmctl'' True [] False),
      (''containerd/containerd'', ReleaseTarball.make ''containerd-%s-linux-amd64.tar.gz'' ''bin/containerd'' True [] True),
      (''distribution/distribution'', ReleaseTarball.make ''registry_%s_linux_amd64.tar.gz'' ''registry'' True [] True),
      (''fluxcd/flux2'', ReleaseTarball.make ''flux_%s_linux_amd64.tar.gz'' ''flux'' True [] True),
      (''helm/helm'', ReleaseTarball.make ''helm-%s-linux-amd64.tar.gz'' ''linux-amd64/helm'' True ''https://get.helm.sh/helm-%s-linux-amd64.tar.gz'' False),
      (''kubernetes-sigs/cluster-api'', ReleaseTarball.make ''clusterctl-linux-amd64'' ''clusterctl-linux-amd64'' False [] False),
      (''kubernetes-sigs/cri-tools'', ReleaseTarball.make ''crictl-%s-linux-amd64.tar.gz'' ''crictl'' True [] False),
      (''kubernetes-sigs/kind'', ReleaseTarball.make ''kind-linux-amd64'' ''kind-linux-amd64'' False [] False),
      (''opencontainers/runc'', ReleaseTarball.make ''runc.amd64'' ''runc.amd64'' False [] False),
      (''prometheus/prometheus'', ReleaseTarball.make ''prometheus-%s.linux-amd64.tar.gz'' ''prometheus-%s.linux-amd64/prometheus'' True [] True),
      (''prometheus/node_exporter'', ReleaseTarball.make ''node_exporter-%s.linux-amd64.tar.gz'' ''node_exporter-%s.linux-amd64/node_exporter'' True [] True),
      (''rancher/local-path-provisioner'', ReleaseTarball.make ''local-path-provisioner-amd64'' ''local-path-provisioner-amd64'' False [] False),
      (''replicatedhq/troubleshoot'', ReleaseTarball.make ''support-bundle_linux_amd64.tar.gz'' ''support-bundle'' True [] False),
      (''vmware/govmomi'', ReleaseTarball.make ''govc_Linux_x86_64.tar.gz'' ''govc'' True [] False)]"

definition minor_version :: string where
  "minor_version = ''(1'' @ backslash @ ''.'' @ backslash @ ''d'' @ backslash @ ''d)''"

definition ProjectGoVersionSourceOfTruth :: "(string \<times> GoVersionSourceOfTruth) list" where
  "ProjectGoVersionSourceOfTruth =
     [(''aws/etcdadm-bootstrap-provider'', GoVersionSourceOfTruth.make ''go.mod'' (''go '' @ minor_version)),
      (''aws/etcdadm-controller'', GoVersionSourceOfTruth.make ''go.mod'' (''go '' @ minor_version)),
      (''brancz/kube-rbac-proxy'', GoVersionSourceOfTruth.make ''.github/workflows/build.yml'' (''go-version: '' @ [CHR 0x27] @ minor_version @ backslash @ ''.'' @ backslash @ ''d+'' @ [CHR 0x27])),
      (''emissary-ingress/emissary'', GoVersionSourceOfTruth.make ''go.mod'' (''go '' @ minor_version)),
      (''goharbor/harbor'', GoVersionSourceOfTruth.make ''Makefile'' (''GOBUILDIMAGE=golang:'' @ minor_version)),
      (''fluxcd/helm-controller'', GoVersionSourceOfTruth.make ''Dockerfile'' (''ARG GO_VERSION='' @ minor_version)),
      (''fluxcd/kustomize-controller'', GoVersionSourceOfTruth.make ''Dockerfile'' (''ARG GO_VERSION='' @ minor_version)),
      (''fluxcd/notification-controller'', GoVersionSourceOfTruth.make ''Dockerfile'' (''ARG GO_VERSION='' @ minor_version)),
      (''fluxcd/source-controller'', GoVersionSourceOfTruth.make ''Dockerfile'' (''ARG GO_VERSION='' @ minor_version)),
      (''kube-vip/kube-vip'', GoVersionSourceOfTruth.make ''Dockerfile'' (''golang:'' @ minor_version)),
      (''kubernetes-sigs/cluster-api-provider-cloudstack'', GoVersionSourceOfTruth.make ''go.mod'' (''go '' @ minor_version)),
      (''kubernetes-sigs/cluster-api-provider-vsphere'', GoVersionSourceOfTruth.make ''Makefile'' (''GO_VERSION '' @ backslash @ ''?= '' @ minor_version @ backslash @ ''.'' @ backslash @ ''d+'')),
      (''kubernetes-sigs/etcdadm'', GoVersionSourceOfTruth.make ''Makefile'' (''GO_IMAGE '' @ backslash @ ''?= golang:'' @ minor_version)),
      (''nutanix-cloud-native/cluster-api-provider-nutanix'', GoVersionSourceOfTruth.make ''go.mod'' (''go '' @ minor_version)),
      (''metallb/metallb'', GoVersionSourceOfTruth.make ''go.mod'' (''go '' @ minor_version)),
      (''tinkerbell/boots'', GoVersionSourceOfTruth.make ''go.mod'' (''go '' @ minor_version)),
      (''tinkerbell/cluster-api-provider-tinkerbell'', GoVersionSourceOfTruth.make ''Makefile'' (''GOLANG_VERSION := '' @ minor_version)),
      (''tinkerbell/hegel'', GoVersionSourceOfTruth.make ''.github/workflows/ci.yaml'' (''GO_VERSION: '' @ [CHR 0x22] @ minor_version @ [CHR 0x22])),
      (''tinkerbell/tink'', GoVersionSourceOfTruth.make ''.github/workflows/ci.yaml'' (''GO_VERSION: '' @ [CHR 0x22] @ minor_version @ [CHR 0x22]))]"

definition ProjectsWithUnconventionalUpgradeFlows :: "string list" where
  "ProjectsWithUnconventionalUpgradeFlows = [''cilium/cilium'', ''kubernetes-sigs/image-builder'']"
definition BottlerocketImageFormats :: "string list" where
  "BottlerocketImageFormats = [''ami'', ''ova'', ''raw'']"
definition BottlerocketHostContainers :: "string list" where
  "BottlerocketHostContainers = [''admin'', ''control'']"
definition CiliumImageDirectories :: "string list" where
  "CiliumImageDirectories = [''cilium'', ''operator-generic'', ''cilium-chart'']"

end
