(* ===== verification/Go_Regexp.thy ===== *)
theory Go_Regexp
  imports Go_Strings
begin

text \<open>
  The part of Go's \<open>regexp\<close> package that the version tracker uses: literals, \<open>.\<close>, \<open>\d\<close>, escaped
  punctuation, simple classes, groups, alternatives and the greedy operators \<open>*\<close>, \<open>+\<close>, \<open>?\<close>, with
  leftmost-first matching.  A pattern outside of this syntax (counted repetition, flags, lazy
  operators, Unicode classes) does not compile here.  Text is a string of bytes: \<open>.\<close> stands for any
  byte but a line end, which matches the same text as Go's rune does under a star.
\<close>

section \<open>Patterns\<close>

datatype rx =
    Empty
  | Lit char
  | Dot
  | Class "(char \<times> char) list"
  | Bol
  | Eol
  | Cat rx rx
  | Or rx rx
  | Star rx
  | Group nat rx

definition digits_class :: rx where
  "digits_class = Class [(CHR ''0'', CHR ''9'')]"

text \<open>The characters with a meaning of their own outside of a class.\<close>

definition meta_chars :: string where
  "meta_chars = ''.*+?()|[]{}^$'' @ [CHR 0x5C]"

text \<open>The ranges of a class up to its closing bracket; only plain characters and ranges of them.\<close>

fun parse_class :: "string \<Rightarrow> ((char \<times> char) list \<times> string) option" where
  "parse_class [] = None"
| "parse_class (a # s) =
     (if a = CHR '']'' then Some ([], s)
      else if a \<in> set meta_chars \<or> a = CHR ''-'' then None
      else if 2 \<le> length s \<and> hd s = CHR ''-'' then
        (if s ! 1 \<in> set meta_chars then None
         else (case parse_class (drop 2 s) of None \<Rightarrow> None | Some (rs, t) \<Rightarrow> Some ((a, s ! 1) # rs, t)))
      else (case parse_class s of None \<Rightarrow> None | Some (rs, t) \<Rightarrow> Some ((a, a) # rs, t)))"

text \<open>One atom that is not a group.\<close>

definition parse_single :: "char \<Rightarrow> string \<Rightarrow> (rx \<times> string) option" where
  "parse_single c s =
     (if c = CHR ''.'' then Some (Dot, s)
      else if c = CHR ''^'' then Some (Bol, s)
      else if c = CHR ''$'' then Some (Eol, s)
      else if c = CHR ''['' then (case parse_class s of None \<Rightarrow> None | Some (rs, t) \<Rightarrow> if rs = [] then None else Some (Class rs, t))
      else if c = CHR 0x5C then
        (case s of [] \<Rightarrow> None
         | d # t \<Rightarrow>
             if d = CHR ''d'' then Some (digits_class, t)
             else if d = CHR ''n'' then Some (Lit (CHR 0x0A), t)
             else if alphanumeric d then None
             else Some (Lit d, t))
      else if c \<in> set meta_chars \<and> c \<noteq> CHR '']'' \<and> c \<noteq> CHR ''}'' then None
      else Some (Lit c, s))"

definition quantifier :: "string \<Rightarrow> bool" where
  "quantifier s \<longleftrightarrow> s \<noteq> [] \<and> hd s \<in> set ''*+?{''"

text \<open>A repetition operator after an atom; a second one is an error or not modelled.\<close>

definition quantify :: "rx \<Rightarrow> string \<Rightarrow> (rx \<times> string) option" where
  "quantify r s =
     (if \<not> quantifier s then Some (r, s)
      else if hd s = CHR ''{'' \<or> quantifier (tl s) then None
      else if hd s = CHR ''*'' then Some (Star r, tl s)
      else if hd s = CHR ''+'' then Some (Cat r (Star r), tl s)
      else Some (Or r Empty, tl s))"

text \<open>Alternatives, sequences and atoms, with the number of the next group.\<close>

fun parse_alt :: "nat \<Rightarrow> string \<Rightarrow> nat \<Rightarrow> (rx \<times> string \<times> nat) option"
  and parse_cat :: "nat \<Rightarrow> string \<Rightarrow> nat \<Rightarrow> (rx \<times> string \<times> nat) option"
  and parse_atom :: "nat \<Rightarrow> string \<Rightarrow> nat \<Rightarrow> (rx \<times> string \<times> nat) option" where
  "parse_alt 0 s g = None"
| "parse_alt (Suc n) s g = (case parse_cat n s g of
       None \<Rightarrow> None
     | Some (r, s1, g1) \<Rightarrow>
         if HasPrefix s1 ''|'' then
           (case parse_alt n (tl s1) g1 of None \<Rightarrow> None | Some (r2, s2, g2) \<Rightarrow> Some (Or r r2, s2, g2))
         else Some (r, s1, g1))"
| "parse_cat 0 s g = None"
| "parse_cat (Suc n) s g =
     (if s = [] \<or> hd s = CHR ''|'' \<or> hd s = CHR '')'' then Some (Empty, s, g)
      else (case parse_atom n s g of
          None \<Rightarrow> None
        | Some (r, s1, g1) \<Rightarrow> (case quantify r s1 of
            None \<Rightarrow> None
          | Some (r', s2) \<Rightarrow> (case parse_cat n s2 g1 of
              None \<Rightarrow> None | Some (r2, s3, g3) \<Rightarrow> Some (Cat r' r2, s3, g3)))))"
| "parse_atom 0 s g = None"
| "parse_atom (Suc n) [] g = None"
| "parse_atom (Suc n) (c # s) g =
     (if c = CHR ''('' then
        (if HasPrefix s ''?'' then None
         else (case parse_alt n s (Suc g) of
             None \<Rightarrow> None
           | Some (r, s1, g1) \<Rightarrow> if HasPrefix s1 '')'' then Some (Group g r, tl s1, g1) else None))
      else (case parse_single c s of None \<Rightarrow> None | Some (r, s1) \<Rightarrow> Some (r, s1, g)))"

definition rx_compile :: "string \<Rightarrow> rx option" where
  "rx_compile p = (case parse_alt (3 * length p + 3) p 1 of
     Some (r, s, _) \<Rightarrow> if s = [] then Some r else None | None \<Rightarrow> None)"

section \<open>Matching\<close>

text \<open>
  All ways to match from a position, the preferred one first: where the match ends, and the spans
  of the groups, the latest first.
\<close>

type_synonym caps = "(nat \<times> nat \<times> nat) list"

definition step_char :: "string \<Rightarrow> (char \<Rightarrow> bool) \<Rightarrow> nat \<times> caps \<Rightarrow> (nat \<times> caps) list" where
  "step_char s P st = (if fst st < length s \<and> P (s ! fst st) then [(Suc (fst st), snd st)] else [])"

function rx_run :: "string \<Rightarrow> rx \<Rightarrow> nat \<times> caps \<Rightarrow> (nat \<times> caps) list" where
  "rx_run s Empty st = [st]"
| "rx_run s (Lit c) st = step_char s (\<lambda>d. d = c) st"
| "rx_run s Dot st = step_char s (\<lambda>d. d \<noteq> CHR 0x0A) st"
| "rx_run s (Class rs) st = step_char s (\<lambda>d. in_class d rs) st"
| "rx_run s Bol st = (if fst st = 0 then [st] else [])"
| "rx_run s Eol st = (if fst st = length s then [st] else [])"
| "rx_run s (Cat a b) st = concat (map (\<lambda>x. rx_run s b x) (rx_run s a st))"
| "rx_run s (Or a b) st = rx_run s a st @ rx_run s b st"
| "rx_run s (Star r) st =
     concat (map (\<lambda>x. if fst st < fst x \<and> fst x \<le> length s then rx_run s (Star r) x else []) (rx_run s r st)) @ [st]"
| "rx_run s (Group n r) st = map (\<lambda>x. (fst x, (n, fst st, fst x) # snd x)) (rx_run s r st)"
  by pat_completeness auto
termination
  by (relation "measures [\<lambda>(s, r, st). size r, \<lambda>(s, r, st). length s - fst st]") auto

fun groups :: "rx \<Rightarrow> nat" where
  "groups (Cat a b) = groups a + groups b"
| "groups (Or a b) = groups a + groups b"
| "groups (Star r) = groups r"
| "groups (Group n r) = Suc (groups r)"
| "groups _ = 0"

definition span :: "string \<Rightarrow> nat \<Rightarrow> nat \<Rightarrow> string" where
  "span s i j = take (j - i) (drop i s)"

definition group_text :: "string \<Rightarrow> caps \<Rightarrow> nat \<Rightarrow> string" where
  "group_text s c n = (case map_of c n of None \<Rightarrow> [] | Some (i, j) \<Rightarrow> span s i j)"

text \<open>The match that starts first: its start, its end and its groups.\<close>

fun find_first :: "string \<Rightarrow> rx \<Rightarrow> nat list \<Rightarrow> (nat \<times> nat \<times> caps) option" where
  "find_first s r [] = None"
| "find_first s r (i # is) = (case rx_run s r (i, []) of
     (j, c) # _ \<Rightarrow> Some (i, j, c) | [] \<Rightarrow> find_first s r is)"

definition submatches :: "string \<Rightarrow> rx \<Rightarrow> nat \<times> nat \<times> caps \<Rightarrow> string list" where
  "submatches s r m = (case m of (i, j, c) \<Rightarrow> span s i j # map (group_text s c) [1..<Suc (groups r)])"

text \<open>\<open>FindStringSubmatch\<close>, whose nil result is the empty list, and \<open>FindString\<close>.\<close>

definition FindStringSubmatch :: "rx \<Rightarrow> string \<Rightarrow> string list" where
  "FindStringSubmatch r s = (case find_first s r [0..<Suc (length s)] of None \<Rightarrow> [] | Some m \<Rightarrow> submatches s r m)"

definition FindString :: "rx \<Rightarrow> string \<Rightarrow> string" where
  "FindString r s = (case find_first s r [0..<Suc (length s)] of None \<Rightarrow> [] | Some (i, j, c) \<Rightarrow> span s i j)"

text \<open>
  \<open>FindAllStringSubmatch(s, -1)\<close>: the matches from left to right, each starting where the last one
  ended; an empty match right after another one does not count.
\<close>

function find_all :: "string \<Rightarrow> rx \<Rightarrow> nat \<Rightarrow> nat option \<Rightarrow> string list list" where
  "find_all s r pos prev =
     (if length s < pos then []
      else (case find_first s r [pos..<Suc (length s)] of
          None \<Rightarrow> []
        | Some (i, j, c) \<Rightarrow>
            (if i = j \<and> prev = Some i then [] else [submatches s r (i, j, c)]) @
            (if pos < j then find_all s r j (Some j) else find_all s r (Suc pos) (Some j))))"
  by pat_completeness auto
termination
  by (relation "measure (\<lambda>(s, r, pos, prev). Suc (length s) - pos)") auto

declare find_all.simps [simp del]

definition FindAllStringSubmatch :: "rx \<Rightarrow> string \<Rightarrow> string list list" where
  "FindAllStringSubmatch r s = find_all s r 0 None"

section \<open>Reading patterns\<close>

text \<open>More fuel does not change what was read.\<close>

lemma parse_fuel:
  "parse_alt n s g = Some x \<Longrightarrow> parse_alt (Suc n) s g = Some x"
  "parse_cat n s g = Some x \<Longrightarrow> parse_cat (Suc n) s g = Some x"
  "parse_atom n s g = Some x \<Longrightarrow> parse_atom (Suc n) s g = Some x"
proof (induction n s g and n s g and n s g arbitrary: x and x and x rule: parse_alt_parse_cat_parse_atom.induct)
  case (2 n s g)
  from "2.prems" obtain r s1 g1 where c: "parse_cat n s g = Some (r, s1, g1)"
    and k: "(if HasPrefix s1 ''|'' then (case parse_alt n (tl s1) g1 of None \<Rightarrow> None | Some (r2, s2, g2) \<Rightarrow> Some (Or r r2, s2, g2))
       else Some (r, s1, g1)) = Some x"
    by (auto split: option.splits)
  note c' = "2.IH"(1) [OF c]
  show ?case
  proof (cases "HasPrefix s1 ''|''")
    case True
    with k obtain y where y: "parse_alt n (tl s1) g1 = Some y" by (auto split: option.splits)
    show ?thesis unfolding parse_alt.simps(2) [of "Suc n"] c' using k True y "2.IH"(2) [OF c refl refl True y] by simp
  next
    case False
    then show ?thesis unfolding parse_alt.simps(2) [of "Suc n"] c' using k by auto
  qed
next
  case (4 n s g)
  show ?case
  proof (cases "s = [] \<or> hd s = CHR ''|'' \<or> hd s = CHR '')''")
    case True
    then show ?thesis using "4.prems" by (simp del: parse_atom.simps)
  next
    case False
    with "4.prems" obtain r s1 g1 r' s2 y where a: "parse_atom n s g = Some (r, s1, g1)" and q: "quantify r s1 = Some (r', s2)"
      and c: "parse_cat n s2 g1 = Some y" and x: "(case y of (r2, s3, g3) \<Rightarrow> Some (Cat r' r2, s3, g3)) = Some x"
      by (auto simp del: parse_atom.simps split: option.splits)
    show ?thesis unfolding parse_cat.simps(2) [of "Suc n"]
      using False x q "4.IH"(1) [OF False a] "4.IH"(2) [OF False a refl refl q refl c] by (auto simp del: parse_cat.simps split: prod.splits)
  qed
next
  case (7 n c s g)
  show ?case
  proof (cases "c = CHR ''(''")
    case True
    with "7.prems" obtain r s1 g1 where p: "\<not> HasPrefix s ''?''" and a: "parse_alt n s (Suc g) = Some (r, s1, g1)"
      and x: "(if HasPrefix s1 '')'' then Some (Group g r, tl s1, g1) else None) = Some x"
      by (auto split: option.splits if_splits)
    show ?thesis unfolding parse_atom.simps(3) [of "Suc n"] using True p x "7.IH" [OF True p a] by simp
  next
    case False
    then show ?thesis using "7.prems" by simp
  qed
qed simp_all

lemma parse_cat_fuel: "parse_cat n s g = Some x \<Longrightarrow> parse_cat (n + k) s g = Some x"
  by (induction k) (auto dest: parse_fuel(2) simp del: parse_cat.simps)

text \<open>Characters that stand for themselves, and the dot, which does as well.\<close>

definition plain_char :: "char \<Rightarrow> bool" where
  "plain_char c \<longleftrightarrow> c = CHR ''.'' \<or> c \<notin> set meta_chars"

definition atom_of :: "char \<Rightarrow> rx" where
  "atom_of c = (if c = CHR ''.'' then Dot else Lit c)"

lemma plain_char_simps:
  assumes "plain_char c"
  shows "c \<noteq> CHR ''|''" "c \<noteq> CHR '')''" "c \<noteq> CHR ''(''" "c \<notin> set ''*+?{''" "parse_single c s = Some (atom_of c, s)"
  using assms by (auto simp: plain_char_def meta_chars_def parse_single_def atom_of_def)

lemma parse_cat_plain:
  assumes "parse_cat n t g = Some (r, t', g')" "\<not> quantifier t" "list_all plain_char xs"
  shows "parse_cat (n + length xs) (xs @ t) g = Some (foldr (\<lambda>c. Cat (atom_of c)) xs r, t', g')"
  using assms(3)
proof (induction xs)
  case Nil
  then show ?case using assms(1) by simp
next
  case (Cons c xs)
  obtain k where k: "n + length xs = Suc k" using assms(1) by (cases "n + length xs") auto
  have "\<not> quantifier (xs @ t)"
    using Cons.prems assms(2) plain_char_simps(4) by (cases xs) (auto simp: quantifier_def)
  then show ?case using Cons plain_char_simps [of c] k by (auto simp: quantify_def)
qed

section \<open>Matching runs of characters\<close>

lemma rx_run_plain:
  "drop i s = xs @ t \<Longrightarrow> list_all (\<lambda>c. c \<noteq> CHR 0x0A) xs \<Longrightarrow>
     rx_run s (foldr (\<lambda>c. Cat (atom_of c)) xs r) (i, g) = rx_run s r (i + length xs, g)"
proof (induction xs arbitrary: i)
  case (Cons c xs)
  have i: "i < length s" "s ! i = c" "drop (Suc i) s = xs @ t"
    using Cons.prems(1) by (metis append_Cons drop_all list.distinct(1) not_le, metis append_Cons nth_via_drop,
      metis append_Cons drop_Suc list.sel(3) tl_drop)
  then show ?case using Cons.IH [OF i(3)] Cons.prems(2) by (auto simp: atom_of_def step_char_def)
qed simp

text \<open>A star over single characters takes the whole run first, then gives back one at a time.\<close>

lemma rx_run_star:
  assumes "\<And>st. rx_run s r st = step_char s P st"
  shows "i \<le> length s \<Longrightarrow> rx_run s (Star r) (i, g) = map (\<lambda>k. (k, g)) (rev [i..<Suc (i + length (takeWhile P (drop i s)))])"
proof (induction "length s - i" arbitrary: i)
  case 0
  then show ?case using assms by (auto simp: step_char_def)
next
  case (Suc n)
  then have i: "i < length s" by simp
  then have d: "drop i s = s ! i # drop (Suc i) s" by (simp add: Cons_nth_drop_Suc)
  show ?case
  proof (cases "P (s ! i)")
    case True
    have "rx_run s (Star r) (Suc i, g) = map (\<lambda>k. (k, g)) (rev [Suc i..<Suc (Suc i + length (takeWhile P (drop (Suc i) s)))])"
      using Suc.hyps(2) i by (intro Suc.hyps(1)) simp_all
    moreover have "[i..<Suc (i + Suc m)] = i # [Suc i..<Suc (Suc i + m)]" for m by (simp add: upt_conv_Cons)
    ultimately show ?thesis using True i d assms by (simp add: step_char_def del: upt_Suc)
  next
    case False
    then show ?thesis using i d assms by (simp add: step_char_def)
  qed
qed

lemma rx_run_dots: "i \<le> length s \<Longrightarrow> rx_run s (Star Dot) (i, g) =
    map (\<lambda>k. (k, g)) (rev [i..<Suc (i + length (takeWhile (\<lambda>c. c \<noteq> CHR 0x0A) (drop i s)))])"
  by (rule rx_run_star) simp

lemma rx_run_digits: "i \<le> length s \<Longrightarrow> rx_run s (Star digits_class) (i, g) =
    map (\<lambda>k. (k, g)) (rev [i..<Suc (i + length (takeWhile (\<lambda>c. in_class c [(CHR ''0'', CHR ''9'')]) (drop i s)))])"
  by (rule rx_run_star) (simp add: digits_class_def)

text \<open>Trying positions from the far end, the first that works decides.\<close>

lemma concat_rev_upt:
  assumes "i \<le> m" "m \<le> n" "\<And>k. m < k \<Longrightarrow> k \<le> n \<Longrightarrow> f k = []" "f m = y # ys"
  shows "\<exists>zs. concat (map f (rev [i..<Suc n])) = y # zs"
proof -
  have "[i..<Suc n] = [i..<m] @ m # [Suc m..<Suc n]"
    using assms(1,2) upt_add_eq_append [of i m "Suc n - m"] by (simp add: upt_conv_Cons del: upt_Suc)
  moreover have "concat (map f (rev [Suc m..<Suc n])) = []" using assms(3) by auto
  ultimately show ?thesis using assms(4) by (simp del: upt_Suc concat_eq_Nil_conv)
qed

end
