(* ===== verification/Go_Any.thy ===== *)
theory Go_Any
  imports Go_Unmarshal "HOL-Library.Log_Nat" Complex_Main
begin

text \<open>
  Decoding JSON into an \<open>interface{}\<close>: the values keep their number literals, which Go turns into
  64-bit floats.  The float of a literal, its \<open>%.0f\<close> rendering, and the type assertions, which panic
  on a value of another kind.
\<close>

section \<open>Floating point numbers\<close>

text \<open>A literal denotes \<open>m * 10 ^ e\<close>.\<close>

definition not_exp :: "char \<Rightarrow> bool" where
  "not_exp c \<longleftrightarrow> c \<noteq> CHR ''e'' \<and> c \<noteq> CHR ''E''"

definition signed_digits :: "string \<Rightarrow> int" where
  "signed_digits s =
     (let body = (if HasPrefix s ''-'' \<or> HasPrefix s ''+'' then tl s else s);
          n = (case parse_digits 10 0 body of None \<Rightarrow> 0 | Some n \<Rightarrow> int n)
      in if HasPrefix s ''-'' then - n else n)"

definition literal_value :: "string \<Rightarrow> rat" where
  "literal_value s =
     (let mant = takeWhile not_exp s; ex = drop 1 (dropWhile not_exp s);
          whole = takeWhile (\<lambda>c. c \<noteq> CHR ''.'') mant; frac = drop 1 (dropWhile (\<lambda>c. c \<noteq> CHR ''.'') mant);
          e = (if ex = [] then 0 else signed_digits ex) - int (length frac);
          m = of_int (signed_digits (whole @ frac))
      in if 0 \<le> e then m * 10 ^ nat e else m / 10 ^ nat (- e))"

definition round_half_even :: "rat \<Rightarrow> int" where
  "round_half_even x =
     (let f = \<lfloor>x\<rfloor>; d = x - of_int f
      in if d < 1 / 2 then f else if 1 / 2 < d then f + 1 else if even f then f else f + 1)"

text \<open>The exponent of the leading bit of a positive rational.\<close>

definition log2_floor :: "rat \<Rightarrow> int" where
  "log2_floor x =
     (let (p, q) = quotient_of x; k = int (floorlog 2 (nat p)) - int (floorlog 2 (nat q))
      in if x < 2 powi k then k - 1 else k)"

text \<open>The nearest 64-bit float: 53 significant bits, no fewer than \<open>2 ^ -1074\<close>, ties to even.\<close>

definition round_float :: "rat \<Rightarrow> rat" where
  "round_float x =
     (if x = 0 then 0
      else (let e = max (log2_floor \<bar>x\<bar> - 52) (- 1074)
            in of_int (round_half_even (x / 2 powi e)) * 2 powi e))"

definition float_overflow :: "string \<Rightarrow> bool" where
  "float_overflow s \<longleftrightarrow> 2 ^ 1024 \<le> \<bar>round_float (literal_value s)\<bar>"

text \<open>\<open>fmt.Sprintf("%.0f", x)\<close> of the float of a literal.\<close>

definition Sprintf_0f :: "string \<Rightarrow> string" where
  "Sprintf_0f s =
     (let n = round_half_even (round_float (literal_value s))
      in if HasPrefix s ''-'' then ''-'' @ show_nat (nat (- n)) else show_nat (nat n))"

section \<open>Decoding\<close>

fun has_number :: "(string \<Rightarrow> bool) \<Rightarrow> json \<Rightarrow> bool" where
  "has_number P (JNum s) = P s"
| "has_number P (JArr vs) = list_ex (has_number P) vs"
| "has_number P (JObj ms) = list_ex (\<lambda>(k, v). has_number P v) ms"
| "has_number P _ = False"

definition Unmarshal_any :: "string \<Rightarrow> string + json" where
  "Unmarshal_any s = (case parse_json s of
       None \<Rightarrow> Inl syntax_error
     | Some v \<Rightarrow> if has_number float_overflow v then Inl ''json: cannot unmarshal number into Go value of type float64'' else Inr v)"

section \<open>Type assertions\<close>

definition any_map :: "json option \<Rightarrow> ('w, (string \<times> json) list) prog" where
  "any_map v = (case v of Some (JObj ms) \<Rightarrow> ret ms | _ \<Rightarrow> panic ''interface conversion'')"

definition any_list :: "json option \<Rightarrow> ('w, json list) prog" where
  "any_list v = (case v of Some (JArr vs) \<Rightarrow> ret vs | _ \<Rightarrow> panic ''interface conversion'')"

definition any_string :: "json option \<Rightarrow> ('w, string) prog" where
  "any_string v = (case v of Some (JStr s) \<Rightarrow> ret s | _ \<Rightarrow> panic ''interface conversion'')"

definition any_number :: "json option \<Rightarrow> ('w, string) prog" where
  "any_number v = (case v of Some (JNum s) \<Rightarrow> ret s | _ \<Rightarrow> panic ''interface conversion'')"

text \<open>A member of an object; of two with the same name the later one counts.  \<open>null\<close> is the nil value.\<close>

definition member_of :: "(string \<times> json) list \<Rightarrow> string \<Rightarrow> json option" where
  "member_of ms k = (case map_of (rev ms) k of Some JNull \<Rightarrow> None | r \<Rightarrow> r)"

section \<open>Small integers\<close>

lemma round_half_even_int [simp]: "round_half_even (of_int n) = n"
  by (simp add: round_half_even_def Let_def)

lemma show_nat_plain: "c \<in> set (show_nat n) \<Longrightarrow> c \<notin> set ''eE.+-''"
proof -
  assume "c \<in> set (show_nat n)"
  then obtain d where "d < 10" "c = digit_char d" using show_nat_digits by blast
  then have v: "digit_val c = Some d" by simp
  show ?thesis using v by (auto simp: digit_val_def)
qed

lemma literal_show_nat: "literal_value (show_nat n) = of_nat n"
proof -
  have p: "\<forall>c \<in> set (show_nat n). not_exp c \<and> c \<noteq> CHR ''.''" "\<not> HasPrefix (show_nat n) ''-''" "\<not> HasPrefix (show_nat n) ''+''"
    using show_nat_plain [of _ n] by (auto simp: not_exp_def HasPrefix_def prefix_def) force+
  then have t: "takeWhile not_exp (show_nat n) = show_nat n" "dropWhile not_exp (show_nat n) = []"
    "takeWhile (\<lambda>c. c \<noteq> CHR ''.'') (show_nat n) = show_nat n" "dropWhile (\<lambda>c. c \<noteq> CHR ''.'') (show_nat n) = []"
    by (simp_all add: takeWhile_eq_all_conv)
  have "signed_digits (show_nat n) = int n" using p by (simp add: signed_digits_def parse_show_nat)
  then show ?thesis unfolding literal_value_def t Let_def by simp
qed

lemma log2_floor_nat:
  assumes "0 < n"
  shows "log2_floor (of_nat n) = int (floorlog 2 n) - 1"
proof -
  have q: "quotient_of (of_nat n) = (int n, 1)"
    using quotient_of_int [of "int n"] by (simp add: of_int_of_nat_eq)
  have f: "0 < floorlog 2 n" "2 ^ (floorlog 2 n - 1) \<le> n" using assms floorlog_bounds [of n 2] by (auto simp: floorlog_def)
  have "(2 :: rat) powi (int (floorlog 2 n) - 1) = 2 ^ (floorlog 2 n - 1)"
    using f(1) by (simp add: power_int_def nat_diff_distrib)
  moreover have "(2 :: rat) ^ (floorlog 2 n - 1) \<le> of_nat n" using f(2)
    by (metis of_nat_le_iff of_nat_numeral of_nat_power)
  moreover have "floorlog 2 (Suc 0) = 1" by (simp add: floorlog_def)
  ultimately show ?thesis by (simp add: log2_floor_def q Let_def)
qed

lemma round_float_nat:
  assumes "n < 2 ^ 53"
  shows "round_float (of_nat n) = of_nat n"
proof (cases "n = 0")
  case False
  let ?k = "int (floorlog 2 n) - 1"
  have "2 ^ (floorlog 2 n - 1) \<le> n" using False floorlog_bounds [of n 2] by auto
  then have "(2 :: nat) ^ (floorlog 2 n - 1) < 2 ^ 53" using assms by linarith
  then have "floorlog 2 n - 1 < 53" by (rule power_less_imp_less_exp [rotated]) simp
  then have k: "?k \<le> 52" by simp
  have p: "0 < floorlog 2 n" using False by (simp add: floorlog_def)
  have e: "max (?k - 52) (- 1074) = - int (53 - floorlog 2 n)" using k p by simp
  have pw: "(2 :: rat) powi (- int m) = inverse (2 ^ m)" for m by (simp add: power_int_minus)
  have i: "of_nat n * (2 :: rat) ^ m = of_int (int n * 2 ^ m)" for m by simp
  have "round_float (of_nat n) = of_int (round_half_even (of_nat n / 2 powi (- int (53 - floorlog 2 n)))) * 2 powi (- int (53 - floorlog 2 n))"
    using False unfolding round_float_def
    by (simp only: abs_of_nat log2_floor_nat [OF neq0_conv [THEN iffD1, OF False]] e Let_def of_nat_eq_0_iff if_False)
  also have "\<dots> = of_int (round_half_even (of_int (int n * 2 ^ (53 - floorlog 2 n)))) * inverse (2 ^ (53 - floorlog 2 n))"
    by (simp only: pw i [symmetric] divide_inverse inverse_inverse_eq)
  also have "\<dots> = of_nat n" by (simp only: round_half_even_int) (simp add: field_simps)
  finally show ?thesis .
qed (simp add: round_float_def)

text \<open>An integer below \<open>2 ^ 53\<close> goes through a float unchanged.\<close>

lemma Sprintf_0f_nat:
  assumes "n < 2 ^ 53"
  shows "Sprintf_0f (show_nat n) = show_nat n" "\<not> float_overflow (show_nat n)"
proof -
  have "\<not> HasPrefix (show_nat n) ''-''" using show_nat_plain [of "hd (show_nat n)" n]
    by (auto simp: HasPrefix_def prefix_def)
  moreover have "round_half_even (of_nat n) = int n" using round_half_even_int [of "int n"] by simp
  ultimately show "Sprintf_0f (show_nat n) = show_nat n"
    by (simp add: Sprintf_0f_def literal_show_nat round_float_nat [OF assms])
  have "(2 :: nat) ^ 53 \<le> 2 ^ 1024" by (rule power_increasing) simp_all
  then have "n < 2 ^ 1024" using assms by linarith
  then have "(of_nat n :: rat) < 2 ^ 1024" by (metis of_nat_less_iff of_nat_numeral of_nat_power)
  then show "\<not> float_overflow (show_nat n)"
    by (simp add: float_overflow_def literal_show_nat round_float_nat [OF assms])
qed

end
