(* ===== verification/VT_Util.thy ===== *)
theory VT_Util
  imports VT_Types Go_Regexp Go_Any
begin

text \<open>
  The version tracker's helpers (\<open>pkg/util\<close>: \<open>slices\<close>, \<open>command\<close>, \<open>file\<close>, \<open>tar\<close>, \<open>version\<close>) and the environment
  its packages run in.

  Not part of the sources, and so in the environment: the GitHub service behind \<open>go-github\<close>, the
  repository operations of \<open>go-git\<close>, the version ordering of the \<open>semver\<close> package, the YAML and TOML
  decoders and encoders, the reader of compressed archives, the layout of a
  printed table, and the order in which Go ranges over a
  map.  \<open>pageFuel\<close> bounds the number of pages of a listing that the model follows.
\<close>

section \<open>Environment\<close>

record GhRelease =
  rl_TagName :: string
  Prerelease :: bool

record GhTag =
  tg_Name :: string
  tg_SHA :: string

record GhAsset =
  as_Name :: string
  BrowserDownloadURL :: string

record PullRequest =
  pr_Number :: int
  HTMLURL :: string

text \<open>The errors of \<open>go-git\<close> that the callers tell apart.\<close>

datatype git_err = RepositoryAlreadyExists | RemoteExists | AlreadyUpToDate | GitErr string

text \<open>
  A page of a listing comes with the number of the next one, 0 at the end.  An entry of an archive is
  its name and its contents, or the error that reading them gives; the error at the end, if any,
  replaces the regular end of the archive.
\<close>

record vt_env = env +
  ghReleases :: "world \<Rightarrow> string \<Rightarrow> string \<Rightarrow> nat \<Rightarrow> string + GhRelease list \<times> nat"
  ghTags :: "world \<Rightarrow> string \<Rightarrow> string \<Rightarrow> nat \<Rightarrow> string + GhTag list \<times> nat"
  ghCommits :: "world \<Rightarrow> string \<Rightarrow> string \<Rightarrow> nat \<Rightarrow> string + string list \<times> nat"
  ghCommitDate :: "world \<Rightarrow> string \<Rightarrow> string \<Rightarrow> string \<Rightarrow> string + int"
  ghContents :: "world \<Rightarrow> string \<Rightarrow> string \<Rightarrow> string \<Rightarrow> string \<Rightarrow> string + string option"
  ghReleaseByTag :: "world \<Rightarrow> string \<Rightarrow> string \<Rightarrow> string \<Rightarrow> string + GhAsset list"
  ghPullRequests :: "world \<Rightarrow> string \<Rightarrow> string \<Rightarrow> string \<Rightarrow> string + PullRequest list"
  ghEditPullRequest :: "world \<Rightarrow> string \<Rightarrow> int \<Rightarrow> string \<Rightarrow> string + PullRequest"
  ghCreatePullRequest :: "world \<Rightarrow> string \<Rightarrow> string list \<Rightarrow> string + PullRequest"
  ghComments :: "world \<Rightarrow> string \<Rightarrow> int \<Rightarrow> string + string list"
  ghCreateComment :: "world \<Rightarrow> string \<Rightarrow> int \<Rightarrow> string \<Rightarrow> string + unit"
  gitop :: "world \<Rightarrow> event \<Rightarrow> git_err option \<times> files"
  gitResolve :: "world \<Rightarrow> string \<Rightarrow> string + string"
  semverErr :: "string \<Rightarrow> string option"
  semverGreater :: "string \<Rightarrow> string \<Rightarrow> bool"
  semverEqual :: "string \<Rightarrow> string \<Rightarrow> bool"
  yamlProjects :: "string \<Rightarrow> string + ProjectsList"
  yamlProjectsText :: "ProjectsList \<Rightarrow> string"
  yamlEKSDistro :: "string \<Rightarrow> string + EKSDistroLatestReleases"
  yamlEKSDistroText :: "EKSDistroLatestReleases \<Rightarrow> string + string"
  yamlMap :: "string \<Rightarrow> string + (string \<times> json) list"
  yamlMapText :: "(string \<times> json) list \<Rightarrow> string + string"
  yamlImage :: "string \<Rightarrow> string + ImageMetadata"
  yamlImageText :: "ImageMetadata \<Rightarrow> string + string"
  tomlAny :: "string \<Rightarrow> string + json"
  untargz :: "string \<Rightarrow> string + (string \<times> (string + string)) list \<times> string option"
  keyOrder :: "world \<Rightarrow> string list \<Rightarrow> string list"
  tableText :: "string list \<Rightarrow> string list list \<Rightarrow> string"
  pageFuel :: nat

text \<open>Surroundings for examples: every service refuses, nothing parses, versions compare by their length.\<close>

definition vt_quiet :: vt_env where
  "vt_quiet = \<lparr>ioerr = (\<lambda>w e. None), runcmd = (\<lambda>w e. ([], None, fs w)), httpget = (\<lambda>w u. (0, HttpFail ''offline'')),
     getenv = (\<lambda>k. None), getwd = Inr ''/work'', hostname = Inr ''builder'', lookPath = (\<lambda>s. s), meanwhile = (\<lambda>w d. fs w),
     ghReleases = (\<lambda>w org repo n. Inl ''offline''), ghTags = (\<lambda>w org repo n. Inl ''offline''), ghCommits = (\<lambda>w org repo n. Inl ''offline''),
     ghCommitDate = (\<lambda>w org repo sha. Inl ''offline''), ghContents = (\<lambda>w org repo p r. Inl ''offline''),
     ghReleaseByTag = (\<lambda>w org repo t. Inl ''offline''), ghPullRequests = (\<lambda>w owner b h. Inl ''offline''),
     ghEditPullRequest = (\<lambda>w owner n b. Inl ''offline''), ghCreatePullRequest = (\<lambda>w owner a. Inl ''offline''),
     ghComments = (\<lambda>w owner n. Inl ''offline''), ghCreateComment = (\<lambda>w owner n b. Inl ''offline''),
     gitop = (\<lambda>w e. (None, fs w)), gitResolve = (\<lambda>w r. Inr ''c0ffee''), semverErr = (\<lambda>v. None),
     semverGreater = (\<lambda>a b. length b < length a), semverEqual = (\<lambda>a b. length a = length b),
     yamlProjects = (\<lambda>t. Inl ''yaml''), yamlProjectsText = (\<lambda>ps. ''projects''), yamlEKSDistro = (\<lambda>t. Inl ''yaml''),
     yamlEKSDistroText = (\<lambda>r. Inr ''releases''), yamlMap = (\<lambda>t. Inl ''yaml''), yamlMapText = (\<lambda>m. Inr ''map''),
     yamlImage = (\<lambda>t. Inl ''yaml''), yamlImageText = (\<lambda>m. Inr ''image''), tomlAny = (\<lambda>t. Inl ''toml''), untargz = (\<lambda>t. Inl ''gzip''),
     keyOrder = (\<lambda>w ks. ks), tableText = (\<lambda>h rows. ''table''), pageFuel = 10\<rparr>"

definition empty_world :: world where
  "empty_world = \<lparr>fs = [], trace = [], clock = 0\<rparr>"

section \<open>Slices\<close>

definition slices_Contains :: "string list \<Rightarrow> string \<Rightarrow> bool" where
  "slices_Contains s str = list_ex (\<lambda>elem. elem = str) s"

definition IsSubset :: "string list \<Rightarrow> string list \<Rightarrow> bool" where
  "IsSubset s1 s2 = (if length s2 < length s1 then False else list_all (\<lambda>e. slices_Contains s2 e) s1)"

lemma slices_Contains_iff [simp]: "slices_Contains s x \<longleftrightarrow> x \<in> set s"
  by (auto simp: slices_Contains_def list_ex_iff)

section \<open>Commands\<close>

text \<open>The output is returned beside the error: a caller may look at it after a failure.\<close>

definition ExecCommand :: "'z env_scheme \<Rightarrow> string list \<Rightarrow> (world, string \<times> string option) prog" where
  "ExecCommand E argv = bind (exec_cmd E Combined argv) (\<lambda>(out, err).
     ret (TrimSpace out, map_option (\<lambda>e. ''executing command '' @ cmd_String E argv @ '': '' @ e) err))"

text \<open>The callers that only return the error.\<close>

definition ExecCommand_or_fail :: "'z env_scheme \<Rightarrow> string list \<Rightarrow> (world, string) prog" where
  "ExecCommand_or_fail E argv = bind (ExecCommand E argv) (\<lambda>(out, err). case err of None \<Rightarrow> ret out | Some e \<Rightarrow> fail e)"

section \<open>Files\<close>

definition Download :: "'z env_scheme \<Rightarrow> string \<Rightarrow> string \<Rightarrow> (world, unit) prog" where
  "Download E url filepath = bind (http_Get E url) (\<lambda>resp. case resp of
       HttpFail e \<Rightarrow> fail e
     | HttpReply status body \<Rightarrow> create_and_fill E filepath body)"

definition ReadURL :: "'z env_scheme \<Rightarrow> string \<Rightarrow> (world, string) prog" where
  "ReadURL E url = bind (http_Get E url) (\<lambda>resp. case resp of
       HttpFail e \<Rightarrow> fail e
     | HttpReply status body \<Rightarrow> lift_sum body)"

section \<open>Archives\<close>

definition extractFile :: "'z env_scheme \<Rightarrow> string \<Rightarrow> string \<Rightarrow> string \<times> (string + string) \<Rightarrow> (world, unit) prog" where
  "extractFile E tarballDownloadPath targetFile entry = (case entry of (name, body) \<Rightarrow>
     do_if (name = targetFile)
       (bind (do_if (Contains name ''/'')
          (wrapf ''creating parent directory for archive contents: '' (os_MkdirAll E (path_Join [tarballDownloadPath, Dir name]) 493))) (\<lambda>_.
        bind (wrapf ''creating file from archive: '' (os_Create E (path_Join [tarballDownloadPath, name]))) (\<lambda>_.
        wrapf ''copying file to output destination: '' (case body of
            Inl e \<Rightarrow> fail e
          | Inr c \<Rightarrow> os_WriteFile E (path_Join [tarballDownloadPath, name]) c 438)))))"

definition ExtractFileFromTarball :: "'z vt_env_scheme \<Rightarrow> string \<Rightarrow> string \<Rightarrow> string \<Rightarrow> (world, unit) prog" where
  "ExtractFileFromTarball E tarballDownloadPath gzipStream targetFile =
     bind (lift_sum (untargz E gzipStream)) (\<lambda>(entries, status).
     bind (for_each entries (extractFile E tarballDownloadPath targetFile)) (\<lambda>_.
     case status of None \<Rightarrow> ret () | Some e \<Rightarrow> fail (''advancing to next entry in archive: '' @ e)))"

section \<open>Go versions\<close>

text \<open>\<open>regexp.MustCompile\<close> panics on a pattern that does not compile.\<close>

definition MustCompile :: "string \<Rightarrow> (world, rx) prog" where
  "MustCompile p = (case rx_compile p of None \<Rightarrow> panic (''regexp: Compile('' @ Quote p @ '')'') | Some r \<Rightarrow> ret r)"

definition goVersionPattern :: "string \<Rightarrow> string" where
  "goVersionPattern goBinaryLocation =
     ''^'' @ goBinaryLocation @ '': go(.*)'' @ backslash @ ''.'' @ backslash @ ''d+'' @ backslash @ ''n''"

definition GetGoVersion :: "'z env_scheme \<Rightarrow> string \<Rightarrow> (world, string) prog" where
  "GetGoVersion E goBinaryLocation =
     bind (wrapf ''running Go version command: '' (ExecCommand_or_fail E [''go'', ''version'', ''-m'', goBinaryLocation])) (\<lambda>commandOutput.
     bind (MustCompile (goVersionPattern goBinaryLocation)) (\<lambda>pattern.
     index (FindStringSubmatch pattern commandOutput) 1))"

section \<open>The version in a binary\<close>

definition version_rx :: rx where
  "version_rx = Cat (Group 1 (Cat (Star Dot) Empty)) (Cat (Lit (CHR ''.'')) (Cat (Cat digits_class (Star digits_class)) (Cat (Lit (CHR 0x0A)) Empty)))"

lemma compile_goVersionPattern:
  assumes "list_all plain_char loc"
  shows "rx_compile (goVersionPattern loc) = Some (Cat Bol (foldr (\<lambda>c. Cat (atom_of c)) (loc @ '': go'') version_rx))"
proof -
  define t where "t = ''(.*)'' @ backslash @ ''.'' @ backslash @ ''d+'' @ backslash @ ''n''"
  define xs where "xs = loc @ '': go''"
  have "parse_cat 20 t 1 = Some (version_rx, [], 2)" unfolding t_def by code_simp
  then have "parse_cat (20 + (2 * length loc + 25)) t 1 = Some (version_rx, [], 2)" by (rule parse_cat_fuel)
  moreover have "list_all plain_char xs" using assms by (simp add: xs_def plain_char_def meta_chars_def)
  moreover have "\<not> quantifier t" by (simp add: t_def quantifier_def)
  ultimately have "parse_cat (20 + (2 * length loc + 25) + length xs) (xs @ t) 1 = Some (foldr (\<lambda>c. Cat (atom_of c)) xs version_rx, [], 2)"
    by (intro parse_cat_plain)
  moreover have "20 + (2 * length loc + 25) + length xs = Suc (3 * length loc + 48)" by (simp add: xs_def)
  ultimately have c: "parse_cat (Suc (3 * length loc + 48)) (xs @ t) 1 = Some (foldr (\<lambda>c. Cat (atom_of c)) xs version_rx, [], 2)"
    by (simp only:)
  have p: "goVersionPattern loc = CHR ''^'' # (xs @ t)" by (simp add: goVersionPattern_def xs_def t_def)
  have n: "3 * length (CHR ''^'' # (xs @ t)) + 3 = Suc (Suc (Suc (3 * length loc + 48)))" by (simp add: xs_def t_def)
  have q: "\<not> quantifier (xs @ t)"
    using assms plain_char_simps(4) by (cases loc) (auto simp: quantifier_def xs_def)
  have s: "parse_single (CHR ''^'') s = Some (Bol, s)" for s by (simp add: parse_single_def)
  have a: "parse_atom (Suc (3 * length loc + 48)) (CHR ''^'' # (xs @ t)) 1 = Some (Bol, xs @ t, 1)"
    by (simp only: parse_atom.simps s) simp
  have b: "quantify Bol (xs @ t) = Some (Bol, xs @ t)" using q by (simp add: quantify_def)
  have "parse_cat (Suc (Suc (3 * length loc + 48))) (CHR ''^'' # (xs @ t)) 1 =
      Some (Cat Bol (foldr (\<lambda>c. Cat (atom_of c)) xs version_rx), [], 2)"
    by (subst parse_cat.simps(2)) (simp only: a b c option.case prod.case list.sel char.inject list.distinct simp_thms if_False)
  then have "rx_compile (goVersionPattern loc) = Some (Cat Bol (foldr (\<lambda>c. Cat (atom_of c)) xs version_rx))"
    unfolding rx_compile_def p n
    by (subst parse_alt.simps(2)) (simp only: option.case prod.case HasPrefix_def prefix_Nil list.distinct if_False if_True simp_thms)
  then show ?thesis by (simp only: xs_def)
qed

lemma is_digit_not: "is_digit c \<Longrightarrow> c \<noteq> CHR ''.'' \<and> c \<noteq> CHR 0x0A" "\<not> is_digit (CHR 0x0A)"
  by (auto simp: is_digit_def in_class_def)

lemma takeWhile_run: "list_all P xs \<Longrightarrow> \<not> P y \<Longrightarrow> takeWhile P (xs @ y # ys) = xs"
  by (induction xs) auto

text \<open>The digits before the line end are all taken.\<close>

lemma match_digits:
  assumes "drop i s = d # ds @ CHR 0x0A # rest" "list_all is_digit (d # ds)"
  shows "\<exists>zs. rx_run s (Cat (Cat digits_class (Star digits_class)) (Cat (Lit (CHR 0x0A)) Empty)) (i, g) =
    (Suc (Suc (i + length ds)), g) # zs"
proof -
  have i: "i < length s" using assms(1) by (metis drop_all list.distinct(1) not_le)
  then have di: "s ! i = d" "drop (Suc i) s = ds @ CHR 0x0A # rest"
    using assms(1) by (metis nth_via_drop, metis drop_Suc list.sel(3) tl_drop)
  let ?n = "Suc i + length ds"
  let ?f = "\<lambda>k. rx_run s (Cat (Lit (CHR 0x0A)) Empty) (k, g)"
  have "takeWhile (\<lambda>c. in_class c [(CHR ''0'', CHR ''9'')]) (drop (Suc i) s) = ds"
    unfolding di(2) using assms(2) is_digit_not(2) by (intro takeWhile_run) (auto simp: is_digit_def list_all_iff)
  then have star: "rx_run s (Star digits_class) (Suc i, g) = map (\<lambda>k. (k, g)) (rev [Suc i..<Suc ?n])"
    using rx_run_digits [of "Suc i" s g] i by simp
  have one: "rx_run s digits_class (i, g) = [(Suc i, g)]"
    using i di(1) assms(2) by (simp add: digits_class_def step_char_def is_digit_def)
  have nl: "?n < length s" "s ! ?n = CHR 0x0A"
    using di(2) by (metis append_eq_conv_conj drop_drop drop_eq_Nil list.distinct(1) not_le add.commute,
      metis add.commute append_eq_conv_conj drop_drop nth_via_drop)
  then have "?f ?n = [(Suc ?n, g)]" by (simp add: step_char_def)
  then have "\<exists>zs. concat (map ?f (rev [Suc i..<Suc ?n])) = (Suc ?n, g) # zs"
    by (intro concat_rev_upt) simp_all
  moreover have "rx_run s (Cat (Cat digits_class (Star digits_class)) r) (i, g) = concat (map (\<lambda>k. rx_run s r (k, g)) (rev [Suc i..<Suc ?n]))" for r
    by (simp only: rx_run.simps(7) one star list.map concat.simps append_Nil2 map_map comp_def)
  ultimately show ?thesis by (simp only: add_Suc)
qed

lemma rx_run_lit: "i < length s \<Longrightarrow> s ! i = c \<Longrightarrow> rx_run s (Cat (Lit c) r) (i, g) = rx_run s r (Suc i, g)"
  by (simp add: step_char_def)

lemma rx_run_lit_not: "s ! i \<noteq> c \<Longrightarrow> rx_run s (Cat (Lit c) r) (i, g) = []"
  by (simp add: step_char_def)

lemma match_version:
  assumes "drop i s = v @ CHR ''.'' # ds @ CHR 0x0A # rest" "CHR 0x0A \<notin> set v" "list_all is_digit ds" "ds \<noteq> []"
  shows "\<exists>j zs. rx_run s version_rx (i, []) = (j, [(1, i, i + length v)]) # zs"
proof -
  let ?n = "i + length (v @ CHR ''.'' # ds)"
  let ?R = "Cat (Lit (CHR ''.'')) (Cat (Cat digits_class (Star digits_class)) (Cat (Lit (CHR 0x0A)) Empty))"
  let ?f = "\<lambda>k. rx_run s ?R (k, [(1, i, k)])"
  have l: "i \<le> length s" using assms(1) by (metis drop_all append_is_Nil_conv list.distinct(1) nat_le_linear)
  have at: "k < length (drop i s) \<Longrightarrow> s ! (i + k) = drop i s ! k" for k using l by simp
  have "takeWhile (\<lambda>c. c \<noteq> CHR 0x0A) ((v @ CHR ''.'' # ds) @ CHR 0x0A # rest) = v @ CHR ''.'' # ds"
    using assms(2,3) is_digit_not(1) by (intro takeWhile_run) (auto simp: list_all_iff)
  then have "rx_run s (Star Dot) (i, []) = map (\<lambda>k. (k, [])) (rev [i..<Suc ?n])"
    using rx_run_dots [OF l] assms(1) by simp
  then have run: "rx_run s version_rx (i, []) = concat (map ?f (rev [i..<Suc ?n]))"
    unfolding version_rx_def by (simp only: rx_run.simps(1,7,10) list.map map_map comp_def concat_map_singleton fst_conv snd_conv)
  have fail: "?f k = []" if k: "i + length v < k" "k \<le> ?n" for k
  proof -
    obtain j where kj: "k = Suc (i + length v + j)" using k(1) less_iff_Suc_add by blast
    then have j: "k = i + length v + Suc j" "j \<le> length ds" using k(2) by simp_all
    have "drop i s ! (length v + Suc j) = (ds @ CHR 0x0A # rest) ! j" unfolding assms(1) by (simp add: nth_append)
    moreover have "(ds @ CHR 0x0A # rest) ! j \<noteq> CHR ''.''"
      using j(2) assms(3) is_digit_not(1) by (auto simp: nth_append list_all_iff)
    moreover have "length v + Suc j < length (drop i s)" unfolding assms(1) using j(2) by simp
    ultimately have "s ! k \<noteq> CHR ''.''" using at [of "length v + Suc j"] by (simp add: j(1) add.assoc)
    then show ?thesis by (rule rx_run_lit_not)
  qed
  obtain d ds' where ds: "ds = d # ds'" using assms(4) by (cases ds) auto
  have "drop (Suc (i + length v)) s = drop (Suc (length v)) (drop i s)" by (simp add: add.commute)
  then have "drop (Suc (i + length v)) s = d # ds' @ CHR 0x0A # rest" unfolding assms(1) ds by simp
  then obtain zs where "rx_run s (Cat (Cat digits_class (Star digits_class)) (Cat (Lit (CHR 0x0A)) Empty))
      (Suc (i + length v), [(1, i, i + length v)]) = (Suc (Suc (Suc (i + length v) + length ds')), [(1, i, i + length v)]) # zs"
    using match_digits assms(3) ds by blast
  note match = this
  have "length v < length (drop i s)" unfolding assms(1) by simp
  then have "i + length v < length s" "s ! (i + length v) = drop i s ! length v" using at [of "length v"] by simp_all
  moreover have "drop i s ! length v = CHR ''.''" unfolding assms(1) by simp
  ultimately have "i + length v < length s" "s ! (i + length v) = CHR ''.''" by simp_all
  then have "?f (i + length v) = rx_run s (Cat (Cat digits_class (Star digits_class)) (Cat (Lit (CHR 0x0A)) Empty)) (Suc (i + length v), [(1, i, i + length v)])"
    by (rule rx_run_lit)
  with match have g: "?f (i + length v) = (Suc (Suc (Suc (i + length v) + length ds')), [(1, i, i + length v)]) # zs"
    by (simp only:)
  define f where "f = ?f"
  have "f k = []" if "i + length v < k" "k \<le> ?n" for k unfolding f_def by (rule fail [OF that])
  moreover have "f (i + length v) = (Suc (Suc (Suc (i + length v) + length ds')), [(1, i, i + length v)]) # zs"
    unfolding f_def by (rule g)
  ultimately have "\<exists>zs. concat (map f (rev [i..<Suc ?n])) = (Suc (Suc (Suc (i + length v) + length ds')), [(1, i, i + length v)]) # zs"
    by (intro concat_rev_upt) simp_all
  then show ?thesis unfolding run f_def by blast
qed


lemma submatch_version:
  assumes "list_all plain_char loc" "CHR 0x0A \<notin> set (loc @ v)" "list_all is_digit ds" "ds \<noteq> []"
  shows "\<exists>r. rx_compile (goVersionPattern loc) = Some r \<and>
    (\<exists>m. FindStringSubmatch r (loc @ '': go'' @ v @ CHR ''.'' # ds @ CHR 0x0A # rest) = [m, v])"
proof -
  define s where "s = loc @ '': go'' @ v @ CHR ''.'' # ds @ CHR 0x0A # rest"
  define xs where "xs = loc @ '': go''"
  define r where "r = Cat Bol (foldr (\<lambda>c. Cat (atom_of c)) xs version_rx)"
  have c: "rx_compile (goVersionPattern loc) = Some r" unfolding r_def xs_def by (rule compile_goVersionPattern [OF assms(1)])
  have s: "s = xs @ v @ CHR ''.'' # ds @ CHR 0x0A # rest" by (simp add: s_def xs_def)
  have "list_all (\<lambda>c. c \<noteq> CHR 0x0A) xs" using assms(2) by (auto simp: xs_def list_all_iff)
  then have "rx_run s (foldr (\<lambda>c. Cat (atom_of c)) xs version_rx) (0, []) = rx_run s version_rx (length xs, [])"
    using rx_run_plain [of 0 s xs "v @ CHR ''.'' # ds @ CHR 0x0A # rest" version_rx "[]"] s by simp
  moreover obtain j zs where "rx_run s version_rx (length xs, []) = (j, [(1, length xs, length xs + length v)]) # zs"
    using match_version [of "length xs" s v ds rest] assms(2-4) s by auto
  moreover have "rx_run s r (0, []) = rx_run s (foldr (\<lambda>c. Cat (atom_of c)) xs version_rx) (0, [])"
    unfolding r_def by (simp only: rx_run.simps(5,7) fst_conv if_True list.map concat.simps append_Nil2 simp_thms)
  ultimately have run: "rx_run s r (0, []) = (j, [(1, length xs, length xs + length v)]) # zs" by (simp only:)
  have "groups (foldr (\<lambda>c. Cat (atom_of c)) ys version_rx) = 1" for ys
    by (induction ys) (simp_all add: version_rx_def digits_class_def atom_of_def)
  then have g: "groups r = 1" by (simp add: r_def)
  have u: "[0..<Suc (length s)] = 0 # [1..<Suc (length s)]" by (simp add: upt_conv_Cons del: upt_Suc)
  have "FindStringSubmatch r s = submatches s r (0, j, [(1, length xs, length xs + length v)])"
    unfolding FindStringSubmatch_def u find_first.simps run by simp
  then have "\<exists>m. FindStringSubmatch r s = [m, v]"
    using s by (simp add: submatches_def g group_text_def Go_Regexp.span_def)
  then show ?thesis using c by (simp add: s_def)
qed

text \<open>
  C33.  The Go version of a binary: when \<open>go version -m\<close> prints the location, \<open>: go\<close>, a version and a line
  end, the result is the version without its last number, for every location that the pattern takes
  literally.  So \<open>go1.20.3\<close> gives \<open>1.20\<close>, and \<open>go1.20\<close>, the first release of its line, gives \<open>1\<close>.
\<close>

theorem GetGoVersion_reads:
  assumes "ExecCommand_or_fail E [''go'', ''version'', ''-m'', loc] w = (Ok (loc @ '': go'' @ v @ CHR ''.'' # ds @ CHR 0x0A # rest), w')"
    and "list_all plain_char loc" "CHR 0x0A \<notin> set (loc @ v)" "list_all is_digit ds" "ds \<noteq> []"
  shows "GetGoVersion E loc w = (Ok v, w')"
proof -
  obtain r m where r: "rx_compile (goVersionPattern loc) = Some r"
    "FindStringSubmatch r (loc @ '': go'' @ v @ CHR ''.'' # ds @ CHR 0x0A # rest) = [m, v]"
    using submatch_version [OF assms(2-5)] by blast
  have "wrapf ''running Go version command: '' (ExecCommand_or_fail E [''go'', ''version'', ''-m'', loc]) w =
      (Ok (loc @ '': go'' @ v @ CHR ''.'' # ds @ CHR 0x0A # rest), w')"
    using assms(1) by (simp only: wrap_Ok_iff)
  then show ?thesis unfolding GetGoVersion_def MustCompile_def using r by (simp add: bind_run_Ok)
qed

definition go_prints :: "string \<Rightarrow> vt_env" where
  "go_prints out = vt_quiet\<lparr>runcmd := (\<lambda>w e. (out, None, fs w))\<rparr>"

lemma go_prints_run: "ExecCommand_or_fail (go_prints out) argv w = (Ok (TrimSpace out), emit (Exec Combined argv) w)"
  by (simp add: ExecCommand_or_fail_def ExecCommand_def exec_cmd_def go_prints_def vt_quiet_def bind_def emit_def)

theorem GetGoVersion_reads_witness:
  "fst (GetGoVersion (go_prints ''/b/kind: go1.20.3\<newline>path k'') ''/b/kind'' empty_world) = Ok ''1.20'' \<and>
   fst (GetGoVersion (go_prints ''/b/kind: go1.20\<newline>path k'') ''/b/kind'' empty_world) = Ok ''1''"
proof -
  have a: "TrimSpace ''/b/kind: go1.20.3\<newline>path k'' = ''/b/kind'' @ '': go'' @ ''1.20'' @ CHR ''.'' # ''3'' @ CHR 0x0A # ''path k''"
    "TrimSpace ''/b/kind: go1.20\<newline>path k'' = ''/b/kind'' @ '': go'' @ ''1'' @ CHR ''.'' # ''20'' @ CHR 0x0A # ''path k''"
    by code_simp+
  have p: "list_all plain_char ''/b/kind''" "list_all is_digit ''3''" "list_all is_digit ''20''" by code_simp+
  have n: "CHR 0x0A \<notin> set (''/b/kind'' @ ''1.20'')" "CHR 0x0A \<notin> set (''/b/kind'' @ ''1'')" by simp_all
  note run = go_prints_run [of _ "[''go'', ''version'', ''-m'', ''/b/kind'']" empty_world]
  show ?thesis
    using GetGoVersion_reads [OF run [of "''/b/kind: go1.20.3\<newline>path k''", unfolded a(1)] p(1) n(1) p(2)]
      GetGoVersion_reads [OF run [of "''/b/kind: go1.20\<newline>path k''", unfolded a(2)] p(1) n(2) p(3)]
    by simp
qed

end
