(* ===== verification/VT_GitHub.thy ===== *)
theory VT_GitHub
  imports VT_Util
begin

text \<open>
  \<open>pkg/github/github.go\<close>: the listings of releases, tags and commits, the latest revision of a
  project, the Go version of a revision, and the pull request.  GitHub fills in the fields that are
  read, so they are not pointers here; an answer that reports an error carries no object.

  The three listings interpret \<open>paged_listing\<close>: they end and return every page in order.  The search for
  the latest revision is compared with a reference definition, \<open>firstRevision\<close>.
\<close>

section \<open>Listings\<close>

text \<open>One request per page, starting with page 0, until the answer names no next page.\<close>

fun listPages ::
  "nat \<Rightarrow> string \<Rightarrow> string list \<Rightarrow> (world \<Rightarrow> nat \<Rightarrow> string + 'a list \<times> nat) \<Rightarrow> ('a \<Rightarrow> bool) \<Rightarrow> 'a list \<Rightarrow> nat \<Rightarrow> (world, 'a list) prog" where
  "listPages 0 call args ask keep acc page = panic ''more pages than the model follows''"
| "listPages (Suc n) call args ask keep acc page =
     bind (api_call call (args @ [show_nat page]) (\<lambda>w. ask w page)) (\<lambda>r. case r of
         Inl e \<Rightarrow> fail e
       | Inr (xs, next) \<Rightarrow>
           (let acc' = acc @ filter keep xs
            in if next = 0 then ret acc' else listPages n call args ask keep acc' next))"

definition in_repo :: "string \<Rightarrow> string \<Rightarrow> string" where
  "in_repo org repo = ''['' @ org @ ''/'' @ repo @ ''] repository: ''"

definition getReleasesForRepo :: "'z vt_env_scheme \<Rightarrow> string \<Rightarrow> string \<Rightarrow> (world, GhRelease list) prog" where
  "getReleasesForRepo E org repo = wrapf (''calling ListReleases API for '' @ in_repo org repo)
     (listPages (pageFuel E) ''ListReleases'' [org, repo] (\<lambda>w. ghReleases E w org repo) (\<lambda>release. \<not> Prerelease release) [] 0)"

definition getTagsForRepo :: "'z vt_env_scheme \<Rightarrow> string \<Rightarrow> string \<Rightarrow> (world, GhTag list) prog" where
  "getTagsForRepo E org repo = wrapf (''calling ListTags API for '' @ in_repo org repo)
     (listPages (pageFuel E) ''ListTags'' [org, repo] (\<lambda>w. ghTags E w org repo) (\<lambda>_. True) [] 0)"

definition getCommitsForRepo :: "'z vt_env_scheme \<Rightarrow> string \<Rightarrow> string \<Rightarrow> (world, string list) prog" where
  "getCommitsForRepo E org repo = wrapf (''calling ListCommits for '' @ in_repo org repo)
     (listPages (pageFuel E) ''ListCommits'' [org, repo] (\<lambda>w. ghCommits E w org repo) (\<lambda>_. True) [] 0)"

text \<open>The error names the commit it did not get, which is nil.\<close>

definition getCommitDateEpoch :: "'z vt_env_scheme \<Rightarrow> string \<Rightarrow> string \<Rightarrow> string \<Rightarrow> (world, int) prog" where
  "getCommitDateEpoch E org repo commitSHA =
     bind (api_call ''GetCommit'' [org, repo, commitSHA] (\<lambda>w. ghCommitDate E w org repo commitSHA)) (\<lambda>r.
     wrapf (''getting date for commit <nil> in '' @ in_repo org repo) (lift_sum r))"

definition GetFileContents :: "'z vt_env_scheme \<Rightarrow> string \<Rightarrow> string \<Rightarrow> string \<Rightarrow> string \<Rightarrow> (world, string) prog" where
  "GetFileContents E org repo filePath ref =
     bind (api_call ''GetContents'' [org, repo, filePath, ref] (\<lambda>w. ghContents E w org repo filePath ref)) (\<lambda>r.
     bind (wrapf (''getting contents of file ['' @ filePath @ '']: '') (lift_sum r)) (\<lambda>contents.
     bind (deref contents) (\<lambda>text.
     wrapf (''decoding contents of file ['' @ filePath @ '']: '') (lift_sum (DecodeString text)))))"

section \<open>The latest revision\<close>

definition getCommitForTag :: "GhTag list \<Rightarrow> string \<Rightarrow> string" where
  "getCommitForTag allTags searchTag = (case find (\<lambda>tag. searchTag = tg_Name tag) allTags of
     Some tag \<Rightarrow> tg_SHA tag | None \<Rightarrow> [])"

definition semver_New :: "'z vt_env_scheme \<Rightarrow> string \<Rightarrow> (world, unit) prog" where
  "semver_New E v = (case semverErr E v of None \<Rightarrow> ret () | Some e \<Rightarrow> fail e)"

definition isUpgradeRequired ::
  "'z vt_env_scheme \<Rightarrow> string \<Rightarrow> string \<Rightarrow> string \<Rightarrow> int \<Rightarrow> string \<Rightarrow> GhTag list \<Rightarrow> (world, bool \<times> bool) prog" where
  "isUpgradeRequired E org repo latestRevision currentRevisionCommitEpoch currentRevision allTags =
     (let latestRevisionCommit = getCommitForTag allTags latestRevision
      in if latestRevisionCommit = [] then fail (''empty commit hash for latest revision: '' @ latestRevision)
         else
           bind (wrapf ''getting epoch time corresponding to latest revision commit: ''
             (getCommitDateEpoch E org repo latestRevisionCommit)) (\<lambda>latestRevisionCommitEpoch.
           bind (wrapf ''getting semver for latest version: '' (semver_New E latestRevision)) (\<lambda>_.
           ret (if currentRevisionCommitEpoch < latestRevisionCommitEpoch \<and> semverGreater E latestRevision currentRevision then (True, True)
                else if semverEqual E latestRevision currentRevision then (False, True)
                else (False, False)))))"

text \<open>The loop over releases or tags: \<open>latest\<close> is the revision looked at last.\<close>

fun scanRevisions ::
  "'z vt_env_scheme \<Rightarrow> string \<Rightarrow> string \<Rightarrow> int \<Rightarrow> string \<Rightarrow> GhTag list \<Rightarrow> string \<Rightarrow> string list \<Rightarrow> (world, string \<times> bool) prog" where
  "scanRevisions E org repo epoch current allTags latest [] = ret (latest, False)"
| "scanRevisions E org repo epoch current allTags latest (r # rs) =
     bind (wrapf ''determining if upgrade is required for project: '' (isUpgradeRequired E org repo r epoch current allTags))
       (\<lambda>(upgradeRequired, shouldBreak).
        if shouldBreak then ret (r, upgradeRequired) else scanRevisions E org repo epoch current allTags r rs)"

definition GetLatestRevision :: "'z vt_env_scheme \<Rightarrow> string \<Rightarrow> string \<Rightarrow> string \<Rightarrow> (world, string \<times> bool) prog" where
  "GetLatestRevision E org repo currentRevision =
     bind (wrapf (''getting all releases for '' @ in_repo org repo) (getReleasesForRepo E org repo)) (\<lambda>allReleases.
     bind (wrapf (''getting all tags for '' @ in_repo org repo) (getTagsForRepo E org repo)) (\<lambda>allTags.
     let currentRevisionCommit = getCommitForTag allTags currentRevision in
     bind (wrapf ''getting epoch time corresponding to current revision commit: ''
       (getCommitDateEpoch E org repo currentRevisionCommit)) (\<lambda>epoch.
     bind (wrapf ''getting semver for current version: '' (semver_New E currentRevision)) (\<lambda>_.
     if allReleases \<noteq> [] then scanRevisions E org repo epoch currentRevision allTags [] (map rl_TagName allReleases)
     else if allTags \<noteq> [] then scanRevisions E org repo epoch currentRevision allTags [] (map tg_Name allTags)
     else
       bind (wrapf (''getting all commits for '' @ in_repo org repo) (getCommitsForRepo E org repo)) (\<lambda>allCommits.
       bind (index allCommits 0) (\<lambda>sha. ret (sha, True)))))))"

section \<open>The Go version of a revision\<close>

text \<open>\<open>fmt.Sprintf\<close> of a format with \<open>%s\<close> and one argument.\<close>

definition Sprintf_s :: "string \<Rightarrow> string \<Rightarrow> string" where
  "Sprintf_s f a = (case cut ''%s'' f of None \<Rightarrow> f | Some (x, y) \<Rightarrow> x @ a @ ReplaceAll y ''%s'' ''%!s(MISSING)'')"

definition fill_version :: "string \<Rightarrow> string \<Rightarrow> string" where
  "fill_version name v = (if Count name ''%s'' > 0 then Sprintf_s name v else name)"

text \<open>\<open>latestRevision[1:]\<close> panics on the empty string.\<close>

definition assetVersion :: "ReleaseTarball \<Rightarrow> string \<Rightarrow> (world, string) prog" where
  "assetVersion t latestRevision =
     (if TrimLeadingVersionPrefix t then
        (if latestRevision = [] then panic ''slice bounds out of range'' else ret (tl latestRevision))
      else ret latestRevision)"

text \<open>The name and URL of the tarball; both empty when the release has no asset of that name.\<close>

definition findTarball :: "ReleaseTarball \<Rightarrow> GhAsset list \<Rightarrow> string \<Rightarrow> string \<times> string" where
  "findTarball t assets v =
     (let searchAssetName = fill_version (ta_AssetName t) v
      in if OverrideAssetURL t \<noteq> [] then (searchAssetName, fill_version (OverrideAssetURL t) v)
         else (case find (\<lambda>a. as_Name a = searchAssetName) assets of
             Some a \<Rightarrow> (as_Name a, BrowserDownloadURL a) | None \<Rightarrow> ([], [])))"

definition goVersionFromRelease ::
  "'z vt_env_scheme \<Rightarrow> string \<Rightarrow> ReleaseTarball \<Rightarrow> string \<Rightarrow> string \<Rightarrow> string \<Rightarrow> (world, string) prog" where
  "goVersionFromRelease E cwd t org repo latestRevision =
     bind (api_call ''GetReleaseByTag'' [org, repo, latestRevision] (\<lambda>w. ghReleaseByTag E w org repo latestRevision)) (\<lambda>r.
     bind (wrapf (''calling GetReleaseByTag for tag '' @ latestRevision @ '' in '' @ in_repo org repo) (lift_sum r)) (\<lambda>assets.
     bind (assetVersion t latestRevision) (\<lambda>v.
     let (tarballName, tarballUrl) = findTarball t assets v;
         tarballDownloadPath = path_Join [cwd, ''github-release-downloads''];
         tarballFilePath = path_Join [tarballDownloadPath, tarballName];
         binaryName = fill_version (BinaryName t) v;
         binaryFilePath = path_Join [tarballDownloadPath, binaryName] in
     bind (wrapf ''failed to create GitHub release downloads folder: '' (os_MkdirAll E tarballDownloadPath 493)) (\<lambda>_.
     bind (wrapf (''downloading release tarball from URL ['' @ tarballUrl @ '']: '') (Download E tarballUrl tarballFilePath)) (\<lambda>_.
     bind (do_if (Extract t)
       (bind (wrapf ''opening tarball filepath: '' (os_ReadFile E tarballFilePath)) (\<lambda>tarballFile.
        wrapf ''extracting tarball file: '' (ExtractFileFromTarball E tarballDownloadPath tarballFile binaryName)))) (\<lambda>_.
     bind (wrapf (''getting Go version embedded in binary ['' @ binaryFilePath @ '']: '') (GetGoVersion E binaryFilePath)) (\<lambda>goVersion.
     bind (wrapf ''removing tarball download path: '' (os_RemoveAll E tarballDownloadPath)) (\<lambda>_. ret goVersion))))))))"

definition goVersionFromSource ::
  "'z vt_env_scheme \<Rightarrow> GoVersionSourceOfTruth \<Rightarrow> string \<Rightarrow> string \<Rightarrow> string \<Rightarrow> (world, string) prog" where
  "goVersionFromSource E t org repo latestRevision =
     bind (wrapf (''getting contents of file ['' @ SourceOfTruthFile t @ '']: '')
       (GetFileContents E org repo (SourceOfTruthFile t) latestRevision)) (\<lambda>workflowContents.
     bind (MustCompile (GoVersionSearchString t)) (\<lambda>pattern.
     index (FindStringSubmatch pattern workflowContents) 1))"

definition GetGoVersionForLatestRevision :: "'z vt_env_scheme \<Rightarrow> string \<Rightarrow> string \<Rightarrow> string \<Rightarrow> (world, string) prog" where
  "GetGoVersionForLatestRevision E org repo latestRevision =
     bind (wrapf ''retrieving current working directory: '' (lift_sum (getwd E))) (\<lambda>cwd.
     let projectFullName = org @ ''/'' @ repo in
     case map_of ProjectReleaseAssets projectFullName of
       Some t \<Rightarrow> goVersionFromRelease E cwd t org repo latestRevision
     | None \<Rightarrow> (case map_of ProjectGoVersionSourceOfTruth projectFullName of
         Some t \<Rightarrow> goVersionFromSource E t org repo latestRevision
       | None \<Rightarrow> ret []))"

section \<open>The pull request\<close>

text \<open>\<open>comment.Body == github.String(...)\<close> compares the addresses of two strings, the second one new.\<close>

definition sameCommentBody :: "string \<Rightarrow> string \<Rightarrow> bool" where
  "sameCommentBody body patchesWarningComment = False"

text \<open>
  An existing pull request gets the new body.  When that fails the error message is to name its URL,
  but the failed call has set the pull request to nil.
\<close>

definition editPullRequest ::
  "'z vt_env_scheme \<Rightarrow> string \<Rightarrow> PullRequest \<Rightarrow> string \<Rightarrow> bool \<Rightarrow> string \<Rightarrow> (world, PullRequest \<times> bool) prog" where
  "editPullRequest E owner pr body addPatchWarningComment patchesWarningComment =
     bind (api_call ''PullRequests.Edit'' [owner, Itoa (pr_Number pr), body] (\<lambda>w. ghEditPullRequest E w owner (pr_Number pr) body)) (\<lambda>r.
     case r of
       Inl e \<Rightarrow> panic ''nil pointer dereference''
     | Inr pr' \<Rightarrow>
         (if addPatchWarningComment then
            bind (api_call ''Issues.ListComments'' [owner, Itoa (pr_Number pr')] (\<lambda>w. ghComments E w owner (pr_Number pr'))) (\<lambda>r.
            bind (wrapf ''listing comments on pull request: '' (lift_sum r)) (\<lambda>comments.
            ret (pr', list_ex (\<lambda>c. sameCommentBody c patchesWarningComment) comments)))
          else ret (pr', False)))"

definition CreatePullRequest ::
  "'z vt_env_scheme \<Rightarrow> string \<Rightarrow> string \<Rightarrow> string \<Rightarrow> string \<Rightarrow> string \<Rightarrow> string \<Rightarrow> bool \<Rightarrow> string \<Rightarrow> (world, unit) prog" where
  "CreatePullRequest E title body baseRepoOwner baseBranch headRepoOwner headBranch addPatchWarningComment patchesWarningComment =
     (let head = headRepoOwner @ '':'' @ headBranch in
     bind (api_call ''PullRequests.List'' [baseRepoOwner, baseBranch, head] (\<lambda>w. ghPullRequests E w baseRepoOwner baseBranch head)) (\<lambda>r.
     bind (wrapf (''listing pull requests from '' @ head @ '' -> '' @ baseRepoOwner @ '':'' @ baseBranch @ '': '') (lift_sum r)) (\<lambda>pullRequests.
     bind (case pullRequests of
         pr # _ \<Rightarrow> editPullRequest E baseRepoOwner pr body addPatchWarningComment patchesWarningComment
       | [] \<Rightarrow>
           bind (api_call ''PullRequests.Create'' [baseRepoOwner, title, head, baseBranch, body]
             (\<lambda>w. ghCreatePullRequest E w baseRepoOwner [title, head, baseBranch, body])) (\<lambda>r.
           bind (wrapf (''creating pull request with updated versions from '' @ headBranch @ '' to '' @ baseBranch @ '': '') (lift_sum r)) (\<lambda>pr.
           ret (pr, False)))) (\<lambda>(pullRequest, patchWarningCommentExists).
     do_if (addPatchWarningComment \<and> \<not> patchWarningCommentExists)
       (bind (api_call ''Issues.CreateComment'' [baseRepoOwner, Itoa (pr_Number pullRequest), patchesWarningComment]
          (\<lambda>w. ghCreateComment E w baseRepoOwner (pr_Number pullRequest) patchesWarningComment)) (\<lambda>r.
        wrapf (''commenting failed patch apply warning on pull request ['' @ HTMLURL pullRequest @ '']: '') (lift_sum r)))))))"

text \<open>A pull request that cannot be edited ends the run with a panic instead of the error message.\<close>

lemma editPullRequest_failure_panics:
  "ghEditPullRequest E w owner (pr_Number pr) body = Inl e \<Longrightarrow>
     fst (editPullRequest E owner pr body add c w) = Panic ''nil pointer dereference''"
  by (simp add: editPullRequest_def bind_def api_call_def)

text \<open>The warning is posted again on every run: a comment that is already there is not recognised.\<close>

lemma editPullRequest_repeats_comment:
  "ghEditPullRequest E w owner (pr_Number pr) body = Inr pr' \<Longrightarrow> \<forall>v. ghComments E v owner (pr_Number pr') = Inr [c] \<Longrightarrow>
     fst (editPullRequest E owner pr body True c w) = Ok (pr', False)"
  by (simp add: editPullRequest_def bind_def api_call_def sameCommentBody_def wrapf_run)

section \<open>Listings are complete\<close>

text \<open>The number under which the service keeps the page after \<open>i\<close> others: the first is page 0 or 1.\<close>

definition page_no :: "nat \<Rightarrow> nat" where
  "page_no i = (if i = 0 then 0 else Suc i)"

definition chained :: "(world \<Rightarrow> nat \<Rightarrow> string + 'a list \<times> nat) \<Rightarrow> 'a list list \<Rightarrow> bool" where
  "chained ask pages \<longleftrightarrow> (\<forall>v i. i < length pages \<longrightarrow>
     ask v (page_no i) = Inr (pages ! i, if Suc i < length pages then page_no (Suc i) else 0))"

lemma listPages_run:
  assumes "chained ask pages" "k < length pages" "length pages \<le> n + k"
  shows "\<exists>w'. listPages n call args ask keep acc (page_no k) w = (Ok (acc @ filter keep (concat (drop k pages))), w') \<and> fs w' = fs w"
  using assms(2,3)
proof (induction n arbitrary: k acc w)
  case (Suc n)
  let ?w = "emit (Call call (args @ [show_nat (page_no k)])) w"
  have a: "ask w (page_no k) = Inr (pages ! k, if Suc k < length pages then page_no (Suc k) else 0)"
    using assms(1) Suc.prems(1) by (simp add: chained_def)
  have d: "drop k pages = pages ! k # drop (Suc k) pages" using Suc.prems(1) by (simp add: Cons_nth_drop_Suc)
  show ?case
  proof (cases "Suc k < length pages")
    case True
    then have "\<exists>w'. listPages n call args ask keep (acc @ filter keep (pages ! k)) (page_no (Suc k)) ?w =
        (Ok ((acc @ filter keep (pages ! k)) @ filter keep (concat (drop (Suc k) pages))), w') \<and> fs w' = fs ?w"
      using Suc.prems(2) by (intro Suc.IH) simp_all
    then show ?thesis using True a d by (auto simp: bind_def api_call_def Let_def page_no_def)
  next
    case False
    then show ?thesis using a d by (auto simp: bind_def api_call_def Let_def)
  qed
qed simp

text \<open>
  The contract of a listing: it asks for page after page.  What follows for it, whatever is listed: all
  entries of all pages that are to be kept, in order, and no file is touched.
\<close>

locale paged_listing =
  fixes listing :: "(world, 'a list) prog" and ask :: "world \<Rightarrow> nat \<Rightarrow> string + 'a list \<times> nat" and keep :: "'a \<Rightarrow> bool" and fuel :: nat
  assumes pages: "\<exists>msg call args. listing = wrapf msg (listPages fuel call args ask keep [] 0)"
begin

lemma complete:
  assumes "chained ask ps" "ps \<noteq> []" "length ps \<le> fuel"
  shows "\<exists>w'. listing w = (Ok (filter keep (concat ps)), w') \<and> fs w' = fs w"
proof -
  obtain msg call args where l: "listing = wrapf msg (listPages fuel call args ask keep [] 0)" using pages by blast
  show ?thesis using listPages_run [of ask ps 0 fuel call args keep "[]" w] assms by (simp add: l page_no_def)
qed

end

interpretation releases: paged_listing "getReleasesForRepo E org repo" "\<lambda>w. ghReleases E w org repo" "\<lambda>r. \<not> Prerelease r" "pageFuel E"
  for E :: "'z vt_env_scheme" and org repo
  by unfold_locales (auto simp: getReleasesForRepo_def)

interpretation tags: paged_listing "getTagsForRepo E org repo" "\<lambda>w. ghTags E w org repo" "\<lambda>_. True" "pageFuel E"
  for E :: "'z vt_env_scheme" and org repo
  by unfold_locales (auto simp: getTagsForRepo_def)

interpretation commits: paged_listing "getCommitsForRepo E org repo" "\<lambda>w. ghCommits E w org repo" "\<lambda>_. True" "pageFuel E"
  for E :: "'z vt_env_scheme" and org repo
  by unfold_locales (auto simp: getCommitsForRepo_def)

text \<open>
  Listing the releases of a repository asks for page after page until the service names no next
  one, ends, and returns every release of every page in order, without the pre-releases; no file is
  touched.
\<close>

theorem getReleasesForRepo_complete:
  assumes "chained (\<lambda>v. ghReleases E v org repo) pages" "pages \<noteq> []" "length pages \<le> pageFuel E"
  shows "\<exists>w'. getReleasesForRepo E org repo w = (Ok (filter (\<lambda>r. \<not> Prerelease r) (concat pages)), w') \<and> fs w' = fs w"
  using assms by (rule releases.complete)

text \<open>A repository with two pages of releases and of tags, for examples.\<close>

definition two_pages :: "'a list list \<Rightarrow> nat \<Rightarrow> string + 'a list \<times> nat" where
  "two_pages pages n = (if n = 0 then Inr (pages ! 0, 2) else Inr (pages ! 1, 0))"

definition hub_releases :: "GhRelease list list" where
  "hub_releases = [[\<lparr>rl_TagName = ''v1.12'', Prerelease = True\<rparr>, \<lparr>rl_TagName = ''v1.10'', Prerelease = False\<rparr>],
     [\<lparr>rl_TagName = ''v1.9'', Prerelease = False\<rparr>]]"

definition hub_tags :: "GhTag list list" where
  "hub_tags = [[\<lparr>tg_Name = ''v1.12'', tg_SHA = ''ddd''\<rparr>, \<lparr>tg_Name = ''v1.10'', tg_SHA = ''cc''\<rparr>], [\<lparr>tg_Name = ''v1.9'', tg_SHA = ''b''\<rparr>]]"

definition hub :: vt_env where
  "hub = vt_quiet\<lparr>ghReleases := (\<lambda>w org repo. two_pages hub_releases), ghTags := (\<lambda>w org repo. two_pages hub_tags),
     ghCommitDate := (\<lambda>w org repo sha. Inr (int (length sha)))\<rparr>"

lemma chained_two_pages: "length ps = 2 \<Longrightarrow> chained (\<lambda>v. two_pages ps) ps"
  by (auto simp: chained_def two_pages_def page_no_def less_Suc_eq numeral_2_eq_2)

lemma hub_simps:
  "ghReleases hub v org repo = two_pages hub_releases" "ghTags hub v org repo = two_pages hub_tags"
  "ghCommitDate hub v org repo sha = Inr (int (length sha))" "semverErr hub t = None" "pageFuel hub = 10"
  "semverGreater hub a b \<longleftrightarrow> length b < length a" "semverEqual hub a b \<longleftrightarrow> length a = length b"
  "length hub_releases = 2" "length hub_tags = 2" "hub_releases \<noteq> []" "hub_tags \<noteq> []"
  by (simp_all add: hub_def vt_quiet_def hub_releases_def hub_tags_def)

theorem getReleasesForRepo_complete_witness:
  "\<exists>w'. getReleasesForRepo hub ''org'' ''repo'' empty_world =
     (Ok [\<lparr>rl_TagName = ''v1.10'', Prerelease = False\<rparr>, \<lparr>rl_TagName = ''v1.9'', Prerelease = False\<rparr>], w') \<and> fs w' = []"
  using getReleasesForRepo_complete [of hub "''org''" "''repo''" hub_releases empty_world]
  by (simp add: hub_simps chained_two_pages) (simp add: hub_releases_def empty_world_def)

section \<open>The latest revision is the reference one\<close>

text \<open>
  The reference: the first revision of the listing that either is an upgrade, being later both by its
  commit and by the version ordering, or equals the current one; failing that, the last of the listing.
\<close>

definition isLater :: "'z vt_env_scheme \<Rightarrow> (string \<Rightarrow> int) \<Rightarrow> GhTag list \<Rightarrow> string \<Rightarrow> string \<Rightarrow> bool" where
  "isLater E date tags cur r \<longleftrightarrow> date (getCommitForTag tags cur) < date (getCommitForTag tags r) \<and> semverGreater E r cur"

definition firstRevision :: "'z vt_env_scheme \<Rightarrow> (string \<Rightarrow> int) \<Rightarrow> GhTag list \<Rightarrow> string \<Rightarrow> string list \<Rightarrow> string \<times> bool" where
  "firstRevision E date tags cur names =
     (case find (\<lambda>r. isLater E date tags cur r \<or> semverEqual E r cur) names of
        Some r \<Rightarrow> (r, isLater E date tags cur r) | None \<Rightarrow> (last names, False))"

text \<open>What the service has to answer: a date for each commit, and a commit for each revision.\<close>

definition dated :: "'z vt_env_scheme \<Rightarrow> string \<Rightarrow> string \<Rightarrow> (string \<Rightarrow> int) \<Rightarrow> GhTag list \<Rightarrow> string list \<Rightarrow> bool" where
  "dated E org repo date tags names \<longleftrightarrow> (\<forall>r \<in> set names. semverErr E r = None \<and> getCommitForTag tags r \<noteq> [] \<and>
     (\<forall>v. ghCommitDate E v org repo (getCommitForTag tags r) = Inr (date (getCommitForTag tags r))))"

lemma getCommitDateEpoch_run:
  "ghCommitDate E w org repo sha = Inr d \<Longrightarrow> getCommitDateEpoch E org repo sha w = (Ok d, emit (Call ''GetCommit'' [org, repo, sha]) w)"
  by (simp add: getCommitDateEpoch_def bind_def api_call_def)

lemma isUpgradeRequired_run:
  assumes "dated E org repo date tags [r]"
  shows "isUpgradeRequired E org repo r (date (getCommitForTag tags cur)) cur tags w =
    (Ok (isLater E date tags cur r, isLater E date tags cur r \<or> semverEqual E r cur),
     emit (Call ''GetCommit'' [org, repo, getCommitForTag tags r]) w)"
  using assms
  by (simp add: isUpgradeRequired_def Let_def dated_def bind_def getCommitDateEpoch_run wrapf_run semver_New_def isLater_def)

lemma scanRevisions_run:
  assumes "dated E org repo date tags rs"
  shows "\<exists>w'. scanRevisions E org repo (date (getCommitForTag tags cur)) cur tags latest rs w =
    (Ok (case find (\<lambda>r. isLater E date tags cur r \<or> semverEqual E r cur) rs of
        Some r \<Rightarrow> (r, isLater E date tags cur r) | None \<Rightarrow> (last (latest # rs), False)), w') \<and> fs w' = fs w"
  using assms
proof (induction rs arbitrary: latest w)
  case (Cons r rs)
  let ?w = "emit (Call ''GetCommit'' [org, repo, getCommitForTag tags r]) w"
  have d: "dated E org repo date tags [r]" "dated E org repo date tags rs" using Cons.prems by (simp_all add: dated_def)
  show ?case
  proof (cases "isLater E date tags cur r \<or> semverEqual E r cur")
    case True
    then show ?thesis by (simp add: bind_def wrapf_run isUpgradeRequired_run [OF d(1)])
  next
    case False
    then show ?thesis using Cons.IH [OF d(2), of r ?w] by (simp add: bind_def wrapf_run isUpgradeRequired_run [OF d(1)] cong: option.case_cong)
  qed
qed simp

text \<open>
  C10.  The latest revision of a repository that has releases is the reference one: whatever pages of
  releases and tags the service has, the search returns it, as soon as the service knows the commits of
  the releases and the version numbers parse; no file is touched.  When no release is an upgrade and
  none equals the current revision, the revision returned as the latest is the last one listed, the oldest.
\<close>

theorem GetLatestRevision_first:
  assumes "chained (\<lambda>v. ghReleases E v org repo) rp" "rp \<noteq> []" "length rp \<le> pageFuel E"
    and "chained (\<lambda>v. ghTags E v org repo) tp" "tp \<noteq> []" "length tp \<le> pageFuel E"
    and "rels = filter (\<lambda>r. \<not> Prerelease r) (concat rp)" "rels \<noteq> []"
    and "dated E org repo date (concat tp) (cur # map rl_TagName rels)"
  shows "\<exists>w'. GetLatestRevision E org repo cur w = (Ok (firstRevision E date (concat tp) cur (map rl_TagName rels)), w') \<and> fs w' = fs w"
proof -
  obtain w1 where r: "getReleasesForRepo E org repo w = (Ok rels, w1)" "fs w1 = fs w"
    using releases.complete [OF assms(1-3)] assms(7) by auto
  obtain w2 where t: "getTagsForRepo E org repo w1 = (Ok (concat tp), w2)" "fs w2 = fs w1"
    using tags.complete [OF assms(4-6)] by auto
  let ?w = "emit (Call ''GetCommit'' [org, repo, getCommitForTag (concat tp) cur]) w2"
  have "dated E org repo date (concat tp) (map rl_TagName rels)" "semverErr E cur = None"
    "ghCommitDate E w2 org repo (getCommitForTag (concat tp) cur) = Inr (date (getCommitForTag (concat tp) cur))"
    using assms(9) by (simp_all add: dated_def)
  then show ?thesis
    using assms(8) scanRevisions_run [of E org repo date "concat tp" "map rl_TagName rels" cur "[]" ?w] r(2) t(2)
    by (simp add: GetLatestRevision_def bind_def wrapf_run r(1) t(1) Let_def getCommitDateEpoch_run semver_New_def firstRevision_def
        cong: option.case_cong)
qed

theorem GetLatestRevision_first_witness:
  "\<exists>w'. GetLatestRevision hub ''org'' ''repo'' ''v1.9'' empty_world = (Ok (''v1.10'', True), w') \<and> fs w' = []"
proof -
  have d: "dated hub ''org'' ''repo'' (\<lambda>sha. int (length sha)) (concat hub_tags)
      (''v1.9'' # map rl_TagName (filter (\<lambda>r. \<not> Prerelease r) (concat hub_releases)))"
    unfolding dated_def hub_simps hub_releases_def hub_tags_def by (simp add: getCommitForTag_def)
  have f: "firstRevision hub (\<lambda>sha. int (length sha)) (concat hub_tags) ''v1.9''
      (map rl_TagName (filter (\<lambda>r. \<not> Prerelease r) (concat hub_releases))) = (''v1.10'', True)"
    by (simp add: firstRevision_def isLater_def [abs_def] hub_simps(4-7) hub_releases_def hub_tags_def getCommitForTag_def)
  have n: "filter (\<lambda>r. \<not> Prerelease r) (concat hub_releases) \<noteq> []" by (simp add: hub_releases_def)
  show ?thesis
    using GetLatestRevision_first [of hub "''org''" "''repo''" hub_releases hub_tags _ "\<lambda>sha. int (length sha)" "''v1.9''" empty_world, OF _ _ _ _ _ _ refl n d]
    by (simp add: hub_simps chained_two_pages f) (simp add: empty_world_def)
qed

end
