(* ===== verification/VT_Git.thy ===== *)
theory VT_Git
  imports VT_Util
begin

text \<open>
  \<open>pkg/git/git.go\<close> and \<open>pkg/ecrpublic/ecrpublic.go\<close>: the local clone of the build tooling repository,
  and the latest Cilium tag in the public registry.  An operation of \<open>go-git\<close> is recorded as a call;
  what it does to the files, and its error, come from the environment.  The tag chosen from the
  registry is shown to be the newest one.
\<close>

section \<open>Git\<close>

definition git_call :: "'z vt_env_scheme \<Rightarrow> string \<Rightarrow> string list \<Rightarrow> (world, git_err option) prog" where
  "git_call E name args = (\<lambda>w. case gitop E w (Call name args) of
     (err, g) \<Rightarrow> (Ok err, (emit (Call name args) w)\<lparr>fs := g\<rparr>))"

fun git_text :: "git_err \<Rightarrow> string" where
  "git_text RepositoryAlreadyExists = ''repository already exists''"
| "git_text RemoteExists = ''remote already exists''"
| "git_text AlreadyUpToDate = ''already up-to-date''"
| "git_text (GitErr e) = e"

definition git_check :: "string \<Rightarrow> git_err option \<Rightarrow> (world, unit) prog" where
  "git_check msg err = (case err of None \<Rightarrow> ret () | Some e \<Rightarrow> fail (msg @ git_text e))"

definition openOrClone :: "'z vt_env_scheme \<Rightarrow> string \<Rightarrow> string \<Rightarrow> (world, unit) prog" where
  "openOrClone E cloneURL destination =
     bind (git_call E ''PlainClone'' [destination, cloneURL]) (\<lambda>err.
     if err = Some RepositoryAlreadyExists then
       bind (git_call E ''PlainOpen'' [destination]) (git_check (''opening repo from '' @ destination @ '' directory: ''))
     else git_check (''cloning repo '' @ cloneURL @ '' to '' @ destination @ '' directory: '') err)"

definition CloneRepo :: "'z vt_env_scheme \<Rightarrow> string \<Rightarrow> string \<Rightarrow> string \<Rightarrow> (world, string) prog" where
  "CloneRepo E cloneURL destination headRepoOwner =
     bind (openOrClone E cloneURL destination) (\<lambda>_.
     bind (api_call ''ResolveRevision'' [BaseRepoHeadRevision] (\<lambda>w. gitResolve E w BaseRepoHeadRevision)) (\<lambda>r.
     bind (wrapf (''resolving revision ['' @ BaseRepoHeadRevision @ ''] to commit hash: '') (lift_sum r)) (\<lambda>repoHeadCommit.
     bind (index (Split repoHeadCommit '' '') 0) (\<lambda>repoHeadCommitHash.
     bind (do_if (headRepoOwner \<noteq> [])
       (bind (git_call E ''CreateRemote'' [headRepoOwner,
            ''https://github.com/'' @ headRepoOwner @ ''/'' @ BuildToolingRepoName @ ''.git'']) (\<lambda>err.
        if err = Some RemoteExists then ret () else git_check (''creating remote '' @ headRepoOwner @ '': '') err))) (\<lambda>_.
     ret repoHeadCommitHash)))))"

definition ResetToMain :: "'z vt_env_scheme \<Rightarrow> string \<Rightarrow> (world, unit) prog" where
  "ResetToMain E baseRepoHeadCommit =
     bind (git_call E ''HardReset'' [baseRepoHeadCommit]) (git_check (''resetting to origin HEAD commit '' @ baseRepoHeadCommit @ '': ''))"

definition Checkout :: "'z vt_env_scheme \<Rightarrow> string \<Rightarrow> (world, unit) prog" where
  "Checkout E branch = bind (git_call E ''Checkout'' [branch]) (git_check (''checking out branch ['' @ branch @ '']: ''))"

definition Add :: "'z vt_env_scheme \<Rightarrow> string list \<Rightarrow> (world, unit) prog" where
  "Add E paths = for_each paths (\<lambda>path.
     bind (git_call E ''Add'' [path]) (git_check (''adding file ['' @ path @ ''] to the index: '')))"

definition git_Commit :: "'z vt_env_scheme \<Rightarrow> string \<Rightarrow> (world, unit) prog" where
  "git_Commit E commitMessage =
     (let commitAuthorName = (case getenv E CommitAuthorNameEnvvar of None \<Rightarrow> DefaultCommitAuthorName | Some n \<Rightarrow> n);
          commitAuthorEmail = (case getenv E CommitAuthorEmailEnvvar of None \<Rightarrow> DefaultCommitAuthorEmail | Some n \<Rightarrow> n)
      in bind (git_call E ''Commit'' [commitMessage, commitAuthorName, commitAuthorEmail])
           (git_check ''committing file(s) in the index: ''))"

text \<open>Whatever branch it is given, a push forces all references.\<close>

definition Push :: "'z vt_env_scheme \<Rightarrow> string \<Rightarrow> string \<Rightarrow> string \<Rightarrow> (world, unit) prog" where
  "Push E headRepoOwner branch githubToken =
     bind (git_call E ''Push'' [headRepoOwner, ''+refs/*:refs/*'', headRepoOwner, githubToken]) (\<lambda>err.
     if err = Some AlreadyUpToDate then ret () else git_check (''pushing changes to remote '' @ headRepoOwner @ '': '') err)"

section \<open>The public registry\<close>

fun scanTags :: "'z vt_env_scheme \<Rightarrow> string \<times> string \<Rightarrow> json list \<Rightarrow> (world, string \<times> string) prog" where
  "scanTags E st [] = ret st"
| "scanTags E (best, latest) (v # vs) =
     bind (any_string (Some v)) (\<lambda>tag.
     if \<not> HasPrefix tag ''v'' then scanTags E (best, latest) vs
     else (case semverErr E tag of
         Some e \<Rightarrow> fail (''getting semver for Cilium tag ['' @ tag @ '']: '' @ e)
       | None \<Rightarrow> scanTags E (if semverGreater E tag best then (tag, tag) else (best, latest)) vs))"

definition ecr_GetLatestRevision :: "'z vt_env_scheme \<Rightarrow> string \<Rightarrow> string \<Rightarrow> (world, string \<times> bool) prog" where
  "ecr_GetLatestRevision E imageRepository currentRevision =
     bind (case semverErr E currentRevision of
         Some e \<Rightarrow> fail (''getting semver for current version: '' @ e) | None \<Rightarrow> ret ()) (\<lambda>_.
     bind (wrapf ''running Go version command: ''
       (ExecCommand_or_fail E [''skopeo'', ''list-tags'', ''docker://'' @ imageRepository])) (\<lambda>listTagsOutput.
     bind (wrapf ''unmarshalling output of Skopeo list-tags command: '' (lift_sum (Unmarshal_any listTagsOutput))) (\<lambda>tagsList.
     bind (any_map (Some tagsList)) (\<lambda>m.
     bind (any_list (member_of m ''Tags'')) (\<lambda>ciliumTags.
     bind (scanTags E (currentRevision, []) ciliumTags) (\<lambda>(best, latestRevision).
     ret (if latestRevision = [] then ([], False) else (latestRevision, True))))))))"

section \<open>The newest tag of the registry\<close>

text \<open>A strict order, as the version ordering is documented to be.\<close>

definition strict_order :: "('a \<Rightarrow> 'a \<Rightarrow> bool) \<Rightarrow> bool" where
  "strict_order gt \<longleftrightarrow> (\<forall>a. \<not> gt a a) \<and> (\<forall>a b c. gt a b \<longrightarrow> gt b c \<longrightarrow> gt a c)"

definition releaseTags :: "string list \<Rightarrow> string list" where
  "releaseTags tags = filter (\<lambda>t. HasPrefix t ''v'') tags"

text \<open>
  The reference: a tag that none is newer than, if there is one newer than the current revision.
\<close>

definition newestTag :: "(string \<Rightarrow> string \<Rightarrow> bool) \<Rightarrow> string \<Rightarrow> string list \<Rightarrow> string \<times> bool \<Rightarrow> bool" where
  "newestTag gt cur tags r \<longleftrightarrow>
     (if \<exists>t \<in> set tags. gt t cur then snd r \<and> fst r \<in> set tags \<and> gt (fst r) cur \<and> (\<forall>t \<in> set tags. \<not> gt t (fst r))
      else r = ([], False))"

lemma scanTags_run:
  assumes "strict_order (semverGreater E)" "\<forall>t \<in> set (releaseTags tags). semverErr E t = None"
  shows "\<exists>b l. scanTags E (best, latest) (map JStr tags) w = (Ok (b, l), w) \<and>
    (\<forall>t \<in> set (releaseTags tags). \<not> semverGreater E t b) \<and>
    (if \<exists>t \<in> set (releaseTags tags). semverGreater E t best then l = b \<and> b \<in> set (releaseTags tags) \<and> semverGreater E b best
     else b = best \<and> l = latest)"
  using assms(2)
proof (induction tags arbitrary: best latest)
  case (Cons t tags)
  have ord: "\<not> semverGreater E a a" "semverGreater E a b \<Longrightarrow> semverGreater E b c \<Longrightarrow> semverGreater E a c" for a b c
    using assms(1) by (auto simp: strict_order_def)
  have ok: "\<forall>t \<in> set (releaseTags tags). semverErr E t = None" using Cons.prems by (auto simp: releaseTags_def)
  show ?case
  proof (cases "HasPrefix t ''v''")
    case False
    then have r: "releaseTags (t # tags) = releaseTags tags" by (simp add: releaseTags_def)
    have "scanTags E (best, latest) (map JStr (t # tags)) w = scanTags E (best, latest) (map JStr tags) w"
      using False by (simp add: any_string_def)
    then show ?thesis unfolding r using Cons.IH [OF ok] by (simp only:)
  next
    case True
    then have r: "set (releaseTags (t # tags)) = insert t (set (releaseTags tags))" and e: "semverErr E t = None"
      using Cons.prems by (simp_all add: releaseTags_def)
    let ?st = "if semverGreater E t best then (t, t) else (best, latest)"
    have s: "scanTags E (best, latest) (map JStr (t # tags)) w = scanTags E (fst ?st, snd ?st) (map JStr tags) w"
      using True e by (simp add: any_string_def)
    obtain b l where i: "scanTags E (fst ?st, snd ?st) (map JStr tags) w = (Ok (b, l), w)"
      "\<forall>t \<in> set (releaseTags tags). \<not> semverGreater E t b"
      "if \<exists>u \<in> set (releaseTags tags). semverGreater E u (fst ?st) then l = b \<and> b \<in> set (releaseTags tags) \<and> semverGreater E b (fst ?st)
       else b = fst ?st \<and> l = snd ?st"
      using Cons.IH [OF ok] by blast
    have c: "\<not> semverGreater E t b \<and> (if \<exists>u \<in> insert t (set (releaseTags tags)). semverGreater E u best
        then l = b \<and> b \<in> insert t (set (releaseTags tags)) \<and> semverGreater E b best else b = best \<and> l = latest)"
    proof (cases "semverGreater E t best")
      case True
      then have "b = t \<and> l = t \<or> l = b \<and> b \<in> set (releaseTags tags) \<and> semverGreater E b t"
        using i(3) by (simp split: if_splits)
      then show ?thesis using True ord by (metis insert_iff)
    next
      case False
      then have "b = best \<and> l = latest \<and> (\<forall>u \<in> set (releaseTags tags). \<not> semverGreater E u best) \<or>
          l = b \<and> b \<in> set (releaseTags tags) \<and> semverGreater E b best"
        using i(3) by (simp split: if_splits)
      then show ?thesis using False ord by (metis insert_iff)
    qed
    then have "\<forall>u \<in> insert t (set (releaseTags tags)). \<not> semverGreater E u b" using i(2) by blast
    then show ?thesis unfolding s i(1) r using conjunct2 [OF c] by (intro exI conjI) (rule refl)
  qed
qed (simp add: releaseTags_def)

text \<open>
  C20.  The latest Cilium revision is the newest of the registry's tags that start with \<open>v\<close>: whatever
  the order in which the registry lists them, the returned tag is newer than the current revision and
  no tag is newer than it; without a newer tag no upgrade is announced.
\<close>

theorem ecr_GetLatestRevision_newest:
  assumes "strict_order (semverGreater E)" "\<forall>t \<in> set (cur # releaseTags tags). semverErr E t = None"
    and "ExecCommand_or_fail E [''skopeo'', ''list-tags'', ''docker://'' @ repository] w = (Ok out, w')"
    and "Unmarshal_any out = Inr (JObj m)" "member_of m ''Tags'' = Some (JArr (map JStr tags))"
  shows "\<exists>r. ecr_GetLatestRevision E repository cur w = (Ok r, w') \<and> newestTag (semverGreater E) cur (releaseTags tags) r"
proof -
  obtain b l where s: "scanTags E (cur, []) (map JStr tags) w' = (Ok (b, l), w')"
    and b: "\<forall>t \<in> set (releaseTags tags). \<not> semverGreater E t b"
      "if \<exists>t \<in> set (releaseTags tags). semverGreater E t cur then l = b \<and> b \<in> set (releaseTags tags) \<and> semverGreater E b cur else b = cur \<and> l = []"
    using scanTags_run [OF assms(1), of tags cur "[]" w'] assms(2) by auto
  have "ecr_GetLatestRevision E repository cur w = (Ok (if l = [] then ([], False) else (l, True)), w')"
    using assms(2-5) s
    by (simp add: ecr_GetLatestRevision_def bind_def wrapf_run any_map_def any_list_def)
  moreover have "[] \<notin> set (releaseTags tags)" by (simp add: releaseTags_def HasPrefix_def)
  ultimately show ?thesis using b by (auto simp: newestTag_def split: if_splits)
qed

theorem ecr_GetLatestRevision_newest_witness:
  "fst (ecr_GetLatestRevision (go_prints ''{\"Tags\": [\"v1.10.2\", \"latest-image\", \"v1.10.10\", \"v1.9\"]}'') ''r'' ''v1.10'' empty_world) = Ok (''v1.10.10'', True)"
proof -
  let ?E = "go_prints ''{\"Tags\": [\"v1.10.2\", \"latest-image\", \"v1.10.10\", \"v1.9\"]}''"
  let ?tags = "[''v1.10.2'', ''latest-image'', ''v1.10.10'', ''v1.9'']"
  let ?m = "[(''Tags'', JArr (map JStr ?tags))]"
  have u: "Unmarshal_any (TrimSpace ''{\"Tags\": [\"v1.10.2\", \"latest-image\", \"v1.10.10\", \"v1.9\"]}'') = Inr (JObj ?m)" by code_simp
  have m: "member_of ?m ''Tags'' = Some (JArr (map JStr ?tags))" by (simp add: member_of_def)
  have g: "semverGreater ?E a b \<longleftrightarrow> length b < length a" for a b by (simp add: go_prints_def vt_quiet_def)
  have s: "strict_order (semverGreater ?E)" "\<forall>t \<in> set (''v1.10'' # releaseTags ?tags). semverErr ?E t = None"
    by (auto simp: strict_order_def g) (simp_all add: go_prints_def vt_quiet_def)
  have r: "releaseTags ?tags = [''v1.10.2'', ''v1.10.10'', ''v1.9'']" by (simp add: releaseTags_def HasPrefix_def)
  obtain rv where rv: "ecr_GetLatestRevision ?E ''r'' ''v1.10'' empty_world = (Ok rv, emit (Exec Combined [''skopeo'', ''list-tags'', ''docker://'' @ ''r'']) empty_world)"
    and n: "newestTag (semverGreater ?E) ''v1.10'' (releaseTags ?tags) rv"
    using ecr_GetLatestRevision_newest [OF s go_prints_run u m] by blast
  have "rv = (''v1.10.10'', True)" using n unfolding r newestTag_def by (cases rv) (auto simp: g)
  then show ?thesis using rv by simp
qed

end
