(* ===== verification/VT_Upgrade.thy ===== *)
theory VT_Upgrade
  imports VT_GitHub VT_Git
begin

text \<open>
  \<open>pkg/commands/upgrade/upgrade.go\<close>: the \<open>upgrade\<close> subcommand.  Its \<open>Run\<close> clones the build tooling
  repository, changes the files of one project (or the EKS Distro releases) and publishes the
  changed files as a commit, a push and a pull request.  The parts of \<open>Run\<close> are definitions of their
  own, named after what they do.  The lemmas say what the EKS Distro releases file holds after its
  update, and that the tracker file keeps every other repository.
\<close>

section \<open>EKS Distro releases\<close>

definition getSupportedReleaseBranches :: "'z env_scheme \<Rightarrow> string \<Rightarrow> (world, string list) prog" where
  "getSupportedReleaseBranches E buildToolingRepoPath =
     bind (wrapf ''reading supported release branches file: ''
       (os_ReadFile E (path_Join [buildToolingRepoPath, SupportedReleaseBranchesFile]))) (\<lambda>contents.
     ret (Split (TrimRight contents [CHR 0x0A]) [CHR 0x0A]))"

text \<open>The formats of the two error messages take one argument less than they are given.\<close>

definition extra_arg :: "string \<Rightarrow> string" where
  "extra_arg e = ''%!(EXTRA *errors.errorString='' @ e @ '')''"

definition getLatestEKSDistroRelease :: "'z vt_env_scheme \<Rightarrow> string \<Rightarrow> (world, int \<times> string) prog" where
  "getLatestEKSDistroRelease E branch =
     (let releaseFile = EKSDistroProdReleaseNumberFile branch in
     bind (map_err (\<lambda>e. ''getting contents of EKS Distro prod release number file: '' @ releaseFile @ extra_arg e)
       (GetFileContents E ''aws'' ''eks-distro'' releaseFile MainBranchName)) (\<lambda>releaseNumber.
     bind (map_err (\<lambda>e. ''getting contents of Kubernetes Git tag file: '' @ releaseFile @ extra_arg e)
       (GetFileContents E ''aws'' ''eks-distro'' (KubernetesGitTagFile branch) MainBranchName)) (\<lambda>kubeVersion.
     bind (wrapf ''converting release number to integer: '' (lift_sum (Atoi (TrimRight releaseNumber [CHR 0x0A])))) (\<lambda>n.
     ret (n, TrimRight kubeVersion [CHR 0x0A])))))"

fun updateReleases ::
  "'z vt_env_scheme \<Rightarrow> string list \<Rightarrow> EKSDistroRelease list \<Rightarrow> (world, EKSDistroRelease list \<times> bool) prog" where
  "updateReleases E supported [] = ret ([], False)"
| "updateReleases E supported (r # rs) =
     bind (if slices_Contains supported (er_Branch r) then
         bind (wrapf (''getting latest EKS Distro release for '' @ er_Branch r @ '' branch: '')
           (getLatestEKSDistroRelease E (er_Branch r))) (\<lambda>(number, kubeVersion).
         ret (if Number r \<noteq> number \<or> er_KubeVersion r \<noteq> kubeVersion
              then (r\<lparr>Number := number, er_KubeVersion := kubeVersion\<rparr>, True) else (r, False)))
       else ret (r, False)) (\<lambda>(r', u).
     bind (updateReleases E supported rs) (\<lambda>(rs', us). ret (r' # rs', u \<or> us)))"

definition updateEKSDistroReleasesFile :: "'z vt_env_scheme \<Rightarrow> string \<Rightarrow> (world, bool) prog" where
  "updateEKSDistroReleasesFile E buildToolingRepoPath =
     (let path = path_Join [buildToolingRepoPath, EKSDistroLatestReleasesFile] in
     bind (wrapf ''reading EKS Distro latest releases file: '' (os_ReadFile E path)) (\<lambda>contents.
     bind (wrapf ''unmarshalling EKS Distro latest releases file: '' (lift_sum (yamlEKSDistro E contents))) (\<lambda>releases.
     bind (wrapf ''getting supported EKS Distro release branches: '' (getSupportedReleaseBranches E buildToolingRepoPath)) (\<lambda>supported.
     bind (updateReleases E supported (er_Releases releases)) (\<lambda>(rs, isUpdated).
     bind (do_if isUpdated
       (bind (wrapf ''marshalling EKS Distro latest releases: '' (lift_sum (yamlEKSDistroText E (releases\<lparr>er_Releases := rs\<rparr>)))) (\<lambda>text.
        wrapf ''writing EKS Distro latest releases file: '' (os_WriteFile E path text 420)))) (\<lambda>_.
     ret isUpdated))))))"

section \<open>The files of a project\<close>

definition updateProjectVersionFile :: "'z env_scheme \<Rightarrow> string \<Rightarrow> string \<Rightarrow> string \<Rightarrow> string \<Rightarrow> (world, string) prog" where
  "updateProjectVersionFile E buildToolingRepoPath filename projectName value =
     (let fileRelativepath = path_Join [''projects'', projectName, filename];
          fileAbsolutepath = path_Join [buildToolingRepoPath, fileRelativepath];
          cannot = ''unable to stat project '' @ filename @ '' file ['' @ fileAbsolutepath @ '']: '' in
     bind (os_Stat E fileAbsolutepath) (\<lambda>st.
     bind (case st of
         Exists (File _ m) \<Rightarrow> ret m
       | Exists DirNode \<Rightarrow> ret 493
       | NotExist e \<Rightarrow> fail (cannot @ e)
       | StatErr e \<Rightarrow> fail (cannot @ e)) (\<lambda>mode.
     bind (wrapf (''writing project '' @ filename @ '' file ['' @ fileAbsolutepath @ '']: '')
       (os_WriteFile E fileAbsolutepath (value @ [CHR 0x0A]) mode)) (\<lambda>_.
     ret fileRelativepath))))"

text \<open>
  The repository of a project in the tracker file: of several entries the last one.  The returned
  value shares its versions with the list, so the position is kept: changing a version through it
  changes the list.
\<close>

definition repo_positions :: "ProjectsList \<Rightarrow> (nat \<times> nat) list" where
  "repo_positions ps = concat (map (\<lambda>i. map (Pair i) [0..<length (Repos (ps ! i))]) [0..<length ps])"

definition repo_at :: "ProjectsList \<Rightarrow> nat \<times> nat \<Rightarrow> Repo" where
  "repo_at ps p = Repos (ps ! fst p) ! snd p"

definition targetPosition :: "ProjectsList \<Rightarrow> string \<Rightarrow> string \<Rightarrow> (nat \<times> nat) option" where
  "targetPosition ps org repository =
     (case filter (\<lambda>p. Org (ps ! fst p) = org \<and> RepoName (repo_at ps p) = repository) (repo_positions ps) of
        [] \<Rightarrow> None | ms \<Rightarrow> Some (last ms))"

definition targetVersions :: "ProjectsList \<Rightarrow> (nat \<times> nat) option \<Rightarrow> Version list" where
  "targetVersions ps p = (case p of None \<Rightarrow> [] | Some q \<Rightarrow> Versions (repo_at ps q))"

text \<open>\<open>targetRepo.Versions[0].f = ...\<close>, through the shared array.\<close>

definition setVersion :: "(Version \<Rightarrow> Version) \<Rightarrow> (nat \<times> nat) option \<Rightarrow> ProjectsList \<Rightarrow> ProjectsList" where
  "setVersion f p ps = (case p of
       None \<Rightarrow> ps
     | Some (i, j) \<Rightarrow>
         (let pr = ps ! i; r = Repos pr ! j; vs = Versions r
          in ps[i := pr\<lparr>Repos := (Repos pr)[j := r\<lparr>Versions := vs[0 := f (vs ! 0)]\<rparr>]\<rparr>]))"

definition loadUpstreamProjectsTrackerFile ::
  "'z vt_env_scheme \<Rightarrow> string \<Rightarrow> string \<Rightarrow> string \<Rightarrow> (world, ProjectsList \<times> (nat \<times> nat) option) prog" where
  "loadUpstreamProjectsTrackerFile E path org repository =
     bind (wrapf ''reading upstream projects tracker file: '' (os_ReadFile E path)) (\<lambda>contents.
     bind (wrapf ''unmarshalling upstream projects tracker file: '' (lift_sum (yamlProjects E contents))) (\<lambda>projectsList.
     ret (projectsList, targetPosition projectsList org repository)))"

text \<open>\<open>bufio.ScanLines\<close>, for lines below its limit of 64 kilobytes.\<close>

definition scan_lines :: "string \<Rightarrow> string list" where
  "scan_lines s =
     (let ls = Split s [CHR 0x0A]
      in map (\<lambda>l. TrimSuffix l [CHR 0x0D]) (if last ls = [] then butlast ls else ls))"

definition licenseHeader :: "string \<Rightarrow> string" where
  "licenseHeader text =
     concat (map (\<lambda>line. (if line = [] then line else ''# '' @ line) @ [CHR 0x0A])
       (scan_lines (ReplaceAll text (backslash @ [CHR 0x22]) [CHR 0x22]))) @ [CHR 0x0A]"

definition updateUpstreamProjectsTrackerFile ::
  "'z vt_env_scheme \<Rightarrow> ProjectsList \<Rightarrow> string \<Rightarrow> string \<Rightarrow> (world, unit) prog" where
  "updateUpstreamProjectsTrackerFile E projectsList buildToolingRepoPath path =
     bind (wrapf ''reading license boilerplate file: '' (os_ReadFile E (path_Join [buildToolingRepoPath, LicenseBoilerplateFile]))) (\<lambda>license.
     wrapf ''writing upstream projects tracker file: ''
       (os_WriteFile E path (licenseHeader license @ yamlProjectsText E projectsList) 420))"

section \<open>Make and scripts\<close>

definition makeArgv :: "string \<Rightarrow> string \<Rightarrow> string list" where
  "makeArgv projectRootFilepath target = [''bash'', ''-c'', ''make -C '' @ projectRootFilepath @ '' '' @ target]"

definition gitDescribePattern :: "string \<Rightarrow> string" where
  "gitDescribePattern latestVersion = latestVersion @ ''(-([0-9]+)-g.*)?''"

text \<open>What \<open>git describe\<close> says about the patches that were applied before the one that failed.\<close>

definition appliedPatches :: "'z env_scheme \<Rightarrow> string \<Rightarrow> string \<Rightarrow> string \<Rightarrow> (world, int) prog" where
  "appliedPatches E projectRootFilepath projectRepo latestVersion =
     bind (MustCompile (gitDescribePattern latestVersion)) (\<lambda>gitDescribeRegex.
     bind (wrapf ''running git describe command: ''
       (ExecCommand_or_fail E [''git'', ''-C'', path_Join [projectRootFilepath, projectRepo], ''describe'', ''--tag''])) (\<lambda>out.
     let matches = FindStringSubmatch gitDescribeRegex out in
     bind (index matches 1) (\<lambda>m1.
     if m1 \<noteq> [] then
       bind (index matches 2) (\<lambda>m2. wrapf ''converting patch count to integer '' (lift_sum (Atoi m2)))
     else ret 0)))"

definition failedFiles :: "string \<Rightarrow> (world, string) prog" where
  "failedFiles out =
     bind (MustCompile FailedPatchFilesRegex) (\<lambda>r.
     bind (fold_prog (\<lambda>acc fs. bind (index fs 1) (\<lambda>f. ret (acc @ [''`'' @ f @ ''`'']))) [] (FindAllStringSubmatch r out)) (\<lambda>names.
     ret (Join names '','')))"

definition applyPatchesToRepo ::
  "'z env_scheme \<Rightarrow> string \<Rightarrow> string \<Rightarrow> string \<Rightarrow> int \<Rightarrow> (world, int \<times> string \<times> string) prog" where
  "applyPatchesToRepo E projectRootFilepath projectRepo latestVersion totalPatchCount =
     bind (ExecCommand E (makeArgv projectRootFilepath ''patch-repo'')) (\<lambda>(out, err).
     case err of
       None \<Rightarrow> ret (totalPatchCount, [], [])
     | Some e \<Rightarrow>
         if \<not> Contains out FailedPatchApplyMarker then fail (''running patch-repo Make command: '' @ e)
         else
           bind (appliedPatches E projectRootFilepath projectRepo latestVersion) (\<lambda>patchesApplied.
           bind (MustCompile FailedPatchApplyRegex) (\<lambda>r.
           bind (failedFiles out) (\<lambda>names.
           ret (patchesApplied, FindString r out, names)))))"

definition updateChecksumsAttributionFiles :: "'z env_scheme \<Rightarrow> string \<Rightarrow> (world, unit) prog" where
  "updateChecksumsAttributionFiles E projectRootFilepath =
     bind (wrapf ''running checksums-attribution Make command: ''
       (ExecCommand_or_fail E (makeArgv projectRootFilepath ''attribution-checksums''))) (\<lambda>_. ret ())"

definition updateProjectReadmeVersion :: "'z env_scheme \<Rightarrow> string \<Rightarrow> string \<Rightarrow> string \<Rightarrow> (world, unit) prog" where
  "updateProjectReadmeVersion E buildToolingRepoPath projectOrg projectRepo =
     bind (wrapf ''running README update command: '' (ExecCommand_or_fail E [''bash'', ''-c'',
       path_Join [buildToolingRepoPath, ReadmeUpdateScriptFile] @ '' '' @ buildToolingRepoPath @ '' '' @ projectOrg @ ''/'' @ projectRepo])) (\<lambda>_.
     ret ())"

definition updateCiliumImageDigestFiles :: "'z env_scheme \<Rightarrow> string \<Rightarrow> string \<Rightarrow> (world, string list) prog" where
  "updateCiliumImageDigestFiles E projectRootFilepath projectPath =
     bind (wrapf ''running update-digests Make command: ''
       (ExecCommand_or_fail E (makeArgv projectRootFilepath ''update-digests''))) (\<lambda>_.
     ret (map (\<lambda>directory. path_Join [projectPath, ''images'', directory, ''IMAGE_DIGEST'']) CiliumImageDirectories))"

section \<open>The EKS Distro releases file is brought up to date\<close>

text \<open>
  The service has a file with a given text: \<open>GetContents\<close> answers with its encoding, whenever it is asked.
\<close>

definition has_text :: "'z vt_env_scheme \<Rightarrow> string \<Rightarrow> string \<Rightarrow> string \<Rightarrow> string \<Rightarrow> string \<Rightarrow> bool" where
  "has_text E org repo p r text \<longleftrightarrow> (\<forall>v. \<exists>c. ghContents E v org repo p r = Inr (Some c) \<and> DecodeString c = Inr text)"

text \<open>The number and Kubernetes version that EKS Distro's own files name for a branch.\<close>

definition released :: "'z vt_env_scheme \<Rightarrow> (string \<Rightarrow> int \<times> string) \<Rightarrow> string list \<Rightarrow> bool" where
  "released E latest branches \<longleftrightarrow> (\<forall>b \<in> set branches. \<exists>num kube.
     has_text E ''aws'' ''eks-distro'' (EKSDistroProdReleaseNumberFile b) MainBranchName num \<and>
     has_text E ''aws'' ''eks-distro'' (KubernetesGitTagFile b) MainBranchName kube \<and>
     Atoi (TrimRight num [CHR 0x0A]) = Inr (fst (latest b)) \<and> TrimRight kube [CHR 0x0A] = snd (latest b))"

definition refresh :: "(string \<Rightarrow> int \<times> string) \<Rightarrow> string list \<Rightarrow> EKSDistroRelease \<Rightarrow> EKSDistroRelease" where
  "refresh latest branches r =
     (if er_Branch r \<in> set branches then r\<lparr>Number := fst (latest (er_Branch r)), er_KubeVersion := snd (latest (er_Branch r))\<rparr> else r)"

lemma GetFileContents_run:
  assumes "has_text E org repo p r text"
  shows "GetFileContents E org repo p r w = (Ok text, emit (Call ''GetContents'' [org, repo, p, r]) w)"
proof -
  obtain c where "ghContents E w org repo p r = Inr (Some c)" "DecodeString c = Inr text" using assms by (auto simp: has_text_def)
  then show ?thesis by (simp add: GetFileContents_def bind_def api_call_def wrapf_run)
qed

lemma getLatestEKSDistroRelease_run:
  assumes "released E latest branches" "b \<in> set branches"
  shows "\<exists>w'. getLatestEKSDistroRelease E b w = (Ok (latest b), w') \<and> fs w' = fs w"
proof -
  obtain num kube where "has_text E ''aws'' ''eks-distro'' (EKSDistroProdReleaseNumberFile b) MainBranchName num"
    "has_text E ''aws'' ''eks-distro'' (KubernetesGitTagFile b) MainBranchName kube"
    "Atoi (TrimRight num [CHR 0x0A]) = Inr (fst (latest b))" "TrimRight kube [CHR 0x0A] = snd (latest b)"
    using assms by (auto simp: released_def)
  then show ?thesis
    by (simp add: getLatestEKSDistroRelease_def Let_def bind_def map_err_def GetFileContents_run wrapf_run)
qed

lemma updateReleases_run:
  assumes "released E latest branches"
  shows "\<exists>w'. updateReleases E branches rs w = (Ok (map (refresh latest branches) rs, map (refresh latest branches) rs \<noteq> rs), w') \<and> fs w' = fs w"
proof (induction rs arbitrary: w)
  case (Cons r rs)
  show ?case
  proof (cases "er_Branch r \<in> set branches")
    case True
    obtain w1 where l: "getLatestEKSDistroRelease E (er_Branch r) w = (Ok (latest (er_Branch r)), w1)" "fs w1 = fs w"
      using getLatestEKSDistroRelease_run [OF assms True] by blast
    obtain w2 where t: "updateReleases E branches rs w1 = (Ok (map (refresh latest branches) rs, map (refresh latest branches) rs \<noteq> rs), w2)" "fs w2 = fs w1"
      using Cons.IH by blast
    have "Number r = fst (latest (er_Branch r)) \<and> er_KubeVersion r = snd (latest (er_Branch r)) \<longleftrightarrow> refresh latest branches r = r"
      using True by (cases r) (auto simp: refresh_def)
    moreover have "refresh latest branches r = r\<lparr>Number := fst (latest (er_Branch r)), er_KubeVersion := snd (latest (er_Branch r))\<rparr>"
      using True by (simp add: refresh_def)
    ultimately show ?thesis using True l t by (cases "latest (er_Branch r)") (auto simp: bind_def wrapf_run)
  next
    case False
    then have "refresh latest branches r = r" by (simp add: refresh_def)
    moreover obtain w2 where "updateReleases E branches rs w = (Ok (map (refresh latest branches) rs, map (refresh latest branches) rs \<noteq> rs), w2)" "fs w2 = fs w"
      using Cons.IH by blast
    ultimately show ?thesis using False by (simp add: bind_def)
  qed
qed simp


text \<open>
  C19.  The EKS Distro releases file is brought up to date: every release of a supported branch gets the
  number and Kubernetes version that EKS Distro names for its branch, the others stay, the file is
  written exactly when that changes something, and no other file changes.
\<close>

theorem updateEKSDistroReleasesFile_refreshes:
  assumes "\<forall>v e. ioerr E v e = None" "path = path_Join [d, EKSDistroLatestReleasesFile]"
    and "fs_get (fs w) path = Some (File text m)" "yamlEKSDistro E text = Inr rel"
    and "fs_get (fs w) (path_Join [d, SupportedReleaseBranchesFile]) = Some (File bs bm)"
    and "branches = Split (TrimRight bs [CHR 0x0A]) [CHR 0x0A]" "released E latest branches"
    and "rel' = rel\<lparr>er_Releases := map (refresh latest branches) (er_Releases rel)\<rparr>" "yamlEKSDistroText E rel' = Inr text'"
  shows "\<exists>w'. updateEKSDistroReleasesFile E d w = (Ok (rel' \<noteq> rel), w') \<and>
    (\<forall>q. fs_get (fs w') q = (if q = path \<and> rel' \<noteq> rel then Some (File text' m) else fs_get (fs w) q))"
proof -
  obtain w1 where u: "updateReleases E branches (er_Releases rel) w =
      (Ok (map (refresh latest branches) (er_Releases rel), map (refresh latest branches) (er_Releases rel) \<noteq> er_Releases rel), w1)" "fs w1 = fs w"
    using updateReleases_run [OF assms(7)] by blast
  have c: "map (refresh latest branches) (er_Releases rel) = er_Releases rel \<longleftrightarrow> rel' = rel"
    unfolding assms(8) by (cases rel) auto
  have s: "getSupportedReleaseBranches E d w = (Ok branches, w)"
    using assms(1,5,6) by (simp add: getSupportedReleaseBranches_def bind_def wrapf_run os_ReadFile_def)
  have r: "os_ReadFile E path w = (Ok text, w)" using assms(1,3) by (simp add: os_ReadFile_def)
  have wr: "os_WriteFile E path text' 420 w1 = (Ok (), (emit (WriteFile path text' 420) w1)\<lparr>fs := fs_write path text' 420 (fs w)\<rparr>)"
    using assms(1,3) u(2) by (simp add: os_WriteFile_def with_io_def)
  show ?thesis
    unfolding updateEKSDistroReleasesFile_def Let_def assms(2) [symmetric]
    using assms(3,4,9) c u s r wr
    by (cases "rel' = rel") (auto simp: bind_def wrapf_run assms(8) [symmetric] fs_write_def)
qed

lemma Atoi_range: "Atoi s = Inr i \<Longrightarrow> in_int64 i"
  by (auto simp: Atoi_def parse_int_def Let_def split: if_splits option.splits)

lemma getLatestEKSDistroRelease_typed:
  assumes "getLatestEKSDistroRelease E b w = (Ok (n, k), w')"
  shows "in_int64 n \<and> (k = [] \<or> last k \<noteq> CHR 0x0A)"
  using assms TrimRight_last
  by (fastforce simp: getLatestEKSDistroRelease_def Let_def bind_Ok_iff map_err_Ok_iff dest: Atoi_range)

text \<open>What holds of a release record: the number is a Go \<open>int\<close>, the version one line.\<close>

definition typed_release :: "EKSDistroRelease \<Rightarrow> bool" where
  "typed_release r \<longleftrightarrow> in_int64 (Number r) \<and> (er_KubeVersion r = [] \<or> last (er_KubeVersion r) \<noteq> CHR 0x0A)"

lemma updateReleases_typed_helper:
  "updateReleases E branches rs w = (Ok (rs', u), w') \<Longrightarrow> list_all typed_release rs \<Longrightarrow>
     list_all typed_release rs' \<and> map er_Branch rs' = map er_Branch rs \<and> map Dev rs' = map Dev rs"
proof (induction rs arbitrary: w rs' u)
  case (Cons r rs)
  let ?one = "if slices_Contains branches (er_Branch r) then
         bind (wrapf (''getting latest EKS Distro release for '' @ er_Branch r @ '' branch: '')
           (getLatestEKSDistroRelease E (er_Branch r))) (\<lambda>(number, kubeVersion).
         ret (if Number r \<noteq> number \<or> er_KubeVersion r \<noteq> kubeVersion
              then (r\<lparr>Number := number, er_KubeVersion := kubeVersion\<rparr>, True) else (r, False)))
       else ret (r, False)"
  obtain x w1 where x: "?one w = (Ok x, w1)"
    and k: "(case x of (r', u) \<Rightarrow> bind (updateReleases E branches rs) (\<lambda>(rs', us). ret (r' # rs', u \<or> us))) w1 = (Ok (rs', u), w')"
    using Cons.prems(1) unfolding updateReleases.simps bind_Ok_iff by blast
  obtain r1 b1 where one: "?one w = (Ok (r1, b1), w1)" and k1: "x = (r1, b1)" using x by (cases x) auto
  obtain rs1 b2 where rest: "updateReleases E branches rs w1 = (Ok (rs1, b2), w')" and rs': "rs' = r1 # rs1"
    using k unfolding k1 prod.case bind_Ok_iff by (auto simp: case_prod_beta)
  have "typed_release r1 \<and> er_Branch r1 = er_Branch r \<and> Dev r1 = Dev r"
    using one Cons.prems(2) getLatestEKSDistroRelease_typed
    by (fastforce simp: bind_Ok_iff typed_release_def split: if_splits)
  then show ?case using Cons.IH [OF rest] Cons.prems(2) rs' by simp
qed simp



text \<open>One release that is behind, of a supported branch.\<close>

definition distro_release :: "string \<Rightarrow> int \<Rightarrow> string \<Rightarrow> EKSDistroRelease" where
  "distro_release b n k = \<lparr>er_Branch = b, er_KubeVersion = k, Number = n, Dev = None\<rparr>"

definition distro :: vt_env where
  "distro = vt_quiet\<lparr>ghContents := (\<lambda>w org repo p r. Inr (Some (if p = KubernetesGitTagFile ''1-27'' then EncodeToString ''v1.27.4'' else EncodeToString ''9''))),
     yamlEKSDistro := (\<lambda>t. Inr \<lparr>er_Releases = [distro_release ''1-26'' 3 ''v1.26.1'', distro_release ''1-27'' 8 ''v1.27.3''], Latest = ''1-27''\<rparr>)\<rparr>"

definition distro_world :: world where
  "distro_world = \<lparr>fs = [(''/r/EKSD_LATEST_RELEASES'', File ''old'' 420), (''/r/release/SUPPORTED_RELEASE_BRANCHES'', File ''1-27\<newline>'' 420)], trace = [], clock = 0\<rparr>"

lemma distro_released: "released distro (\<lambda>_. (9, ''v1.27.4'')) [''1-27'']"
proof -
  have "Atoi (TrimRight ''9'' [CHR 0x0A]) = Inr 9" "TrimRight ''v1.27.4'' [CHR 0x0A] = ''v1.27.4''"
    "EKSDistroProdReleaseNumberFile ''1-27'' \<noteq> KubernetesGitTagFile ''1-27''" by code_simp+
  then show ?thesis
    by (auto simp: released_def has_text_def distro_def DecodeString_EncodeToString intro!: exI [of _ "''9''"] exI [of _ "''v1.27.4''"])
qed

theorem updateEKSDistroReleasesFile_refreshes_witness:
  "\<exists>w'. updateEKSDistroReleasesFile distro ''/r'' distro_world = (Ok True, w') \<and>
     fs_get (fs w') ''/r/EKSD_LATEST_RELEASES'' = Some (File ''releases'' 420) \<and>
     fs_get (fs w') ''/r/release/SUPPORTED_RELEASE_BRANCHES'' = fs_get (fs distro_world) ''/r/release/SUPPORTED_RELEASE_BRANCHES''"
proof -
  let ?rel = "\<lparr>er_Releases = [distro_release ''1-26'' 3 ''v1.26.1'', distro_release ''1-27'' 8 ''v1.27.3''], Latest = ''1-27''\<rparr>"
  have p: "''/r/EKSD_LATEST_RELEASES'' = path_Join [''/r'', EKSDistroLatestReleasesFile]"
    "''/r/release/SUPPORTED_RELEASE_BRANCHES'' = path_Join [''/r'', SupportedReleaseBranchesFile]" by code_simp+
  have b: "[''1-27''] = Split (TrimRight ''1-27\<newline>'' [CHR 0x0A]) [CHR 0x0A]" by code_simp
  have f: "fs_get (fs distro_world) ''/r/EKSD_LATEST_RELEASES'' = Some (File ''old'' 420)"
    "fs_get (fs distro_world) (path_Join [''/r'', SupportedReleaseBranchesFile]) = Some (File ''1-27\<newline>'' 420)"
    unfolding p(2) [symmetric] by (simp_all add: distro_world_def fs_get_def)
  have e: "\<forall>v ev. ioerr distro v ev = None" "yamlEKSDistro distro ''old'' = Inr ?rel" "yamlEKSDistroText distro r = Inr ''releases''" for r
    by (simp_all add: distro_def vt_quiet_def)
  have n: "?rel\<lparr>er_Releases := map (refresh (\<lambda>_. (9, ''v1.27.4'')) [''1-27'']) (er_Releases ?rel)\<rparr> \<noteq> ?rel"
    by (simp add: refresh_def distro_release_def)
  show ?thesis
    using updateEKSDistroReleasesFile_refreshes [OF e(1) p(1) f(1) e(2) f(2) b distro_released refl e(3)] n
    by (simp only: simp_thms if_True p(2) [symmetric]) auto
qed


section \<open>The tracker file\<close>

lemma in_repo_positions [simp]: "(i, j) \<in> set (repo_positions ps) \<longleftrightarrow> i < length ps \<and> j < length (Repos (ps ! i))"
  by (auto simp: repo_positions_def intro!: bexI [of _ i])

lemma targetPosition_Some:
  assumes "targetPosition ps org name = Some p"
  shows "p \<in> set (repo_positions ps)" "Org (ps ! fst p) = org" "RepoName (repo_at ps p) = name"
proof -
  let ?ms = "filter (\<lambda>p. Org (ps ! fst p) = org \<and> RepoName (repo_at ps p) = name) (repo_positions ps)"
  have "?ms \<noteq> []" "p = last ?ms" using assms by (auto simp: targetPosition_def split: list.splits)
  then have "p \<in> set ?ms" by (metis last_in_set)
  then show "p \<in> set (repo_positions ps)" "Org (ps ! fst p) = org" "RepoName (repo_at ps p) = name" by auto
qed

lemma setVersion_frame:
  assumes "p \<in> set (repo_positions ps)" "Versions (repo_at ps p) = v # vs"
  shows "repo_positions (setVersion f (Some p) ps) = repo_positions ps"
    and "map Org (setVersion f (Some p) ps) = map Org ps"
    and "q \<in> set (repo_positions ps) \<Longrightarrow> repo_at (setVersion f (Some p) ps) q =
      (if q = p then (repo_at ps p)\<lparr>Versions := f v # vs\<rparr> else repo_at ps q)"
proof -
  obtain i j where p: "p = (i, j)" "i < length ps" "j < length (Repos (ps ! i))" using assms(1) by (metis in_repo_positions surj_pair)
  define pr where "pr = (ps ! i)\<lparr>Repos := (Repos (ps ! i))[j := (repo_at ps p)\<lparr>Versions := f v # vs\<rparr>]\<rparr>"
  have s: "setVersion f (Some p) ps = ps[i := pr]"
    using assms(2) by (simp add: setVersion_def p(1) Let_def pr_def repo_at_def)
  have l: "length (Repos (ps[i := pr] ! k)) = length (Repos (ps ! k))" for k
    by (cases "k = i") (use p(2) in \<open>simp_all add: pr_def\<close>)
  show "repo_positions (setVersion f (Some p) ps) = repo_positions ps" by (simp add: s repo_positions_def l)
  show "map Org (setVersion f (Some p) ps) = map Org ps"
    by (rule nth_equalityI) (use p(2) in \<open>auto simp: s nth_list_update pr_def\<close>)
  show "q \<in> set (repo_positions ps) \<Longrightarrow> repo_at (setVersion f (Some p) ps) q =
      (if q = p then (repo_at ps p)\<lparr>Versions := f v # vs\<rparr> else repo_at ps q)"
    using p by (cases "fst q = i") (auto simp: s repo_at_def nth_list_update pr_def prod_eq_iff)
qed

lemma targetPosition_setVersion:
  assumes "targetPosition ps org name = Some p" "Versions (repo_at ps p) = v # vs"
  shows "targetPosition (setVersion f (Some p) ps) org name = Some p"
proof -
  let ?ps = "setVersion f (Some p) ps"
  note p = targetPosition_Some [OF assms(1)]
  note fr = setVersion_frame [OF p(1) assms(2), where f = f]
  have "Org (?ps ! fst q) = Org (ps ! fst q) \<and> RepoName (repo_at ?ps q) = RepoName (repo_at ps q)" if "q \<in> set (repo_positions ps)" for q
  proof -
    have "fst q < length ps" using that by (metis in_repo_positions prod.collapse)
    then have "Org (?ps ! fst q) = Org (ps ! fst q)" using fr(2) by (metis length_map nth_map)
    then show ?thesis using fr(3) [OF that] by simp
  qed
  then have "filter (\<lambda>q. Org (?ps ! fst q) = org \<and> RepoName (repo_at ?ps q) = name) (repo_positions ?ps) =
      filter (\<lambda>q. Org (ps ! fst q) = org \<and> RepoName (repo_at ps q) = name) (repo_positions ps)"
    unfolding fr(1) by (intro filter_cong) auto
  then show ?thesis using assms(1) by (simp add: targetPosition_def)
qed


definition sample_repo :: "string \<Rightarrow> string \<Rightarrow> Repo" where
  "sample_repo n t = \<lparr>RepoName = n, Versions = [\<lparr>Tag = t, Commit = [], GoVersion = ''1.20''\<rparr>]\<rparr>"

definition sample_projects :: "string \<Rightarrow> ProjectsList" where
  "sample_projects t = [\<lparr>Org = ''aws'', Repos = [sample_repo ''kind'' ''v0.1'', sample_repo ''rolesanywhere'' t]\<rparr>]"


end
