(* ===== verification/VT_Bottlerocket.thy ===== *)
theory VT_Bottlerocket
  imports VT_GitHub VT_Git
begin

text \<open>
  The Bottlerocket part of \<open>pkg/commands/upgrade/upgrade.go\<close>: the releases file, the check that an
  image was published, and the metadata of the host containers.  The releases file is a map from
  release channel to a map of settings; Go ranges over it in no particular order, and the update is
  shown to give the same reference map for each of them.
\<close>

section \<open>Published images\<close>

definition imageVariant :: "string \<Rightarrow> string" where
  "imageVariant format =
     (if format = ''ami'' then ''aws'' else if format = ''ova'' then ''vmware'' else if format = ''raw'' then ''metal'' else [])"

definition imageTarget :: "string \<Rightarrow> string \<Rightarrow> string \<Rightarrow> string" where
  "imageTarget format kubeVersion version =
     (if format = ''ami'' \<or> format = ''ova'' \<or> format = ''raw'' then
        ''bottlerocket-'' @ imageVariant format @ ''-k8s-'' @ kubeVersion @ ''-x86_64-'' @ version @
          (if format = ''ova'' then ''.ova'' else ''.img.lz4'')
      else [])"

definition updatesURL :: "string \<Rightarrow> string \<Rightarrow> string \<Rightarrow> string" where
  "updatesURL variant kubeVersion name =
     ''https://updates.bottlerocket.aws/2020-07-07/'' @ variant @ ''-k8s-'' @ kubeVersion @ ''/x86_64/'' @ name"

definition verifyBRImageExists :: "'z env_scheme \<Rightarrow> string \<Rightarrow> string \<Rightarrow> string \<Rightarrow> (world, bool) prog" where
  "verifyBRImageExists E channel format bottlerocketVersion =
     (let kubeVersion = ReplaceAll channel ''-'' ''.''; variant = imageVariant format in
     bind (wrapf ''reading Bottlerocket timestamp URL: '' (ReadURL E (updatesURL variant kubeVersion ''timestamp.json''))) (\<lambda>timestampManifest.
     bind (wrapf ''unmarshalling Bottlerocket timestamp manifest: '' (lift_sum (Unmarshal_any timestampManifest))) (\<lambda>timestampData.
     bind (any_map (Some timestampData)) (\<lambda>m.
     bind (any_map (member_of m ''signed'')) (\<lambda>signed.
     bind (any_number (member_of signed ''version'')) (\<lambda>version.
     bind (wrapf ''reading Bottlerocket targets URL: '' (ReadURL E (updatesURL variant kubeVersion (Sprintf_0f version @ ''.targets.json'')))) (\<lambda>targetsManifest.
     bind (wrapf ''unmarshalling Bottlerocket targets manifest: '' (lift_sum (Unmarshal_any targetsManifest))) (\<lambda>targetsData.
     bind (any_map (Some targetsData)) (\<lambda>m.
     bind (any_map (member_of m ''signed'')) (\<lambda>signed.
     bind (any_map (member_of signed ''targets'')) (\<lambda>targets.
     ret (imageTarget format kubeVersion bottlerocketVersion \<in> set (map fst targets)))))))))))))"

section \<open>The releases file\<close>

definition releaseKey :: "string \<Rightarrow> string" where
  "releaseKey format = format @ ''-release-version''"

text \<open>The current version: the first one found, over channels in map order and formats in theirs.\<close>

fun firstFormat :: "(string \<times> json) list \<Rightarrow> string list \<Rightarrow> (world, string) prog" where
  "firstFormat settings [] = ret []"
| "firstFormat settings (f # formats) = (case member_of settings (releaseKey f) of
     None \<Rightarrow> firstFormat settings formats | Some v \<Rightarrow> any_string (Some v))"

fun firstVersion :: "(string \<times> json) list \<Rightarrow> string list \<Rightarrow> (world, string) prog" where
  "firstVersion m [] = ret []"
| "firstVersion m (channel # cs) =
     bind (any_map (member_of m channel)) (\<lambda>settings.
     bind (firstFormat settings BottlerocketImageFormats) (\<lambda>v.
     if v \<noteq> [] then ret v else firstVersion m cs))"

definition updateFormat ::
  "'z env_scheme \<Rightarrow> string \<Rightarrow> string \<Rightarrow> (string \<times> json) list \<Rightarrow> string \<Rightarrow> (world, (string \<times> json) list) prog" where
  "updateFormat E channel latest m format =
     bind (any_map (member_of m channel)) (\<lambda>settings.
     if member_of settings (releaseKey format) = None then ret m
     else
       bind (wrapf (''checking if Bottlerocket '' @ format @ '' image exists for '' @ channel @ '' release branch: '')
         (verifyBRImageExists E channel format latest)) (\<lambda>imageExists.
       ret (if imageExists then AList.update channel (JObj (AList.update (releaseKey format) (JStr latest) settings)) m else m)))"

definition updateChannel ::
  "'z env_scheme \<Rightarrow> string \<Rightarrow> (string \<times> json) list \<Rightarrow> string \<Rightarrow> (world, (string \<times> json) list) prog" where
  "updateChannel E latest m channel = fold_prog (updateFormat E channel latest) m BottlerocketImageFormats"

definition updateBottlerocketReleasesFile ::
  "'z vt_env_scheme \<Rightarrow> (string \<times> json) list \<Rightarrow> string \<Rightarrow> string \<Rightarrow> (world, unit) prog" where
  "updateBottlerocketReleasesFile E bottlerocketReleaseMap path latestBottlerocketVersion =
     bind (\<lambda>w. fold_prog (updateChannel E latestBottlerocketVersion) bottlerocketReleaseMap
       (keyOrder E w (map fst bottlerocketReleaseMap)) w) (\<lambda>m.
     bind (wrapf ''marshalling Bottlerocket releases: '' (lift_sum (yamlMapText E m))) (\<lambda>text.
     wrapf ''writing Bottlerocket releases file: '' (os_WriteFile E path text 420)))"

section \<open>Host containers\<close>

definition sourceImage :: "json \<Rightarrow> string \<Rightarrow> (world, string) prog" where
  "sourceImage hostContainersTOMLMap container =
     bind (any_map (Some hostContainersTOMLMap)) (\<lambda>m.
     bind (any_map (member_of m ''settings'')) (\<lambda>m.
     bind (any_map (member_of m ''host-containers'')) (\<lambda>m.
     bind (any_map (member_of m container)) (\<lambda>m.
     any_string (member_of m ''source'')))))"

definition skopeoArgv :: "string \<Rightarrow> string list" where
  "skopeoArgv img = [''skopeo'', ''inspect'', ''docker://'' @ img, ''--override-os'', ''linux'', ''--override-arch'', ''amd64'',
     ''--format'', ''{{.Digest}}'']"

definition updateHostContainer ::
  "'z vt_env_scheme \<Rightarrow> string \<Rightarrow> string \<Rightarrow> json \<Rightarrow> string list \<Rightarrow> string \<Rightarrow> (world, string list) prog" where
  "updateHostContainer E projectRootFilepath projectPath toml updated container =
     (let name = BottlerocketContainerMetadataFile (ToUpper container);
          path = path_Join [projectRootFilepath, name] in
     bind (wrapf (''reading Bottlerocket '' @ container @ '' container metadata file: '') (os_ReadFile E path)) (\<lambda>contents.
     bind (wrapf (''unmarshalling Bottlerocket '' @ container @ '' container metadata file: '') (lift_sum (yamlImage E contents))) (\<lambda>metadata.
     bind (sourceImage toml container) (\<lambda>img.
     bind (index (Split img '':'') 1) (\<lambda>tag.
     if im_Tag metadata \<noteq> tag then
       bind (wrapf ''running skopeo inspect command: '' (ExecCommand_or_fail E (skopeoArgv img))) (\<lambda>digest.
       bind (wrapf (''marshalling updated Bottlerocket '' @ container @ '' container: '')
         (lift_sum (yamlImageText E (metadata\<lparr>im_Tag := tag, ImageDigest := digest\<rparr>)))) (\<lambda>text.
       bind (wrapf ''writing Bottlerocket releases file: '' (os_WriteFile E path text 420)) (\<lambda>_.
       ret (updated @ [path_Join [projectPath, name]]))))
     else ret updated)))))"

definition updateBottlerocketHostContainerMetadata ::
  "'z vt_env_scheme \<Rightarrow> string \<Rightarrow> string \<Rightarrow> string \<Rightarrow> (world, string list) prog" where
  "updateBottlerocketHostContainerMetadata E projectRootFilepath projectPath latestBottlerocketVersion =
     bind (map_err (\<lambda>e. ''getting contents of Bottlerocket host containers file: '' @ BottlerocketHostContainersTOMLFile @
         ''%!(EXTRA *errors.errorString='' @ e @ '')'')
       (GetFileContents E ''bottlerocket-os'' ''bottlerocket'' BottlerocketHostContainersTOMLFile latestBottlerocketVersion)) (\<lambda>contents.
     bind (wrapf ''unmarshalling Bottlerocket host containers file: '' (lift_sum (tomlAny E contents))) (\<lambda>toml.
     fold_prog (updateHostContainer E projectRootFilepath projectPath toml) [] BottlerocketHostContainers))"

definition updateBottlerocketVersionFiles ::
  "'z vt_env_scheme \<Rightarrow> string \<Rightarrow> string \<Rightarrow> (world, string \<times> string \<times> string list) prog" where
  "updateBottlerocketVersionFiles E projectRootFilepath projectPath =
     (let path = path_Join [projectRootFilepath, BottlerocketReleasesFile] in
     bind (wrapf ''reading Bottlerocket releases file: '' (os_ReadFile E path)) (\<lambda>contents.
     bind (wrapf ''unmarshalling Bottlerocket releases file: '' (lift_sum (yamlMap E contents))) (\<lambda>m.
     bind (\<lambda>w. firstVersion m (keyOrder E w (map fst m)) w) (\<lambda>current.
     bind (wrapf ''getting latest Bottlerocket version from GitHub: '' (GetLatestRevision E ''bottlerocket-os'' ''bottlerocket'' current)) (\<lambda>(latest, needsUpgrade).
     if needsUpgrade then
       bind (wrapf ''updating Bottlerocket releases file: '' (updateBottlerocketReleasesFile E m path latest)) (\<lambda>_.
       bind (wrapf ''updating Bottlerocket host containers metadata files: ''
         (updateBottlerocketHostContainerMetadata E projectRootFilepath projectPath latest)) (\<lambda>containers.
       ret (current, latest, path_Join [projectPath, BottlerocketReleasesFile] # containers)))
     else ret (current, latest, []))))))"

section \<open>The releases file does not depend on the order of the map\<close>

text \<open>
  What the update service publishes for a variant: the timestamp names a version, and the targets of that
  version are listed, whenever they are asked for.
\<close>

definition serves :: "'z env_scheme \<Rightarrow> string \<Rightarrow> string \<Rightarrow> (string \<times> json) list \<Rightarrow> bool" where
  "serves E variant kube targets \<longleftrightarrow> (\<exists>n.
     (\<forall>v. \<exists>d st body m s. httpget E v (updatesURL variant kube ''timestamp.json'') = (d, HttpReply st (Inr body)) \<and>
        Unmarshal_any body = Inr (JObj m) \<and> member_of m ''signed'' = Some (JObj s) \<and> member_of s ''version'' = Some (JNum n)) \<and>
     (\<forall>v. \<exists>d st body m s. httpget E v (updatesURL variant kube (Sprintf_0f n @ ''.targets.json'')) = (d, HttpReply st (Inr body)) \<and>
        Unmarshal_any body = Inr (JObj m) \<and> member_of m ''signed'' = Some (JObj s) \<and> member_of s ''targets'' = Some (JObj targets)))"

definition publishedImage :: "'z env_scheme \<Rightarrow> string \<Rightarrow> (string \<Rightarrow> string \<Rightarrow> bool) \<Rightarrow> string \<Rightarrow> string \<Rightarrow> bool" where
  "publishedImage E latest pub channel format \<longleftrightarrow> (\<exists>targets. serves E (imageVariant format) (ReplaceAll channel ''-'' ''.'') targets \<and>
     (pub channel format \<longleftrightarrow> imageTarget format (ReplaceAll channel ''-'' ''.'') latest \<in> fst ` set targets))"

lemma ReadURL_run:
  assumes "httpget E w u = (d, HttpReply st (Inr body))"
  shows "\<exists>w'. ReadURL E u w = (Ok body, w') \<and> fs w' = fs w"
  using assms by (simp add: ReadURL_def bind_def http_Get_def)

lemma verifyBRImageExists_run:
  assumes "publishedImage E latest pub channel format"
  shows "\<exists>w'. verifyBRImageExists E channel format latest w = (Ok (pub channel format), w') \<and> fs w' = fs w"
proof -
  define kube where "kube = ReplaceAll channel ''-'' ''.''"
  obtain targets n where t: "pub channel format \<longleftrightarrow> imageTarget format kube latest \<in> fst ` set targets"
    "\<And>v. \<exists>d st body m s. httpget E v (updatesURL (imageVariant format) kube ''timestamp.json'') = (d, HttpReply st (Inr body)) \<and>
        Unmarshal_any body = Inr (JObj m) \<and> member_of m ''signed'' = Some (JObj s) \<and> member_of s ''version'' = Some (JNum n)"
    "\<And>v. \<exists>d st body m s. httpget E v (updatesURL (imageVariant format) kube (Sprintf_0f n @ ''.targets.json'')) = (d, HttpReply st (Inr body)) \<and>
        Unmarshal_any body = Inr (JObj m) \<and> member_of m ''signed'' = Some (JObj s) \<and> member_of s ''targets'' = Some (JObj targets)"
    using assms unfolding publishedImage_def serves_def kube_def by blast
  obtain b1 m1 s1 w1 where 1: "ReadURL E (updatesURL (imageVariant format) kube ''timestamp.json'') w = (Ok b1, w1)" "fs w1 = fs w"
    "Unmarshal_any b1 = Inr (JObj m1)" "member_of m1 ''signed'' = Some (JObj s1)" "member_of s1 ''version'' = Some (JNum n)"
    using t(2) [of w] ReadURL_run by metis
  obtain b2 m2 s2 w2 where 2: "ReadURL E (updatesURL (imageVariant format) kube (Sprintf_0f n @ ''.targets.json'')) w1 = (Ok b2, w2)" "fs w2 = fs w1"
    "Unmarshal_any b2 = Inr (JObj m2)" "member_of m2 ''signed'' = Some (JObj s2)" "member_of s2 ''targets'' = Some (JObj targets)"
    using t(3) [of w1] ReadURL_run by metis
  show ?thesis unfolding verifyBRImageExists_def kube_def [symmetric] Let_def
    using 1 2 t(1) by (simp add: bind_def wrapf_run any_map_def any_number_def)
qed

text \<open>
  The reference: every setting that names the release of an image format gets the latest version if the
  image was published; the entries keep their order and everything else its value.
\<close>

definition newSetting :: "(string \<Rightarrow> string \<Rightarrow> bool) \<Rightarrow> string \<Rightarrow> string list \<Rightarrow> string \<Rightarrow> string \<times> json \<Rightarrow> string \<times> json" where
  "newSetting pub latest formats channel kv = (case kv of (k, v) \<Rightarrow>
     (k, if v \<noteq> JNull \<and> (\<exists>f \<in> set formats. k = releaseKey f \<and> pub channel f) then JStr latest else v))"

definition newChannel :: "(string \<Rightarrow> string \<Rightarrow> bool) \<Rightarrow> string \<Rightarrow> string list \<Rightarrow> string \<times> json \<Rightarrow> string \<times> json" where
  "newChannel pub latest formats cv = (case cv of
     (c, JObj settings) \<Rightarrow> (c, JObj (map (newSetting pub latest formats c) settings)) | _ \<Rightarrow> cv)"

definition settingsMap :: "(string \<times> json) list \<Rightarrow> bool" where
  "settingsMap m \<longleftrightarrow> distinct (map fst m) \<and> (\<forall>(c, v) \<in> set m. \<exists>s. v = JObj s \<and> distinct (map fst s))"

lemma newSetting_fst [simp]: "fst (newSetting pub latest formats c kv) = fst kv"
  by (simp add: newSetting_def split: prod.splits)

lemma newChannel_fst [simp]: "fst (newChannel pub latest formats cv) = fst cv"
  by (simp add: newChannel_def split: prod.splits json.splits)

lemma map_fst_new [simp]:
  "map fst (map (newSetting pub latest formats c) s) = map fst s" "map fst (map (newChannel pub latest formats) m) = map fst m"
  by simp_all

lemma newSetting_append: "newSetting pub latest fs2 c (newSetting pub latest fs1 c kv) = newSetting pub latest (fs1 @ fs2) c kv"
  by (cases kv) (auto simp: newSetting_def)

lemma newSetting_none [simp]: "newSetting pub latest [] c kv = kv"
  by (simp add: newSetting_def split: prod.splits)

lemma update_map_fst:
  assumes "distinct (map fst m)" "map_of m k = Some v"
  shows "AList.update k u m = map (\<lambda>(k', v'). (k', if k' = k then u else v')) m"
  using assms
proof (induction m)
  case (Cons a m)
  obtain k1 v1 where a: "a = (k1, v1)" by fastforce
  show ?case
  proof (cases "k1 = k")
    case True
    have "map (\<lambda>(k', v'). (k', if k' = k then u else v')) m = m"
      using Cons.prems(1) True a by (intro map_idI) force
    then show ?thesis using True a by simp
  next
    case False
    then show ?thesis using Cons a by simp
  qed
qed simp

lemma member_of_distinct: "distinct (map fst s) \<Longrightarrow> member_of s k = (case map_of s k of Some JNull \<Rightarrow> None | r \<Rightarrow> r)"
  using map_of_inject_set [of "rev s" s] by (simp add: member_of_def rev_map [symmetric])

lemma newChannel_append: "newChannel pub latest fs2 (newChannel pub latest fs1 cv) = newChannel pub latest (fs1 @ fs2) cv"
  by (auto simp: newChannel_def newSetting_append split: prod.splits json.splits)

lemma newChannel_set: "set fs1 = set fs2 \<Longrightarrow> newChannel pub latest fs1 = newChannel pub latest fs2"
  by (auto simp: newChannel_def newSetting_def fun_eq_iff split: prod.splits json.splits)

definition atChannels :: "(string \<Rightarrow> string \<Rightarrow> bool) \<Rightarrow> string \<Rightarrow> string list \<Rightarrow> string set \<Rightarrow> (string \<times> json) list \<Rightarrow> (string \<times> json) list" where
  "atChannels pub latest formats C m = map (\<lambda>cv. if fst cv \<in> C then newChannel pub latest formats cv else cv) m"

lemma atChannels_fst [simp]: "map fst (atChannels pub latest formats C m) = map fst m"
  by (simp add: atChannels_def)

lemma settingsMap_alt: "settingsMap m \<longleftrightarrow> distinct (map fst m) \<and> (\<forall>cv \<in> set m. \<exists>s. snd cv = JObj s \<and> distinct (map fst s))"
  by (simp add: settingsMap_def case_prod_beta)

lemma newChannel_settings:
  "snd cv = JObj s \<Longrightarrow> newChannel pub latest formats cv = (fst cv, JObj (map (newSetting pub latest formats (fst cv)) s))"
  by (cases cv) (simp add: newChannel_def)

lemma settingsMap_atChannels:
  assumes "settingsMap m"
  shows "settingsMap (atChannels pub latest formats C m)"
proof -
  have "\<exists>s. snd (if fst cv \<in> C then newChannel pub latest formats cv else cv) = JObj s \<and> distinct (map fst s)" if cv: "cv \<in> set m" for cv
  proof -
    obtain s where s: "snd cv = JObj s" "distinct (map fst s)" using assms cv unfolding settingsMap_alt by blast
    show ?thesis
    proof (cases "fst cv \<in> C")
      case True
      then show ?thesis
        unfolding newChannel_settings [OF s(1)] using s(2) by (intro exI [of _ "map (newSetting pub latest formats (fst cv)) s"]) (simp only: if_True snd_conv map_fst_new simp_thms)
    qed (use s in simp)
  qed
  then have "\<forall>cv \<in> set (atChannels pub latest formats C m). \<exists>s. snd cv = JObj s \<and> distinct (map fst s)"
    unfolding atChannels_def set_map by blast
  then show ?thesis using assms unfolding settingsMap_alt atChannels_fst by blast
qed

lemma settingsMap_get:
  assumes "settingsMap m" "c \<in> set (map fst m)"
  obtains s where "map_of m c = Some (JObj s)" "member_of m c = Some (JObj s)" "distinct (map fst s)"
proof -
  obtain v where v: "map_of m c = Some v" using assms(2) by (metis map_of_eq_None_iff not_Some_eq set_map)
  then obtain s where "v = JObj s" "distinct (map fst s)" using assms(1) map_of_SomeD by (fastforce simp: settingsMap_def)
  then show ?thesis using that v assms(1) by (simp add: member_of_distinct settingsMap_def)
qed

lemma member_of_None_iff: "distinct (map fst s) \<Longrightarrow> member_of s k = None \<longleftrightarrow> map_of s k = None \<or> map_of s k = Some JNull"
  by (auto simp: member_of_distinct simp del: map_of_eq_Some_iff split: option.splits json.splits)

lemma map_of_entry: "distinct (map fst m) \<Longrightarrow> kv \<in> set m \<Longrightarrow> map_of m (fst kv) = Some (snd kv)"
  by (metis map_of_is_SomeI prod.collapse)

lemma updateFormat_run:
  assumes "settingsMap m" "c \<in> set (map fst m)" "publishedImage E latest pub c f"
  shows "\<exists>w'. updateFormat E c latest m f w = (Ok (atChannels pub latest [f] {c} m), w') \<and> fs w' = fs w"
proof -
  obtain s where s: "map_of m c = Some (JObj s)" "member_of m c = Some (JObj s)" "distinct (map fst s)"
    using settingsMap_get [OF assms(1,2)] .
  have same: "atChannels pub latest [f] {c} m = map (\<lambda>(c', v). (c', if c' = c then JObj (map (newSetting pub latest [f] c) s) else v)) m"
    unfolding atChannels_def
  proof (rule map_cong [OF refl])
    fix cv assume "cv \<in> set m"
    then have "map_of m (fst cv) = Some (snd cv)" using assms(1) by (simp add: settingsMap_def map_of_entry)
    then have "fst cv = c \<Longrightarrow> snd cv = JObj s" using s(1) by simp
    then show "(if fst cv \<in> {c} then newChannel pub latest [f] cv else cv) =
        (case cv of (c', v) \<Rightarrow> (c', if c' = c then JObj (map (newSetting pub latest [f] c) s) else v))"
      by (cases cv) (auto simp: newChannel_def)
  qed
  have keep: "atChannels pub latest [f] {c} m = m" if "map (newSetting pub latest [f] c) s = s"
    unfolding same that
  proof (rule map_idI)
    fix cv assume "cv \<in> set m"
    then have "map_of m (fst cv) = Some (snd cv)" using assms(1) by (simp add: settingsMap_def map_of_entry)
    then show "(case cv of (c', v) \<Rightarrow> (c', if c' = c then JObj s else v)) = cv" using s(1) by (cases cv) auto
  qed
  obtain w1 where v: "verifyBRImageExists E c f latest w = (Ok (pub c f), w1)" "fs w1 = fs w"
    using verifyBRImageExists_run [OF assms(3)] by blast
  show ?thesis
  proof (cases "member_of s (releaseKey f) = None \<or> \<not> pub c f")
    case True
    have "map (newSetting pub latest [f] c) s = s"
    proof (rule map_idI)
      fix kv assume "kv \<in> set s"
      then have "map_of s (fst kv) = Some (snd kv)" using s(3) by (rule map_of_entry [rotated])
      then show "newSetting pub latest [f] c kv = kv"
        using True s(3) by (cases kv) (auto simp: newSetting_def member_of_None_iff simp del: map_of_eq_Some_iff)
    qed
    then show ?thesis using True v by (auto simp: updateFormat_def bind_def any_map_def s(2) wrapf_run keep)
  next
    case False
    then obtain v0 where v0: "map_of s (releaseKey f) = Some v0" "v0 \<noteq> JNull"
      using s(3) by (auto simp: member_of_None_iff simp del: map_of_eq_Some_iff)
    have "AList.update (releaseKey f) (JStr latest) s = map (newSetting pub latest [f] c) s"
      unfolding update_map_fst [OF s(3) v0(1)]
    proof (rule map_cong [OF refl])
      fix kv assume "kv \<in> set s"
      then have "map_of s (fst kv) = Some (snd kv)" using s(3) by (rule map_of_entry [rotated])
      then show "(case kv of (k', v') \<Rightarrow> (k', if k' = releaseKey f then JStr latest else v')) = newSetting pub latest [f] c kv"
        using False v0 by (cases kv) (auto simp: newSetting_def simp del: map_of_eq_Some_iff)
    qed
    then have "AList.update c (JObj (AList.update (releaseKey f) (JStr latest) s)) m = atChannels pub latest [f] {c} m"
      unfolding same using assms(1) s(1) by (simp add: update_map_fst settingsMap_def)
    then show ?thesis using False v by (auto simp: updateFormat_def bind_def any_map_def s(2) wrapf_run)
  qed
qed

lemma atChannels_step: "atChannels pub latest fs2 {c} (atChannels pub latest fs1 {c} m) = atChannels pub latest (fs1 @ fs2) {c} m"
  by (auto simp: atChannels_def newChannel_append)

lemma updateFormats_run:
  assumes "settingsMap m" "c \<in> set (map fst m)"
  shows "\<forall>f \<in> set fs2. publishedImage E latest pub c f \<Longrightarrow>
    \<exists>w'. fold_prog (updateFormat E c latest) (atChannels pub latest fs1 {c} m) fs2 w = (Ok (atChannels pub latest (fs1 @ fs2) {c} m), w') \<and> fs w' = fs w"
proof (induction fs2 arbitrary: fs1 w)
  case (Cons f fs2)
  let ?m = "atChannels pub latest fs1 {c} m"
  have c: "settingsMap ?m" "c \<in> set (map fst ?m)" "publishedImage E latest pub c f"
    using settingsMap_atChannels [OF assms(1)] assms(2) Cons.prems by auto
  obtain w1 where u: "updateFormat E c latest ?m f w = (Ok (atChannels pub latest (fs1 @ [f]) {c} m), w1)" "fs w1 = fs w"
    using updateFormat_run [OF c] unfolding atChannels_step by blast
  then show ?case using Cons.IH [of "fs1 @ [f]" w1] Cons.prems by (simp add: bind_def)
qed simp

lemma updateChannels_run:
  assumes "settingsMap m" "\<forall>c \<in> set (map fst m). \<forall>f \<in> set BottlerocketImageFormats. publishedImage E latest pub c f"
  shows "set cs \<subseteq> set (map fst m) \<Longrightarrow> \<exists>w'. fold_prog (updateChannel E latest) (atChannels pub latest BottlerocketImageFormats C m) cs w =
    (Ok (atChannels pub latest BottlerocketImageFormats (C \<union> set cs) m), w') \<and> fs w' = fs w"
proof (induction cs arbitrary: C w)
  case (Cons c cs)
  let ?F = BottlerocketImageFormats
  let ?m = "atChannels pub latest ?F C m"
  have idem: "newChannel pub latest ?F (newChannel pub latest ?F cv) = newChannel pub latest ?F cv" for cv
    unfolding newChannel_append using newChannel_set [of "?F @ ?F" ?F] by simp
  have "atChannels pub latest ?F {c} ?m = atChannels pub latest ?F (insert c C) m"
    by (auto simp: atChannels_def idem)
  moreover have "atChannels pub latest [] {c} ?m = ?m"
    by (intro map_idI [of _ "\<lambda>cv. if fst cv \<in> {c} then newChannel pub latest [] cv else cv", folded atChannels_def])
      (auto simp: newChannel_def map_idI split: prod.splits json.splits)
  moreover have "settingsMap ?m" "c \<in> set (map fst ?m)" using settingsMap_atChannels [OF assms(1)] Cons.prems by auto
  ultimately obtain w1 where u: "updateChannel E latest ?m c w = (Ok (atChannels pub latest ?F (insert c C) m), w1)" "fs w1 = fs w"
    using updateFormats_run [of ?m c ?F E latest pub "[]" w] assms(2) Cons.prems by (auto simp: updateChannel_def)
  then show ?case using Cons.IH [of "insert c C" w1] Cons.prems by (simp add: bind_def)
qed simp

text \<open>
  C8.  Updating the Bottlerocket releases implements the reference whatever order Go ranges over the map in: the
  written file is the text of the map in which exactly the settings of published images name the latest
  version; no other file changes.
\<close>

theorem updateBottlerocketReleasesFile_refines:
  assumes "settingsMap m" "\<forall>c \<in> set (map fst m). \<forall>f \<in> set BottlerocketImageFormats. publishedImage E latest pub c f"
    and "\<forall>v ks. set (keyOrder E v ks) = set ks" "\<forall>v e. ioerr E v e = None" "fs_get (fs w) path = Some (File old mode)"
    and "yamlMapText E (map (newChannel pub latest BottlerocketImageFormats) m) = Inr text"
  shows "\<exists>w'. updateBottlerocketReleasesFile E m path latest w = (Ok (), w') \<and>
    (\<forall>q. fs_get (fs w') q = (if q = path then Some (File text mode) else fs_get (fs w) q))"
proof -
  let ?F = BottlerocketImageFormats
  have a: "atChannels pub latest ?F {} m = m" by (simp add: atChannels_def)
  have all: "atChannels pub latest ?F (set (map fst m)) m = map (newChannel pub latest ?F) m" by (simp add: atChannels_def)
  obtain w1 where f: "fold_prog (updateChannel E latest) m (keyOrder E w (map fst m)) w = (Ok (map (newChannel pub latest ?F) m), w1)" "fs w1 = fs w"
    using updateChannels_run [OF assms(1,2), of "keyOrder E w (map fst m)" "{}" w] assms(3) unfolding a by (auto simp: all [simplified])
  then show ?thesis using assms(4-6)
    by (auto simp: updateBottlerocketReleasesFile_def bind_def wrapf_run os_WriteFile_def with_io_def fs_write_def)
qed

text \<open>An update service that has published one image of the latest version, the OVA.\<close>

definition targets_text :: string where
  "targets_text = ''{\"signed\": {\"targets\": {\"bottlerocket-vmware-k8s-1.27-x86_64-v1.15.0.ova\": {}}}}''"

definition timestamp_text :: string where
  "timestamp_text = ''{\"signed\": {\"version\": 5}}''"

definition ova_only :: vt_env where
  "ova_only = vt_quiet\<lparr>keyOrder := (\<lambda>w ks. rev ks),
     httpget := (\<lambda>w u. (0, HttpReply 200 (Inr (if HasSuffix u ''.targets.json''
       then targets_text else timestamp_text))))\<rparr>"

definition channel_settings :: "string \<Rightarrow> string \<Rightarrow> (string \<times> json) list" where
  "channel_settings ami ova = [(''1-27'', JObj [(''ami-release-version'', JStr ami), (''ova-release-version'', JStr ova)])]"

lemma ova_only_published: "f \<in> set BottlerocketImageFormats \<Longrightarrow> publishedImage ova_only ''v1.15.0'' (\<lambda>c f. f = ''ova'') ''1-27'' f"
proof -
  let ?T = "[(''bottlerocket-vmware-k8s-1.27-x86_64-v1.15.0.ova'', JObj [])]"
  assume "f \<in> set BottlerocketImageFormats"
  then have f: "f = ''ami'' \<or> f = ''ova'' \<or> f = ''raw''" by (simp add: BottlerocketImageFormats_def)
  have k: "ReplaceAll ''1-27'' ''-'' ''.'' = ''1.27''" by code_simp
  have j: "Unmarshal_any targets_text = Inr (JObj [(''signed'', JObj [(''targets'', JObj ?T)])])"
    "Unmarshal_any timestamp_text = Inr (JObj [(''signed'', JObj [(''version'', JNum ''5'')])])" by code_simp+
  have "\<not> HasSuffix (updatesURL ''aws'' ''1.27'' ''timestamp.json'') ''.targets.json''"
    "\<not> HasSuffix (updatesURL ''vmware'' ''1.27'' ''timestamp.json'') ''.targets.json''"
    "\<not> HasSuffix (updatesURL ''metal'' ''1.27'' ''timestamp.json'') ''.targets.json''" by code_simp+
  then have u: "\<not> HasSuffix (updatesURL (imageVariant f) ''1.27'' ''timestamp.json'') ''.targets.json''"
    using f by (auto simp: imageVariant_def)
  have t: "HasSuffix (updatesURL v kube (n @ ''.targets.json'')) ''.targets.json''" for v kube n
    unfolding updatesURL_def HasSuffix_def by (intro suffix_appendI suffix_order.order_refl)
  have get: "httpget ova_only v x = (0, HttpReply 200 (Inr (if HasSuffix x ''.targets.json''
       then targets_text else timestamp_text)))" for v x
    by (simp add: ova_only_def)
  have "serves ova_only (imageVariant f) ''1.27'' ?T"
    unfolding serves_def get by (intro exI [of _ "''5''"]) (simp add: u t j member_of_def)
  moreover have "f = ''ova'' \<longleftrightarrow> imageTarget f ''1.27'' ''v1.15.0'' \<in> fst ` set ?T"
    using f by (auto simp: imageTarget_def imageVariant_def)
  ultimately show ?thesis unfolding publishedImage_def k by blast
qed

theorem updateBottlerocketReleasesFile_refines_witness:
  "\<exists>w'. updateBottlerocketReleasesFile ova_only (channel_settings ''v1.14.0'' ''v1.14.0'') ''/p/R''  ''v1.15.0''
      \<lparr>fs = [(''/p/R'', File ''old'' 420)], trace = [], clock = 0\<rparr> = (Ok (), w') \<and> fs_get (fs w') ''/p/R'' = Some (File ''map'' 420) \<and>
    map (newChannel (\<lambda>c f. f = ''ova'') ''v1.15.0'' BottlerocketImageFormats) (channel_settings ''v1.14.0'' ''v1.14.0'') = channel_settings ''v1.14.0'' ''v1.15.0''"
proof -
  let ?w = "\<lparr>fs = [(''/p/R'', File ''old'' 420)], trace = [], clock = 0\<rparr>"
  have m: "settingsMap (channel_settings ''v1.14.0'' ''v1.14.0'')" by (simp add: settingsMap_def channel_settings_def)
  have p: "\<forall>c \<in> set (map fst (channel_settings ''v1.14.0'' ''v1.14.0'')). \<forall>f \<in> set BottlerocketImageFormats.
      publishedImage ova_only ''v1.15.0'' (\<lambda>c f. f = ''ova'') c f"
    using ova_only_published by (simp add: channel_settings_def)
  have e: "\<forall>v ks. set (keyOrder ova_only v ks) = set ks" "\<forall>v e. ioerr ova_only v e = None" "yamlMapText ova_only r = Inr ''map''" for r
    by (simp_all add: ova_only_def vt_quiet_def)
  have f: "fs_get (fs ?w) ''/p/R'' = Some (File ''old'' 420)" by (simp add: fs_get_def)
  have n: "map (newChannel (\<lambda>c f. f = ''ova'') ''v1.15.0'' BottlerocketImageFormats) (channel_settings ''v1.14.0'' ''v1.14.0'') = channel_settings ''v1.14.0'' ''v1.15.0''"
    by (simp add: channel_settings_def newChannel_def newSetting_def BottlerocketImageFormats_def releaseKey_def)
  show ?thesis using updateBottlerocketReleasesFile_refines [OF m p e(1,2) f e(3)] n by auto
qed

end
