(* ===== verification/VT_Run.thy ===== *)
theory VT_Run
  imports VT_Upgrade VT_Bottlerocket
begin

text \<open>
  \<open>Run\<close> of \<open>pkg/commands/upgrade/upgrade.go\<close>, and the other subcommands: \<open>display\<close>, \<open>list-projects\<close>, and
  the cobra entry points in \<open>cmd\<close>.
\<close>

section \<open>One project\<close>

text \<open>What an upgrade leads to: the changed files, the branch, the texts, and the warning, if any.\<close>

record upgrade_plan =
  updatedFiles :: "string list"
  headBranchName :: string
  commitMessage :: string
  pullRequestBody :: string
  patchWarning :: "string option"

record project_paths =
  repoPath :: string
  projectPath :: string
  projectRootFilepath :: string
  trackerPath :: string

definition isEKSDistroUpgrade :: "string \<Rightarrow> bool" where
  "isEKSDistroUpgrade projectName \<longleftrightarrow> projectName = ''aws/eks-distro''"

text \<open>The minor number of a Go version.\<close>

definition goMinor :: "string \<Rightarrow> string \<Rightarrow> (world, int) prog" where
  "goMinor which v = bind (index (Split v ''.'') 1) (\<lambda>m. wrapf (''getting '' @ which @ '' Go minor version: '') (lift_sum (Atoi m)))"

definition bumpGoVersion ::
  "'z vt_env_scheme \<Rightarrow> string \<Rightarrow> string \<Rightarrow> string \<Rightarrow> string \<Rightarrow> string \<Rightarrow> string \<Rightarrow> ProjectsList \<times> (nat \<times> nat) option \<Rightarrow>
     (world, ProjectsList \<times> string list) prog" where
  "bumpGoVersion E repo projectName org name latestRevision currentGoVersion target = (case target of (ps, pos) \<Rightarrow>
     if currentGoVersion \<noteq> ''N/A'' then
       bind (wrapf (''getting latest Go version for release '' @ latestRevision @ '': '') (GetGoVersionForLatestRevision E org name latestRevision)) (\<lambda>latestGoVersion.
       bind (goMinor ''current'' currentGoVersion) (\<lambda>currentMinor.
       bind (goMinor ''latest'' latestGoVersion) (\<lambda>latestMinor.
       if currentMinor < latestMinor then
         bind (wrapf ''updating project GOLANG_VERSION file: '' (updateProjectVersionFile E repo GoVersionFile projectName latestGoVersion)) (\<lambda>f.
         ret (setVersion (\<lambda>v. v\<lparr>GoVersion := latestGoVersion\<rparr>) pos ps, [f]))
       else ret (ps, []))))
     else ret (setVersion (\<lambda>v. v\<lparr>GoVersion := ''N/A''\<rparr>) pos ps, []))"

text \<open>Patches: whether checksums can be updated, and the warning for the pull request.\<close>

definition tryPatches ::
  "'z env_scheme \<Rightarrow> project_paths \<Rightarrow> string \<Rightarrow> string \<Rightarrow> int option \<Rightarrow> (world, bool \<times> string option) prog" where
  "tryPatches E P name latestRevision patchCount = (case patchCount of
       None \<Rightarrow> ret (True, None)
     | Some count \<Rightarrow>
         bind (wrapf ''applying patches to repository: '' (applyPatchesToRepo E (projectRootFilepath P) name latestRevision count)) (\<lambda>(applied, failedPatch, files).
         if applied = count then ret (True, None)
         else ret (False, Some (PatchesCommentBody applied count failedPatch files))))"

text \<open>\<open>filepath.Rel\<close> for clean absolute paths.\<close>

fun drop_common :: "'a list \<Rightarrow> 'a list \<Rightarrow> 'a list \<times> 'a list" where
  "drop_common (x # xs) (y # ys) = (if x = y then drop_common xs ys else (x # xs, y # ys))"
| "drop_common xs ys = (xs, ys)"

definition Rel :: "string \<Rightarrow> string \<Rightarrow> string" where
  "Rel base p = (if Clean base = Clean p then ''.''
     else (case drop_common (Split (Clean base) ''/'') (Split (Clean p) ''/'') of
       (b, t) \<Rightarrow> Join (replicate (length b) ''..'' @ t) ''/''))"

definition updateChecksums :: "'z env_scheme \<Rightarrow> project_paths \<Rightarrow> (world, string list) prog" where
  "updateChecksums E P =
     bind (os_Stat E (path_Join [projectRootFilepath P, ChecksumsFile])) (\<lambda>st. case st of
         Exists _ \<Rightarrow>
           bind (wrapf ''updating project checksums and attribution files: '' (updateChecksumsAttributionFiles E (projectRootFilepath P))) (\<lambda>_.
           (\<lambda>w. (Ok (path_Join [projectPath P, ChecksumsFile] #
             map (Rel (repoPath P)) (Glob (path_Join [projectRootFilepath P, AttributionsFilePattern]) w)), w)))
       | _ \<Rightarrow> ret [])"

definition bumpProject ::
  "'z vt_env_scheme \<Rightarrow> project_paths \<Rightarrow> string \<Rightarrow> string \<Rightarrow> string \<Rightarrow> string \<Rightarrow> string \<Rightarrow> int option \<Rightarrow>
     (world, string list \<times> string option) prog" where
  "bumpProject E P projectName org name currentGoVersion latestRevision patchCount =
     bind (wrapf ''reloading upstream projects tracker file: '' (loadUpstreamProjectsTrackerFile E (trackerPath P) org name)) (\<lambda>(ps, pos).
     bind (index (targetVersions ps pos) 0) (\<lambda>_.
     let ps1 = setVersion (\<lambda>v. v\<lparr>Tag := latestRevision\<rparr>) pos ps in
     bind (wrapf ''updating project GIT_TAG file: '' (updateProjectVersionFile E (repoPath P) GitTagFile projectName latestRevision)) (\<lambda>tagFile.
     bind (bumpGoVersion E (repoPath P) projectName org name latestRevision currentGoVersion (ps1, pos)) (\<lambda>(ps2, goFiles).
     bind (wrapf ''updating upstream projects tracker file: '' (updateUpstreamProjectsTrackerFile E ps2 (repoPath P) (trackerPath P))) (\<lambda>_.
     bind (wrapf ''updating version in project README: '' (updateProjectReadmeVersion E (repoPath P) org name)) (\<lambda>_.
     bind (tryPatches E P name latestRevision patchCount) (\<lambda>(clean, warning).
     bind (if clean then updateChecksums E P else ret []) (\<lambda>checks.
     bind (if projectName = ''cilium/cilium'' then
             wrapf ''updating Cilium image digest files: '' (updateCiliumImageDigestFiles E (projectRootFilepath P) (projectPath P))
           else ret []) (\<lambda>digests.
     ret ([tagFile] @ goFiles @ [UpstreamProjectsTrackerFile, path_Join [projectPath P, ReadmeFile]] @ checks @ digests, warning))))))))))"

text \<open>After the project itself, image-builder also tracks Bottlerocket, on a branch of its own name.\<close>

definition bumpBottlerocket ::
  "'z vt_env_scheme \<Rightarrow> project_paths \<Rightarrow> string \<Rightarrow> string \<Rightarrow> string \<Rightarrow> string \<Rightarrow> string \<Rightarrow> upgrade_plan \<Rightarrow> (world, upgrade_plan) prog" where
  "bumpBottlerocket E P projectName org name currentRevision latestRevision plan =
     bind (wrapf ''updating Bottlerocket version and metadata files: ''
       (updateBottlerocketVersionFiles E (projectRootFilepath P) (projectPath P))) (\<lambda>(currentBR, latestBR, files).
     if files = [] then ret plan
     else
       (let plan' = (if updatedFiles plan = [] then
            plan\<lparr>updatedFiles := files, headBranchName := ''update-bottlerocket-releases'',
              commitMessage := ''Bump Bottlerocket versions to latest release'',
              pullRequestBody := BottlerocketUpgradePullRequestBody currentBR latestBR\<rparr>
          else
            plan\<lparr>updatedFiles := updatedFiles plan @ files, headBranchName := ''update-'' @ org @ ''-'' @ name @ ''-and-bottlerocket'',
              commitMessage := ''Bump '' @ projectName @ '' and Bottlerocket versions to latest release'',
              pullRequestBody := CombinedImageBuilderBottlerocketUpgradePullRequestBody currentRevision latestRevision currentBR latestBR\<rparr>)
        in bind (wrapf (''checking out worktree at branch '' @ headBranchName plan' @ '': '') (Checkout E (headBranchName plan'))) (\<lambda>_.
           ret plan')))"

definition branchFromMain :: "'z vt_env_scheme \<Rightarrow> string \<Rightarrow> string \<Rightarrow> (world, unit) prog" where
  "branchFromMain E branch headCommit =
     bind (wrapf (''checking out worktree at branch '' @ branch @ '': '') (Checkout E branch)) (\<lambda>_.
     wrapf ''resetting new branch to [origin/main] HEAD: '' (ResetToMain E headCommit))"

definition latestProjectRevision :: "'z vt_env_scheme \<Rightarrow> string \<Rightarrow> string \<Rightarrow> string \<Rightarrow> string \<Rightarrow> (world, string \<times> bool) prog" where
  "latestProjectRevision E projectName org name currentRevision =
     (if projectName = ''cilium/cilium''
      then wrapf ''getting latest revision from ECR Public: '' (ecr_GetLatestRevision E CiliumImageRepository currentRevision)
      else wrapf ''getting latest revision from GitHub: '' (GetLatestRevision E org name currentRevision))"

text \<open>The number of patches, if the project has a directory of them.\<close>

definition countPatches :: "'z env_scheme \<Rightarrow> project_paths \<Rightarrow> (world, int option) prog" where
  "countPatches E P =
     bind (os_Stat E (path_Join [projectRootFilepath P, PatchesDirectory])) (\<lambda>st. case st of
         Exists _ \<Rightarrow>
           bind (map_err (\<lambda>e. ''reading patch directory%!(EXTRA *fs.PathError='' @ e @ '')'')
             (os_ReadDir E (path_Join [projectRootFilepath P, PatchesDirectory]))) (\<lambda>files. ret (Some (int (length files))))
       | _ \<Rightarrow> ret None)"

definition upgradeProject ::
  "'z vt_env_scheme \<Rightarrow> project_paths \<Rightarrow> string \<Rightarrow> string \<Rightarrow> string \<Rightarrow> string \<Rightarrow> (world, upgrade_plan) prog" where
  "upgradeProject E P projectName org name headCommit =
     bind (os_Stat E (projectRootFilepath P)) (\<lambda>st.
     bind (case st of NotExist _ \<Rightarrow> fail (''invalid project name '' @ projectName) | _ \<Rightarrow> ret ()) (\<lambda>_.
     bind (countPatches E P) (\<lambda>patchCount.
     bind (wrapf ''loading upstream projects tracker file: '' (loadUpstreamProjectsTrackerFile E (trackerPath P) org name)) (\<lambda>(ps, pos).
     bind (guard (length (targetVersions ps pos) \<le> 1) ''release-branched projects not supported at this time'') (\<lambda>_.
     bind (index (targetVersions ps pos) 0) (\<lambda>currentVersion.
     bind (guard (Tag currentVersion \<noteq> []) ''projects tracked with commit hashes not supported at this time'') (\<lambda>_.
     let currentRevision = Tag currentVersion in
     bind (latestProjectRevision E projectName org name currentRevision) (\<lambda>(latestRevision, needsUpgrade).
     let plan = \<lparr>updatedFiles = [], headBranchName = ''update-'' @ org @ ''-'' @ name,
                 commitMessage = ''Bump '' @ projectName @ '' to latest release'',
                 pullRequestBody = DefaultUpgradePullRequestBody org name currentRevision latestRevision, patchWarning = None\<rparr> in
     if needsUpgrade \<or> slices_Contains ProjectsWithUnconventionalUpgradeFlows projectName then
       bind (branchFromMain E (headBranchName plan) headCommit) (\<lambda>_.
       bind (if needsUpgrade then
               bind (bumpProject E P projectName org name (GoVersion currentVersion) latestRevision patchCount) (\<lambda>(files, warning).
               ret (plan\<lparr>updatedFiles := files, patchWarning := warning\<rparr>))
             else ret plan) (\<lambda>plan'.
       if projectName = ''kubernetes-sigs/image-builder''
       then bumpBottlerocket E P projectName org name currentRevision latestRevision plan'
       else ret plan'))
     else ret plan))))))))"

definition upgradeEKSDistro :: "'z vt_env_scheme \<Rightarrow> string \<Rightarrow> string \<Rightarrow> (world, upgrade_plan) prog" where
  "upgradeEKSDistro E buildToolingRepoPath headCommit =
     (let branch = ''update-eks-d-latest-releases'' in
     bind (branchFromMain E branch headCommit) (\<lambda>_.
     bind (wrapf ''updating EKS Distro releases file  : '' (updateEKSDistroReleasesFile E buildToolingRepoPath)) (\<lambda>isUpdated.
     ret \<lparr>updatedFiles = (if isUpdated then [EKSDistroLatestReleasesFile] else []), headBranchName = branch,
          commitMessage = ''Bump EKS-D releases to latest'', pullRequestBody = EKSDistroUpgradePullRequestBody, patchWarning = None\<rparr>)))"

section \<open>Run\<close>

definition publish :: "'z vt_env_scheme \<Rightarrow> bool \<Rightarrow> string \<Rightarrow> string \<Rightarrow> string \<Rightarrow> string \<Rightarrow> upgrade_plan \<Rightarrow> (world, unit) prog" where
  "publish E dryRun projectName baseRepoOwner headRepoOwner githubToken plan =
     do_if (updatedFiles plan \<noteq> [])
       (bind (wrapf ''adding updated files to index: '' (Add E (updatedFiles plan))) (\<lambda>_.
        bind (wrapf (''committing updated project version files for ['' @ projectName @ ''] project: '') (git_Commit E (commitMessage plan))) (\<lambda>_.
        do_if (\<not> dryRun)
          (bind (wrapf (''pushing updated project version files for ['' @ projectName @ ''] project: '')
             (Push E headRepoOwner (headBranchName plan) githubToken)) (\<lambda>_.
           wrapf (''creating pull request to '' @ BuildToolingRepoName @ '' repository: '')
             (CreatePullRequest E (commitMessage plan) (pullRequestBody plan) baseRepoOwner MainBranchName headRepoOwner (headBranchName plan)
               (patchWarning plan \<noteq> None) (case patchWarning plan of None \<Rightarrow> [] | Some c \<Rightarrow> c)))))))"

definition LookupEnv :: "'z env_scheme \<Rightarrow> string \<Rightarrow> (world, string) prog" where
  "LookupEnv E k = (case getenv E k of None \<Rightarrow> fail (k @ '' environment variable is not set'') | Some v \<Rightarrow> ret v)"

definition upgrade_Run :: "'z vt_env_scheme \<Rightarrow> UpgradeOptions \<Rightarrow> (world, unit) prog" where
  "upgrade_Run E upgradeOptions =
     (let projectName = uo_ProjectName upgradeOptions in
     bind (index (Split projectName ''/'') 0) (\<lambda>projectOrg.
     bind (index (Split projectName ''/'') 1) (\<lambda>projectRepo.
     bind (LookupEnv E BaseRepoOwnerEnvvar) (\<lambda>baseRepoOwner.
     bind (LookupEnv E HeadRepoOwnerEnvvar) (\<lambda>headRepoOwner.
     bind (LookupEnv E GitHubTokenEnvvar) (\<lambda>githubToken.
     bind (wrapf ''retrieving current working directory: '' (lift_sum (getwd E))) (\<lambda>cwd.
     bind (wrapf ''reading skipped projects file: '' (os_ReadFile E (path_Join [cwd, SkippedProjectsFile]))) (\<lambda>contents.
     if slices_Contains (Split contents [CHR 0x0A]) projectName then ret ()
     else
       (let buildToolingRepoPath = path_Join [cwd, BuildToolingRepoName] in
       bind (wrapf ''cloning build-tooling repo: '' (CloneRepo E (BuildToolingRepoURL baseRepoOwner) buildToolingRepoPath headRepoOwner)) (\<lambda>headCommit.
       bind (bind (git_call E ''Worktree'' []) (git_check (''getting repo'' @ [CHR 0x27] @ ''s current worktree: ''))) (\<lambda>_.
       bind (if isEKSDistroUpgrade projectName then upgradeEKSDistro E buildToolingRepoPath headCommit
             else (let projectPath = path_Join [''projects'', projectName] in
               upgradeProject E \<lparr>repoPath = buildToolingRepoPath, projectPath = projectPath,
                   projectRootFilepath = path_Join [buildToolingRepoPath, projectPath],
                   trackerPath = path_Join [buildToolingRepoPath, UpstreamProjectsTrackerFile]\<rparr>
                 projectName projectOrg projectRepo headCommit)) (\<lambda>plan.
       publish E (DryRun upgradeOptions) projectName baseRepoOwner headRepoOwner githubToken plan)))))))))))) "

section \<open>The other subcommands\<close>

definition baseOwner :: "'z env_scheme \<Rightarrow> string" where
  "baseOwner E = (if os_Getenv E BaseRepoOwnerEnvvar = [] then DefaultBaseRepoOwner else os_Getenv E BaseRepoOwnerEnvvar)"

definition currentRevisionOf :: "Version \<Rightarrow> string" where
  "currentRevisionOf v = (if Tag v \<noteq> [] then Tag v else Commit v)"

text \<open>The loop over the tracked repositories; \<open>Inl\<close> when only a version is to be printed, and was.\<close>

fun displayRepos ::
  "'z vt_env_scheme \<Rightarrow> DisplayOptions \<Rightarrow> ProjectVersionInfo list \<Rightarrow> (string \<times> Repo) list \<Rightarrow> (world, unit + ProjectVersionInfo list) prog" where
  "displayRepos E opts acc [] = ret (Inr acc)"
| "displayRepos E opts acc ((org, repo) # rs) =
     (if Versions repo = [] then panic ''index out of range''
      else
        (let current = currentRevisionOf (last (Versions repo)); full = org @ ''/'' @ RepoName repo in
        if do_ProjectName opts \<noteq> [] \<and> do_ProjectName opts \<noteq> full then displayRepos E opts acc rs
        else
          bind (wrapf ''getting latest revision from GitHub: '' (GetLatestRevision E org (RepoName repo) current)) (\<lambda>(latest, _).
          if PrintLatestVersion opts then bind (print (latest @ [CHR 0x0A])) (\<lambda>_. ret (Inl ()))
          else displayRepos E opts (acc @ [\<lparr>vi_Org = org, vi_Repo = RepoName repo, CurrentVersion = current, vi_LatestVersion = latest\<rparr>]) rs)))"

definition tracked :: "ProjectsList \<Rightarrow> (string \<times> Repo) list" where
  "tracked ps = concat (map (\<lambda>p. map (Pair (Org p)) (Repos p)) ps)"

definition loadTracker :: "'z vt_env_scheme \<Rightarrow> string \<Rightarrow> (world, ProjectsList) prog" where
  "loadTracker E buildToolingRepoPath =
     bind (wrapf ''reading upstream projects tracker file: '' (os_ReadFile E (path_Join [buildToolingRepoPath, UpstreamProjectsTrackerFile]))) (\<lambda>contents.
     wrapf ''unmarshalling upstream projects tracker file: '' (lift_sum (yamlProjects E contents)))"

definition display_Run :: "'z vt_env_scheme \<Rightarrow> DisplayOptions \<Rightarrow> (world, unit) prog" where
  "display_Run E opts =
     bind (LookupEnv E GitHubTokenEnvvar) (\<lambda>_.
     bind (wrapf ''retrieving current working directory: '' (lift_sum (getwd E))) (\<lambda>cwd.
     let buildToolingRepoPath = path_Join [cwd, BuildToolingRepoName] in
     bind (wrapf ''cloning build-tooling repo: '' (CloneRepo E (BuildToolingRepoURL (baseOwner E)) buildToolingRepoPath [])) (\<lambda>_.
     bind (do_if (do_ProjectName opts \<noteq> [])
       (bind (os_Stat E (path_Join [buildToolingRepoPath, ''projects'', do_ProjectName opts])) (\<lambda>st.
        case st of NotExist _ \<Rightarrow> fail (''invalid project name '' @ do_ProjectName opts) | _ \<Rightarrow> ret ()))) (\<lambda>_.
     bind (loadTracker E buildToolingRepoPath) (\<lambda>ps.
     bind (displayRepos E opts [] (tracked ps)) (\<lambda>r. case r of
         Inl _ \<Rightarrow> ret ()
       | Inr infos \<Rightarrow> print (tableText E (map ToUpper [''Organization'', ''Repository'', ''Current Version'', ''Latest Version''])
           (map (\<lambda>i. [vi_Org i, vi_Repo i, CurrentVersion i, vi_LatestVersion i]) infos))))))))"

definition listRow :: "Project \<Rightarrow> string list" where
  "listRow p =
     (let names = map RepoName (Repos p); padding = Repeat [CHR 0x0A] (length names div 2)
      in [if length names > 2 then padding @ Org p @ padding else Org p, Join names [CHR 0x0A]])"

definition longest :: "string list \<Rightarrow> nat" where
  "longest ss = foldl (\<lambda>m s. if m < length s then length s else m) 0 ss"

definition listprojects_Run :: "'z vt_env_scheme \<Rightarrow> (world, unit) prog" where
  "listprojects_Run E =
     bind (wrapf ''retrieving current working directory: '' (lift_sum (getwd E))) (\<lambda>cwd.
     let buildToolingRepoPath = path_Join [cwd, BuildToolingRepoName] in
     bind (wrapf ''cloning build-tooling repo: '' (CloneRepo E (BuildToolingRepoURL (baseOwner E)) buildToolingRepoPath [])) (\<lambda>_.
     bind (loadTracker E buildToolingRepoPath) (\<lambda>ps.
     let rule = [Repeat ''-'' (longest (map Org ps)), Repeat ''-'' (longest (map (RepoName \<circ> snd) (tracked ps)))] in
     print (tableText E (map ToUpper [''Organization'', ''Repository'']) (rule # concat (map (\<lambda>p. [listRow p, rule]) ps))))))"

definition upgradeCmd :: "'z vt_env_scheme \<Rightarrow> UpgradeOptions \<Rightarrow> (world, unit) prog" where
  "upgradeCmd E opts = or_fatal (upgrade_Run E opts)"

definition displayCmd :: "'z vt_env_scheme \<Rightarrow> DisplayOptions \<Rightarrow> (world, unit) prog" where
  "displayCmd E opts = or_fatal (display_Run E opts)"

definition listProjectsCmd :: "'z vt_env_scheme \<Rightarrow> (world, unit) prog" where
  "listProjectsCmd E = or_fatal (listprojects_Run E)"

section \<open>Projects whose Go version is in neither table\<close>

lemma updateProjectVersionFile_run:
  assumes "\<forall>v e. ioerr E v e = None" "file = path_Join [d, path_Join [''projects'', n, name]]" "fs_get (fs w) file = Some (File old m)"
  shows "\<exists>w'. updateProjectVersionFile E d name n val w = (Ok (path_Join [''projects'', n, name]), w') \<and>
    fs w' = fs_put file (File (val @ [CHR 0x0A]) m) (fs w)"
  using assms(1,3) unfolding updateProjectVersionFile_def Let_def assms(2) [symmetric]
  by (simp add: bind_def os_Stat_def os_WriteFile_def with_io_def wrapf_run fs_write_def)

lemma unknown_Go_version_panics:
  assumes "getwd E = Inr cwd" "map_of ProjectReleaseAssets (org @ ''/'' @ name) = None" "map_of ProjectGoVersionSourceOfTruth (org @ ''/'' @ name) = None"
    and "go \<noteq> ''N/A''" "Split go ''.'' = maj # mnr # parts" "Atoi mnr = Inr k"
  shows "bumpGoVersion E d n org name rv go t w = (Panic ''index out of range'', w)"
proof -
  have "Split [] ''.'' = [[]]" by code_simp
  then have "goMinor ''latest'' [] v = (Panic ''index out of range'', v)" for v by (simp add: goMinor_def)
  moreover have "GetGoVersionForLatestRevision E org name rv w = (Ok [], w)"
    using assms(1-3) by (simp add: GetGoVersionForLatestRevision_def Let_def)
  moreover have "goMinor ''current'' go w = (Ok k, w)" using assms(5,6) by (simp add: goMinor_def)
  ultimately show ?thesis using assms(4) by (cases t) (simp add: bumpGoVersion_def bind_def wrapf_run)
qed

text \<open>
  C34.  An upgrade of a project that is built with Go but is in neither table of Go versions crashes: the run panics
  on the missing minor version, after the project's \<open>GIT_TAG\<close> file was rewritten and before anything else was.
\<close>

theorem bumpProject_unknown_Go_version:
  assumes "\<forall>v e. ioerr E v e = None" "getwd E = Inr cwd"
    and "map_of ProjectReleaseAssets (org @ ''/'' @ name) = None" "map_of ProjectGoVersionSourceOfTruth (org @ ''/'' @ name) = None"
    and "go \<noteq> ''N/A''" "Split go ''.'' = maj # mnr # parts" "Atoi mnr = Inr k"
    and "fs_get (fs w) (trackerPath P) = Some (File text tm)" "yamlProjects E text = Inr ps"
    and "targetVersions ps (targetPosition ps org name) = v # vs"
    and "tagFile = path_Join [repoPath P, path_Join [''projects'', n, GitTagFile]]" "fs_get (fs w) tagFile = Some (File old m)"
  shows "\<exists>w'. bumpProject E P n org name go rv patches w = (Panic ''index out of range'', w') \<and>
    fs w' = fs_put tagFile (File (rv @ [CHR 0x0A]) m) (fs w)"
proof -
  obtain w1 where u: "updateProjectVersionFile E (repoPath P) GitTagFile n rv w = (Ok (path_Join [''projects'', n, GitTagFile]), w1)"
    "fs w1 = fs_put tagFile (File (rv @ [CHR 0x0A]) m) (fs w)"
    using updateProjectVersionFile_run [OF assms(1,11,12)] by blast
  have l: "loadUpstreamProjectsTrackerFile E (trackerPath P) org name w = (Ok (ps, targetPosition ps org name), w)"
    using assms(1,8,9) by (simp add: loadUpstreamProjectsTrackerFile_def bind_def wrapf_run os_ReadFile_def)
  show ?thesis using l u assms(10) unknown_Go_version_panics [OF assms(2-7)]
    by (simp add: bumpProject_def bind_def wrapf_run Let_def)
qed

theorem bumpProject_unknown_Go_version_witness:
  "\<exists>w'. bumpProject (vt_quiet\<lparr>yamlProjects := (\<lambda>t. Inr [\<lparr>Org = ''nutanix-cloud-native'', Repos = [\<lparr>RepoName = ''cloud-provider-nutanix'', Versions = [\<lparr>Tag = ''v0.3.2'', Commit = [], GoVersion = ''1.21''\<rparr>]\<rparr>]\<rparr>])\<rparr>)
       \<lparr>repoPath = ''/w'', projectPath = ''projects/nutanix-cloud-native/cloud-provider-nutanix'', projectRootFilepath = ''/w/projects/nutanix-cloud-native/cloud-provider-nutanix'', trackerPath = ''/w/T''\<rparr>
       ''nutanix-cloud-native/cloud-provider-nutanix'' ''nutanix-cloud-native'' ''cloud-provider-nutanix'' ''1.21'' ''v0.4.0'' None
       \<lparr>fs = [(''/w/T'', File ''y'' 420), (''/w/projects/nutanix-cloud-native/cloud-provider-nutanix/GIT_TAG'', File ''v0.3.2\<newline>'' 420)], trace = [], clock = 0\<rparr> =
     (Panic ''index out of range'', w') \<and> fs_get (fs w') ''/w/projects/nutanix-cloud-native/cloud-provider-nutanix/GIT_TAG'' = Some (File ''v0.4.0\<newline>'' 420)"
proof -
  let ?E = "vt_quiet\<lparr>yamlProjects := (\<lambda>t. Inr [\<lparr>Org = ''nutanix-cloud-native'', Repos = [\<lparr>RepoName = ''cloud-provider-nutanix'', Versions = [\<lparr>Tag = ''v0.3.2'', Commit = [], GoVersion = ''1.21''\<rparr>]\<rparr>]\<rparr>])\<rparr>"
  let ?P = "\<lparr>repoPath = ''/w'', projectPath = ''projects/nutanix-cloud-native/cloud-provider-nutanix'', projectRootFilepath = ''/w/projects/nutanix-cloud-native/cloud-provider-nutanix'', trackerPath = ''/w/T''\<rparr>"
  let ?w = "\<lparr>fs = [(''/w/T'', File ''y'' 420), (''/w/projects/nutanix-cloud-native/cloud-provider-nutanix/GIT_TAG'', File ''v0.3.2\<newline>'' 420)], trace = [], clock = 0\<rparr>"
  have m: "map_of ProjectReleaseAssets (''nutanix-cloud-native'' @ ''/'' @ ''cloud-provider-nutanix'') = None" "map_of ProjectGoVersionSourceOfTruth (''nutanix-cloud-native'' @ ''/'' @ ''cloud-provider-nutanix'') = None"
    by code_simp+
  have g: "''1.21'' \<noteq> ''N/A''" "Split ''1.21'' ''.'' = ''1'' # ''21'' # []" "Atoi ''21'' = Inr 21"
    "targetVersions [\<lparr>Org = ''nutanix-cloud-native'', Repos = [\<lparr>RepoName = ''cloud-provider-nutanix'', Versions = [\<lparr>Tag = ''v0.3.2'', Commit = [], GoVersion = ''1.21''\<rparr>]\<rparr>]\<rparr>] (targetPosition [\<lparr>Org = ''nutanix-cloud-native'', Repos = [\<lparr>RepoName = ''cloud-provider-nutanix'', Versions = [\<lparr>Tag = ''v0.3.2'', Commit = [], GoVersion = ''1.21''\<rparr>]\<rparr>]\<rparr>] ''nutanix-cloud-native'' ''cloud-provider-nutanix'') =
      \<lparr>Tag = ''v0.3.2'', Commit = [], GoVersion = ''1.21''\<rparr> # []"
    "''/w/projects/nutanix-cloud-native/cloud-provider-nutanix/GIT_TAG'' = path_Join [''/w'', path_Join [''projects'', ''nutanix-cloud-native/cloud-provider-nutanix'', GitTagFile]]"
    by code_simp+
  have e: "\<forall>v e. ioerr ?E v e = None" "getwd ?E = Inr ''/work''" "yamlProjects ?E ''y'' = Inr [\<lparr>Org = ''nutanix-cloud-native'', Repos = [\<lparr>RepoName = ''cloud-provider-nutanix'', Versions = [\<lparr>Tag = ''v0.3.2'', Commit = [], GoVersion = ''1.21''\<rparr>]\<rparr>]\<rparr>]"
    "fs_get (fs ?w) (trackerPath ?P) = Some (File ''y'' 420)" "fs_get (fs ?w) ''/w/projects/nutanix-cloud-native/cloud-provider-nutanix/GIT_TAG'' = Some (File ''v0.3.2\<newline>'' 420)"
    by (simp_all add: vt_quiet_def fs_get_def)
  have "''/w/projects/nutanix-cloud-native/cloud-provider-nutanix/GIT_TAG'' = path_Join [repoPath ?P, path_Join [''projects'', ''nutanix-cloud-native/cloud-provider-nutanix'', GitTagFile]]"
    using g(5) by simp
  from bumpProject_unknown_Go_version [OF e(1,2) m g(1-3) e(4,3) g(4) this e(5), of "''v0.4.0''" None]
  show ?thesis by auto
qed

end
