(* ===== verification/VT_Publish.thy ===== *)
theory VT_Publish
  imports VT_Run
begin

text \<open>
  What a run of \<open>upgrade\<close> does outside the machine, and in which order.  Each call of \<open>go-git\<close> or GitHub
  that publishes something is a step; everything before \<open>publish\<close> is shown to add no step at all, so the
  steps of a whole run are those of its plan.
\<close>

section \<open>Steps\<close>

datatype step = Stage string | CommitStep string | PushStep | ListPulls | WritePull | CommentStep string

definition step :: "event \<Rightarrow> step list" where
  "step e = (case e of
     Call n args \<Rightarrow>
       (if n = ''Add'' then [Stage (hd args)]
        else if n = ''Commit'' then [CommitStep (hd args)]
        else if n = ''Push'' then [PushStep]
        else if n = ''PullRequests.List'' then [ListPulls]
        else if n = ''PullRequests.Create'' \<or> n = ''PullRequests.Edit'' then [WritePull]
        else if n = ''Issues.CreateComment'' then [CommentStep (last args)]
        else [])
   | _ \<Rightarrow> [])"

abbreviation silent :: "event \<Rightarrow> bool" where
  "silent e \<equiv> step e = []"

text \<open>The steps that publish a plan.\<close>

definition publish_steps :: "bool \<Rightarrow> upgrade_plan \<Rightarrow> step list" where
  "publish_steps dryRun plan =
     (if updatedFiles plan = [] then []
      else map Stage (updatedFiles plan) @ [CommitStep (commitMessage plan)] @
        (if dryRun then [] else [PushStep, ListPulls, WritePull] @ (case patchWarning plan of None \<Rightarrow> [] | Some c \<Rightarrow> [CommentStep c])))"

text \<open>The calls that change something on GitHub.\<close>

definition remote_write :: "event \<Rightarrow> bool" where
  "remote_write e = (case e of
     Call n args \<Rightarrow> n \<in> {''Push'', ''PullRequests.Create'', ''PullRequests.Edit'', ''Issues.CreateComment''} | _ \<Rightarrow> False)"

section \<open>Everything before publishing is silent\<close>

lemma step_events [simp]:
  "step (Exec cap argv) = []" "step (WriteFile p c m) = []" "step (Create p) = []" "step (MkdirAll p m) = []"
  "step (RemoveAll p) = []" "step (HttpGet u) = []" "step (Print s) = []"
  by (simp_all add: step_def)

lemma step_calls [simp]:
  "step (Call ''Add'' args) = [Stage (hd args)]" "step (Call ''Commit'' args) = [CommitStep (hd args)]"
  "step (Call ''Push'' args) = [PushStep]" "step (Call ''PullRequests.List'' args) = [ListPulls]"
  "step (Call ''PullRequests.Create'' args) = [WritePull]" "step (Call ''PullRequests.Edit'' args) = [WritePull]"
  "step (Call ''Issues.CreateComment'' args) = [CommentStep (last args)]" "step (Call ''Issues.ListComments'' args) = []"
  "step (Call ''ListReleases'' args) = []" "step (Call ''ListTags'' args) = []" "step (Call ''ListCommits'' args) = []"
  "step (Call ''GetCommit'' args) = []" "step (Call ''GetContents'' args) = []" "step (Call ''GetReleaseByTag'' args) = []"
  "step (Call ''PlainClone'' args) = []" "step (Call ''PlainOpen'' args) = []" "step (Call ''ResolveRevision'' args) = []"
  "step (Call ''CreateRemote'' args) = []" "step (Call ''HardReset'' args) = []" "step (Call ''Checkout'' args) = []"
  "step (Call ''Worktree'' args) = []"
  by (simp_all add: step_def)

declare emits_case [emits_intro] emits_Pair [emits_intro] emits_stat_case [emits_intro]

lemma emits_git_call [emits_intro]: "A (Call n args) \<Longrightarrow> emits A (git_call E n args)"
  by (auto simp: emits_def git_call_def split: prod.splits)

lemma emits_git_check [emits_intro]: "emits A (git_check msg err)"
  by (auto simp: git_check_def intro!: emits_intro)

lemma emits_assertions [emits_intro]:
  "emits A (any_map v)" "emits A (any_list v)" "emits A (any_string v)" "emits A (any_number v)"
  by (auto simp: any_map_def any_list_def any_string_def any_number_def intro!: emits_pure split: option.splits json.splits)

lemma emits_util [emits_intro]:
  "(\<And>c. A (Exec c argv)) \<Longrightarrow> emits A (ExecCommand E argv)" "(\<And>c. A (Exec c argv)) \<Longrightarrow> emits A (ExecCommand_or_fail E argv)"
  "A (HttpGet u) \<Longrightarrow> emits A (ReadURL E u)" "emits A (MustCompile p)" "emits A (LookupEnv E k)" "emits A (semver_New F s)"
  "A (HttpGet u) \<Longrightarrow> A (Create p) \<Longrightarrow> (\<And>c. A (WriteFile p c 438)) \<Longrightarrow> emits A (Download E u p)"
  by (auto simp: ExecCommand_def ExecCommand_or_fail_def ReadURL_def Download_def MustCompile_def LookupEnv_def semver_New_def intro!: emits_intro)

lemma emits_listPages [emits_intro]: "(\<And>a. A (Call n a)) \<Longrightarrow> emits A (listPages k n args ask keep acc page)"
  by (induction k arbitrary: acc page) (auto simp: Let_def intro!: emits_intro)

lemma silent_GitHub [emits_intro]:
  "emits silent (getReleasesForRepo E org repo)" "emits silent (getTagsForRepo E org repo)"
  "emits silent (getCommitsForRepo E org repo)" "emits silent (getCommitDateEpoch E org repo sha)"
  "emits silent (GetFileContents E org repo p r)" "emits silent (isUpgradeRequired E org repo l ep cur tags)"
  unfolding getReleasesForRepo_def getTagsForRepo_def getCommitsForRepo_def isUpgradeRequired_def GetFileContents_def getCommitDateEpoch_def Let_def
  by (auto intro!: emits_intro)

lemma silent_scanRevisions [emits_intro]: "emits silent (scanRevisions E org repo ep cur tags latest rs)"
  by (induction rs arbitrary: latest) (auto intro!: emits_intro)

lemma silent_GetLatestRevision [emits_intro]: "emits silent (GetLatestRevision E org repo cur)"
  unfolding GetLatestRevision_def Let_def by (auto intro!: emits_intro)

lemma silent_GoVersion [emits_intro]:
  "emits silent (GetGoVersion E p)" "emits silent (ExtractFileFromTarball F d gz t)" "emits silent (assetVersion tb v)"
  unfolding GetGoVersion_def ExtractFileFromTarball_def extractFile_def assetVersion_def
  by (auto intro!: emits_intro)

lemma silent_GetGoVersionForLatestRevision [emits_intro]: "emits silent (GetGoVersionForLatestRevision E org repo rv)"
  unfolding GetGoVersionForLatestRevision_def goVersionFromRelease_def goVersionFromSource_def Let_def
  by (auto intro!: emits_intro)

lemma silent_scanTags [emits_intro]: "emits silent (scanTags E st vs)"
  by (induction E st vs rule: scanTags.induct) (auto intro!: emits_intro)

lemma silent_Git [emits_intro]:
  "emits silent (ecr_GetLatestRevision E img cur)" "emits silent (CloneRepo E url d h)" "emits silent (ResetToMain E c)"
  "emits silent (Checkout E b)"
  unfolding ecr_GetLatestRevision_def CloneRepo_def openOrClone_def ResetToMain_def Checkout_def Let_def
  by (auto intro!: emits_intro)

lemma silent_updateReleases [emits_intro]: "emits silent (updateReleases E sb rs)"
  by (induction rs) (auto simp: getLatestEKSDistroRelease_def Let_def intro!: emits_intro)

lemma silent_Upgrade [emits_intro]:
  "emits silent (updateEKSDistroReleasesFile E p)" "emits silent (updateProjectVersionFile F p f n v)"
  "emits silent (loadUpstreamProjectsTrackerFile E p org n)" "emits silent (updateUpstreamProjectsTrackerFile E ps d p)"
  "emits silent (applyPatchesToRepo F p n v k)" "emits silent (updateChecksumsAttributionFiles F p)"
  "emits silent (updateProjectReadmeVersion F p org n)" "emits silent (updateCiliumImageDigestFiles F p q)"
  unfolding updateEKSDistroReleasesFile_def getSupportedReleaseBranches_def updateProjectVersionFile_def loadUpstreamProjectsTrackerFile_def
    updateUpstreamProjectsTrackerFile_def applyPatchesToRepo_def appliedPatches_def failedFiles_def updateChecksumsAttributionFiles_def
    updateProjectReadmeVersion_def updateCiliumImageDigestFiles_def Let_def
  by (auto intro!: emits_intro split: node.splits)

lemma silent_firstVersion [emits_intro]: "emits silent (firstVersion m cs)"
proof (induction cs)
  case (Cons c cs)
  have "emits silent (firstFormat s formats)" for s formats
    by (induction formats) (auto intro!: emits_intro)
  then show ?case using Cons by (auto intro!: emits_intro)
qed (auto intro!: emits_intro)

lemma silent_Bottlerocket [emits_intro]:
  "emits silent (updateBottlerocketVersionFiles E p q)"
proof -
  have v: "emits silent (verifyBRImageExists E c f v)" for c f v
    unfolding verifyBRImageExists_def Let_def by (auto intro!: emits_intro)
  have u: "emits silent (\<lambda>w. fold_prog (updateChannel E l) m (keyOrder E w ks) w)" for l m ks
    unfolding updateChannel_def updateFormat_def by (rule emits_reader) (auto intro!: emits_intro v)
  have f: "emits silent (\<lambda>w. firstVersion m (keyOrder E w ks) w)" for m ks
    by (rule emits_reader) (rule silent_firstVersion)
  have "emits silent (updateBottlerocketReleasesFile E m path l)" for m path l
    unfolding updateBottlerocketReleasesFile_def by (auto intro!: emits_intro u)
  moreover have "emits silent (updateBottlerocketHostContainerMetadata E p q l)" for l
    unfolding updateBottlerocketHostContainerMetadata_def updateHostContainer_def sourceImage_def Let_def by (auto intro!: emits_intro)
  ultimately show ?thesis unfolding updateBottlerocketVersionFiles_def Let_def by (auto intro!: emits_intro f)
qed

lemma silent_updateChecksums [emits_intro]: "emits silent (updateChecksums E P)"
proof -
  have "emits silent (\<lambda>w. (Ok (f w), w))" for f :: "world \<Rightarrow> string list"
    by (simp add: emits_def)
  then show ?thesis unfolding updateChecksums_def by (auto intro!: emits_intro)
qed

lemma silent_Project [emits_intro]:
  "emits silent (bumpGoVersion F d n org name rv v t)" "emits silent (tryPatches E P name rv k)"
  "emits silent (countPatches E P)" "emits silent (branchFromMain F b c)"
  "emits silent (latestProjectRevision F n org name rv)"
  unfolding bumpGoVersion_def goMinor_def tryPatches_def countPatches_def branchFromMain_def latestProjectRevision_def
  by (auto intro!: emits_intro)

lemma silent_bump [emits_intro]:
  "emits silent (bumpProject E P n org name v rv k)" "emits silent (bumpBottlerocket E P n org name c rv plan)"
  unfolding bumpProject_def bumpBottlerocket_def Let_def by (auto intro!: emits_intro)

lemma silent_upgrade [emits_intro]:
  "emits silent (upgradeProject E P n org name c)" "emits silent (upgradeEKSDistro E d c)"
  unfolding upgradeProject_def upgradeEKSDistro_def Let_def by (auto intro!: emits_intro)

section \<open>Publishing\<close>

lemma follows_ret: "follows L (ret a) []"
  by (simp add: follows_def)

lemma follows_git_call: "follows L (git_call E n args) (L (Call n args))"
  by (auto simp: follows_def git_call_def split: prod.splits)

lemma follows_api_call: "follows L (api_call n args f) (L (Call n args))"
  by (simp add: follows_def api_call_def)

lemma follows_after:
  "follows L m p \<Longrightarrow> (\<And>a. emits (\<lambda>e. L e = []) (k a)) \<Longrightarrow> follows L (bind m k) p"
  using follows_bind [of L m p k "[]"] follows_silent by fastforce

lemma follows_call:
  "(\<And>a. emits (\<lambda>e. L e = []) (k a)) \<Longrightarrow> p = L (Call n args) \<Longrightarrow> follows L (bind (git_call E n args) k) p"
  "(\<And>a. emits (\<lambda>e. L e = []) (j a)) \<Longrightarrow> p = L (Call n args) \<Longrightarrow> follows L (bind (api_call n args f) j) p"
  by (simp_all add: follows_after follows_git_call follows_api_call)

lemma follows_Git:
  "follows step (Add E paths) (map Stage paths)" "follows step (git_Commit E msg) [CommitStep msg]" "follows step (Push E h b tok) [PushStep]"
proof -
  have "follows step (for_each paths (\<lambda>path. bind (git_call E ''Add'' [path]) (git_check (m path)))) (concat (map (\<lambda>p. [Stage p]) paths))" for m
    by (intro follows_for_each follows_call emits_intro) simp
  then show "follows step (Add E paths) (map Stage paths)" unfolding Add_def by simp
  show "follows step (git_Commit E msg) [CommitStep msg]"
    unfolding git_Commit_def Let_def by (intro follows_call emits_intro) simp
  show "follows step (Push E h b tok) [PushStep]"
    unfolding Push_def by (intro follows_call emits_intro) simp
qed

text \<open>No comment is ever recognised, so the flag of an existing pull request is always down.\<close>

lemma editPullRequest_flag: "editPullRequest E o' pr body add c w = (Ok (pr', b), w') \<Longrightarrow> b = False"
  by (cases "ghEditPullRequest E w o' (pr_Number pr) body")
    (auto simp: editPullRequest_def bind_Ok_iff api_call_def sameCommentBody_def list_ex_iff split: if_splits)

lemma follows_CreatePullRequest:
  "follows step (CreatePullRequest E title body owner base h b add c) ([ListPulls, WritePull] @ (if add then [CommentStep c] else []))"
proof -
  let ?q = "if add then [CommentStep c] else []"
  have edit: "follows step (editPullRequest E owner pr body add c) [WritePull]" for pr
    unfolding editPullRequest_def by (rule follows_call) (auto intro!: emits_intro)
  have create: "follows step (bind (api_call ''PullRequests.Create'' args f) (\<lambda>r. bind (wrapf s (lift_sum r)) (\<lambda>pr. ret (pr, False)))) [WritePull]" for args s
    and f :: "world \<Rightarrow> string + PullRequest"
    by (intro follows_call emits_intro) simp
  define wr where "wr prs = (case prs of
         pr # _ \<Rightarrow> editPullRequest E owner pr body add c
       | [] \<Rightarrow>
           bind (api_call ''PullRequests.Create'' [owner, title, h @ '':'' @ b, base, body]
             (\<lambda>w. ghCreatePullRequest E w owner [title, h @ '':'' @ b, base, body])) (\<lambda>r.
           bind (wrapf (''creating pull request with updated versions from '' @ b @ '' to '' @ base @ '': '') (lift_sum r)) (\<lambda>pr.
           ret (pr, False))))" for prs
  have w: "follows step (wr prs) [WritePull]" for prs by (cases prs) (simp_all add: wr_def edit create)
  have flag: "\<not> fl" if "wr prs v = (Ok (pr, fl), v')" for prs pr fl v v'
    using that by (cases prs) (auto simp: wr_def bind_Ok_iff dest: editPullRequest_flag)
  have comment: "follows step (do_if (add \<and> \<not> fl) (bind (api_call ''Issues.CreateComment'' [owner, n, c] f) (\<lambda>r. wrapf s (lift_sum r)))) ?q" if "\<not> fl" for fl n s
    and f :: "world \<Rightarrow> string + unit"
    using follows_call(2) [of step "\<lambda>r. wrapf s (lift_sum r)" "[CommentStep c]" "''Issues.CreateComment''" "[owner, n, c]" f] that
    by (auto simp: follows_ret intro: emits_intro)
  have gen: "follows step (bind (wr prs) k) ([WritePull] @ ?q)" if "\<And>pr fl. \<not> fl \<Longrightarrow> follows step (k (pr, fl)) ?q" for prs and k :: "_ \<Rightarrow> (world, unit) prog"
    by (rule follows_bind_val [OF w]) (metis flag that surj_pair)
  have list_pulls: "follows step (api_call ''PullRequests.List'' args f) [ListPulls]" for args f
    using follows_api_call [of step "''PullRequests.List''"] by simp
  have "follows step (CreatePullRequest E title body owner base h b add c) ([ListPulls] @ [] @ [WritePull] @ ?q)"
    unfolding CreatePullRequest_def Let_def wr_def [symmetric]
    by (rule follows_bind, rule list_pulls, rule follows_bind, rule follows_silent, intro emits_intro, rule gen, unfold prod.case, erule comment)
  then show ?thesis by simp
qed

lemma follows_publish: "follows step (publish E dryRun n b h tok plan) (publish_steps dryRun plan)"
proof (cases "updatedFiles plan = []")
  case False
  have up: "follows step (bind (wrapf s1 (Push E h br tok)) (\<lambda>_. wrapf s2 (CreatePullRequest E t body b base h br add c)))
      ([PushStep] @ [ListPulls, WritePull] @ (if add then [CommentStep c] else []))" for s1 s2 t body base br add c
    by (intro follows_bind follows_handlers follows_Git follows_CreatePullRequest)
  have "follows step (do_if (\<not> dryRun) (bind (wrapf s1 (Push E h (headBranchName plan) tok)) (\<lambda>_.
      wrapf s2 (CreatePullRequest E t body b base h (headBranchName plan) (patchWarning plan \<noteq> None) (case patchWarning plan of None \<Rightarrow> [] | Some c \<Rightarrow> c)))))
      (if dryRun then [] else [PushStep] @ [ListPulls, WritePull] @ (case patchWarning plan of None \<Rightarrow> [] | Some c \<Rightarrow> [CommentStep c]))" for s1 s2 t body base
    using up [of _ "headBranchName plan" _ _ _ _ False "[]"] up [of _ "headBranchName plan" _ _ _ _ True]
    by (cases dryRun; cases "patchWarning plan") (simp_all add: follows_ret)
  then have "follows step (publish E dryRun n b h tok plan) (map Stage (updatedFiles plan) @ [CommitStep (commitMessage plan)] @
      (if dryRun then [] else [PushStep] @ [ListPulls, WritePull] @ (case patchWarning plan of None \<Rightarrow> [] | Some c \<Rightarrow> [CommentStep c])))"
    unfolding publish_def using False by (simp only: do_if_simps simp_thms) (intro follows_bind follows_handlers follows_Git)
  then show ?thesis using False by (cases dryRun) (simp_all add: publish_steps_def)
qed (simp add: publish_def publish_steps_def follows_ret)

section \<open>A whole run\<close>

text \<open>\<open>publishes dryRun m\<close>: the steps of \<open>m\<close> are those of some plan, all of them on a normal return, the first ones otherwise.\<close>

definition publishes :: "bool \<Rightarrow> (world, 'a) prog \<Rightarrow> bool" where
  "publishes dryRun m \<longleftrightarrow> (\<forall>w. \<exists>plan t. trace (snd (m w)) = trace w @ t \<and> prefix (labels step t) (publish_steps dryRun plan) \<and>
     (is_ok (fst (m w)) \<longrightarrow> labels step t = publish_steps dryRun plan))"

lemma publishes_follows: "follows step m (publish_steps dryRun plan) \<Longrightarrow> publishes dryRun m"
  unfolding publishes_def follows_def by blast

lemma publishes_silent: "emits silent m \<Longrightarrow> publishes dryRun m"
  by (rule publishes_follows [of _ _ "\<lparr>updatedFiles = [], headBranchName = [], commitMessage = [], pullRequestBody = [], patchWarning = None\<rparr>"])
    (simp add: publish_steps_def follows_silent)

lemma publishes_bind:
  assumes "emits silent m" "\<And>a. publishes dryRun (k a)"
  shows "publishes dryRun (bind m k)"
  unfolding publishes_def
proof
  fix w
  obtain r w' where m: "m w = (r, w')" by fastforce
  obtain t where t: "trace w' = trace w @ t" "labels step t = []"
    using followsE [OF follows_silent [OF assms(1)] m] by auto
  show "\<exists>plan t. trace (snd (bind m k w)) = trace w @ t \<and> prefix (labels step t) (publish_steps dryRun plan) \<and>
      (is_ok (fst (bind m k w)) \<longrightarrow> labels step t = publish_steps dryRun plan)"
  proof (cases r)
    case (Ok a)
    obtain plan u where "trace (snd (k a w')) = trace w' @ u" "prefix (labels step u) (publish_steps dryRun plan)"
      "is_ok (fst (k a w')) \<longrightarrow> labels step u = publish_steps dryRun plan"
      using assms(2) [of a] unfolding publishes_def by blast
    then show ?thesis using t m Ok by (intro exI [of _ plan] exI [of _ "t @ u"]) (simp add: bind_def)
  qed (use t m in \<open>auto simp: bind_def\<close>)
qed

lemma publishes_upgrade_Run: "publishes (DryRun o') (upgrade_Run E o')"
  unfolding upgrade_Run_def Let_def
  by (auto intro!: publishes_bind emits_intro publishes_silent [OF emits_pure(1)] publishes_follows [OF follows_publish])

text \<open>
  C6.  A run of \<open>upgrade\<close> publishes in a fixed order, whatever the project and the answers of the services:
  it stages the changed files, commits them once, pushes, looks for an existing pull request, creates or
  edits one, and only then leaves the warning about patches that did not apply.  A run that fails has gone
  through the first of these steps only, so nothing reaches GitHub without a commit, and a run without
  changed files takes none of them.
\<close>

theorem upgrade_publishes_in_order:
  "\<exists>plan t. trace (snd (upgrade_Run E opts w)) = trace w @ t \<and>
     (if is_ok (fst (upgrade_Run E opts w)) then labels step t = publish_steps (DryRun opts) plan
      else prefix (labels step t) (publish_steps (DryRun opts) plan))"
  using publishes_upgrade_Run [of opts E] unfolding publishes_def by metis

text \<open>
  A dry run never changes anything on GitHub: whatever the project, the state of the clone and the
  answers of the services, and also when it fails halfway, it pushes nothing and neither creates, edits
  nor comments on a pull request.
\<close>

lemma dry_run_local:
  assumes "DryRun opts"
  shows "emits (\<lambda>e. \<not> remote_write e) (upgrade_Run E opts)"
proof (rule emitsI)
  fix w
  obtain plan t where t: "trace (snd (upgrade_Run E opts w)) = trace w @ t" and p: "prefix (labels step t) (publish_steps True plan)"
    using publishes_upgrade_Run [of opts E] assms unfolding publishes_def by simp blast
  have "set (labels step t) \<subseteq> range Stage \<union> range CommitStep"
    using set_mono_prefix [OF p] by (auto simp: publish_steps_def split: if_splits)
  then have "set (step e) \<subseteq> range Stage \<union> range CommitStep" if "e \<in> set t" for e
    using that by (auto simp: labels_def)
  moreover have "\<not> set (step e) \<subseteq> range Stage \<union> range CommitStep" if "remote_write e" for e
    using that by (cases e) (auto simp: remote_write_def)
  ultimately have "list_all (\<lambda>e. \<not> remote_write e) t" by (metis list_all_iff)
  then show "\<exists>t. trace (snd (upgrade_Run E opts w)) = trace w @ t \<and> list_all (\<lambda>e. \<not> remote_write e) t"
    using t by blast
qed

end
