(* ===== verification/VT_Logger.thy ===== *)
theory VT_Logger
  imports VT_Util "HOL-Library.Word"
begin

text \<open>
  \<open>pkg/util/logger/logger.go\<close>: the package logger.  A level of \<open>zap\<close> is an \<open>int8\<close>, and the verbosity of
  the command line is converted to one.  How \<open>zap\<close> compares levels and how \<open>logr\<close> maps its levels to
  those of \<open>zap\<close> is not part of the sources: both are parameters.
\<close>

type_synonym zap_level = "8 word"

datatype logger = Discard | Zap zap_level

record logger_state =
  pkgLogger :: logger
  Verbosity :: int

definition logger_start :: logger_state where
  "logger_start = \<lparr>pkgLogger = Discard, Verbosity = 0\<rparr>"

definition logrAtomicLevel :: "int \<Rightarrow> zap_level" where
  "logrAtomicLevel level = word_of_int (- level)"

definition logger_Init :: "int \<Rightarrow> logger_state \<Rightarrow> string option \<times> logger_state" where
  "logger_Init verbosityLevel st =
     (None, st\<lparr>Verbosity := verbosityLevel, pkgLogger := Zap (logrAtomicLevel verbosityLevel)\<rparr>)"

text \<open>With a verbosity of 6 or more a message starts with its level; otherwise it has none.\<close>

definition encodeLevel :: "int \<Rightarrow> zap_level \<Rightarrow> string" where
  "encodeLevel verbosityLevel l = (if verbosityLevel \<ge> 6 then ''V'' @ Itoa (- sint l) else [])"

text \<open>
  Whether \<open>logger.V(level).Info(...)\<close> writes its message; \<open>logger.Info\<close> is level 0.  \<open>enabled min l\<close> is
  the check of \<open>zap\<close>, \<open>zapLevel\<close> the mapping of \<open>logr\<close>.
\<close>

definition logs :: "(zap_level \<Rightarrow> zap_level \<Rightarrow> bool) \<Rightarrow> (int \<Rightarrow> zap_level) \<Rightarrow> logger_state \<Rightarrow> int \<Rightarrow> bool" where
  "logs enabled zapLevel st level = (case pkgLogger st of Discard \<Rightarrow> False | Zap m \<Rightarrow> enabled m (zapLevel level))"

lemma sint_int8: "- 128 \<le> k \<Longrightarrow> k < 128 \<Longrightarrow> sint (word_of_int k :: 8 word) = k"
  by (simp add: sint_sbintrunc' signed_take_bit_int_eq_self)

lemma sint_int8_wrap: "128 \<le> k \<Longrightarrow> k < 256 \<Longrightarrow> sint (word_of_int (- k) :: 8 word) = (if k = 128 then - 128 else 256 - k)"
proof -
  assume k: "128 \<le> k" "k < 256"
  have "(word_of_int (- k) :: 8 word) = word_of_int (256 - k)"
    by (simp add: word_of_int_eq_iff take_bit_eq_mod mod_eq_dvd_iff)
  moreover have "sint (word_of_int (256 - k) :: 8 word) = 256 - k" if "k \<noteq> 128" using k that by (intro sint_int8) auto
  moreover have "sint (word_of_int (- 128) :: 8 word) = - 128" by (rule sint_int8) simp_all
  ultimately show ?thesis by metis
qed

text \<open>
  C29.  With a verbosity of up to 128 exactly the messages up to that level are written.  From 129 to
  255 the conversion to \<open>int8\<close> wraps around to a positive level, and nothing is written at all, not
  even the messages of level 0.
\<close>

theorem logger_threshold:
  assumes "\<forall>m l. enabled m l \<longleftrightarrow> sint m \<le> sint l" and "\<forall>n. 0 \<le> n \<and> n \<le> 128 \<longrightarrow> sint (zapLevel n) = - n"
    and "0 \<le> level" "level \<le> 128" "0 \<le> verbosity" "verbosity \<le> 255"
  shows "logs enabled zapLevel (snd (logger_Init verbosity st)) level \<longleftrightarrow> level \<le> verbosity \<and> verbosity \<le> 128"
proof -
  have "sint (logrAtomicLevel verbosity) = (if verbosity \<le> 128 then - verbosity else 256 - verbosity)"
    using assms(5,6) sint_int8 [of "- verbosity"] sint_int8_wrap [of verbosity] by (cases "verbosity < 128") (auto simp: logrAtomicLevel_def)
  then show ?thesis using assms by (auto simp: logs_def logger_Init_def)
qed

theorem logger_threshold_witness:
  "logs (\<lambda>m l. sint m \<le> sint l) (\<lambda>n. word_of_int (- n)) (snd (logger_Init 6 logger_start)) 6 \<and>
   \<not> logs (\<lambda>m l. sint m \<le> sint l) (\<lambda>n. word_of_int (- n)) (snd (logger_Init 5 logger_start)) 6 \<and>
   \<not> logs (\<lambda>m l. sint m \<le> sint l) (\<lambda>n. word_of_int (- n)) (snd (logger_Init 200 logger_start)) 0"
proof -
  have z: "\<forall>n. 0 \<le> n \<and> n \<le> 128 \<longrightarrow> sint (word_of_int (- n) :: 8 word) = - n"
    by (intro allI impI sint_int8) auto
  show ?thesis
    using logger_threshold [where enabled = "\<lambda>m l. sint m \<le> sint l", OF _ z, of 6 6 logger_start]
      logger_threshold [where enabled = "\<lambda>m l. sint m \<le> sint l", OF _ z, of 6 5 logger_start]
      logger_threshold [where enabled = "\<lambda>m l. sint m \<le> sint l", OF _ z, of 0 200 logger_start]
    by simp
qed

end
