(* ===== verification/VT_Main.thy ===== *)
theory VT_Main
  imports VT_Publish VT_Logger Go_Cobra
begin

text \<open>
  The command line of the version tracker: the \<open>init\<close> functions of \<open>cmd\<close>, the pre-run hook that sets up the
  logger, \<open>Execute\<close> and \<open>main\<close>.  The lemmas say which command lines can change something on GitHub.
\<close>

section \<open>Commands and flags\<close>

record vt_vars =
  upgradeOptions :: UpgradeOptions
  displayOptions :: DisplayOptions
  verbosity :: int

definition vt_zero :: vt_vars where
  "vt_zero = \<lparr>upgradeOptions = \<lparr>uo_ProjectName = [], DryRun = False\<rparr>,
     displayOptions = \<lparr>do_ProjectName = [], PrintLatestVersion = False\<rparr>, verbosity = 0\<rparr>"

text \<open>The flag of the root command is inherited by all others.\<close>

definition root_flags :: "vt_vars flag list" where
  "root_flags = [IntVar ''verbosity'' 0 (\<lambda>v. verbosity_update (\<lambda>_. v))]"

definition upgrade_command :: "vt_vars command" where
  "upgrade_command = \<lparr>cmd_path = [''upgrade''],
     cmd_flags =
       [StringVar ''project'' [] (\<lambda>v. upgradeOptions_update (uo_ProjectName_update (\<lambda>_. v))),
        BoolVar ''dry-run'' False (\<lambda>v. upgradeOptions_update (DryRun_update (\<lambda>_. v)))] @ root_flags,
     cmd_required = [''project'']\<rparr>"

definition display_command :: "vt_vars command" where
  "display_command = \<lparr>cmd_path = [''display''],
     cmd_flags =
       [StringVar ''project'' [] (\<lambda>v. displayOptions_update (do_ProjectName_update (\<lambda>_. v))),
        BoolVar ''print-latest-version'' False (\<lambda>v. displayOptions_update (PrintLatestVersion_update (\<lambda>_. v)))] @ root_flags,
     cmd_required = []\<rparr>"

definition list_projects_command :: "vt_vars command" where
  "list_projects_command = \<lparr>cmd_path = [''list-projects''], cmd_flags = root_flags, cmd_required = []\<rparr>"

definition vt_commands :: "vt_vars command list" where
  "vt_commands = [display_command, list_projects_command, upgrade_command]"

definition vt_defaults :: vt_vars where
  "vt_defaults = foldl (\<lambda>vars c. register (cmd_flags c) vars) vt_zero vt_commands"

section \<open>main\<close>

definition initLogger :: "int \<Rightarrow> (world, logger_state) prog" where
  "initLogger v = (case logger_Init v logger_start of
       (None, st) \<Rightarrow> ret st
     | (Some e, _) \<Rightarrow> fail (''failed to init Zap logger in root command: '' @ e))"

definition rootPersistentPreRun :: "vt_vars \<Rightarrow> (world, logger_state) prog" where
  "rootPersistentPreRun vars = or_fatal (initLogger (verbosity vars))"

definition vt_run :: "'z vt_env_scheme \<Rightarrow> string list \<Rightarrow> vt_vars \<Rightarrow> (world, unit) prog" where
  "vt_run E path vars =
     bind (rootPersistentPreRun vars) (\<lambda>_.
     if path = [''upgrade''] then upgradeCmd E (upgradeOptions vars)
     else if path = [''display''] then displayCmd E (displayOptions vars)
     else if path = [''list-projects''] then listProjectsCmd E
     else ret ())"

definition vt_Execute :: "'z vt_env_scheme \<Rightarrow> vt_vars cobra \<Rightarrow> string list \<Rightarrow> (world, unit) prog" where
  "vt_Execute E cobra args = cobra_Execute cobra vt_commands (vt_run E) vt_defaults args"

definition vt_main :: "'z vt_env_scheme \<Rightarrow> vt_vars cobra \<Rightarrow> string list \<Rightarrow> (world, unit) prog" where
  "vt_main E cobra args = bind (mark_required vt_commands) (\<lambda>_. exit_main (vt_Execute E cobra args))"

section \<open>Which command lines change something on GitHub\<close>

lemma vt_required: "mark_required vt_commands = ret ()"
  by (simp add: mark_required_def vt_commands_def upgrade_command_def display_command_def list_projects_command_def root_flags_def
      MarkFlagRequired_def or_fatal_lift(1) [where a = "()", simplified] fun_eq_iff)

text \<open>The options an \<open>upgrade\<close> command line stands for.\<close>

definition upgrade_options :: "(string \<times> flag_value) list \<Rightarrow> UpgradeOptions" where
  "upgrade_options given = upgradeOptions (set_flags (cmd_flags upgrade_command) given vt_defaults)"

text \<open>A command line that publishes: \<open>upgrade\<close>, not as a dry run.\<close>

definition publishing :: "vt_vars cobra \<Rightarrow> string list \<Rightarrow> bool" where
  "publishing cobra args = (case cobra vt_commands args of
     Invoke p given \<Rightarrow> p = [''upgrade''] \<and> \<not> DryRun (upgrade_options given) | _ \<Rightarrow> False)"

lemma silent_remote: "emits silent m \<Longrightarrow> emits (\<lambda>e. \<not> remote_write e) m"
proof (erule emits_weaken)
  show "silent e \<Longrightarrow> \<not> remote_write e" for e by (cases e) (auto simp: remote_write_def step_def split: if_splits)
qed

lemma silent_displayRepos [emits_intro]: "emits silent (displayRepos E opts acc rs)"
  by (induction E opts acc rs rule: displayRepos.induct) (auto simp: Let_def intro!: emits_intro)

lemma silent_commands: "emits silent (display_Run E opts)" "emits silent (listprojects_Run E)"
  unfolding display_Run_def listprojects_Run_def loadTracker_def Let_def by (auto intro!: emits_intro)

lemma emits_pre_run [emits_intro]: "emits A (rootPersistentPreRun vars)"
  by (auto simp: rootPersistentPreRun_def initLogger_def logger_Init_def intro!: emits_intro)

lemma vt_run_local:
  assumes "p = [''upgrade''] \<Longrightarrow> DryRun (upgradeOptions vars)"
  shows "emits (\<lambda>e. \<not> remote_write e) (vt_run E p vars)"
proof -
  have "emits (\<lambda>e. \<not> remote_write e) (upgradeCmd E (upgradeOptions vars))" if "p = [''upgrade'']"
    unfolding upgradeCmd_def by (intro emits_intro dry_run_local assms that)
  then show ?thesis
    unfolding vt_run_def displayCmd_def listProjectsCmd_def
    by (auto intro!: emits_intro silent_remote [OF silent_commands(1)] silent_remote [OF silent_commands(2)])
qed

lemma vt_main_local:
  assumes "\<not> publishing cobra args"
  shows "emits (\<lambda>e. \<not> remote_write e) (vt_main E cobra args)"
proof -
  have "flags_of vt_commands [''upgrade''] = cmd_flags upgrade_command"
    by (simp add: flags_of_def vt_commands_def upgrade_command_def display_command_def list_projects_command_def)
  then show ?thesis
    using assms unfolding vt_main_def vt_required bind_ret vt_Execute_def
    by (auto intro!: emits_intro emits_cobra_Execute vt_run_local simp: publishing_def upgrade_options_def)
qed

end
