(* ===== verification/Spec2Isabelle.thy ===== *)
theory Spec2Isabelle
  imports BB_Bootstrap BB_Snow IB_Main VT_Main
begin

text \<open>
  Verification of the Go programs of the EKS Anywhere build tooling repository.

  \<^bold>\<open>The programs.\<close>  Three programs share no code but the standard library.

  \<^item> \<open>bottlerocket-bootstrap\<close> (\<open>src/projects/aws/bottlerocket-bootstrap\<close>) runs in a host container of a
    Bottlerocket machine.  It reads the user data, writes the files in it, runs the phases of \<open>etcdadm\<close>
    or \<open>kubeadm\<close> one by one, hands the results to the host through \<open>apiclient\<close>, and disables its own
    container.  A second entry point prepares AWS Snow machines: network, volumes, one reboot.
  \<^item> \<open>image-builder\<close> (\<open>src/projects/aws/image-builder\<close>) builds node images.  It validates the command line
    and the configuration files, clones the build tooling repository, writes the Packer configuration
    and runs one \<open>make\<close> target.  Two more commands collect manifests and artifacts for air-gapped builds.
  \<^item> \<open>version-tracker\<close> (\<open>src/tools/version-tracker\<close>) compares the projects of the build tooling
    repository with their upstream repositories, and upgrades one of them: it changes files in a clone,
    commits, pushes and opens or edits a pull request.

  \<^bold>\<open>How a program is modelled.\<close>  A Go function with effects is a \<open>prog\<close> (\<open>Prelude\<close>): a function from a
  world to an outcome and the next world.  Outcomes are a value, an error, an exit of the process
  with its code, and a panic, so every early return of the sources is a value.  A world (\<open>Go_World\<close>)
  has the files, the clock and the trace of all operations asked for.  What is not in the
  repository is a field of an environment record and an argument of every definition that uses it:
  \<open>env\<close> for the operating system, executables and HTTP, \<open>bb_env\<close> and \<open>snow_env\<close> for what the bootstrap
  gets from third-party packages (YAML, gzip, Secrets Manager, instance metadata, systemd), \<open>ib_env\<close> for
  the image builder (YAML, archives, values set at link time) and \<open>vt_env\<close> for the version tracker
  (GitHub, \<open>go-git\<close>, \<open>semver\<close>, YAML, TOML, archives).  An answer may depend on the whole world, so a statement
  for all environments covers failing, slow and changing surroundings.  The order in which Go
  ranges over a map is a field too.  How cobra reads a command line is a parameter of the two programs
  that use it; the commands and flags they register are data (\<open>Go_Cobra\<close>).  The definitions of the
  programs can be evaluated, and the witnesses evaluate them.

  \<^bold>\<open>The standard library.\<close>  \<open>Go_Strings\<close>, \<open>Go_Path\<close>, \<open>Go_Encoding\<close>, \<open>Go_Url\<close>, \<open>Go_Json\<close>, \<open>Go_Unmarshal\<close>,
  \<open>Go_Any\<close>, \<open>Go_Regexp\<close>, \<open>Go_Template\<close> and \<open>Go_Os\<close> define what the sources call of \<open>strings\<close>, \<open>path/filepath\<close>, \<open>strconv\<close>,
  \<open>encoding/base64\<close>, \<open>net/url\<close>, \<open>encoding/json\<close>, \<open>regexp\<close>, \<open>text/template\<close> and \<open>os\<close>, with the round trips of decimal numbers,
  base64 and JSON.  Numbers decoded into an \<open>interface{}\<close> are rounded to 64-bit floats as Go does.

  \<^bold>\<open>bottlerocket-bootstrap.\<close>
  \<^item> \<open>BB_Files\<close>: \<open>pkg/files\<close>, with its templates, and \<open>pkg/executables\<close>.
  \<^item> \<open>BB_Userdata\<close>: \<open>pkg/utils/userdata.go\<close>, \<open>utils.go\<close> and \<open>pkg/service\<close>.  User data stored in chunks is put
    together exactly, and after the files it lists are written all regular files are known.  A chunk is
    deleted once it is fetched, so a failure in between loses the data.
  \<^item> \<open>BB_Waiters\<close>: \<open>parsers.go\<close>, \<open>pods.go\<close>, \<open>waiters.go\<close>.  The wait for an HTTP answer ends in bounded time and
    succeeds when the answer comes; the wait for a systemd unit has no bound.  The two goroutines of
    \<open>KillCmdAfterFilesGeneration\<close> are a step relation with an invariant over all interleavings.
  \<^item> \<open>BB_Etcdadm\<close>, \<open>BB_Kubeadm\<close>: the bootstrappers.  A successful etcdadm run asks for exactly the stated phases
    and probes; each of the three kubeadm commands goes through its steps in one order, or, when it fails,
    through the first of them.
  \<^item> \<open>BB_Bootstrap\<close>: \<open>pkg/bootstrap.go\<close>.  The Go interface of a bootstrapper is the locale
    \<open>host_bootstrapper\<close>, interpreted for both.  The container is disabled last and only after success.
  \<^item> \<open>BB_Snow\<close>: \<open>pkg/providers/snow\<close>.  The clients are the locale \<open>snow_clients\<close>.  Over any sequence of boots
    there is one reboot, and a volume that was recorded as partitioned is not formatted again.  The
    network configuration is the embedded template, parsed and executed on the mapping of the DNIs;
    its result is given line by line.

  \<^bold>\<open>image-builder.\<close>
  \<^item> \<open>IB_Types\<close>: \<open>builder/types.go\<close> and \<open>constants.go\<close>.  Every configuration struct interprets \<open>struct_table\<close>
    (\<open>Go_Unmarshal\<close>), which gives its round trip through JSON.
  \<^item> \<open>IB_Files\<close>: \<open>builder/files.go\<close>, with the array that the package variable and the options share.
  \<^item> \<open>IB_Validate\<close>: the validation in \<open>cmd/build.go\<close>.  It accepts exactly the table of supported platforms,
    and what it hands on has a complete configuration.
  \<^item> \<open>IB_Utils\<close>, \<open>IB_Manifests\<close>: \<open>builder/utils.go\<close>, \<open>manifests.go\<close> and \<open>artifacts.go\<close>: releases, proxies, downloads,
    and archives.
  \<^item> \<open>IB_Build\<close>: \<open>builder/builder.go\<close> and the commands.  Validation and build together start supported
    targets only, and a finished build leaves nothing of the checkout (outside of CodeBuild).
  \<^item> \<open>IB_Main\<close>: the flags in \<open>cmd\<close>, \<open>Execute\<close> and \<open>main\<close>.  It carries the statements below from the
    command line to the exit code.

  \<^bold>\<open>version-tracker.\<close>
  \<^item> \<open>VT_Types\<close>: \<open>pkg/types\<close> and \<open>pkg/constants\<close>.
  \<^item> \<open>VT_Util\<close>: \<open>pkg/util\<close>, with the Go version read from the output of \<open>go version\<close>.
  \<^item> \<open>VT_GitHub\<close>: \<open>pkg/github\<close>.  The three paged listings interpret \<open>paged_listing\<close> and are complete; the
    latest revision equals a reference definition over them.
  \<^item> \<open>VT_Git\<close>: \<open>pkg/git\<close> and \<open>pkg/ecrpublic\<close>; the tag chosen from the registry is the newest.
  \<^item> \<open>VT_Upgrade\<close>, \<open>VT_Bottlerocket\<close>, \<open>VT_Run\<close>: \<open>pkg/commands\<close> and \<open>cmd\<close>.  The releases files of EKS Distro and of
    Bottlerocket are rewritten to a reference map (for Bottlerocket whatever order Go ranges in),
    the update keeps the type of the releases, and the tracker file survives a round trip.
  \<^item> \<open>VT_Publish\<close>: the calls of a whole run of \<open>upgrade\<close> that leave the machine are labelled steps.  A run
    stages, commits, pushes, looks for the pull request, writes it and comments, in this order; a
    dry run writes nothing outside the machine, also when it fails.
  \<^item> \<open>VT_Logger\<close>: \<open>pkg/util/logger\<close>.  A level is an 8-bit word; which messages a verbosity lets through,
    and where the conversion wraps around.
  \<^item> \<open>VT_Main\<close>: the flags in \<open>cmd\<close>, the pre-run hook, \<open>Execute\<close> and \<open>main\<close>.

  \<^bold>\<open>Whole programs.\<close>  This theory holds what spans the components: a run of the image builder starts
  supported targets only, and exit code 0 of a build means that \<open>make\<close> ran once for the target of the
  options given and that the image is in its place; of all command lines of the version tracker only
  an \<open>upgrade\<close> that is not a dry run can change something on GitHub.

  \<^bold>\<open>Bounds.\<close>  Loops are recursive functions with a termination proof or recursion on their data.  The
  wait for an HTTP answer ends because the clock moves on in every round.  Readers that recurse on a
  text take a counter: \<open>parse_json\<close> starts with twice the length of the text and two more, and what the
  writer printed is read back with it.  The pattern reader starts with three times the length of the
  pattern and three more; more fuel would not change what was read.  The number of pages of a listing has no bound in
  the sources; the model follows \<open>pageFuel\<close> of them, a parameter, and the statements about listings hold
  for every value of it that is at least the number of pages there are.

  \<^bold>\<open>Not modelled.\<close>
  \<^item> The generated mocks, which only tests use.
  \<^item> The help texts of commands and flags, and the texts of log messages, which no code reads.
  \<^item> Third-party packages and services, which are the parameters above.
  \<^item> Text outside of ASCII in the character classes of \<open>strings\<close>, and regular expressions beyond the
    syntax that \<open>Go_Regexp\<close> lists and templates beyond that of \<open>Go_Template\<close>.
\<close>

section \<open>The image builder as a whole\<close>


text \<open>
  C2.  When the process of a \<open>build\<close> exits with code 0, the options on the command line passed the validation,
  \<open>make\<close> was run exactly once, for the target of these options, and the image is where it belongs
  (for vSphere, bare metal and CloudStack, whose images are always left as a file, unless that place is
  inside the checkout, which is removed).
\<close>

theorem image_builder_builds:
  assumes "cobra ib_commands args = Invoke [''build''] given" and "ib_main E ver cobra args w = (Exit 0, w')"
  shows "\<exists>b pkg cwd t. ValidateInputs E (snd (build_options given)) (fst (build_options given)) DefaultAMIAdditionalFiles w = (Ok (b, pkg), w)
    \<and> valid_options b \<and> getwd E = Inr cwd \<and> trace w' = trace w @ t \<and> labels make_step t = [make_argv (project_dir E cwd) b]
    \<and> (Hypervisor b \<in> {VSphere, Baremetal, CloudStack} \<and> \<not> below (getBuildToolingPath E cwd) (image_path cwd b)
        \<longrightarrow> fs_get (fs w') (image_path cwd b) \<noteq> None)"
proof -
  note run = ib_main_build [OF assms]
  obtain b pkg cwd t where
      v: "ValidateInputs E (snd (build_options given)) (fst (build_options given)) DefaultAMIAdditionalFiles w = (Ok (b, pkg), w)"
    and f: "valid_options b" "getwd E = Inr cwd" "trace w' = trace w @ t" "labels make_step t = [make_argv (project_dir E cwd) b]"
    using run by (rule buildCmd_make)
  have "BuildImage E b pkg w = (Ok (), w')"
    using run(1) v by (simp add: buildCmd_def bind_Ok_iff or_fatal_lift)
  then show ?thesis using v f BuildImage_image by blast
qed

definition raw_line :: "(string \<times> flag_value) list" where
  "raw_line = [(''os'', StrValue ''ubuntu''), (''hypervisor'', StrValue ''baremetal''), (''release-channel'', StrValue ''1-27'')]"

lemma raw_line_run: "fst (ib_main builder_machine ''v'' (\<lambda>_ _. Invoke [''build''] raw_line) [] builder_world) = Exit 0"
  by code_simp

theorem image_builder_builds_witness:
  "\<exists>b pkg t. ValidateInputs builder_machine (snd (build_options raw_line)) (fst (build_options raw_line)) DefaultAMIAdditionalFiles builder_world =
       (Ok (b, pkg), builder_world) \<and>
     trace (snd (ib_main builder_machine ''v'' (\<lambda>_ _. Invoke [''build''] raw_line) [] builder_world)) = trace builder_world @ t \<and>
     labels make_step t = [make_argv ''/work/eks-anywhere-build-tooling/projects/kubernetes-sigs/image-builder'' b]"
proof -
  let ?cobra = "\<lambda>_ _. Invoke [''build''] raw_line"
  let ?w' = "snd (ib_main builder_machine ''v'' ?cobra [] builder_world)"
  have run: "ib_main builder_machine ''v'' ?cobra [] builder_world = (Exit 0, ?w')"
    using raw_line_run by (simp add: prod_eq_iff)
  have "getwd builder_machine = Inr ''/work''" "project_dir builder_machine ''/work'' = ''/work/eks-anywhere-build-tooling/projects/kubernetes-sigs/image-builder''"
    by code_simp+
  then show ?thesis using image_builder_builds [OF refl run] by auto
qed

section \<open>The version tracker as a whole\<close>

text \<open>
  C3.  Only an \<open>upgrade\<close> that is not a dry run can change something on GitHub.  For every other command line,
  whatever the project, the state of the clone and the answers of the services, and also when the run
  fails halfway, nothing is pushed and no pull request is created, edited or commented on.
\<close>

theorem version_tracker_stays_local:
  assumes "\<not> publishing cobra args"
  shows "emits (\<lambda>e. \<not> remote_write e) (vt_main E cobra args)"
  using assms by (rule vt_main_local)

theorem version_tracker_stays_local_witness:
  "DryRun (upgrade_options [(''project'', StrValue ''a/b''), (''dry-run'', BoolValue True)]) \<and>
   emits (\<lambda>e. \<not> remote_write e)
     (vt_main vt_quiet (\<lambda>_ _. Invoke [''upgrade''] [(''project'', StrValue ''a/b''), (''dry-run'', BoolValue True)]) [''upgrade''])"
proof -
  have d: "DryRun (upgrade_options [(''project'', StrValue ''a/b''), (''dry-run'', BoolValue True)])" by code_simp
  then have "\<not> publishing (\<lambda>_ _. Invoke [''upgrade''] [(''project'', StrValue ''a/b''), (''dry-run'', BoolValue True)]) [''upgrade'']"
    by (simp add: publishing_def)
  from d version_tracker_stays_local [OF this] show ?thesis by blast
qed

end
